(* ===== verification/Prelude.thy ===== *)
theory Prelude
  imports Main "HOL-Library.Char_ord" "HOL-Library.List_Lexorder"
begin

text \<open>
  Shared vocabulary of the development: the collections of rewrite rules the component
  theories fill, Go strings (byte sequences, modelled as HOL strings) with the operations of
  the \<^verbatim>\<open>strings\<close> and \<^verbatim>\<open>fmt\<close> packages that the operator calls, Go error values and the way
  \<^verbatim>\<open>fmt.Errorf\<close> and \<^verbatim>\<open>errors.Join\<close> build them, and missing-key lookups in Go maps.
\<close>

named_theorems cond_neq \<open>distinctness of condition types\<close>
named_theorems api_simps \<open>laws of the interfaces the operator is a client of\<close>
named_theorems field_simps' \<open>what an operation leaves unchanged in a record\<close>

section \<open>Go strings\<close>

type_synonym labels = "string \<rightharpoonup> string"

text \<open>Reading a Go map: a missing key yields the zero value.\<close>

definition mapget :: "labels \<Rightarrow> string \<Rightarrow> string" where
  "mapget m k = (case m k of None \<Rightarrow> [] | Some v \<Rightarrow> v)"

text \<open>A nil or dereferenced Go string pointer, with nil read as the empty string.\<close>

definition strval :: "string option \<Rightarrow> string" where
  "strval p = (case p of None \<Rightarrow> [] | Some s \<Rightarrow> s)"

text \<open>\<^verbatim>\<open>strings.Cut(s, sep)\<close> for a one-byte separator: before, after, found.\<close>

definition cut :: "char \<Rightarrow> string \<Rightarrow> string \<times> string \<times> bool" where
  "cut c s = (let b = takeWhile (\<lambda>x. x \<noteq> c) s in
     if c \<in> set s then (b, drop (Suc (length b)) s, True) else (s, [], False))"

text \<open>\<^verbatim>\<open>strings.IndexByte\<close> and \<^verbatim>\<open>strings.LastIndexByte\<close>: -1 when the byte is absent.\<close>

definition indexByte :: "string \<Rightarrow> char \<Rightarrow> int" where
  "indexByte s c = (if c \<in> set s then int (length (takeWhile (\<lambda>x. x \<noteq> c) s)) else -1)"

definition lastIndexByte :: "string \<Rightarrow> char \<Rightarrow> int" where
  "lastIndexByte s c = (if c \<in> set s
     then int (length s) - 1 - int (length (takeWhile (\<lambda>x. x \<noteq> c) (rev s))) else -1)"

text \<open>\<^verbatim>\<open>strings.Contains\<close>.\<close>

fun contains :: "string \<Rightarrow> string \<Rightarrow> bool" where
  "contains [] p = (p = [])"
| "contains (c # s) p = (take (length p) (c # s) = p \<or> contains s p)"

text \<open>\<^verbatim>\<open>strings.Split\<close> and \<^verbatim>\<open>strings.SplitSeq\<close> on a one-byte separator (never empty), \<^verbatim>\<open>strings.Join\<close>.\<close>

fun splitOn :: "char \<Rightarrow> string \<Rightarrow> string list" where
  "splitOn c [] = [[]]"
| "splitOn c (x # xs) = (if x = c then [] # splitOn c xs
     else (case splitOn c xs of [] \<Rightarrow> [[x]] | y # ys \<Rightarrow> (x # y) # ys))"

fun joinWith :: "string \<Rightarrow> string list \<Rightarrow> string" where
  "joinWith sep [] = []"
| "joinWith sep [x] = x"
| "joinWith sep (x # y # zs) = x @ sep @ joinWith sep (y # zs)"

text \<open>
  \<^verbatim>\<open>strings.TrimSpace\<close>: the UTF-8 encodings of the runes for which \<^verbatim>\<open>unicode.IsSpace\<close> holds
  are removed from both ends. The encodings are self-synchronising, so the trailing trim is
  the leading one on the reversed bytes.
\<close>

definition space_runes :: "string list" where
  "space_runes = [[CHR 0x09], [CHR 0x0A], [CHR 0x0B], [CHR 0x0C], [CHR 0x0D], [CHR 0x20],
     [CHR 0xC2, CHR 0x85], [CHR 0xC2, CHR 0xA0], [CHR 0xE1, CHR 0x9A, CHR 0x80],
     [CHR 0xE2, CHR 0x80, CHR 0x80], [CHR 0xE2, CHR 0x80, CHR 0x81], [CHR 0xE2, CHR 0x80, CHR 0x82],
     [CHR 0xE2, CHR 0x80, CHR 0x83], [CHR 0xE2, CHR 0x80, CHR 0x84], [CHR 0xE2, CHR 0x80, CHR 0x85],
     [CHR 0xE2, CHR 0x80, CHR 0x86], [CHR 0xE2, CHR 0x80, CHR 0x87], [CHR 0xE2, CHR 0x80, CHR 0x88],
     [CHR 0xE2, CHR 0x80, CHR 0x89], [CHR 0xE2, CHR 0x80, CHR 0x8A], [CHR 0xE2, CHR 0x80, CHR 0xA8],
     [CHR 0xE2, CHR 0x80, CHR 0xA9], [CHR 0xE2, CHR 0x80, CHR 0xAF], [CHR 0xE2, CHR 0x81, CHR 0x9F],
     [CHR 0xE3, CHR 0x80, CHR 0x80]]"

function strip_any :: "string list \<Rightarrow> string \<Rightarrow> string" where
  "strip_any ps s = (case find (\<lambda>p. p \<noteq> [] \<and> take (length p) s = p) ps of
     None \<Rightarrow> s | Some p \<Rightarrow> strip_any ps (drop (length p) s))"
  by pat_completeness auto
termination
proof (relation "measure (\<lambda>(ps, s). length s)", simp)
  fix ps s p
  assume "find (\<lambda>p. p \<noteq> [] \<and> take (length p) s = p) ps = Some p"
  then have p: "p \<noteq> []" "take (length p) s = p" by (auto simp: find_Some_iff)
  then have "s \<noteq> []" by auto
  with p(1) show "((ps, drop (length p) s), ps, s) \<in> measure (\<lambda>(ps, s). length s)"
    by (simp add: diff_less)
qed

declare strip_any.simps [simp del]

definition trimSpace :: "string \<Rightarrow> string" where
  "trimSpace s = rev (strip_any (map rev space_runes) (rev (strip_any space_runes s)))"

text \<open>\<^verbatim>\<open>strings.ToUpper\<close> on ASCII text, the only text the operator applies it to.\<close>

definition to_upper_char :: "char \<Rightarrow> char" where
  "to_upper_char c = (let n = (of_char c :: nat) in
     if 97 \<le> n \<and> n \<le> 122 then char_of (n - 32) else c)"

definition asciiUpper :: "string \<Rightarrow> string" where
  "asciiUpper s = map to_upper_char s"

text \<open>Decimal printing (\<^verbatim>\<open>fmt.Sprint\<close>, \<^verbatim>\<open>%d\<close>) and \<^verbatim>\<open>fmt.Sprint\<close> of a boolean.\<close>

fun show_nat :: "nat \<Rightarrow> string" where
  "show_nat n = (if n < 10 then [char_of (48 + n)] else show_nat (n div 10) @ [char_of (48 + n mod 10)])"

declare show_nat.simps [simp del]

definition show_int :: "int \<Rightarrow> string" where
  "show_int i = (if i < 0 then CHR ''-'' # show_nat (nat (- i)) else show_nat (nat i))"

definition show_bool :: "bool \<Rightarrow> string" where
  "show_bool b = (if b then ''true'' else ''false'')"

section \<open>Go errors\<close>

text \<open>
  The reasons of Kubernetes API errors that the operator distinguishes. \<open>NoMatch\<close> is the
  REST mapper's "no such kind", \<open>DeadlineExceeded\<close> the context error.
\<close>

datatype api_kind = NotFound | Conflict | Forbidden | Invalid | Unauthorized
  | ServiceUnavailable | Timeout | ServerTimeout | TooManyRequests | MethodNotSupported
  | NoMatch | DeadlineExceeded | OtherError

text \<open>
  Error values: one returned by the API client, \<^verbatim>\<open>fmt.Errorf("text")\<close>,
  \<^verbatim>\<open>fmt.Errorf("text: %w", err)\<close>, \<^verbatim>\<open>errors.Join\<close>, and the catalog's containment request
  \<^verbatim>\<open>*catalogDataImagesUnavailable\<close> with its cause.
\<close>

datatype go_error = ApiError api_kind string
  | ErrorText string
  | Wrapped string go_error
  | Joined "go_error list"
  | ImagesUnavailable "go_error option"

fun error_string :: "go_error \<Rightarrow> string" where
  "error_string (ApiError k s) = s"
| "error_string (ErrorText s) = s"
| "error_string (Wrapped p e) = p @ '': '' @ error_string e"
| "error_string (Joined es) = joinWith [CHR 0x0A] (map error_string es)"
| "error_string (ImagesUnavailable c) =
     ''Catalog data images are unavailable; deployment containment is requested''"

text \<open>\<^verbatim>\<open>errors.Join\<close> drops nil errors and is nil when none is left.\<close>

definition errors_join :: "go_error option list \<Rightarrow> go_error option" where
  "errors_join es = (case List.map_filter (\<lambda>e. e) es of [] \<Rightarrow> None | xs \<Rightarrow> Some (Joined xs))"

text \<open>
  The API errors found in an error's tree, in the depth-first order of \<^verbatim>\<open>errors.As\<close>. The
  \<^verbatim>\<open>apierrors.IsX\<close> predicates look at the first API status error of the tree; \<^verbatim>\<open>NoMatch\<close> and
  \<^verbatim>\<open>DeadlineExceeded\<close> are error types of their own, found anywhere in it.
\<close>

fun api_kinds :: "go_error \<Rightarrow> api_kind list" where
  "api_kinds (ApiError k s) = [k]"
| "api_kinds (ErrorText s) = []"
| "api_kinds (Wrapped p e) = api_kinds e"
| "api_kinds (Joined es) = concat (map api_kinds es)"
| "api_kinds (ImagesUnavailable c) = (case c of None \<Rightarrow> [] | Some e \<Rightarrow> api_kinds e)"

definition is_kind :: "api_kind \<Rightarrow> go_error \<Rightarrow> bool" where
  "is_kind k e = (if k \<in> {NoMatch, DeadlineExceeded} then k \<in> set (api_kinds e)
     else (case filter (\<lambda>x. x \<notin> {NoMatch, DeadlineExceeded}) (api_kinds e) of
       [] \<Rightarrow> False | x # _ \<Rightarrow> x = k))"

abbreviation isNotFound :: "go_error \<Rightarrow> bool" where "isNotFound \<equiv> is_kind NotFound"
abbreviation isNoMatch :: "go_error \<Rightarrow> bool" where "isNoMatch \<equiv> is_kind NoMatch"

text \<open>\<^verbatim>\<open>client.IgnoreNotFound\<close>.\<close>

definition ignoreNotFound :: "go_error \<Rightarrow> go_error option" where
  "ignoreNotFound e = (if isNotFound e then None else Some e)"

section \<open>Shared lemmas\<close>

lemma mapget_update [simp]: "mapget (m(k \<mapsto> v)) k' = (if k' = k then v else mapget m k')"
  by (simp add: mapget_def)

lemma strval_simps [simp]: "strval None = []" "strval (Some s) = s"
  by (simp_all add: strval_def)

lemma takeWhile_ne_append: "c \<notin> set a \<Longrightarrow> takeWhile (\<lambda>x. x \<noteq> c) (a @ c # b) = a"
  by (induction a) auto

lemma takeWhile_absent [simp]: "c \<notin> set s \<Longrightarrow> takeWhile (\<lambda>x. x \<noteq> c) s = s"
  by (induction s) auto

lemma cut_append: "c \<notin> set a \<Longrightarrow> cut c (a @ c # b) = (a, b, True)"
  by (simp add: cut_def takeWhile_ne_append)

lemma cut_absent: "c \<notin> set s \<Longrightarrow> cut c s = (s, [], False)"
  by (simp add: cut_def)

lemma cut_before_free: "cut c s = (b, a, f) \<Longrightarrow> c \<notin> set b"
  by (auto simp: cut_def Let_def split: if_splits dest: set_takeWhileD)

lemma cut_found: "cut c s = (b, a, True) \<Longrightarrow> s = b @ c # a"
proof -
  assume h: "cut c s = (b, a, True)"
  then have "c \<in> set s" and b: "b = takeWhile (\<lambda>x. x \<noteq> c) s" and a: "a = drop (Suc (length b)) s"
    by (auto simp: cut_def Let_def split: if_splits)
  then obtain p q where "s = p @ c # q" "c \<notin> set p" by (meson split_list_first)
  then show "s = b @ c # a" using a b by (simp add: takeWhile_ne_append)
qed

lemma splitOn_nonempty [simp]: "splitOn c s \<noteq> []"
  by (cases s) (auto split: list.splits)

lemma splitOn_hd: "hd (splitOn c s) = takeWhile (\<lambda>x. x \<noteq> c) s"
  by (induction s) (auto split: list.splits simp: hd_def)

lemma strip_any_no_match:
  "\<forall>p \<in> set ps. p \<noteq> [] \<longrightarrow> take (length p) s \<noteq> p \<Longrightarrow> strip_any ps s = s"
  by (subst strip_any.simps) (auto split: option.splits simp: find_Some_iff dest: nth_mem)

lemma strip_any_Nil [simp]: "strip_any ps [] = []"
  by (rule strip_any_no_match) auto

lemma trimSpace_Nil [simp]: "trimSpace [] = []"
  by (simp add: trimSpace_def)

lemma errors_join_None [simp]: "errors_join [] = None" "errors_join (None # es) = errors_join es"
  by (simp_all add: errors_join_def List.map_filter_simps)

lemma errors_join_Some [simp]: "errors_join (Some e # es) = Some (Joined (e # List.map_filter (\<lambda>e. e) es))"
  by (simp add: errors_join_def)

lemma errors_join_eq_None [simp]: "errors_join es = None \<longleftrightarrow> set es \<subseteq> {None}"
  by (induction es) (auto simp: errors_join_def split: option.splits list.splits)

end
