(* ===== verification/Kube.thy ===== *)
theory Kube
  imports Prelude
begin

text \<open>
  The Kubernetes objects the operator reads and writes, restricted to the fields the code
  looks at, and the two libraries it is a client of for them: the condition helpers of
  \<^verbatim>\<open>k8s.io/apimachinery/pkg/api/meta\<close> and the API client. Neither library is part of the
  repository, so both are records of functions that the operations take as an argument. What
  the operator relies on is stated as the locale \<open>conditions_api\<close>; the reference
  implementation \<open>list_conditions\<close> of the documented behaviour interprets it.
\<close>

section \<open>Status conditions\<close>

type_synonym time = int \<comment> \<open>nanoseconds\<close>

abbreviation ConditionTrue :: string where "ConditionTrue \<equiv> ''True''"
abbreviation ConditionFalse :: string where "ConditionFalse \<equiv> ''False''"
abbreviation ConditionUnknown :: string where "ConditionUnknown \<equiv> ''Unknown''"

record condition =
  cond_type :: string
  cond_status :: string
  cond_reason :: string
  cond_message :: string
  cond_observedGeneration :: int
  cond_lastTransition :: time

text \<open>
  \<^verbatim>\<open>apimeta.FindStatusCondition\<close>, \<^verbatim>\<open>apimeta.SetStatusCondition\<close> (with the clock it stamps
  transitions from as an argument) and \<^verbatim>\<open>apimeta.RemoveStatusCondition\<close>.
\<close>

record cond_api =
  findc :: "condition list \<Rightarrow> string \<Rightarrow> condition option"
  setc :: "time \<Rightarrow> condition list \<Rightarrow> condition \<Rightarrow> condition list"
  removec :: "condition list \<Rightarrow> string \<Rightarrow> condition list"

text \<open>
  The documented effect of setting a condition: every field is the new one's, and the
  transition time moves only when the status does (to the new condition's own time if it has
  one, else to the clock).
\<close>

definition stamp :: "time \<Rightarrow> condition option \<Rightarrow> condition \<Rightarrow> condition" where
  "stamp now old c = (let t = (if cond_lastTransition c = 0 then now else cond_lastTransition c) in
     case old of None \<Rightarrow> c\<lparr>cond_lastTransition := t\<rparr>
     | Some e \<Rightarrow> c\<lparr>cond_lastTransition :=
         (if cond_status e = cond_status c then cond_lastTransition e else t)\<rparr>)"

definition isConditionTrue :: "cond_api \<Rightarrow> condition list \<Rightarrow> string \<Rightarrow> bool" where
  "isConditionTrue A cs t = (case findc A cs t of None \<Rightarrow> False | Some c \<Rightarrow> cond_status c = ConditionTrue)"

definition isConditionFalse :: "cond_api \<Rightarrow> condition list \<Rightarrow> string \<Rightarrow> bool" where
  "isConditionFalse A cs t = (case findc A cs t of None \<Rightarrow> False | Some c \<Rightarrow> cond_status c = ConditionFalse)"

text \<open>The reference implementation: a list with at most one condition of each type.\<close>

definition list_find :: "condition list \<Rightarrow> string \<Rightarrow> condition option" where
  "list_find cs t = find (\<lambda>c. cond_type c = t) cs"

fun list_set :: "time \<Rightarrow> condition list \<Rightarrow> condition \<Rightarrow> condition list" where
  "list_set now [] c = [stamp now None c]"
| "list_set now (d # cs) c = (if cond_type d = cond_type c then stamp now (Some d) c # cs
     else d # list_set now cs c)"

definition list_remove :: "condition list \<Rightarrow> string \<Rightarrow> condition list" where
  "list_remove cs t = filter (\<lambda>c. cond_type c \<noteq> t) cs"

definition list_conditions :: cond_api where
  "list_conditions = \<lparr>findc = list_find, setc = list_set, removec = list_remove\<rparr>"

section \<open>Deployments and Pods\<close>

record Container =
  c_name :: string
  c_image :: string

record DeploymentCondition =
  dc_type :: string
  dc_status :: string
  dc_message :: string
  dc_lastTransition :: time

record Deployment =
  d_name :: string
  d_namespace :: string
  d_generation :: int
  d_deletion :: "time option"
  d_replicas :: "int option"
  d_selector :: labels
  d_templateAnnotations :: labels
  d_initContainers :: "Container list"
  d_containers :: "Container list"
  d_conditions :: "DeploymentCondition list"
  d_observedGeneration :: int
  d_statusReplicas :: int
  d_updatedReplicas :: int
  d_readyReplicas :: int
  d_availableReplicas :: int
  d_unavailableReplicas :: int

record ContainerStateWaiting =
  w_reason :: string
  w_message :: string

record ContainerStateTerminated =
  t_exitCode :: int
  t_reason :: string
  t_message :: string

record ContainerStatus =
  cs_name :: string
  cs_ready :: bool
  cs_waiting :: "ContainerStateWaiting option"
  cs_terminated :: "ContainerStateTerminated option"
  cs_lastTerminated :: "ContainerStateTerminated option"

record PodCondition =
  pc_type :: string
  pc_status :: string
  pc_reason :: string
  pc_message :: string

record Pod =
  p_name :: string
  p_namespace :: string
  p_annotations :: labels
  p_labels :: labels
  p_deletion :: "time option"
  p_initContainers :: "Container list"
  p_containers :: "Container list"
  p_phase :: string
  p_initStatuses :: "ContainerStatus list"
  p_statuses :: "ContainerStatus list"
  p_conditions :: "PodCondition list"

record Endpoint =
  ep_ready :: "bool option"
  ep_addresses :: "string list"

record EndpointSlice =
  es_endpoints :: "Endpoint list"

text \<open>A namespaced object key: namespace, then name.\<close>

type_synonym key = "string \<times> string"

text \<open>
  An object of any kind, as the operator writes it: its metadata, its data (of ConfigMaps and
  Secrets, \<open>None\<close> when nil), the rule lists of NetworkPolicies, and everything else as \<open>o_body\<close>.
\<close>

record object =
  o_kind :: string
  o_namespace :: string
  o_name :: string
  o_version :: string
  o_labels :: labels
  o_annotations :: labels
  o_owners :: "string list" \<comment> \<open>the UIDs of the owner references\<close>
  o_controller :: "string option" \<comment> \<open>the UID of the one that controls the object\<close>
  o_data :: "(string \<times> string) list option"
  o_egress :: "string list"
  o_ingress :: "string list"
  o_body :: string

definition object_key :: "object \<Rightarrow> key" where
  "object_key x = (o_namespace x, o_name x)"

text \<open>
  A call on the API client: it returns an answer or an error, and the cluster moves on. The
  type of the cluster is left open, so an answer may reflect what other actors did between
  two calls.
\<close>

type_synonym ('w, 'a) call = "'w \<Rightarrow> (go_error + 'a) \<times> 'w"

section \<open>Laws\<close>

lemma object_key_update [simp]:
  "object_key (x\<lparr>o_version := v\<rparr>) = object_key x" "object_key (x\<lparr>o_labels := l\<rparr>) = object_key x"
  "object_key (x\<lparr>o_controller := v'\<rparr>) = object_key x" "object_key (x\<lparr>o_owners := u\<rparr>) = object_key x" "object_key (x\<lparr>o_data := d\<rparr>) = object_key x"
  by (simp_all add: object_key_def)

lemma stamp_fields [simp]:
  "cond_type (stamp n e c) = cond_type c"
  "cond_status (stamp n e c) = cond_status c"
  "cond_reason (stamp n e c) = cond_reason c"
  "cond_message (stamp n e c) = cond_message c"
  "cond_observedGeneration (stamp n e c) = cond_observedGeneration c"
  by (simp_all add: stamp_def Let_def split: option.splits)

lemma stamp_again: "cond_lastTransition c = 0 \<Longrightarrow> stamp later (Some (stamp now e c)) c = stamp now e c"
  by (simp add: stamp_def Let_def split: option.splits)

text \<open>What the operator relies on of the condition helpers.\<close>

locale conditions_api =
  fixes A :: cond_api
  assumes find_set: "findc A (setc A now cs c) t =
      (if t = cond_type c then Some (stamp now (findc A cs t) c) else findc A cs t)"
    and find_remove: "findc A (removec A cs u) t = (if t = u then None else findc A cs t)"
    and find_type: "findc A cs t = Some c \<Longrightarrow> cond_type c = t"
begin

lemma find_set_same: "findc A (setc A now cs c) (cond_type c) = Some (stamp now (findc A cs (cond_type c)) c)"
  by (simp add: find_set)

lemma find_set_other: "t \<noteq> cond_type c \<Longrightarrow> findc A (setc A now cs c) t = findc A cs t"
  by (simp add: find_set)

lemma true_after_set:
  "isConditionTrue A (setc A now cs c) t =
     (if t = cond_type c then cond_status c = ConditionTrue else isConditionTrue A cs t)"
  by (simp add: isConditionTrue_def find_set)

lemma set_twice:
  "findc A (setc A now (setc A now cs c) c) t = findc A (setc A now cs c) t"
  by (auto simp: find_set stamp_def Let_def split: option.splits)

end

lemma list_find_set:
  "list_find (list_set now cs c) t =
     (if t = cond_type c then Some (stamp now (list_find cs t) c) else list_find cs t)"
  by (induction cs) (auto simp: list_find_def)

lemma list_find_remove: "list_find (list_remove cs u) t = (if t = u then None else list_find cs t)"
  by (induction cs) (auto simp: list_find_def list_remove_def)

interpretation lc: conditions_api list_conditions
proof unfold_locales
  fix now cs c t u
  show "findc list_conditions (setc list_conditions now cs c) t =
      (if t = cond_type c then Some (stamp now (findc list_conditions cs t) c) else findc list_conditions cs t)"
    by (simp add: list_conditions_def list_find_set)
  show "findc list_conditions (removec list_conditions cs u) t =
      (if t = u then None else findc list_conditions cs t)"
    by (simp add: list_conditions_def list_find_remove)
  show "findc list_conditions cs t = Some c \<Longrightarrow> cond_type c = t"
    by (auto simp: list_conditions_def list_find_def find_Some_iff)
qed

end
