(* ===== verification/Config.thy ===== *)
theory Config
  imports Kube
begin

text \<open>
  \<^verbatim>\<open>internal/controller/config/defaults.go\<close>: the names and defaults of the operator's
  environment, the resolution of image references against a trusted repository, and the
  package-level settings (registries namespace, default domain, cluster proxy). The process
  environment is the argument \<open>getenv\<close> (\<^verbatim>\<open>os.Getenv\<close>); the answers of the API client and the
  namespace-name validator of \<^verbatim>\<open>k8s.io/apimachinery\<close> are arguments too.
\<close>

type_synonym env = "string \<Rightarrow> string"

section \<open>Names and defaults\<close>

definition RestImage :: string where "RestImage = ''RELATED_IMAGE_ODH_MODEL_REGISTRY_IMAGE''"
definition KubeRBACProxyImage :: string where "KubeRBACProxyImage = ''RELATED_IMAGE_ODH_KUBE_RBAC_PROXY_IMAGE''"
definition OAuthProxyImage :: string where "OAuthProxyImage = ''OAUTH_PROXY_IMAGE''"
definition PostgresImage :: string where "PostgresImage = ''RELATED_IMAGE_POSTGRESQL_16_IMAGE''"
definition CatalogDataImage :: string where "CatalogDataImage = ''RELATED_IMAGE_ODH_MODEL_METADATA_COLLECTION_IMAGE''"
definition BenchmarkDataImage :: string where "BenchmarkDataImage = ''RELATED_IMAGE_ODH_MODEL_PERFORMANCE_DATA_IMAGE''"
definition ModelRegistryOperatorImage :: string where "ModelRegistryOperatorImage = ''RELATED_IMAGE_ODH_MODEL_REGISTRY_OPERATOR_IMAGE''"
definition AsyncUploadImage :: string where "AsyncUploadImage = ''RELATED_IMAGE_ODH_MODEL_REGISTRY_JOB_ASYNC_UPLOAD_IMAGE''"
definition DefaultOperatorImage :: string where "DefaultOperatorImage = ''quay.io/opendatahub/model-registry-operator:latest''"
definition DefaultRestImage :: string where "DefaultRestImage = ''quay.io/opendatahub/model-registry:latest''"
definition DefaultOAuthProxyImage :: string where "DefaultOAuthProxyImage = ''quay.io/openshift/origin-oauth-proxy:latest''"
definition DefaultKubeRBACProxyImage :: string where "DefaultKubeRBACProxyImage = ''quay.io/opendatahub/odh-kube-rbac-proxy:odh-stable''"
definition DefaultPostgresImage :: string where "DefaultPostgresImage = ''quay.io/sclorg/postgresql-16-c10s:latest''"
definition DefaultCatalogDataImage :: string where "DefaultCatalogDataImage = ''quay.io/opendatahub/odh-model-metadata-collection:latest''"
definition DefaultBenchmarkDataImage :: string where "DefaultBenchmarkDataImage = ''quay.io/opendatahub/odh-model-metadata-collection:latest''"
definition RouteDisabled :: string where "RouteDisabled = ''disabled''"
definition RouteEnabled :: string where "RouteEnabled = ''enabled''"
definition CatalogDataImageStreamSource :: string where "CatalogDataImageStreamSource = ''CATALOG_DATA_IMAGE_STREAM_SOURCE''"
definition BenchmarkDataImageStreamSource :: string where "BenchmarkDataImageStreamSource = ''BENCHMARK_DATA_IMAGE_STREAM_SOURCE''"
definition RegistriesNamespace :: string where "RegistriesNamespace = ''REGISTRIES_NAMESPACE''"
definition GatewayDomainEnv :: string where "GatewayDomainEnv = ''GATEWAY_DOMAIN''"
definition HTTPRouteNamespaceEnv :: string where "HTTPRouteNamespaceEnv = ''HTTPROUTE_NAMESPACE''"

definition GetStringConfigWithDefault :: "env \<Rightarrow> string \<Rightarrow> string \<Rightarrow> string" where
  "GetStringConfigWithDefault getenv configName value =
     (let v = getenv configName in if v \<noteq> [] then v else value)"

definition GetBoolConfigWithDefault :: "env \<Rightarrow> string \<Rightarrow> bool \<Rightarrow> bool" where
  "GetBoolConfigWithDefault getenv configName defaultValue =
     (let v = getenv configName in if v \<noteq> [] then v = ''true'' else defaultValue)"

section \<open>Image references\<close>

definition lower_hex :: "char \<Rightarrow> bool" where
  "lower_hex c = (let n = (of_char c :: nat) in (48 \<le> n \<and> n \<le> 57) \<or> (97 \<le> n \<and> n \<le> 102))"

text \<open>The regular expression \<^verbatim>\<open>^sha256:[a-f0-9]{64}$\<close>.\<close>

definition sha256DigestRe :: "string \<Rightarrow> bool" where
  "sha256DigestRe s = (take 7 s = ''sha256:'' \<and> length s = 71 \<and> list_all lower_hex (drop 7 s))"

definition alnum :: "char \<Rightarrow> bool" where
  "alnum c = (let n = (of_char c :: nat) in
     (48 \<le> n \<and> n \<le> 57) \<or> (65 \<le> n \<and> n \<le> 90) \<or> (97 \<le> n \<and> n \<le> 122))"

text \<open>The regular expression \<^verbatim>\<open>^[A-Za-z0-9_][A-Za-z0-9_.-]{0,127}$\<close>.\<close>

definition imageTagRe :: "string \<Rightarrow> bool" where
  "imageTagRe s = (case s of [] \<Rightarrow> False
     | c # cs \<Rightarrow> (alnum c \<or> c = CHR ''_'') \<and> length cs \<le> 127
         \<and> list_all (\<lambda>d. alnum d \<or> d \<in> {CHR ''_'', CHR ''.'', CHR ''-''}) cs)"

definition repoBase :: "string \<Rightarrow> string" where
  "repoBase img =
     (let i = indexByte img (CHR ''@'');
          img = (if i \<noteq> -1 then take (nat i) img else img);
          slash = lastIndexByte img (CHR ''/'')
      in if slash \<noteq> -1 then
           let colon = indexByte (drop (nat slash) img) (CHR '':'')
           in if colon \<noteq> -1 then take (nat (slash + colon)) img else img
         else img)"

definition ResolveImage :: "env \<Rightarrow> string option \<Rightarrow> string \<Rightarrow> string \<Rightarrow> string" where
  "ResolveImage getenv override envName envDefault =
     (let def = GetStringConfigWithDefault getenv envName envDefault in
      case override of None \<Rightarrow> def
      | Some o' \<Rightarrow> let v = trimSpace o' in
          if sha256DigestRe v then repoBase def @ ''@'' @ v
          else if imageTagRe v then repoBase def @ '':'' @ v
          else def)"

section \<open>Resource requirements\<close>

text \<open>Quantities are those of \<^verbatim>\<open>k8s.io/apimachinery\<close>; only \<^verbatim>\<open>IsZero\<close> is called on them.\<close>

record 'q ResourceRequirements =
  rr_requests :: "string \<rightharpoonup> 'q"
  rr_limits :: "string \<rightharpoonup> 'q"

definition createResourceRequirement ::
  "('q \<Rightarrow> bool) \<Rightarrow> 'q \<Rightarrow> 'q \<Rightarrow> 'q \<Rightarrow> 'q \<Rightarrow> 'q ResourceRequirements" where
  "createResourceRequirement isZero requestsCPU requestsMemory limitsCPU limitsMemory =
     (let requests = Map.empty;
          requests = (if \<not> isZero requestsCPU then requests(''cpu'' \<mapsto> requestsCPU) else requests);
          requests = (if \<not> isZero requestsMemory then requests(''memory'' \<mapsto> requestsMemory) else requests);
          limits = Map.empty;
          limits = (if \<not> isZero limitsCPU then limits(''cpu'' \<mapsto> limitsCPU) else limits);
          limits = (if \<not> isZero limitsMemory then limits(''memory'' \<mapsto> limitsMemory) else limits)
      in \<lparr>rr_requests = requests, rr_limits = limits\<rparr>)"

section \<open>Package-level settings\<close>

record config_globals =
  defaultDomain :: string
  defaultRegistriesNamespace :: string
  defaultIsOpenShift :: bool

definition SetRegistriesNamespace ::
  "(string \<Rightarrow> string list) \<Rightarrow> string \<Rightarrow> config_globals \<Rightarrow> go_error option \<times> config_globals" where
  "SetRegistriesNamespace validateNamespaceName namespace' g =
     (let ns = trimSpace namespace' in
      if ns \<noteq> [] \<and> validateNamespaceName ns \<noteq> []
      then (Some (ErrorText (''invalid registries namespace '' @ ns @ '': ''
              @ ''['' @ joinWith '' '' (validateNamespaceName ns) @ '']'')), g)
      else (None, g\<lparr>defaultRegistriesNamespace := ns\<rparr>))"

definition GetRegistriesNamespace :: "config_globals \<Rightarrow> string" where
  "GetRegistriesNamespace g = defaultRegistriesNamespace g"

definition IsOpenShift :: "config_globals \<Rightarrow> bool" where
  "IsOpenShift g = defaultIsOpenShift g"

definition SetDefaultDomain :: "string \<Rightarrow> bool \<Rightarrow> config_globals \<Rightarrow> config_globals" where
  "SetDefaultDomain domain isOpenShift g = g\<lparr>defaultDomain := domain, defaultIsOpenShift := isOpenShift\<rparr>"

record Ingress =
  ing_appsDomain :: string
  ing_domain :: string

definition GetDefaultDomain ::
  "(key \<Rightarrow> ('w, Ingress) call) \<Rightarrow> config_globals \<Rightarrow> 'w \<Rightarrow> string \<times> config_globals \<times> 'w" where
  "GetDefaultDomain getIngress g w =
     (if defaultDomain g = [] \<and> defaultIsOpenShift g then
        (case getIngress ([], ''cluster'') w of
           (Inl e, w') \<Rightarrow> ([], g, w')
         | (Inr ingress, w') \<Rightarrow>
             let d = (if ing_appsDomain ingress \<noteq> [] then ing_appsDomain ingress else ing_domain ingress)
             in (d, g\<lparr>defaultDomain := d\<rparr>, w'))
      else (defaultDomain g, g, w))"

record ClusterProxy =
  HTTPProxy :: string
  HTTPSProxy :: string
  NoProxy :: string

record ProxyObject =
  px_spec :: ClusterProxy
  px_status :: ClusterProxy

definition firstNonEmpty :: "string \<Rightarrow> string \<Rightarrow> string" where
  "firstNonEmpty a b = (if a \<noteq> [] then a else b)"

definition GetClusterProxy ::
  "(key \<Rightarrow> ('w, ProxyObject) call) \<Rightarrow> config_globals \<Rightarrow> 'w \<Rightarrow> ClusterProxy option \<times> 'w" where
  "GetClusterProxy getProxy g w =
     (if \<not> defaultIsOpenShift g then (None, w)
      else case getProxy ([], ''cluster'') w of
        (Inl e, w') \<Rightarrow> (None, w')
      | (Inr p, w') \<Rightarrow>
          let cp = \<lparr>HTTPProxy = firstNonEmpty (HTTPProxy (px_status p)) (HTTPProxy (px_spec p)),
                    HTTPSProxy = firstNonEmpty (HTTPSProxy (px_status p)) (HTTPSProxy (px_spec p)),
                    NoProxy = firstNonEmpty (NoProxy (px_status p)) (NoProxy (px_spec p))\<rparr>
          in if HTTPProxy cp = [] \<and> HTTPSProxy cp = [] \<and> NoProxy cp = [] then (None, w')
             else (Some cp, w'))"

section \<open>Properties\<close>

lemma not_in_hex_digits:
  "list_all lower_hex s \<Longrightarrow> CHR ''@'' \<notin> set s \<and> CHR ''/'' \<notin> set s \<and> CHR '':'' \<notin> set s"
  by (auto simp: list_all_iff lower_hex_def Let_def)

lemma digest_free_of:
  assumes "sha256DigestRe v"
  shows "CHR ''@'' \<notin> set v" "CHR ''/'' \<notin> set v"
proof -
  have "v = ''sha256:'' @ drop 7 v" using assms by (metis append_take_drop_id sha256DigestRe_def)
  then have "set v = set ''sha256:'' \<union> set (drop 7 v)" by (metis set_append)
  then show "CHR ''@'' \<notin> set v" "CHR ''/'' \<notin> set v"
    using assms not_in_hex_digits[of "drop 7 v"] by (auto simp: sha256DigestRe_def)
qed

lemma tag_free_of:
  assumes "imageTagRe v"
  shows "CHR ''@'' \<notin> set v" "CHR ''/'' \<notin> set v" "CHR '':'' \<notin> set v" "v \<noteq> []"
  using assms by (auto simp: imageTagRe_def list_all_iff alnum_def Let_def split: list.splits)

text \<open>
  \<open>repoBase\<close> in the terms of a reference: everything before the first \<^verbatim>\<open>@\<close>, and in its last
  path element everything before the first colon.
\<close>

abbreviation before_at :: "string \<Rightarrow> string" where
  "before_at \<equiv> takeWhile (\<lambda>x. x \<noteq> CHR ''@'')"

lemma take_indexByte:
  "(if indexByte s c \<noteq> -1 then take (nat (indexByte s c)) s else s) = takeWhile (\<lambda>x. x \<noteq> c) s"
  by (auto simp: indexByte_def takeWhile_eq_take[symmetric])

lemma lastIndexByte_split: "c \<notin> set e \<Longrightarrow> lastIndexByte (d @ c # e) c = int (length d)"
  by (simp add: lastIndexByte_def takeWhile_ne_append)

lemma lastIndexByte_absent: "c \<notin> set s \<Longrightarrow> lastIndexByte s c = -1"
  by (simp add: lastIndexByte_def)

lemma repoBase_path:
  assumes "before_at s = d @ CHR ''/'' # e" and "CHR ''/'' \<notin> set e"
  shows "repoBase s = d @ CHR ''/'' # takeWhile (\<lambda>x. x \<noteq> CHR '':'') e"
proof -
  have "take (nat (int (length d) + indexByte (CHR ''/'' # e) (CHR '':''))) (d @ CHR ''/'' # e)
      = d @ CHR ''/'' # takeWhile (\<lambda>x. x \<noteq> CHR '':'') e" if "CHR '':'' \<in> set e"
    using that by (simp add: indexByte_def takeWhile_eq_take[symmetric] nat_add_distrib)
  moreover have "indexByte (CHR ''/'' # e) (CHR '':'') \<noteq> -1 \<longleftrightarrow> CHR '':'' \<in> set e"
    by (simp add: indexByte_def)
  ultimately show ?thesis
    using assms(2)
    by (simp add: repoBase_def Let_def take_indexByte assms(1) lastIndexByte_split)
qed

lemma repoBase_plain: "CHR ''/'' \<notin> set (before_at s) \<Longrightarrow> repoBase s = before_at s"
  by (simp add: repoBase_def Let_def take_indexByte lastIndexByte_absent)

lemma repoBase_cases:
  obtains (path) d e where "before_at s = d @ CHR ''/'' # e" "CHR ''/'' \<notin> set e"
      "repoBase s = d @ CHR ''/'' # takeWhile (\<lambda>x. x \<noteq> CHR '':'') e"
    | (plain) "CHR ''/'' \<notin> set (before_at s)" "repoBase s = before_at s"
proof (cases "CHR ''/'' \<in> set (before_at s)")
  case True
  then obtain d e where "before_at s = d @ CHR ''/'' # e" "CHR ''/'' \<notin> set e"
    by (meson split_list_last)
  then show thesis using repoBase_path path by blast
qed (use repoBase_plain plain in blast)

lemma repoBase_no_at: "CHR ''@'' \<notin> set (repoBase s)"
proof -
  have free: "CHR ''@'' \<notin> set (before_at s)" by (auto dest: set_takeWhileD)
  show ?thesis
  proof (cases rule: repoBase_cases[of s])
    case (path d e)
    then show ?thesis using free by (auto dest: set_takeWhileD)
  next
    case plain
    then show ?thesis using free by simp
  qed
qed



end
