(* ===== verification/Deployment_Status.thy ===== *)
theory Deployment_Status
  imports Kube
begin

text \<open>
  The shared part of the two controllers' availability checks
  (\<^verbatim>\<open>internal/controller/modelregistry_controller_status.go\<close>): the condition types and reasons,
  and \<^verbatim>\<open>parseDeploymentConditions\<close>, which reads a verdict off a Deployment's conditions.
\<close>

definition ConditionTypeAvailable :: string where "ConditionTypeAvailable = ''Available''"
definition ConditionTypeProgressing :: string where "ConditionTypeProgressing = ''Progressing''"
definition ConditionTypeDegraded :: string where "ConditionTypeDegraded = ''Degraded''"
definition ConditionTypeOAuthProxy :: string where "ConditionTypeOAuthProxy = ''OAuthProxyAvailable''"
definition ConditionTypeKubeRBACProxy :: string where "ConditionTypeKubeRBACProxy = ''KubeRBACProxyAvailable''"

definition ReasonDeploymentCreated :: string where "ReasonDeploymentCreated = ''CreatedDeployment''"
definition ReasonDeploymentCreating :: string where "ReasonDeploymentCreating = ''CreatingDeployment''"
definition ReasonDeploymentUpdating :: string where "ReasonDeploymentUpdating = ''UpdatingDeployment''"
definition ReasonDeploymentAvailable :: string where "ReasonDeploymentAvailable = ''DeploymentAvailable''"
definition ReasonDeploymentUnavailable :: string where "ReasonDeploymentUnavailable = ''DeploymentUnavailable''"
definition ReasonDeploymentCooldown :: string where "ReasonDeploymentCooldown = ''DeploymentCooldown''"
definition ReasonConfigurationError :: string where "ReasonConfigurationError = ''ConfigurationError''"
definition ReasonResourcesCreated :: string where "ReasonResourcesCreated = ''CreatedResources''"
definition ReasonResourcesAvailable :: string where "ReasonResourcesAvailable = ''ResourcesAvailable''"
definition ReasonResourcesUnavailable :: string where "ReasonResourcesUnavailable = ''ResourcesUnavailable''"
definition ReasonResourcesAlert :: string where "ReasonResourcesAlert = ''ResourcesAlert''"

definition restContainerName :: string where "restContainerName = ''rest-container''"
definition containerCreatingReason :: string where "containerCreatingReason = ''ContainerCreating''"

text \<open>Five seconds.\<close>

definition deploymentDelay :: time where "deploymentDelay = 5 * 1000000000"

record deploymentConditions =
  available :: bool
  availableSince :: time
  dc_text :: string

text \<open>The state of the loop: the verdict, \<^verbatim>\<open>failed\<close> and \<^verbatim>\<open>progressing\<close>.\<close>

definition parse_condition ::
  "DeploymentCondition \<Rightarrow> deploymentConditions \<times> bool \<times> bool \<Rightarrow> deploymentConditions \<times> bool \<times> bool" where
  "parse_condition c st =
     (let (state, failed, progressing) = st in
      if dc_type c = ''Available'' then
        (if \<not> failed \<and> progressing then
           (let state = state\<lparr>available := (dc_status c = ConditionTrue)\<rparr> in
            ((if \<not> available state then state\<lparr>dc_text := dc_message c\<rparr>
              else state\<lparr>availableSince := dc_lastTransition c\<rparr>), failed, progressing))
         else st)
      else if dc_type c = ''Progressing'' then
        (if dc_status c = ConditionFalse \<and> \<not> failed
         then (state\<lparr>available := False, dc_text := dc_message c\<rparr>, failed, False) else st)
      else if dc_type c = ''ReplicaFailure'' then
        (if dc_status c = ConditionTrue
         then (state\<lparr>available := False, dc_text := dc_message c\<rparr>, True, progressing) else st)
      else st)"

definition no_conditions :: deploymentConditions where
  "no_conditions = \<lparr>available = False, availableSince = 0, dc_text = []\<rparr>"

definition parseDeploymentConditions :: "Deployment \<Rightarrow> deploymentConditions" where
  "parseDeploymentConditions deployment =
     fst (fold parse_condition (d_conditions deployment) (no_conditions, False, True))"

section \<open>Properties\<close>

text \<open>The verdict without the loop: the last \<^verbatim>\<open>Available\<close> condition, unless a failure overrides it.\<close>

definition progress_stopped :: "DeploymentCondition list \<Rightarrow> bool" where
  "progress_stopped cs = list_ex (\<lambda>c. dc_type c = ''Progressing'' \<and> dc_status c = ConditionFalse) cs"

definition replicas_failed :: "DeploymentCondition list \<Rightarrow> bool" where
  "replicas_failed cs = list_ex (\<lambda>c. dc_type c = ''ReplicaFailure'' \<and> dc_status c = ConditionTrue) cs"

definition last_available :: "DeploymentCondition list \<Rightarrow> bool" where
  "last_available cs = (case find (\<lambda>c. dc_type c = ''Available'') (rev cs) of
     None \<Rightarrow> False | Some c \<Rightarrow> dc_status c = ConditionTrue)"

lemma parse_condition_flags:
  "fst (snd (parse_condition c st)) = (fst (snd st) \<or> replicas_failed [c])"
  "\<not> fst (snd st) \<Longrightarrow> snd (snd (parse_condition c st)) = (snd (snd st) \<and> \<not> progress_stopped [c])"
  "fst (snd st) \<Longrightarrow> snd (snd (parse_condition c st)) = snd (snd st)"
  by (auto simp: parse_condition_def replicas_failed_def progress_stopped_def Let_def split: prod.splits)

lemma parse_condition_available:
  "available (fst (parse_condition c (s, f, p))) =
     (if dc_type c = ''Available'' then (if \<not> f \<and> p then dc_status c = ConditionTrue else available s)
      else available s \<and> \<not> (progress_stopped [c] \<and> \<not> f) \<and> \<not> replicas_failed [c])"
  by (simp add: parse_condition_def replicas_failed_def progress_stopped_def Let_def)

lemma fold_parse_flags:
  assumes "st = fold parse_condition cs (no_conditions, False, True)"
  shows "fst (snd st) = replicas_failed cs"
    and "(fst (snd st) \<or> \<not> snd (snd st)) = (replicas_failed cs \<or> progress_stopped cs)"
  using assms
proof (induction cs arbitrary: st rule: rev_induct)
  case Nil
  { case 1 then show ?case by (simp add: replicas_failed_def) }
  { case 2 then show ?case by (simp add: replicas_failed_def progress_stopped_def) }
next
  case (snoc c cs)
  let ?s = "fold parse_condition cs (no_conditions, False, True)"
  have app: "replicas_failed (cs @ [c]) = (replicas_failed cs \<or> replicas_failed [c])"
      "progress_stopped (cs @ [c]) = (progress_stopped cs \<or> progress_stopped [c])"
    by (auto simp: replicas_failed_def progress_stopped_def)
  { case 1 then show ?case using snoc.IH(1)[OF refl] by (simp add: parse_condition_flags app) }
  { case 2 then show ?case using snoc.IH[OF refl] parse_condition_flags[where c=c and st="?s"]
      by (simp only: fold_append fold_simps comp_apply app) blast }
qed

lemma fold_parse_available:
  "available (fst (fold parse_condition cs (no_conditions, False, True)))
     = (last_available cs \<and> \<not> progress_stopped cs \<and> \<not> replicas_failed cs)"
proof (induction cs rule: rev_induct)
  case Nil
  then show ?case by (simp add: no_conditions_def last_available_def)
next
  case (snoc c cs)
  obtain s f p where st: "fold parse_condition cs (no_conditions, False, True) = (s, f, p)" by (metis prod_cases3)
  have flags: "f = replicas_failed cs" "(f \<or> \<not> p) = (replicas_failed cs \<or> progress_stopped cs)"
    using fold_parse_flags[OF st[symmetric]] by simp_all
  have IH: "available s = (last_available cs \<and> \<not> progress_stopped cs \<and> \<not> replicas_failed cs)"
    using snoc by (simp add: st)
  have la: "last_available (cs @ [c]) = (if dc_type c = ''Available'' then dc_status c = ConditionTrue else last_available cs)"
    by (simp add: last_available_def)
  have app: "replicas_failed (cs @ [c]) = (replicas_failed cs \<or> replicas_failed [c])"
      "progress_stopped (cs @ [c]) = (progress_stopped cs \<or> progress_stopped [c])"
    by (auto simp: replicas_failed_def progress_stopped_def)
  have none: "dc_type c = ''Available'' \<Longrightarrow> \<not> replicas_failed [c] \<and> \<not> progress_stopped [c]"
    by (simp add: replicas_failed_def progress_stopped_def)
  show ?case
    using none flags IH by (simp add: st la app parse_condition_available) blast
qed

text \<open>
  What makes a Deployment count as available. The loop over the conditions, with its two
  flags and its order of checks, accepts exactly when the last \<^verbatim>\<open>Available\<close> condition is true,
  no \<^verbatim>\<open>Progressing\<close> condition is false and no \<^verbatim>\<open>ReplicaFailure\<close> condition is true, in whatever
  order the API lists them.
\<close>

theorem parseDeploymentConditions_available:
  "available (parseDeploymentConditions d) \<longleftrightarrow>
     last_available (d_conditions d) \<and> \<not> progress_stopped (d_conditions d) \<and> \<not> replicas_failed (d_conditions d)"
  by (simp add: parseDeploymentConditions_def fold_parse_available)

lemma available_message:
  "available (parseDeploymentConditions d) \<Longrightarrow> d_conditions d \<noteq> []"
  by (auto simp: parseDeploymentConditions_def fold_parse_available last_available_def)

text \<open>
  The comment on \<^verbatim>\<open>parseDeploymentConditions\<close> promises the first failure message; a stopped
  rollout listed after an unavailable one replaces it.
\<close>

lemma parse_reports_later_message:
  assumes "dc_type c1 = ''Available''" "dc_status c1 = ConditionFalse"
    and "dc_type c2 = ''Progressing''" "dc_status c2 = ConditionFalse"
    and "d_conditions d = [c1, c2]"
  shows "dc_text (parseDeploymentConditions d) = dc_message c2"
  using assms by (simp add: parseDeploymentConditions_def parse_condition_def no_conditions_def)

end
