(* ===== verification/Resource_Manager.thy ===== *)
theory Resource_Manager
  imports Kube "HOL-Library.AList" "HOL-Library.List_Lexorder" "HOL-Library.Char_ord"
begin

text \<open>
  \<^verbatim>\<open>internal/controller/util.go\<close>: the detection of the cluster's APIs, the resource manager
  both reconcilers write objects with, and the hashes that roll a Deployment when a Secret
  changes. The API client, the object matcher's patch calculation and the keyed hash are
  arguments. What the writes rely on of the client is the locale \<open>object_store\<close>; the
  reference store at the end interprets it.
\<close>

section \<open>Cluster capabilities\<close>

record ClusterCapabilities =
  cap_IsOpenShift :: bool
  cap_HasUserAPI :: bool
  cap_HasConfigAPI :: bool
  cap_HasAuthAPI :: bool
  cap_HasServiceMonitor :: bool

definition no_capabilities :: ClusterCapabilities where
  "no_capabilities = \<lparr>cap_IsOpenShift = False, cap_HasUserAPI = False, cap_HasConfigAPI = False,
     cap_HasAuthAPI = False, cap_HasServiceMonitor = False\<rparr>"

definition IsBYOIDC :: "ClusterCapabilities \<Rightarrow> bool" where
  "IsBYOIDC c = (cap_IsOpenShift c \<and> \<not> cap_HasUserAPI c)"

text \<open>
  The error of \<^verbatim>\<open>ServerGroups\<close>: a partial failure lists the groups that failed, in the order Go
  ranges over them, and says whether it is the bare \<^verbatim>\<open>*ErrGroupDiscoveryFailed\<close> or wraps one.
\<close>

datatype discovery_error = PartialFailure bool "(string \<times> go_error) list" go_error | TotalFailure go_error

definition absent_text :: "(string \<Rightarrow> string) \<Rightarrow> go_error \<Rightarrow> bool" where
  "absent_text toLower e = (let m = toLower (error_string e) in
     contains m ''not found'' \<or> contains m ''could not find'' \<or> contains m ''does not exist'')"

fun check_failed_groups :: "(string \<Rightarrow> string) \<Rightarrow> (string \<times> go_error) list \<Rightarrow> go_error option" where
  "check_failed_groups toLower [] = None"
| "check_failed_groups toLower ((g, e) # gs) =
     (if g = ''user.openshift.io'' \<and> \<not> isNotFound e \<and> \<not> absent_text toLower e
      then Some (Wrapped ''user.openshift.io discovery failed (not BYOIDC)'' e)
      else if g = ''route.openshift.io'' \<or> g = ''config.openshift.io''
      then Some (Wrapped (''critical OpenShift API '' @ g @ '' failed discovery'') e)
      else check_failed_groups toLower gs)"

definition note_group :: "string \<Rightarrow> ClusterCapabilities \<Rightarrow> ClusterCapabilities" where
  "note_group g caps =
     (if g = ''route.openshift.io'' then caps\<lparr>cap_IsOpenShift := True\<rparr>
      else if g = ''user.openshift.io'' then caps\<lparr>cap_HasUserAPI := True\<rparr>
      else if g = ''config.openshift.io'' then caps\<lparr>cap_HasConfigAPI := True\<rparr>
      else if g = ''services.platform.opendatahub.io'' then caps\<lparr>cap_HasAuthAPI := True\<rparr>
      else if g = ''monitoring.coreos.com'' then caps\<lparr>cap_HasServiceMonitor := True\<rparr>
      else caps)"

definition DetectClusterCapabilities ::
  "(string \<Rightarrow> string) \<Rightarrow> string list option \<Rightarrow> discovery_error option \<Rightarrow> go_error + ClusterCapabilities" where
  "DetectClusterCapabilities toLower groups err =
     (case (case err of
              None \<Rightarrow> None
            | Some (TotalFailure e) \<Rightarrow> Some (Wrapped ''failed to discover API groups'' e)
            | Some (PartialFailure bare failed e) \<Rightarrow>
                if groups = None then Some (Wrapped ''failed to get API groups with no partial results'' e)
                else if \<not> bare then Some (Wrapped ''unexpected discovery error type'' e)
                else check_failed_groups toLower failed) of
        Some e \<Rightarrow> Inl e
      | None \<Rightarrow> Inr (fold note_group (case groups of None \<Rightarrow> [] | Some gs \<Rightarrow> gs) no_capabilities))"

section \<open>The resource manager\<close>

datatype OperationResult = ResourceUnchanged | ResourceCreated | ResourceUpdated

text \<open>
  What the resource manager uses of the client and of the object matcher for one kind of
  objects: \<open>ob_changed\<close> says whether the calculated patch is not empty, \<open>ob_annotate\<close> sets the
  last applied annotation.
\<close>

record ('w, 'o) object_api =
  ob_key :: "'o \<Rightarrow> key"
  ob_version :: "'o \<Rightarrow> string"
  ob_setVersion :: "string \<Rightarrow> 'o \<Rightarrow> 'o"
  ob_annotate :: "'o \<Rightarrow> go_error + 'o"
  ob_changed :: "'o \<Rightarrow> 'o \<Rightarrow> go_error + bool"
  ob_get :: "key \<Rightarrow> ('w, 'o) call"
  ob_create :: "'o \<Rightarrow> 'w \<Rightarrow> go_error option \<times> 'w"
  ob_update :: "'o \<Rightarrow> 'w \<Rightarrow> go_error option \<times> 'w"
  ob_delete :: "key \<Rightarrow> 'w \<Rightarrow> go_error option \<times> 'w"

type_synonym 'w outcome = "OperationResult \<times> go_error option \<times> 'w"

text \<open>Annotating and writing; the error of either step is returned with \<open>result\<close>.\<close>

definition annotate_then ::
  "('w, 'o) object_api \<Rightarrow> OperationResult \<Rightarrow> OperationResult \<Rightarrow> ('o \<Rightarrow> 'w \<Rightarrow> go_error option \<times> 'w) \<Rightarrow> 'o \<Rightarrow> 'w \<Rightarrow> 'w outcome" where
  "annotate_then K failed result write newObj w =
     (case ob_annotate K newObj of
        Inl e \<Rightarrow> (failed, Some e, w)
      | Inr o' \<Rightarrow> (result, write o' w))"

definition CreateOrUpdate :: "('w, 'o) object_api \<Rightarrow> 'o \<Rightarrow> 'w \<Rightarrow> 'w outcome" where
  "CreateOrUpdate K newObj w =
     (case ob_get K (ob_key K newObj) w of
        (Inl e, w1) \<Rightarrow>
          if ignoreNotFound e = None then annotate_then K ResourceCreated ResourceCreated (ob_create K) newObj w1
          else (ResourceUnchanged, Some e, w1)
      | (Inr currObj, w1) \<Rightarrow>
          (let newObj = (if ob_version K currObj \<noteq> [] then ob_setVersion K (ob_version K currObj) newObj else newObj)
           in case ob_changed K currObj newObj of
                Inl e \<Rightarrow> (ResourceUnchanged, Some e, w1)
              | Inr changed \<Rightarrow>
                  if changed then annotate_then K ResourceUpdated ResourceUpdated (ob_update K) newObj w1
                  else (ResourceUnchanged, None, w1)))"

definition CreateIfNotExists :: "('w, 'o) object_api \<Rightarrow> 'o \<Rightarrow> 'w \<Rightarrow> 'w outcome" where
  "CreateIfNotExists K newObj w =
     (case ob_get K (ob_key K newObj) w of
        (Inl e, w1) \<Rightarrow>
          if ignoreNotFound e = None then annotate_then K ResourceCreated ResourceCreated (ob_create K) newObj w1
          else (ResourceUnchanged, Some e, w1)
      | (Inr currObj, w1) \<Rightarrow> (ResourceUnchanged, None, w1))"

definition unexpected_rules :: "object \<Rightarrow> object \<Rightarrow> bool" where
  "unexpected_rules newObj currObj =
     (o_egress newObj = [] \<and> o_egress currObj \<noteq> [] \<or> o_ingress newObj = [] \<and> o_ingress currObj \<noteq> [])"

definition CreateOrUpdateNetworkPolicy ::
  "('w, object) object_api \<Rightarrow> object \<Rightarrow> 'w \<Rightarrow> 'w outcome" where
  "CreateOrUpdateNetworkPolicy K newObj w =
     (case ob_get K (ob_key K newObj) w of
        (Inr currObj, w1) \<Rightarrow>
          if unexpected_rules newObj currObj
          then annotate_then K ResourceUnchanged ResourceUpdated (ob_update K) (ob_setVersion K (ob_version K currObj) newObj) w1
          else CreateOrUpdate K newObj w1
      | (Inl e, w1) \<Rightarrow>
          if ignoreNotFound e \<noteq> None then (ResourceUnchanged, Some e, w1) else CreateOrUpdate K newObj w1)"

section \<open>Secret hashes\<close>

text \<open>
  A Go map is its list of entries in any order, with distinct keys. \<open>hmac\<close> is the hex-encoded
  HMAC-SHA-256 of a key and a message.
\<close>

definition entry :: "(string \<times> string) list \<Rightarrow> string \<Rightarrow> string" where
  "entry data k = strval (map_of data k)"

definition hash_keys :: "(string \<times> string) list \<Rightarrow> string list" where
  "hash_keys data = sort (filter (\<lambda>k. k \<noteq> ''database-salt'') (map fst data))"

definition hash_salt :: "(string \<times> string) list \<Rightarrow> string" where
  "hash_salt data = (if entry data ''database-salt'' = [] then ''modelregistry.opendatahub.io/postgres-secret-hash''
     else entry data ''database-salt'')"

definition computeSecretDataHash :: "(string \<Rightarrow> string \<Rightarrow> string) \<Rightarrow> (string \<times> string) list \<Rightarrow> string" where
  "computeSecretDataHash hmac data =
     (if hash_keys data = [] then []
      else hmac (hash_salt data) (concat (map (\<lambda>k. k @ entry data k) (hash_keys data))))"

record HFSource =
  hf_envVarName :: string
  hf_secretName :: string

definition hf_message :: "HFSource list \<Rightarrow> (string \<times> string) list \<Rightarrow> string" where
  "hf_message sources apiKeys = concat (map (\<lambda>s. hf_envVarName s @ [CHR 0x00] @ entry apiKeys (hf_envVarName s) @ [CHR 0x00])
     (sort_key hf_envVarName sources))"

definition hfSecretsHash :: "(string \<Rightarrow> string \<Rightarrow> string) \<Rightarrow> HFSource list \<Rightarrow> (string \<times> string) list \<Rightarrow> string" where
  "hfSecretsHash hmac sources apiKeys =
     (if sources = [] then [] else hmac ''modelregistry.opendatahub.io/hf-secrets-hash'' (hf_message sources apiKeys))"

section \<open>Writing through a store\<close>

text \<open>
  What the writes rely on of the client, for a store seen through \<open>stored\<close> and objects seen
  through \<open>view\<close> (what the operator sets of them): reads answer from the store, a missing
  object is reported only when it is missing, an acknowledged write is stored, and neither
  annotation nor resource version touches the view. Reads may fail.
\<close>

locale object_store =
  fixes K :: "('w, 'o) object_api" and stored :: "'w \<Rightarrow> key \<Rightarrow> 'o option" and view :: "'o \<Rightarrow> 'v"
  assumes get_found: "ob_get K k w = (Inr x, w') \<Longrightarrow> w' = w \<and> stored w k = Some x"
    and get_failed: "ob_get K k w = (Inl e, w') \<Longrightarrow> w' = w \<and> (isNotFound e \<longrightarrow> stored w k = None)"
    and created: "ob_create K x w = (None, w') \<Longrightarrow> \<exists>y. stored w' (ob_key K x) = Some y \<and> view y = view x"
    and updated: "ob_update K x w = (None, w') \<Longrightarrow> \<exists>y. stored w' (ob_key K x) = Some y \<and> view y = view x"
    and annotated: "ob_annotate K x = Inr y \<Longrightarrow> ob_key K y = ob_key K x \<and> view y = view x"
    and versioned: "ob_key K (ob_setVersion K v x) = ob_key K x \<and> view (ob_setVersion K v x) = view x"
begin

lemma annotate_then_writes:
  assumes "annotate_then K f r write x w = (r', None, w')"
    and "\<And>y. write y w = (None, w') \<Longrightarrow> \<exists>z. stored w' (ob_key K y) = Some z \<and> view z = view y"
  shows "\<exists>z. stored w' (ob_key K x) = Some z \<and> view z = view x"
proof (cases "ob_annotate K x")
  case (Inl e)
  then show ?thesis using assms(1) by (simp add: annotate_then_def)
next
  case (Inr y)
  then have "write y w = (None, w')" using assms(1) by (simp add: annotate_then_def)
  from assms(2)[OF this] annotated[OF Inr] show ?thesis by auto
qed

text \<open>A successful call leaves the object as wanted, or as the patch found nothing to change in.\<close>

lemma CreateOrUpdate_stores:
  assumes "CreateOrUpdate K x w = (r, None, w')"
  shows "\<exists>y. stored w' (ob_key K x) = Some y
    \<and> (view y = view x \<or> w' = w \<and> (\<exists>z. view z = view x \<and> ob_key K z = ob_key K x \<and> ob_changed K y z = Inr False))"
proof -
  obtain a w1 where g: "ob_get K (ob_key K x) w = (a, w1)" by fastforce
  show ?thesis
  proof (cases a)
    case (Inl e)
    then have "annotate_then K ResourceCreated ResourceCreated (ob_create K) x w1 = (r, None, w')"
      using assms g by (simp add: CreateOrUpdate_def split: if_splits)
    from annotate_then_writes[OF this] created show ?thesis by blast
  next
    case (Inr c)
    note c = get_found[OF g[unfolded Inr]]
    define z where "z = (if ob_version K c \<noteq> [] then ob_setVersion K (ob_version K c) x else x)"
    have z: "ob_key K z = ob_key K x" "view z = view x" using versioned[of "ob_version K c" x] by (auto simp: z_def)
    show ?thesis
    proof (cases "ob_changed K c z")
      case (Inl e)
      then show ?thesis using assms g \<open>a = Inr c\<close> by (simp add: CreateOrUpdate_def z_def Let_def)
    next
      case (Inr b)
      show ?thesis
      proof (cases b)
        case True
        then have "annotate_then K ResourceUpdated ResourceUpdated (ob_update K) z w1 = (r, None, w')"
          using assms g Inr \<open>a = Inr c\<close> by (simp add: CreateOrUpdate_def z_def Let_def)
        from annotate_then_writes[OF this] updated z show ?thesis by (metis (no_types, lifting))
      next
        case False
        then have "w' = w" using assms g Inr \<open>a = Inr c\<close> c by (simp add: CreateOrUpdate_def z_def Let_def)
        then show ?thesis using c z Inr False by auto
      qed
    qed
  qed
qed

lemma CreateIfNotExists_keeps:
  assumes "stored w (ob_key K x) = Some y" and "CreateIfNotExists K x w = (r, e, w')"
  shows "w' = w \<and> r = ResourceUnchanged"
proof -
  obtain a w1 where g: "ob_get K (ob_key K x) w = (a, w1)" by fastforce
  show ?thesis
  proof (cases a)
    case (Inl e')
    then show ?thesis using get_failed[OF g[unfolded Inl]] assms g
      by (simp add: CreateIfNotExists_def ignoreNotFound_def)
  next
    case (Inr c)
    then show ?thesis using get_found[OF g[unfolded Inr]] assms g by (simp add: CreateIfNotExists_def)
  qed
qed

end

text \<open>A store without transient read errors, whose patch of what was just written is empty.\<close>

locale reliable_store = object_store +
  assumes get_stored: "stored w k = Some x \<Longrightarrow> ob_get K k w = (Inr x, w)"
    and no_patch: "view x = view y \<Longrightarrow> ob_changed K x y = Inr False"
begin

lemma CreateOrUpdate_converges:
  assumes "CreateOrUpdate K x w = (r, None, w')"
  shows "CreateOrUpdate K x w' = (ResourceUnchanged, None, w')"
proof -
  obtain y where y: "stored w' (ob_key K x) = Some y"
      "view y = view x \<or> w' = w \<and> (\<exists>z. view z = view x \<and> ob_key K z = ob_key K x \<and> ob_changed K y z = Inr False)"
    using CreateOrUpdate_stores[OF assms] by blast
  note g = get_stored[OF y(1)]
  define z where "z = (if ob_version K y \<noteq> [] then ob_setVersion K (ob_version K y) x else x)"
  have z: "view z = view x" using versioned[of "ob_version K y" x] by (simp add: z_def)
  show ?thesis
  proof (cases "view y = view x")
    case True
    then have "ob_changed K y z = Inr False" using no_patch z by simp
    then show ?thesis using g by (simp add: CreateOrUpdate_def z_def Let_def)
  next
    case False
    then have "w' = w" using y(2) by blast
    have "r = ResourceUnchanged"
    proof (rule ccontr)
      assume "r \<noteq> ResourceUnchanged"
      then have "annotate_then K ResourceUpdated ResourceUpdated (ob_update K) z w = (r, None, w')"
        using assms g[unfolded \<open>w' = w\<close>] by (simp add: CreateOrUpdate_def z_def Let_def split: sum.splits if_splits)
      from annotate_then_writes[OF this] updated have "\<exists>v. stored w' (ob_key K z) = Some v \<and> view v = view z" by blast
      moreover have "ob_key K z = ob_key K x" using versioned[of "ob_version K y" x] by (simp add: z_def)
      ultimately show False using y(1) False z by simp
    qed
    then show ?thesis using assms \<open>w' = w\<close> by simp
  qed
qed

end

section \<open>Network policies\<close>

definition np_view :: "object \<Rightarrow> string list \<times> string list \<times> string" where
  "np_view p = (o_egress p, o_ingress p, o_body p)"

definition deny_kept :: "object \<Rightarrow> object \<Rightarrow> bool" where
  "deny_kept wanted actual = ((o_egress wanted = [] \<longrightarrow> o_egress actual = []) \<and> (o_ingress wanted = [] \<longrightarrow> o_ingress actual = []))"

lemma np_view_deny: "np_view q = np_view p \<Longrightarrow> deny_kept p q"
  by (simp add: np_view_def deny_kept_def)

lemma expected_deny: "\<not> unexpected_rules p q \<Longrightarrow> deny_kept p q"
  by (auto simp: unexpected_rules_def deny_kept_def)

text \<open>
  The reference store: policies by key and a counter for resource versions. A creation fails
  when the object exists, an update when it does not or when the version is stale, and the
  patch ignores a rule list that the wanted policy leaves empty.
\<close>

type_synonym policies = "(key \<rightharpoonup> object) \<times> nat"

definition put_policy :: "object \<Rightarrow> policies \<Rightarrow> policies" where
  "put_policy p w = ((fst w)(object_key p \<mapsto> p\<lparr>o_version := show_nat (snd w)\<rparr>), Suc (snd w))"

definition policy_store :: "(policies, object) object_api" where
  "policy_store = \<lparr>ob_key = object_key, ob_version = o_version, ob_setVersion = (\<lambda>v p. p\<lparr>o_version := v\<rparr>),
     ob_annotate = Inr,
     ob_changed = (\<lambda>c n. Inr (o_body c \<noteq> o_body n \<or> o_egress n \<noteq> [] \<and> o_egress c \<noteq> o_egress n
       \<or> o_ingress n \<noteq> [] \<and> o_ingress c \<noteq> o_ingress n)),
     ob_get = (\<lambda>k w. (case fst w k of None \<Rightarrow> Inl (ApiError NotFound ''not found'') | Some p \<Rightarrow> Inr p, w)),
     ob_create = (\<lambda>p w. case fst w (object_key p) of None \<Rightarrow> (None, put_policy p w) | Some _ \<Rightarrow> (Some (ApiError OtherError ''already exists''), w)),
     ob_update = (\<lambda>p w. case fst w (object_key p) of None \<Rightarrow> (Some (ApiError NotFound ''not found''), w)
       | Some c \<Rightarrow> if o_version p \<noteq> [] \<and> o_version p \<noteq> o_version c then (Some (ApiError Conflict ''stale''), w)
                   else (None, put_policy p w)),
     ob_delete = (\<lambda>k w. case fst w k of None \<Rightarrow> (Some (ApiError NotFound ''not found''), w) | Some _ \<Rightarrow> (None, ((fst w)(k := None), snd w)))\<rparr>"

interpretation ps: reliable_store policy_store fst np_view
proof unfold_locales
  fix k :: key and x y :: object and w w' :: policies and e v
  show "ob_get policy_store k w = (Inr x, w') \<Longrightarrow> w' = w \<and> fst w k = Some x"
    by (auto simp: policy_store_def split: option.splits)
  show "ob_get policy_store k w = (Inl e, w') \<Longrightarrow> w' = w \<and> (isNotFound e \<longrightarrow> fst w k = None)"
    by (auto simp: policy_store_def split: option.splits)
  show "ob_create policy_store x w = (None, w') \<Longrightarrow> \<exists>y. fst w' (ob_key policy_store x) = Some y \<and> np_view y = np_view x"
    by (auto simp: policy_store_def put_policy_def np_view_def split: option.splits)
  show "ob_update policy_store x w = (None, w') \<Longrightarrow> \<exists>y. fst w' (ob_key policy_store x) = Some y \<and> np_view y = np_view x"
    by (auto simp: policy_store_def put_policy_def np_view_def split: option.splits if_splits)
  show "ob_annotate policy_store x = Inr y \<Longrightarrow> ob_key policy_store y = ob_key policy_store x \<and> np_view y = np_view x"
    by (simp add: policy_store_def)
  show "ob_key policy_store (ob_setVersion policy_store v x) = ob_key policy_store x
      \<and> np_view (ob_setVersion policy_store v x) = np_view x"
    by (simp add: policy_store_def np_view_def)
  show "fst w k = Some x \<Longrightarrow> ob_get policy_store k w = (Inr x, w)"
    by (simp add: policy_store_def)
  show "np_view x = np_view y \<Longrightarrow> ob_changed policy_store x y = Inr False"
    by (simp add: policy_store_def np_view_def)
qed

text \<open>
  C28: a deny-all network policy stays one. When the call succeeds, the stored policy has no
  egress (ingress) rule if the wanted policy has none, whatever rules were added to it out of
  band and although the three-way patch does not see a list the wanted policy leaves empty.
\<close>

theorem network_policy_denial_enforced:
  assumes "object_store K stored np_view" and "CreateOrUpdateNetworkPolicy K p w = (r, None, w')"
  shows "\<exists>q. stored w' (ob_key K p) = Some q \<and> deny_kept p q"
proof -
  obtain a w1 where g: "ob_get K (ob_key K p) w = (a, w1)" by fastforce
  show ?thesis
  proof (cases "\<exists>c. a = Inr c \<and> unexpected_rules p c")
    case True
    then obtain c where c: "a = Inr c" "unexpected_rules p c" by blast
    let ?p = "ob_setVersion K (ob_version K c) p"
    have "annotate_then K ResourceUnchanged ResourceUpdated (ob_update K) ?p w1 = (r, None, w')"
      using assms(2) g c by (simp add: CreateOrUpdateNetworkPolicy_def)
    from object_store.annotate_then_writes[OF assms(1) this] object_store.updated[OF assms(1)]
    have "\<exists>q. stored w' (ob_key K ?p) = Some q \<and> np_view q = np_view ?p" by blast
    then show ?thesis using object_store.versioned[OF assms(1)] np_view_deny by metis
  next
    case False
    then have call: "CreateOrUpdate K p w1 = (r, None, w')"
      using assms(2) g by (auto simp: CreateOrUpdateNetworkPolicy_def split: sum.splits if_splits)
    obtain q where q: "stored w' (ob_key K p) = Some q" "np_view q = np_view p \<or> w' = w1"
      using object_store.CreateOrUpdate_stores[OF assms(1) call] by blast
    have "deny_kept p q" if "w' = w1"
    proof (cases a)
      case (Inl e)
      then have "stored w (ob_key K p) = None \<and> w1 = w"
        using object_store.get_failed[OF assms(1) g[unfolded Inl]] assms(2) g
        by (auto simp: CreateOrUpdateNetworkPolicy_def ignoreNotFound_def split: if_splits)
      then show ?thesis using q(1) that by simp
    next
      case (Inr c)
      then have "stored w (ob_key K p) = Some c \<and> w1 = w"
        using object_store.get_found[OF assms(1) g[unfolded Inr]] by blast
      then show ?thesis using q(1) that False Inr by (simp add: expected_deny)
    qed
    then show ?thesis using q np_view_deny by blast
  qed
qed

definition sample_policy :: "string list \<Rightarrow> object" where
  "sample_policy rules = \<lparr>o_kind = ''NetworkPolicy'', o_namespace = ''ns'', o_name = ''pg'', o_version = [], o_labels = Map.empty,
     o_annotations = Map.empty, o_owners = [], o_controller = None, o_data = None, o_egress = rules, o_ingress = [''5432''], o_body = ''pg''\<rparr>"

lemma sample_egress: "o_egress (sample_policy rules) = rules"
  by (simp add: sample_policy_def)

theorem network_policy_denial_enforced_witness:
  "let w = put_policy (sample_policy [''0.0.0.0/0'']) (Map.empty, 0) in
   o_egress (the (fst w (''ns'', ''pg''))) = [''0.0.0.0/0'']
   \<and> ob_changed policy_store (the (fst w (''ns'', ''pg''))) (sample_policy []) = Inr False
   \<and> (\<exists>w'. CreateOrUpdateNetworkPolicy policy_store (sample_policy []) w = (ResourceUpdated, None, w')
        \<and> o_egress (the (fst w' (''ns'', ''pg''))) = [])"
proof -
  let ?w = "put_policy (sample_policy [''0.0.0.0/0'']) (Map.empty, 0)"
  let ?r = "CreateOrUpdateNetworkPolicy policy_store (sample_policy []) ?w"
  have key: "ob_key policy_store (sample_policy x) = (''ns'', ''pg'')" for x
    by (simp add: policy_store_def sample_policy_def object_key_def)
  have "fst ?r = ResourceUpdated" "fst (snd ?r) = None" by code_simp+
  then have r: "?r = (ResourceUpdated, None, snd (snd ?r))" by (metis prod.collapse)
  have "\<exists>q. fst (snd (snd ?r)) (ob_key policy_store (sample_policy [])) = Some q \<and> deny_kept (sample_policy []) q"
    by (rule network_policy_denial_enforced[OF ps.object_store_axioms r])
  then have "o_egress (the (fst (snd (snd ?r)) (''ns'', ''pg''))) = []"
    unfolding key by (auto simp: deny_kept_def sample_egress)
  moreover have "o_egress (the (fst ?w (''ns'', ''pg''))) = [''0.0.0.0/0'']"
      "ob_changed policy_store (the (fst ?w (''ns'', ''pg''))) (sample_policy []) = Inr False"
    by (simp_all add: put_policy_def sample_policy_def policy_store_def object_key_def)
  ultimately show ?thesis using r unfolding Let_def by blast
qed

text \<open>
  Reconciling converges. Over a store whose patch of what was just written is empty, a
  second call with the same wanted object finds nothing to change and leaves the cluster as
  it is, so a reconcile loop that requeues on change comes to rest.
\<close>

theorem create_or_update_converges:
  assumes "reliable_store K stored view" and "CreateOrUpdate K x w = (r, None, w')"
  shows "CreateOrUpdate K x w' = (ResourceUnchanged, None, w')"
  by (rule reliable_store.CreateOrUpdate_converges[OF assms])

theorem create_or_update_converges_witness:
  "let w = snd (snd (CreateOrUpdate policy_store (sample_policy [''a'']) (Map.empty, 0))) in
   w \<noteq> (Map.empty, 0) \<and> CreateOrUpdate policy_store (sample_policy [''a'']) w = (ResourceUnchanged, None, w)"
proof -
  let ?r = "CreateOrUpdate policy_store (sample_policy [''a'']) (Map.empty, 0)"
  have "fst (snd ?r) = None" "snd (snd (snd ?r)) = 1" by code_simp+
  then have r: "?r = (fst ?r, None, snd (snd ?r))" and "snd (snd ?r) \<noteq> (Map.empty, 0)" by (metis prod.collapse, auto)
  then show ?thesis
    using create_or_update_converges[OF ps.reliable_store_axioms r] unfolding Let_def by blast
qed

section \<open>Properties of the hashes\<close>

text \<open>
  The Secret hash can miss a change. Keys and values are written to the hash one after the
  other with nothing in between, so moving text that contains a key name from one value to
  another gives the same hash, and the Deployment is not rolled.
\<close>

theorem secret_hash_misses_a_change:
  assumes "k1 < k2" and "k1 \<noteq> ''database-salt''" and "k2 \<noteq> ''database-salt''"
  shows "computeSecretDataHash hmac [(k1, u), (k2, v @ k2 @ t)] = computeSecretDataHash hmac [(k1, u @ k2 @ v), (k2, t)]"
proof -
  have "hash_keys [(k1, x), (k2, y)] = [k1, k2]" for x y
    using assms less_imp_le[OF assms(1)] by (simp add: hash_keys_def)
  then show ?thesis
    using assms less_imp_neq[OF assms(1)] by (simp add: computeSecretDataHash_def entry_def hash_salt_def)
qed

theorem secret_hash_misses_a_change_witness:
  "computeSecretDataHash (@) [(''database-password'', ''p''), (''database-user'', ''xdatabase-usery'')]
   = computeSecretDataHash (@) [(''database-password'', ''pdatabase-userx''), (''database-user'', ''y'')]"
proof -
  have "(''database-password'' :: string) < ''database-user''" by code_simp
  from secret_hash_misses_a_change[OF this, of "(@)" "''p''" "''x''" "''y''"] show ?thesis by simp
qed

lemma NUL_split:
  assumes "c \<notin> set a" "c \<notin> set a'" "a @ c # b = a' @ c # b'"
  shows "a = a' \<and> b = b'"
proof -
  have "takeWhile (\<lambda>x. x \<noteq> c) (a @ c # b) = takeWhile (\<lambda>x. x \<noteq> c) (a' @ c # b')" using assms(3) by simp
  then have "a = a'" using assms(1,2) by (metis takeWhile_ne_append)
  then show ?thesis using assms(3) by simp
qed

lemma records_injective:
  assumes "\<forall>x \<in> set xs. CHR 0x00 \<notin> set (fst x) \<and> CHR 0x00 \<notin> set (snd x)"
    and "\<forall>x \<in> set ys. CHR 0x00 \<notin> set (fst x) \<and> CHR 0x00 \<notin> set (snd x)"
    and "concat (map (\<lambda>x. fst x @ [CHR 0x00] @ snd x @ [CHR 0x00]) xs) = concat (map (\<lambda>x. fst x @ [CHR 0x00] @ snd x @ [CHR 0x00]) ys)"
  shows "xs = ys"
  using assms
proof (induction xs arbitrary: ys)
  case Nil
  then show ?case by (cases ys) auto
next
  case (Cons x xs)
  obtain y ys' where ys: "ys = y # ys'" using Cons.prems(3) by (cases ys) auto
  let ?c = "\<lambda>xs. concat (map (\<lambda>x. fst x @ [CHR 0x00] @ snd x @ [CHR 0x00]) xs)"
  have "fst x @ CHR 0x00 # (snd x @ CHR 0x00 # ?c xs) = fst y @ CHR 0x00 # (snd y @ CHR 0x00 # ?c ys')"
    using Cons.prems(3) ys by simp
  then have f: "fst x = fst y" and "snd x @ CHR 0x00 # ?c xs = snd y @ CHR 0x00 # ?c ys'"
    using NUL_split[of "CHR 0x00" "fst x" "fst y"] Cons.prems(1,2) ys by auto
  then have "snd x = snd y \<and> ?c xs = ?c ys'"
    using NUL_split[of "CHR 0x00" "snd x" "snd y"] Cons.prems(1,2) ys by auto
  then show ?case using Cons.IH[of ys'] Cons.prems(1,2) ys f by (auto simp: prod_eq_iff)
qed

text \<open>The variable names and keys that a list of sources stands for, sorted by name.\<close>

definition hf_pairs :: "HFSource list \<Rightarrow> (string \<times> string) list \<Rightarrow> (string \<times> string) list" where
  "hf_pairs sources apiKeys = map (\<lambda>s. (hf_envVarName s, entry apiKeys (hf_envVarName s))) (sort_key hf_envVarName sources)"

definition NUL_free :: "(string \<times> string) list \<Rightarrow> bool" where
  "NUL_free xs = (\<forall>x \<in> set xs. CHR 0x00 \<notin> set (fst x) \<and> CHR 0x00 \<notin> set (snd x))"

lemma hf_message_pairs: "hf_message sources apiKeys = concat (map (\<lambda>x. fst x @ [CHR 0x00] @ snd x @ [CHR 0x00]) (hf_pairs sources apiKeys))"
  by (simp add: hf_message_def hf_pairs_def comp_def)

text \<open>
  The hash of the HuggingFace keys does not have that flaw: with names and keys free of
  NUL bytes, the hashed message determines every variable and its key, so every change of a
  key, or of the set of sources, changes what is hashed.
\<close>

theorem hf_hash_input_injective:
  assumes "NUL_free (hf_pairs ss ks)" and "NUL_free (hf_pairs ss' ks')"
  shows "hf_message ss ks = hf_message ss' ks' \<longleftrightarrow> hf_pairs ss ks = hf_pairs ss' ks'"
  using records_injective[of "hf_pairs ss ks" "hf_pairs ss' ks'"] assms
  by (auto simp: hf_message_pairs NUL_free_def)

definition sample_source :: HFSource where
  "sample_source = \<lparr>hf_envVarName = ''HF_API_KEY_a'', hf_secretName = ''s''\<rparr>"

theorem hf_hash_input_injective_witness:
  "hf_message [sample_source] [(''HF_API_KEY_a'', ''k1'')] \<noteq> hf_message [sample_source] [(''HF_API_KEY_a'', ''k2'')]"
proof -
  have "hf_pairs [sample_source] [(''HF_API_KEY_a'', k)] = [(''HF_API_KEY_a'', k)]" for k
    by (simp add: hf_pairs_def sample_source_def entry_def)
  moreover have "NUL_free [(''HF_API_KEY_a'', ''k1'')]" "NUL_free [(''HF_API_KEY_a'', ''k2'')]"
    by (simp_all add: NUL_free_def)
  ultimately show ?thesis
    using hf_hash_input_injective[of "[sample_source]" "[(''HF_API_KEY_a'', ''k1'')]" "[sample_source]" "[(''HF_API_KEY_a'', ''k2'')]"]
    by simp
qed

section \<open>Properties of the detection\<close>

lemma note_group_flags:
  "cap_IsOpenShift (note_group g c) = (cap_IsOpenShift c \<or> g = ''route.openshift.io'')"
  "cap_HasUserAPI (note_group g c) = (cap_HasUserAPI c \<or> g = ''user.openshift.io'')"
  "cap_HasConfigAPI (note_group g c) = (cap_HasConfigAPI c \<or> g = ''config.openshift.io'')"
  "cap_HasAuthAPI (note_group g c) = (cap_HasAuthAPI c \<or> g = ''services.platform.opendatahub.io'')"
  "cap_HasServiceMonitor (note_group g c) = (cap_HasServiceMonitor c \<or> g = ''monitoring.coreos.com'')"
  by (simp_all add: note_group_def)

lemma fold_note_group:
  "cap_IsOpenShift (fold note_group gs c) = (cap_IsOpenShift c \<or> ''route.openshift.io'' \<in> set gs)"
  "cap_HasUserAPI (fold note_group gs c) = (cap_HasUserAPI c \<or> ''user.openshift.io'' \<in> set gs)"
  "cap_HasConfigAPI (fold note_group gs c) = (cap_HasConfigAPI c \<or> ''config.openshift.io'' \<in> set gs)"
  "cap_HasAuthAPI (fold note_group gs c) = (cap_HasAuthAPI c \<or> ''services.platform.opendatahub.io'' \<in> set gs)"
  "cap_HasServiceMonitor (fold note_group gs c) = (cap_HasServiceMonitor c \<or> ''monitoring.coreos.com'' \<in> set gs)"
  by (induction gs arbitrary: c) (simp_all add: note_group_flags, blast+)

lemma check_failed_groups_None:
  "check_failed_groups toLower failed = None \<longleftrightarrow> (\<forall>(g, e) \<in> set failed.
     g \<noteq> ''route.openshift.io'' \<and> g \<noteq> ''config.openshift.io''
     \<and> (g = ''user.openshift.io'' \<longrightarrow> isNotFound e \<or> absent_text toLower e))"
proof (induction failed)
  case (Cons ge failed)
  obtain g e where "ge = (g, e)" by (cases ge)
  then show ?case using Cons by (cases "g = ''user.openshift.io''") (simp_all, blast?)
qed simp

text \<open>
  Detection is faithful or fails. When it succeeds, every capability is set exactly when
  the cluster lists its API group, so BYOIDC mode is reported exactly for OpenShift without the
  user API; and it succeeds on a partial discovery failure only if some groups were listed, no
  route or config group is among the failed ones and a failed user group is really absent.
\<close>

theorem detection_faithful:
  assumes "DetectClusterCapabilities toLower groups err = Inr caps"
  shows "let gs = (case groups of None \<Rightarrow> [] | Some gs \<Rightarrow> gs) in
      (cap_IsOpenShift caps \<longleftrightarrow> ''route.openshift.io'' \<in> set gs)
    \<and> (IsBYOIDC caps \<longleftrightarrow> ''route.openshift.io'' \<in> set gs \<and> ''user.openshift.io'' \<notin> set gs)
    \<and> (cap_HasConfigAPI caps \<longleftrightarrow> ''config.openshift.io'' \<in> set gs)
    \<and> (cap_HasAuthAPI caps \<longleftrightarrow> ''services.platform.opendatahub.io'' \<in> set gs)
    \<and> (cap_HasServiceMonitor caps \<longleftrightarrow> ''monitoring.coreos.com'' \<in> set gs)
    \<and> (\<forall>bare failed e. err = Some (PartialFailure bare failed e) \<longrightarrow> groups \<noteq> None
         \<and> (\<forall>(g, e) \<in> set failed. g \<noteq> ''route.openshift.io'' \<and> g \<noteq> ''config.openshift.io''
              \<and> (g = ''user.openshift.io'' \<longrightarrow> isNotFound e \<or> absent_text toLower e)))"
proof -
  define gs where "gs = (case groups of None \<Rightarrow> [] | Some gs \<Rightarrow> gs)"
  have caps: "caps = fold note_group gs no_capabilities"
    using assms by (simp add: DetectClusterCapabilities_def gs_def split: option.splits)
  have part: "groups \<noteq> None \<and> check_failed_groups toLower failed = None" if "err = Some (PartialFailure bare failed e)" for bare failed e
    using assms that by (auto simp: DetectClusterCapabilities_def split: option.splits if_splits)
  show ?thesis
    unfolding gs_def[symmetric] Let_def caps IsBYOIDC_def fold_note_group check_failed_groups_None[symmetric]
    using part by (simp add: no_capabilities_def)
qed

theorem detection_faithful_witness:
  "\<exists>caps. DetectClusterCapabilities id (Some [''apps'', ''route.openshift.io'', ''config.openshift.io''])
       (Some (PartialFailure True [(''user.openshift.io'', ApiError NotFound ''gone'')] (ErrorText ''partial''))) = Inr caps
     \<and> IsBYOIDC caps"
proof -
  let ?d = "DetectClusterCapabilities id (Some [''apps'', ''route.openshift.io'', ''config.openshift.io''])
       (Some (PartialFailure True [(''user.openshift.io'', ApiError NotFound ''gone'')] (ErrorText ''partial'')))"
  have "\<not> isl ?d" by code_simp
  then obtain caps where d: "?d = Inr caps" by (cases ?d) auto
  then show ?thesis using detection_faithful[OF d] by (simp add: Let_def)
qed

end
