(* ===== verification/Catalog_Types.thy ===== *)
theory Catalog_Types
  imports Config Deployment_Status Resource_Manager
begin

text \<open>
  The Catalog custom resource (\<^verbatim>\<open>api/catalog/v1alpha1/catalog_types.go\<close>), the ImageStreams its
  data images come from, the template parameters \<^verbatim>\<open>CatalogParams\<close>, the names of the status
  conditions, and the API client the Catalog reconciler calls.
\<close>

section \<open>The Catalog resource\<close>

record CatalogDataImages =
  img_catalog :: string
  img_benchmark :: string

record CatalogActivationSuccess =
  succ_catalogUID :: string
  succ_attemptID :: string
  succ_images :: CatalogDataImages
  succ_activatedAt :: time

record CatalogActivationStatus =
  act_catalogUID :: string
  act_attemptID :: string
  act_requestHash :: string
  act_requestedImages :: CatalogDataImages
  act_images :: CatalogDataImages
  act_state :: string
  act_stage :: string
  act_reason :: string
  act_message :: string
  act_startedAt :: time
  act_recoveredAt :: "time option"
  act_lastSuccessful :: "CatalogActivationSuccess option"

record CatalogStatus =
  st_activation :: "CatalogActivationStatus option"
  st_conditions :: "condition list"
  st_resolvedImages :: "CatalogDataImages option"
  st_observedGeneration :: int

record CatalogSpec =
  sp_catalogDataImageStream :: "string option"
  sp_benchmarkDataImageStream :: "string option"
  sp_proxy :: "ClusterProxy option" \<comment> \<open>\<^verbatim>\<open>ProxyConfig\<close>, the same three fields\<close>
  sp_catalogResources :: "string ResourceRequirements option"
  sp_postgresResources :: "string ResourceRequirements option"
  sp_sizeLimit :: "string option"

record Catalog =
  cat_name :: string
  cat_namespace :: string
  cat_uid :: string
  cat_generation :: int
  cat_resourceVersion :: string
  cat_annotations :: labels
  cat_finalizers :: "string list"
  cat_deletion :: "time option"
  cat_spec :: CatalogSpec
  cat_status :: CatalogStatus

abbreviation conds :: "Catalog \<Rightarrow> condition list" where
  "conds c \<equiv> st_conditions (cat_status c)"

abbreviation activation :: "Catalog \<Rightarrow> CatalogActivationStatus option" where
  "activation c \<equiv> st_activation (cat_status c)"

abbreviation cfind :: "cond_api \<Rightarrow> Catalog \<Rightarrow> string \<Rightarrow> condition option" where
  "cfind A c t \<equiv> findc A (conds c) t"

section \<open>ImageStreams (\<^verbatim>\<open>github.com/openshift/api/image/v1\<close>)\<close>

record ObjectReference =
  ref_kind :: string
  ref_name :: string

record TagReference =
  tr_name :: string
  tr_annotations :: "labels option"
  tr_from :: "ObjectReference option"
  tr_reference :: bool
  tr_generation :: "int option"
  tr_importPolicy :: string
  tr_referencePolicy :: string

record TagEvent =
  te_dockerImageReference :: string
  te_image :: string
  te_generation :: int

record TagEventCondition =
  tc_type :: string
  tc_status :: string
  tc_reason :: string
  tc_message :: string
  tc_generation :: int

record NamedTagEventList =
  nt_tag :: string
  nt_items :: "TagEvent list"
  nt_conditions :: "TagEventCondition list"

record ImageStream =
  is_name :: string
  is_namespace :: string
  is_uid :: string
  is_labels :: labels
  is_controller :: "string option"
  is_specTags :: "TagReference list"
  is_statusTags :: "NamedTagEventList list"

section \<open>Template parameters\<close>

record LabeledSource =
  ls_name :: string

record CatalogParams =
  cp_name :: string
  cp_namespace :: string
  cp_component :: string
  cp_catalogDataImage :: string
  cp_benchmarkDataImage :: string
  cp_activationBlocked :: bool
  cp_allowLegacyRuntimeFile :: bool
  cp_activationAttempt :: string
  cp_imageImportEvidence :: string
  cp_dataImageStreamName :: string
  cp_dataImageStreamSource :: string
  cp_adminGroups :: "string list"
  cp_labeledSources :: "LabeledSource list"
  cp_hfSources :: "HFSource list"
  cp_hfSecretsHash :: string
  cp_postgresSecretHash :: string
  cp_proxyTLSArgs :: "string list"
  cp_proxy :: "ClusterProxy option"
  cp_postgresImage :: string
  cp_postgresResources :: "string ResourceRequirements option"
  cp_catalogResources :: "string ResourceRequirements option"
  cp_sizeLimit :: "string option"
  cp_gateway :: "string \<times> string \<times> string" \<comment> \<open>domain, name, namespace\<close>
  cp_httpRouteNamespace :: string
  cp_applicationsNamespace :: string

section \<open>Condition types\<close>

definition conditionCatalogReady :: string where "conditionCatalogReady = ''Ready''"
definition conditionImageSelectionReady :: string where "conditionImageSelectionReady = ''ImageSelectionReady''"
definition conditionWorkloadAvailable :: string where "conditionWorkloadAvailable = ''WorkloadAvailable''"
definition conditionDataImageResolved :: string where "conditionDataImageResolved = ''DataImageResolved''"
definition conditionDataImageImportHealthy :: string where "conditionDataImageImportHealthy = ''DataImageImportHealthy''"
definition conditionDataImageUpdateBlocked :: string where "conditionDataImageUpdateBlocked = ''DataImageUpdateBlocked''"
definition conditionDataImageActivationFailed :: string where "conditionDataImageActivationFailed = ''DataImageActivationFailed''"
definition conditionDataActivationReady :: string where "conditionDataActivationReady = ''DataActivationReady''"
definition CatalogDataImageResolved :: string where "CatalogDataImageResolved = ''CatalogDataImageResolved''"
definition CatalogDataImageImportHealthy :: string where "CatalogDataImageImportHealthy = ''CatalogDataImageImportHealthy''"
definition BenchmarkDataImageResolved :: string where "BenchmarkDataImageResolved = ''BenchmarkDataImageResolved''"
definition BenchmarkDataImageImportHealthy :: string where "BenchmarkDataImageImportHealthy = ''BenchmarkDataImageImportHealthy''"

definition catalogFinalizer :: string where "catalogFinalizer = ''catalog.aihub.opendatahub.io/finalizer''"
definition catalogResourceName :: string where "catalogResourceName = ''model-catalog''"
definition catalogDataImageStreamTag :: string where "catalogDataImageStreamTag = ''stable''"

definition setCatalogDataImageCondition ::
  "cond_api \<Rightarrow> time \<Rightarrow> string \<Rightarrow> string \<Rightarrow> string \<Rightarrow> string \<Rightarrow> Catalog \<Rightarrow> Catalog" where
  "setCatalogDataImageCondition A now conditionType status reason message catalog =
     catalog\<lparr>cat_status := (cat_status catalog)\<lparr>st_conditions :=
       setc A now (conds catalog) \<lparr>cond_type = conditionType, cond_status = status, cond_reason = reason,
         cond_message = message, cond_observedGeneration = cat_generation catalog,
         cond_lastTransition = 0\<rparr>\<rparr>\<rparr>"

section \<open>Lemmas\<close>

lemma condition_types_distinct:
  "distinct [ConditionTypeAvailable, ConditionTypeDegraded, conditionCatalogReady,
     conditionImageSelectionReady, conditionWorkloadAvailable,
     conditionDataImageResolved, conditionDataImageImportHealthy,
     conditionDataImageUpdateBlocked, conditionDataImageActivationFailed,
     conditionDataActivationReady, CatalogDataImageResolved,
     CatalogDataImageImportHealthy, BenchmarkDataImageResolved,
     BenchmarkDataImageImportHealthy]"
  by code_simp

lemma condition_types_distinct_rev:
  "distinct [BenchmarkDataImageImportHealthy, BenchmarkDataImageResolved,
     CatalogDataImageImportHealthy, CatalogDataImageResolved,
     conditionDataActivationReady, conditionDataImageActivationFailed,
     conditionDataImageUpdateBlocked, conditionDataImageImportHealthy,
     conditionDataImageResolved, conditionWorkloadAvailable,
     conditionImageSelectionReady, conditionCatalogReady, ConditionTypeDegraded,
     ConditionTypeAvailable]"
  by code_simp

lemmas condition_types_neq [cond_neq] =
  condition_types_distinct[simplified distinct.simps list.set insert_iff empty_iff simp_thms de_Morgan_disj]
  condition_types_distinct_rev[simplified distinct.simps list.set insert_iff empty_iff simp_thms de_Morgan_disj]

declare condition_types_neq [simp]

lemma set_condition_frame [simp]:
  "cat_generation (setCatalogDataImageCondition A now t s r m c) = cat_generation c"
  "cat_spec (setCatalogDataImageCondition A now t s r m c) = cat_spec c"
  "cat_name (setCatalogDataImageCondition A now t s r m c) = cat_name c"
  "cat_namespace (setCatalogDataImageCondition A now t s r m c) = cat_namespace c"
  "cat_uid (setCatalogDataImageCondition A now t s r m c) = cat_uid c"
  "cat_annotations (setCatalogDataImageCondition A now t s r m c) = cat_annotations c"
  "cat_finalizers (setCatalogDataImageCondition A now t s r m c) = cat_finalizers c"
  "cat_deletion (setCatalogDataImageCondition A now t s r m c) = cat_deletion c"
  "cat_resourceVersion (setCatalogDataImageCondition A now t s r m c) = cat_resourceVersion c"
  "activation (setCatalogDataImageCondition A now t s r m c) = activation c"
  "st_resolvedImages (cat_status (setCatalogDataImageCondition A now t s r m c)) = st_resolvedImages (cat_status c)"
  "st_observedGeneration (cat_status (setCatalogDataImageCondition A now t s r m c)) = st_observedGeneration (cat_status c)"
  by (simp_all add: setCatalogDataImageCondition_def)

text \<open>The condition a client sees after the operator set one of them.\<close>

definition new_condition :: "Catalog \<Rightarrow> string \<Rightarrow> string \<Rightarrow> string \<Rightarrow> string \<Rightarrow> condition" where
  "new_condition c t s r m = \<lparr>cond_type = t, cond_status = s, cond_reason = r, cond_message = m,
     cond_observedGeneration = cat_generation c, cond_lastTransition = 0\<rparr>"

lemma new_condition_fields [simp]:
  "cond_type (new_condition c t s r m) = t"
  "cond_status (new_condition c t s r m) = s"
  "cond_reason (new_condition c t s r m) = r"
  "cond_message (new_condition c t s r m) = m"
  "cond_observedGeneration (new_condition c t s r m) = cat_generation c"
  by (simp_all add: new_condition_def)

context conditions_api
begin

lemma find_after_set:
  "cfind A (setCatalogDataImageCondition A now t s r m c) u =
     (if u = t then Some (stamp now (cfind A c t) (new_condition c t s r m)) else cfind A c u)"
  by (simp add: setCatalogDataImageCondition_def new_condition_def find_set)

end

end
