(* ===== verification/Catalog_Status.thy ===== *)
theory Catalog_Status
  imports Catalog_Types
begin

text \<open>
  \<^verbatim>\<open>internal/controller/catalog_image_status.go\<close>: the one reducer that owns the Catalog's
  readiness. It reads the conditions that the image resolver, the activation protocol and the
  workload check left, and writes \<^verbatim>\<open>ImageSelectionReady\<close>, \<^verbatim>\<open>Degraded\<close>, \<^verbatim>\<open>Ready\<close> and
  \<^verbatim>\<open>Available\<close>. The three verdicts are the three blocks of the Go function.
\<close>

type_synonym verdict = "string \<times> string \<times> string" \<comment> \<open>status, reason, message\<close>

definition selection_verdict :: "cond_api \<Rightarrow> Catalog \<Rightarrow> verdict" where
  "selection_verdict A catalog =
     (let pending = (ConditionUnknown, ''SelectionPending'', ''Waiting for current image resolution'') in
      case cfind A catalog conditionDataImageResolved of
        None \<Rightarrow> pending
      | Some resolved \<Rightarrow>
          if cond_observedGeneration resolved = cat_generation catalog then
            ((if cond_reason resolved = ''NoSuccessfulImport'' then ConditionUnknown
              else cond_status resolved),
             cond_reason resolved, cond_message resolved)
          else pending)"

definition activation_failed :: "cond_api \<Rightarrow> Catalog \<Rightarrow> bool" where
  "activation_failed A catalog = isConditionTrue A (conds catalog) conditionDataImageActivationFailed"

definition degraded_verdict :: "cond_api \<Rightarrow> Catalog \<Rightarrow> verdict \<Rightarrow> verdict" where
  "degraded_verdict A catalog sel =
     (let (selectionStatus, reason, message) = sel;
          healthy = (ConditionFalse, ''DataImagesHealthy'',
                     ''Data image selection and imports have no reported failures'');
          d = (if selectionStatus = ConditionFalse then (ConditionTrue, reason, message)
               else case cfind A catalog conditionDataImageUpdateBlocked of
                 None \<Rightarrow> healthy
               | Some blocked \<Rightarrow>
                   if cond_observedGeneration blocked = cat_generation catalog
                      \<and> cond_status blocked = ConditionTrue
                   then (case cfind A catalog ConditionTypeDegraded of
                           None \<Rightarrow> healthy
                         | Some previous \<Rightarrow>
                             if cond_status previous = ConditionTrue
                             then (cond_status previous, cond_reason previous, cond_message previous)
                             else healthy)
                   else healthy)
      in case cfind A catalog conditionDataImageActivationFailed of
           None \<Rightarrow> d
         | Some activationFailure \<Rightarrow>
             if cond_status activationFailure = ConditionTrue \<and> fst d = ConditionFalse
             then (ConditionTrue, cond_reason activationFailure, cond_message activationFailure)
             else d)"

text \<open>A workload that is current (observed at this generation) and, for readiness, healthy.\<close>

definition workload_verdict :: "cond_api \<Rightarrow> Catalog \<Rightarrow> verdict" where
  "workload_verdict A catalog =
     (case cfind A catalog conditionWorkloadAvailable of
        None \<Rightarrow> (ConditionFalse, ''WorkloadPending'', ''Waiting for healthy Catalog resources'')
      | Some workload \<Rightarrow>
          if cond_observedGeneration workload = cat_generation catalog
          then ((if cond_status workload = ConditionTrue then ConditionTrue else ConditionFalse),
                cond_reason workload, cond_message workload)
          else (ConditionFalse, ''WorkloadPending'', ''Waiting for healthy Catalog resources''))"

definition activation_current :: "cond_api \<Rightarrow> Catalog \<Rightarrow> bool" where
  "activation_current A catalog =
     (case activation catalog of None \<Rightarrow> False
      | Some a \<Rightarrow> act_state a = ''Succeeded'' \<and>
         (case cfind A catalog conditionDataActivationReady of None \<Rightarrow> False
          | Some r \<Rightarrow> cond_status r = ConditionTrue \<and> cond_observedGeneration r = cat_generation catalog))"

definition ready_verdict :: "cond_api \<Rightarrow> Catalog \<Rightarrow> verdict \<Rightarrow> verdict" where
  "ready_verdict A catalog sel =
     (let (selectionStatus, reason, message) = sel;
          v = (if selectionStatus = ConditionFalse then (ConditionFalse, ''DataImagesUnavailable'', message)
               else if selectionStatus = ConditionTrue then workload_verdict A catalog
               else (ConditionFalse, reason, message));
          v = (if \<not> activation_current A catalog \<and> selectionStatus = ConditionTrue
                  \<and> fst (snd v) \<noteq> ReasonResourcesUnavailable
               then (ConditionFalse, ''ActivationPending'',
                     ''Waiting for validation and current-attempt workload readiness'')
               else v)
      in case cfind A catalog conditionDataImageActivationFailed of
           None \<Rightarrow> v
         | Some activationFailure \<Rightarrow>
             if cond_status activationFailure = ConditionTrue \<and> selectionStatus \<noteq> ConditionFalse
             then (ConditionFalse, cond_reason activationFailure, cond_message activationFailure)
             else v)"

definition set_verdict :: "cond_api \<Rightarrow> time \<Rightarrow> string \<Rightarrow> verdict \<Rightarrow> Catalog \<Rightarrow> Catalog" where
  "set_verdict A now t v = (case v of (s, r, m) \<Rightarrow> setCatalogDataImageCondition A now t s r m)"

definition reduceCatalogImageReadiness :: "cond_api \<Rightarrow> time \<Rightarrow> Catalog \<Rightarrow> Catalog" where
  "reduceCatalogImageReadiness A now catalog =
     (let c0 = catalog\<lparr>cat_status := (cat_status catalog)\<lparr>st_observedGeneration := cat_generation catalog\<rparr>\<rparr>;
          sel = selection_verdict A c0;
          c1 = set_verdict A now conditionImageSelectionReady sel c0;
          c2 = set_verdict A now ConditionTypeDegraded (degraded_verdict A c1 sel) c1;
          ready = ready_verdict A c2 sel;
          c3 = set_verdict A now conditionCatalogReady ready c2
      in set_verdict A now ConditionTypeAvailable ready c3)"

section \<open>Properties\<close>

lemma set_verdict_frame [simp]:
  "cat_generation (set_verdict A now t v c) = cat_generation c"
  "cat_spec (set_verdict A now t v c) = cat_spec c"
  "activation (set_verdict A now t v c) = activation c"
  "cat_uid (set_verdict A now t v c) = cat_uid c"
  "cat_name (set_verdict A now t v c) = cat_name c"
  "cat_namespace (set_verdict A now t v c) = cat_namespace c"
  "cat_annotations (set_verdict A now t v c) = cat_annotations c"
  "st_resolvedImages (cat_status (set_verdict A now t v c)) = st_resolvedImages (cat_status c)"
  "st_observedGeneration (cat_status (set_verdict A now t v c)) = st_observedGeneration (cat_status c)"
  by (simp_all add: set_verdict_def split: prod.splits)

lemma reduce_frame [simp]:
  "cat_generation (reduceCatalogImageReadiness A now c) = cat_generation c"
  "cat_spec (reduceCatalogImageReadiness A now c) = cat_spec c"
  "activation (reduceCatalogImageReadiness A now c) = activation c"
  "cat_uid (reduceCatalogImageReadiness A now c) = cat_uid c"
  "cat_name (reduceCatalogImageReadiness A now c) = cat_name c"
  "cat_namespace (reduceCatalogImageReadiness A now c) = cat_namespace c"
  "cat_annotations (reduceCatalogImageReadiness A now c) = cat_annotations c"
  "st_resolvedImages (cat_status (reduceCatalogImageReadiness A now c)) = st_resolvedImages (cat_status c)"
  "st_observedGeneration (cat_status (reduceCatalogImageReadiness A now c)) = cat_generation c"
  by (simp_all add: reduceCatalogImageReadiness_def Let_def)

definition verdict_condition :: "Catalog \<Rightarrow> string \<Rightarrow> verdict \<Rightarrow> condition" where
  "verdict_condition c t v = (case v of (s, r, m) \<Rightarrow> new_condition c t s r m)"

lemma verdict_condition_fields [simp]:
  "cond_type (verdict_condition c t v) = t"
  "cond_status (verdict_condition c t v) = fst v"
  "cond_reason (verdict_condition c t v) = fst (snd v)"
  "cond_message (verdict_condition c t v) = snd (snd v)"
  "cond_observedGeneration (verdict_condition c t v) = cat_generation c"
  by (simp_all add: verdict_condition_def split: prod.splits)

lemma verdict_condition_fresh [simp]: "cond_lastTransition (verdict_condition c t v) = 0"
  by (simp add: verdict_condition_def new_condition_def split: prod.splits)

context conditions_api
begin

lemma find_after_verdict:
  "cfind A (set_verdict A now t v c) u =
     (if u = t then Some (stamp now (cfind A c t) (verdict_condition c t v)) else cfind A c u)"
  by (simp add: set_verdict_def verdict_condition_def find_after_set split: prod.splits)

text \<open>The verdicts only read conditions the reducer does not write, \<^verbatim>\<open>Degraded\<close> apart.\<close>

lemma verdict_cong:
  assumes "\<And>t. t \<notin> {conditionImageSelectionReady, ConditionTypeDegraded, conditionCatalogReady,
      ConditionTypeAvailable} \<Longrightarrow> cfind A c t = cfind A d t"
    and "cat_generation c = cat_generation d" and "activation c = activation d"
  shows "selection_verdict A c = selection_verdict A d"
    and "ready_verdict A c sel = ready_verdict A d sel"
    and "activation_failed A c = activation_failed A d"
proof -
  have eq: "cfind A c t = cfind A d t"
    if "t \<in> {conditionDataImageResolved, conditionWorkloadAvailable, conditionDataActivationReady,
      conditionDataImageActivationFailed}" for t
    using that by (intro assms(1)) auto
  show "selection_verdict A c = selection_verdict A d"
    by (simp add: selection_verdict_def eq assms(2) Let_def split: option.split)
  have "workload_verdict A c = workload_verdict A d"
    by (simp add: workload_verdict_def eq assms(2) split: option.split)
  moreover have "activation_current A c = activation_current A d"
    by (simp add: activation_current_def eq assms(2,3) split: option.split)
  ultimately show "ready_verdict A c sel = ready_verdict A d sel"
    by (simp add: ready_verdict_def eq Let_def split: prod.split option.split)
  show "activation_failed A c = activation_failed A d"
    by (simp add: activation_failed_def isConditionTrue_def eq)
qed

lemma reduce_keeps:
  "t \<notin> {conditionImageSelectionReady, ConditionTypeDegraded, conditionCatalogReady, ConditionTypeAvailable}
   \<Longrightarrow> cfind A (reduceCatalogImageReadiness A now c) t = cfind A c t"
  by (simp add: reduceCatalogImageReadiness_def Let_def find_after_verdict)

lemma reduce_find:
  "cfind A (reduceCatalogImageReadiness A now c) conditionImageSelectionReady =
     Some (stamp now (cfind A c conditionImageSelectionReady) (verdict_condition c conditionImageSelectionReady (selection_verdict A c)))"
  "cfind A (reduceCatalogImageReadiness A now c) ConditionTypeDegraded =
     Some (stamp now (cfind A c ConditionTypeDegraded) (verdict_condition c ConditionTypeDegraded
       (degraded_verdict A c (selection_verdict A c))))"
  "cfind A (reduceCatalogImageReadiness A now c) conditionCatalogReady =
     Some (stamp now (cfind A c conditionCatalogReady) (verdict_condition c conditionCatalogReady
       (ready_verdict A c (selection_verdict A c))))"
  "cfind A (reduceCatalogImageReadiness A now c) ConditionTypeAvailable =
     Some (stamp now (cfind A c ConditionTypeAvailable) (verdict_condition c ConditionTypeAvailable
       (ready_verdict A c (selection_verdict A c))))"
proof -
  let ?c0 = "c\<lparr>cat_status := (cat_status c)\<lparr>st_observedGeneration := cat_generation c\<rparr>\<rparr>"
  let ?sel = "selection_verdict A c"
  let ?c1 = "set_verdict A now conditionImageSelectionReady ?sel ?c0"
  let ?c2 = "set_verdict A now ConditionTypeDegraded (degraded_verdict A c ?sel) ?c1"
  let ?c3 = "set_verdict A now conditionCatalogReady (ready_verdict A c ?sel) ?c2"
  have sel: "selection_verdict A ?c0 = ?sel" by (rule verdict_cong) auto
  have deg: "degraded_verdict A ?c1 ?sel = degraded_verdict A c ?sel"
    by (simp add: degraded_verdict_def find_after_verdict Let_def split: prod.split option.split)
  have ready: "ready_verdict A ?c2 ?sel = ready_verdict A c ?sel"
    by (rule verdict_cong) (auto simp: find_after_verdict)
  have same: "verdict_condition ?c0 t v = verdict_condition c t v"
      "verdict_condition (set_verdict A now u w d) t v = verdict_condition d t v" for t v u w d
    by (simp_all add: verdict_condition_def new_condition_def split: prod.splits)
  have r: "reduceCatalogImageReadiness A now c
      = set_verdict A now ConditionTypeAvailable (ready_verdict A c ?sel) ?c3"
    by (simp only: reduceCatalogImageReadiness_def Let_def sel deg ready)
  show "cfind A (reduceCatalogImageReadiness A now c) conditionImageSelectionReady =
      Some (stamp now (cfind A c conditionImageSelectionReady) (verdict_condition c conditionImageSelectionReady ?sel))"
    by (simp add: r find_after_verdict same)
  show "cfind A (reduceCatalogImageReadiness A now c) ConditionTypeDegraded =
      Some (stamp now (cfind A c ConditionTypeDegraded) (verdict_condition c ConditionTypeDegraded (degraded_verdict A c ?sel)))"
    by (simp add: r find_after_verdict same)
  show "cfind A (reduceCatalogImageReadiness A now c) conditionCatalogReady =
      Some (stamp now (cfind A c conditionCatalogReady) (verdict_condition c conditionCatalogReady (ready_verdict A c ?sel)))"
    by (simp add: r find_after_verdict same)
  show "cfind A (reduceCatalogImageReadiness A now c) ConditionTypeAvailable =
      Some (stamp now (cfind A c ConditionTypeAvailable) (verdict_condition c ConditionTypeAvailable (ready_verdict A c ?sel)))"
    by (simp add: r find_after_verdict same)
qed

lemma reduce_status:
  "isConditionTrue A (conds (reduceCatalogImageReadiness A now c)) conditionCatalogReady
     \<longleftrightarrow> fst (ready_verdict A c (selection_verdict A c)) = ConditionTrue"
  "isConditionTrue A (conds (reduceCatalogImageReadiness A now c)) ConditionTypeAvailable
     \<longleftrightarrow> fst (ready_verdict A c (selection_verdict A c)) = ConditionTrue"
  "isConditionTrue A (conds (reduceCatalogImageReadiness A now c)) conditionImageSelectionReady
     \<longleftrightarrow> fst (selection_verdict A c) = ConditionTrue"
  "isConditionTrue A (conds (reduceCatalogImageReadiness A now c)) ConditionTypeDegraded
     \<longleftrightarrow> fst (degraded_verdict A c (selection_verdict A c)) = ConditionTrue"
  by (simp_all add: isConditionTrue_def reduce_find)

lemma reduce_cong:
  "selection_verdict A (reduceCatalogImageReadiness A now c) = selection_verdict A c"
  "ready_verdict A (reduceCatalogImageReadiness A now c) sel = ready_verdict A c sel"
  by (rule verdict_cong; auto simp: reduce_keeps)+

lemma degraded_stable:
  "degraded_verdict A (reduceCatalogImageReadiness A now c) (selection_verdict A c)
     = degraded_verdict A c (selection_verdict A c)"
proof -
  obtain s r m where sel: "selection_verdict A c = (s, r, m)" by (cases "selection_verdict A c") auto
  let ?d = "degraded_verdict A c (s, r, m)"
  have "degraded_verdict A (reduceCatalogImageReadiness A now c) (s, r, m) = ?d"
    if "s \<noteq> ConditionFalse"
    using that
    by (cases "cfind A c conditionDataImageUpdateBlocked"; cases "cfind A c ConditionTypeDegraded";
        cases "cfind A c conditionDataImageActivationFailed")
      (simp_all add: degraded_verdict_def Let_def reduce_find reduce_keeps sel)
  moreover have "degraded_verdict A (reduceCatalogImageReadiness A now c) (s, r, m) = ?d"
    if "s = ConditionFalse"
    using that by (simp add: degraded_verdict_def Let_def reduce_keeps split: option.splits)
  ultimately show ?thesis using sel by auto
qed

lemma reduce_stable:
  "cfind A (reduceCatalogImageReadiness A later (reduceCatalogImageReadiness A now c)) t
     = cfind A (reduceCatalogImageReadiness A now c) t"
proof -
  let ?W = "{conditionImageSelectionReady, ConditionTypeDegraded, conditionCatalogReady, ConditionTypeAvailable}"
  have vc: "verdict_condition (reduceCatalogImageReadiness A now c) u v = verdict_condition c u v" for u v
    by (simp add: verdict_condition_def new_condition_def)
  show ?thesis
  proof (cases "t \<in> ?W")
    case True
    then show ?thesis
      by (elim insertE emptyE)
        (simp_all add: reduce_find reduce_cong degraded_stable vc stamp_again verdict_condition_fresh)
  qed (simp add: reduce_keeps)
qed

end

text \<open>What the reducer asks of a condition before it trusts it: it is true, and of this generation.\<close>

definition current_true :: "cond_api \<Rightarrow> Catalog \<Rightarrow> string \<Rightarrow> bool" where
  "current_true A c t = (case cfind A c t of None \<Rightarrow> False
     | Some x \<Rightarrow> cond_status x = ConditionTrue \<and> cond_observedGeneration x = cat_generation c)"

definition reason_of :: "cond_api \<Rightarrow> Catalog \<Rightarrow> string \<Rightarrow> string" where
  "reason_of A c t = (case cfind A c t of None \<Rightarrow> [] | Some x \<Rightarrow> cond_reason x)"

lemma selection_true_iff:
  "fst (selection_verdict A c) = ConditionTrue \<longleftrightarrow>
     current_true A c conditionDataImageResolved
     \<and> reason_of A c conditionDataImageResolved \<noteq> ''NoSuccessfulImport''"
  by (auto simp: selection_verdict_def current_true_def reason_of_def Let_def split: option.splits)

lemma workload_true_iff:
  "fst (workload_verdict A c) = ConditionTrue \<longleftrightarrow> current_true A c conditionWorkloadAvailable"
  by (auto simp: workload_verdict_def current_true_def split: option.splits)

lemma workload_reason:
  "current_true A c conditionWorkloadAvailable \<Longrightarrow>
     fst (snd (workload_verdict A c)) = reason_of A c conditionWorkloadAvailable"
  by (auto simp: workload_verdict_def current_true_def reason_of_def split: option.splits)

lemma ready_true_iff:
  "fst (ready_verdict A c sel) = ConditionTrue \<longleftrightarrow>
     fst sel = ConditionTrue \<and> current_true A c conditionWorkloadAvailable
     \<and> (activation_current A c \<or> reason_of A c conditionWorkloadAvailable = ReasonResourcesUnavailable)
     \<and> \<not> activation_failed A c"
proof -
  obtain s r m where sel: "sel = (s, r, m)" by (cases sel) auto
  show ?thesis
    using workload_true_iff[of A c] workload_reason[of A c]
    by (cases "cfind A c conditionDataImageActivationFailed")
      (auto simp: sel ready_verdict_def activation_failed_def isConditionTrue_def Let_def)
qed

text \<open>
  C3: what Ready means. After the reducer ran, the Catalog is Ready exactly when the image
  selection is resolved for this generation, the workload is available for this generation,
  the activation of this generation succeeded, and no activation failure is recorded. The
  hypothesis is that an available workload is not reported with the reason of an unavailable
  one: the controller only ever writes \<^verbatim>\<open>ResourcesUnavailable\<close> into this condition together with
  the status false. \<open>Available\<close> always carries the same verdict.
\<close>

theorem catalog_ready_iff:
  assumes "conditions_api A"
    and "reason_of A c conditionWorkloadAvailable = ReasonResourcesUnavailable
         \<Longrightarrow> \<not> current_true A c conditionWorkloadAvailable"
  shows "(isConditionTrue A (conds (reduceCatalogImageReadiness A now c)) conditionCatalogReady \<longleftrightarrow>
      current_true A c conditionDataImageResolved
      \<and> reason_of A c conditionDataImageResolved \<noteq> ''NoSuccessfulImport''
      \<and> current_true A c conditionWorkloadAvailable
      \<and> activation_current A c
      \<and> \<not> isConditionTrue A (conds c) conditionDataImageActivationFailed)
    \<and> (isConditionTrue A (conds (reduceCatalogImageReadiness A now c)) ConditionTypeAvailable \<longleftrightarrow>
      isConditionTrue A (conds (reduceCatalogImageReadiness A now c)) conditionCatalogReady)"
  using assms(2)
  by (auto simp: conditions_api.reduce_status[OF assms(1)] ready_true_iff selection_true_iff
      activation_failed_def)

text \<open>A Catalog that meets the conditions, used by the witnesses below.\<close>

definition sample_condition :: "string \<Rightarrow> string \<Rightarrow> string \<Rightarrow> condition" where
  "sample_condition t s r = \<lparr>cond_type = t, cond_status = s, cond_reason = r, cond_message = [],
     cond_observedGeneration = 3, cond_lastTransition = 7\<rparr>"

definition sample_images :: CatalogDataImages where
  "sample_images = \<lparr>img_catalog = ''quay.io/a/b:c'', img_benchmark = ''quay.io/a/d:e''\<rparr>"

definition sample_activation :: "string \<Rightarrow> CatalogActivationStatus" where
  "sample_activation state = \<lparr>act_catalogUID = ''u'', act_attemptID = ''a1'', act_requestHash = ''h'',
     act_requestedImages = sample_images, act_images = sample_images, act_state = state, act_stage = [],
     act_reason = [], act_message = [], act_startedAt = 5, act_recoveredAt = None, act_lastSuccessful = None\<rparr>"

definition sample_catalog :: "CatalogActivationStatus option \<Rightarrow> condition list \<Rightarrow> Catalog" where
  "sample_catalog a cs = \<lparr>cat_name = ''model-catalog'', cat_namespace = ''ns'', cat_uid = ''u'',
     cat_generation = 3, cat_resourceVersion = ''1'', cat_annotations = Map.empty, cat_finalizers = [],
     cat_deletion = None,
     cat_spec = \<lparr>sp_catalogDataImageStream = None, sp_benchmarkDataImageStream = None, sp_proxy = None,
       sp_catalogResources = None, sp_postgresResources = None, sp_sizeLimit = None\<rparr>,
     cat_status = \<lparr>st_activation = a, st_conditions = cs, st_resolvedImages = None,
       st_observedGeneration = 0\<rparr>\<rparr>"

lemmas sample_defs = sample_condition_def sample_images_def sample_activation_def sample_catalog_def

definition ready_sample :: Catalog where
  "ready_sample = sample_catalog (Some (sample_activation ''Succeeded''))
     [sample_condition conditionDataImageResolved ''True'' ''Resolved'',
      sample_condition conditionWorkloadAvailable ''True'' ''ResourcesAvailable'',
      sample_condition conditionDataActivationReady ''True'' ''Activated'']"

lemma ready_sample_current:
  "current_true list_conditions ready_sample conditionDataImageResolved"
  "reason_of list_conditions ready_sample conditionDataImageResolved \<noteq> ''NoSuccessfulImport''"
  "current_true list_conditions ready_sample conditionWorkloadAvailable"
  "reason_of list_conditions ready_sample conditionWorkloadAvailable \<noteq> ReasonResourcesUnavailable"
  "activation_current list_conditions ready_sample"
  "\<not> isConditionTrue list_conditions (conds ready_sample) conditionDataImageActivationFailed"
  by code_simp+

theorem catalog_ready_iff_witness:
  "isConditionTrue list_conditions (conds (reduceCatalogImageReadiness list_conditions 9 ready_sample))
     conditionCatalogReady"
  using catalog_ready_iff[OF lc.conditions_api_axioms, of ready_sample 9] ready_sample_current by simp

text \<open>
  The reducer is stable. Running it again, even later, changes no condition and no other
  field a client can read, so a reconcile loop over an unchanged cluster reaches a fixed point
  after one pass and transition times do not move.
\<close>

theorem reduce_idempotent:
  assumes "conditions_api A"
  shows "findc A (conds (reduceCatalogImageReadiness A later (reduceCatalogImageReadiness A now c))) t
       = findc A (conds (reduceCatalogImageReadiness A now c)) t"
  by (rule conditions_api.reduce_stable[OF assms])

theorem reduce_idempotent_witness:
  "list_find (conds (reduceCatalogImageReadiness list_conditions 20
     (reduceCatalogImageReadiness list_conditions 9 ready_sample))) ''Ready''
   = list_find (conds (reduceCatalogImageReadiness list_conditions 9 ready_sample)) ''Ready''"
  using reduce_idempotent[OF lc.conditions_api_axioms, of 20 9 ready_sample "''Ready''"]
  by (simp add: list_conditions_def)

text \<open>
  A recorded activation failure is never masked. While \<^verbatim>\<open>DataImageActivationFailed\<close> is
  true, whatever its generation, the Catalog is reported Degraded and neither Ready nor
  Available, for every combination of the other conditions.
\<close>

theorem activation_failure_not_masked:
  assumes "conditions_api A"
    and "isConditionTrue A (conds c) conditionDataImageActivationFailed"
  shows "isConditionTrue A (conds (reduceCatalogImageReadiness A now c)) ConditionTypeDegraded
    \<and> \<not> isConditionTrue A (conds (reduceCatalogImageReadiness A now c)) conditionCatalogReady
    \<and> \<not> isConditionTrue A (conds (reduceCatalogImageReadiness A now c)) ConditionTypeAvailable"
proof -
  have "fst (degraded_verdict A c (selection_verdict A c)) = ConditionTrue"
    using assms(2)
    by (auto simp: degraded_verdict_def isConditionTrue_def Let_def split: option.splits prod.splits)
  then show ?thesis
    using assms(2)
    by (simp add: conditions_api.reduce_status[OF assms(1)] ready_true_iff activation_failed_def)
qed

theorem activation_failure_not_masked_witness:
  "isConditionTrue list_conditions
     (conds (reduceCatalogImageReadiness list_conditions 9
       (sample_catalog None [sample_condition conditionDataImageActivationFailed ''True'' ''ImportFailed''])))
     ConditionTypeDegraded"
proof -
  have "isConditionTrue list_conditions
     (conds (sample_catalog None [sample_condition conditionDataImageActivationFailed ''True'' ''ImportFailed'']))
     conditionDataImageActivationFailed" by code_simp
  then show ?thesis using activation_failure_not_masked[OF lc.conditions_api_axioms] by blast
qed

end
