(* ===== verification/Catalog_Images.thy ===== *)
theory Catalog_Images
  imports Catalog_Status
begin

text \<open>
  \<^verbatim>\<open>internal/controller/catalog_data_images.go\<close>: how a Catalog's two data images are chosen.
  A selection is empty (the release image), a digest (a pinned image of the trusted
  repository) or \<^verbatim>\<open>stable\<close> (follow an ImageStream). The resolver keeps the two targets
  independent, records a condition for each and reports a fault instead of falling back to
  historical imports. The API client, the template engine and \<^verbatim>\<open>strconv.Quote\<close> are the
  arguments of \<open>catalog_api\<close>.
\<close>

section \<open>Interfaces\<close>

record 'w catalog_api =
  ca_isOpenShift :: bool
  ca_quote :: "string \<Rightarrow> string"
  ca_applyStream :: "CatalogParams \<Rightarrow> go_error + ImageStream"
  ca_setControllerReference :: "Catalog \<Rightarrow> ImageStream \<Rightarrow> go_error + ImageStream"
  ca_createOrUpdateStream :: "key \<Rightarrow> (ImageStream \<Rightarrow> go_error + ImageStream) \<Rightarrow> ('w, ImageStream) call"
  ca_getDeployment :: "key \<Rightarrow> ('w, Deployment) call"
  ca_listCatalogs :: "string \<Rightarrow> ('w, Catalog list) call"
  ca_listEndpointSlices :: "string \<Rightarrow> string \<Rightarrow> ('w, EndpointSlice list) call"
  ca_listPods :: "string \<Rightarrow> labels \<Rightarrow> ('w, Pod list) call"

section \<open>Selections and sources\<close>

definition CatalogDataImageStreamName :: string where
  "CatalogDataImageStreamName = ''model-catalog-data''"
definition BenchmarkDataImageStreamName :: string where
  "BenchmarkDataImageStreamName = ''model-catalog-benchmark-data''"
definition managedDataImageSourceAnnotation :: string where
  "managedDataImageSourceAnnotation = ''aihub.opendatahub.io/managed-source''"

text \<open>The same regular expression as \<open>sha256DigestRe\<close>: \<^verbatim>\<open>^sha256:[a-f0-9]{64}$\<close>.\<close>

definition catalogDataDigestPattern :: "string \<Rightarrow> bool" where
  "catalogDataDigestPattern s = sha256DigestRe s"

definition dataImageSelection :: "(string \<Rightarrow> string) \<Rightarrow> string option \<Rightarrow> go_error + string" where
  "dataImageSelection quote selection =
     (case selection of None \<Rightarrow> Inr []
      | Some s \<Rightarrow>
          if s = [] then Inr []
          else if s \<noteq> catalogDataImageStreamTag \<and> \<not> catalogDataDigestPattern s
          then Inl (ErrorText (''unsupported data image selection '' @ quote s
                 @ '': use an empty field, stable, or a sha256 digest with 64 lowercase hexadecimal characters''))
          else Inr s)"

definition catalogDataImageSources :: "env \<Rightarrow> string \<times> string" where
  "catalogDataImageSources getenv =
     (GetStringConfigWithDefault getenv CatalogDataImageStreamSource
        (GetStringConfigWithDefault getenv CatalogDataImage DefaultCatalogDataImage),
      GetStringConfigWithDefault getenv BenchmarkDataImageStreamSource
        (GetStringConfigWithDefault getenv BenchmarkDataImage DefaultBenchmarkDataImage))"

definition benchmarkDataImageStreamName :: "env \<Rightarrow> string" where
  "benchmarkDataImageStreamName getenv =
     (let sources = catalogDataImageSources getenv in
      if fst sources = snd sources then CatalogDataImageStreamName else BenchmarkDataImageStreamName)"

section \<open>Reading an ImageStream\<close>

definition importedCatalogDataImage :: "TagEvent \<Rightarrow> string" where
  "importedCatalogDataImage item =
     (let (repository, digest, _) = cut (CHR ''@'') (te_dockerImageReference item);
          digest = (if te_image item \<noteq> [] then te_image item else digest)
      in if repository = [] \<or> \<not> catalogDataDigestPattern digest then []
         else let colon = lastIndexByte repository (CHR '':'');
                  repository = (if colon > lastIndexByte repository (CHR ''/'')
                                then take (nat colon) repository else repository)
              in repository @ ''@'' @ digest)"

text \<open>The first usable item of the first \<^verbatim>\<open>stable\<close> tag that has one.\<close>

fun first_imported :: "TagEvent list \<Rightarrow> string" where
  "first_imported [] = []"
| "first_imported (item # items) =
     (let img = importedCatalogDataImage item in if img \<noteq> [] then img else first_imported items)"

fun last_imported_of :: "NamedTagEventList list \<Rightarrow> string" where
  "last_imported_of [] = []"
| "last_imported_of (tag # tags) =
     (if nt_tag tag \<noteq> catalogDataImageStreamTag then last_imported_of tags
      else let img = first_imported (nt_items tag) in if img \<noteq> [] then img else last_imported_of tags)"

definition lastImportedCatalogDataImage :: "ImageStream \<Rightarrow> string" where
  "lastImportedCatalogDataImage stream = last_imported_of (is_statusTags stream)"

text \<open>
  The generation requested for the \<^verbatim>\<open>stable\<close> tag: of the first spec tag of that name that has
  one. Both the import health and the evidence look it up.
\<close>

definition requested_generation :: "ImageStream \<Rightarrow> int option" where
  "requested_generation stream =
     (case find (\<lambda>t. tr_name t = catalogDataImageStreamTag \<and> tr_generation t \<noteq> None) (is_specTags stream) of
        None \<Rightarrow> None | Some t \<Rightarrow> tr_generation t)"

text \<open>Status, reason and message of an import.\<close>

type_synonym import_health = "string \<times> string \<times> string"

definition import_failed :: "int \<Rightarrow> TagEventCondition \<Rightarrow> bool" where
  "import_failed generation imported =
     (tc_type imported = ''ImportSuccess'' \<and> tc_status imported = ConditionFalse
      \<and> tc_generation imported \<ge> generation)"

definition import_failure :: "TagEventCondition \<Rightarrow> import_health" where
  "import_failure imported =
     (ConditionFalse, ''ImportFailed'',
      ''The standalone data image import failed; resolve the import or select valid images to permit rollout''
      @ (if tc_reason imported \<noteq> [] then '': '' @ tc_reason imported else [])
      @ (if tc_message imported \<noteq> [] then '': '' @ tc_message imported else []))"

definition import_pending :: import_health where
  "import_pending = (ConditionUnknown, ''ImportPending'', ''Waiting for the standalone data image import'')"

definition catalogDataImageImportHealth :: "ImageStream \<Rightarrow> import_health" where
  "catalogDataImageImportHealth stream =
     (let generation = (case requested_generation stream of None \<Rightarrow> 0 | Some g \<Rightarrow> g) in
      case find (\<lambda>t. nt_tag t = catalogDataImageStreamTag) (is_statusTags stream) of
        None \<Rightarrow> import_pending
      | Some tag \<Rightarrow>
          (case find (import_failed generation) (nt_conditions tag) of
             Some imported \<Rightarrow> import_failure imported
           | None \<Rightarrow>
               (case nt_items tag of
                  [] \<Rightarrow> import_pending
                | item # _ \<Rightarrow>
                    if te_generation item < generation then import_pending
                    else if importedCatalogDataImage item = [] then
                      (ConditionFalse, ''InvalidImportedImage'',
                       ''The standalone data ImageStream has no usable digest in its latest import; deployment containment is requested'')
                    else (ConditionTrue, ''ImportSucceeded'', ''The standalone data image import succeeded''))))"

definition catalogImageImportEvidence :: "(string \<Rightarrow> string) \<Rightarrow> ImageStream \<Rightarrow> string \<Rightarrow> string \<Rightarrow> string" where
  "catalogImageImportEvidence quote stream target status =
     (let generation = (if status \<noteq> ConditionTrue
            then (case requested_generation stream of None \<Rightarrow> [] | Some g \<Rightarrow> show_int g) else [])
      in quote (is_uid stream) @ '':'' @ quote target @ '':'' @ quote status @ '':'' @ quote generation @ '';'')"

section \<open>Reconciling an ImageStream\<close>

text \<open>
  The rendered template \<^verbatim>\<open>catalog-data-imagestream.yaml.tmpl\<close>. Rendering and decoding are the
  template engine's (\<open>ca_applyStream\<close>); this is the object the template describes, used where
  a concrete engine is needed.
\<close>

definition catalog_data_imagestream_tmpl :: "CatalogParams \<Rightarrow> ImageStream" where
  "catalog_data_imagestream_tmpl p =
     \<lparr>is_name = cp_dataImageStreamName p, is_namespace = cp_namespace p, is_uid = [],
      is_labels = [''app'' \<mapsto> cp_name p, ''component'' \<mapsto> ''model-catalog'',
        ''app.kubernetes.io/name'' \<mapsto> cp_name p, ''app.kubernetes.io/instance'' \<mapsto> cp_name p,
        ''app.kubernetes.io/component'' \<mapsto> ''model-catalog'',
        ''app.kubernetes.io/created-by'' \<mapsto> ''model-registry-operator'',
        ''app.kubernetes.io/part-of'' \<mapsto> ''model-catalog'',
        ''app.kubernetes.io/managed-by'' \<mapsto> ''model-registry-operator''],
      is_controller = None,
      is_specTags = [\<lparr>tr_name = catalogDataImageStreamTag,
        tr_annotations = Some [managedDataImageSourceAnnotation \<mapsto> cp_dataImageStreamSource p],
        tr_from = Some \<lparr>ref_kind = ''DockerImage'', ref_name = cp_dataImageStreamSource p\<rparr>,
        tr_reference = False, tr_generation = None,
        tr_importPolicy = ''scheduled PreserveOriginal'', tr_referencePolicy = ''Source''\<rparr>],
      is_statusTags = []\<rparr>"

text \<open>
  One desired tag merged into an existing tag of its name. \<open>src\<close> is what \<^verbatim>\<open>desiredTag.From\<close>
  points to.
\<close>

definition merge_tag :: "TagReference \<Rightarrow> ObjectReference \<Rightarrow> TagReference \<Rightarrow> TagReference" where
  "merge_tag desiredTag src tag =
     (let managedSource = (case tr_annotations tag of None \<Rightarrow> [] | Some m \<Rightarrow> mapget m managedDataImageSourceAnnotation);
          managed = (case tr_from tag of None \<Rightarrow> True
                     | Some f \<Rightarrow> ref_kind f = ''DockerImage'' \<and> ref_name f = managedSource);
          tag = (if managed \<and> tr_from tag \<noteq> Some src
                 then tag\<lparr>tr_from := Some src, tr_generation := Some 0\<rparr> else tag);
          tag = (if tr_from tag = Some src
                 then tag\<lparr>tr_annotations := Some ((case tr_annotations tag of None \<Rightarrow> Map.empty | Some m \<Rightarrow> m)
                            (managedDataImageSourceAnnotation \<mapsto> ref_name src))\<rparr>
                 else tag)
      in tag\<lparr>tr_reference := tr_reference desiredTag, tr_importPolicy := tr_importPolicy desiredTag,
             tr_referencePolicy := tr_referencePolicy desiredTag\<rparr>)"

text \<open>
  The loop over the desired tags: the first tag of the same name is updated in place, a
  missing one is appended. Reading through a nil \<^verbatim>\<open>desiredTag.From\<close> panics in Go, which the
  error stands for; the template sets every tag's source (\<open>tmpl_tags_have_source\<close>).
\<close>

fun update_first :: "string \<Rightarrow> (TagReference \<Rightarrow> TagReference) \<Rightarrow> TagReference list \<Rightarrow> TagReference list" where
  "update_first n f [] = []"
| "update_first n f (t # ts) = (if tr_name t = n then f t # ts else t # update_first n f ts)"

fun merge_tags :: "TagReference list \<Rightarrow> TagReference list \<Rightarrow> go_error + TagReference list" where
  "merge_tags [] tags = Inr tags"
| "merge_tags (desiredTag # ds) tags =
     (if \<forall>t \<in> set tags. tr_name t \<noteq> tr_name desiredTag then merge_tags ds (tags @ [desiredTag])
      else case tr_from desiredTag of
        None \<Rightarrow> Inl (ErrorText ''runtime error: invalid memory address or nil pointer dereference'')
      | Some src \<Rightarrow> merge_tags ds (update_first (tr_name desiredTag) (merge_tag desiredTag src) tags))"

definition mutateCatalogDataImageStream ::
  "(Catalog \<Rightarrow> ImageStream \<Rightarrow> go_error + ImageStream) \<Rightarrow> Catalog \<Rightarrow> ImageStream \<Rightarrow> ImageStream
   \<Rightarrow> go_error + ImageStream" where
  "mutateCatalogDataImageStream setControllerReference catalog desired stream =
     (let stream = stream\<lparr>is_labels := is_labels stream ++ is_labels desired\<rparr> in
      case setControllerReference catalog stream of
        Inl e \<Rightarrow> Inl e
      | Inr stream \<Rightarrow>
          (case merge_tags (is_specTags desired) (is_specTags stream) of
             Inl e \<Rightarrow> Inl e
           | Inr tags \<Rightarrow> Inr (stream\<lparr>is_specTags := tags\<rparr>)))"

definition ensureCatalogDataImageStreamForSource ::
  "'w catalog_api \<Rightarrow> Catalog \<Rightarrow> CatalogParams \<Rightarrow> string \<Rightarrow> string \<Rightarrow> ('w, ImageStream) call" where
  "ensureCatalogDataImageStreamForSource K catalog params name source w =
     (case ca_applyStream K (params\<lparr>cp_dataImageStreamName := name, cp_dataImageStreamSource := source\<rparr>) of
        Inl e \<Rightarrow> (Inl (Wrapped ''rendering catalog data ImageStream'' e), w)
      | Inr desired \<Rightarrow>
          (case ca_createOrUpdateStream K (is_namespace desired, is_name desired)
                  (mutateCatalogDataImageStream (ca_setControllerReference K) catalog desired) w of
             (Inl e, w') \<Rightarrow> (Inl (Wrapped ''reconciling catalog data ImageStream'' e), w')
           | (Inr stream, w') \<Rightarrow> (Inr stream, w')))"

definition ensureCatalogDataImageStream ::
  "'w catalog_api \<Rightarrow> env \<Rightarrow> Catalog \<Rightarrow> CatalogParams \<Rightarrow> ('w, ImageStream) call" where
  "ensureCatalogDataImageStream K getenv catalog params =
     ensureCatalogDataImageStreamForSource K catalog params CatalogDataImageStreamName
       (fst (catalogDataImageSources getenv))"

text \<open>The images of an existing deployment, read from its init containers.\<close>

fun applied_images :: "Container list \<Rightarrow> CatalogParams \<Rightarrow> CatalogParams" where
  "applied_images [] p = p"
| "applied_images (c # cs) p = applied_images cs
     (if c_name c = ''catalog-data-init'' then p\<lparr>cp_catalogDataImage := c_image c\<rparr>
      else if c_name c = ''benchmark-data-init'' then p\<lparr>cp_benchmarkDataImage := c_image c\<rparr> else p)"

definition retainAppliedCatalogDataImages ::
  "'w catalog_api \<Rightarrow> Catalog \<Rightarrow> CatalogParams \<Rightarrow> ('w, CatalogParams) call" where
  "retainAppliedCatalogDataImages K catalog params w =
     (case ca_getDeployment K (cat_namespace catalog, catalogResourceName) w of
        (Inl e, w') \<Rightarrow> (if isNotFound e then (Inr params, w')
           else (Inl (Wrapped ''reading applied catalog data images'' e), w'))
      | (Inr d, w') \<Rightarrow> (Inr (applied_images (d_initContainers d) params), w'))"

section \<open>The resolver\<close>

text \<open>
  The two rows of the Go table \<^verbatim>\<open>targets\<close>. \<open>tg_field\<close> is the parameter that \<^verbatim>\<open>target.image\<close>
  points to.
\<close>

datatype image_field = CatalogImageField | BenchmarkImageField

fun read_image :: "image_field \<Rightarrow> CatalogParams \<Rightarrow> string" where
  "read_image CatalogImageField p = cp_catalogDataImage p"
| "read_image BenchmarkImageField p = cp_benchmarkDataImage p"

fun write_image :: "image_field \<Rightarrow> string \<Rightarrow> CatalogParams \<Rightarrow> CatalogParams" where
  "write_image CatalogImageField v p = p\<lparr>cp_catalogDataImage := v\<rparr>"
| "write_image BenchmarkImageField v p = p\<lparr>cp_benchmarkDataImage := v\<rparr>"

record target =
  tg_name :: string
  tg_streamName :: string
  tg_source :: string
  tg_sourceEnv :: string
  tg_resolvedType :: string
  tg_healthType :: string
  tg_selection :: "string option"
  tg_field :: image_field

definition targets :: "env \<Rightarrow> Catalog \<Rightarrow> target list" where
  "targets getenv catalog =
     (let sources = catalogDataImageSources getenv in
      [\<lparr>tg_name = ''catalog'', tg_streamName = CatalogDataImageStreamName, tg_source = fst sources,
        tg_sourceEnv = CatalogDataImageStreamSource, tg_resolvedType = CatalogDataImageResolved,
        tg_healthType = CatalogDataImageImportHealthy,
        tg_selection = sp_catalogDataImageStream (cat_spec catalog), tg_field = CatalogImageField\<rparr>,
       \<lparr>tg_name = ''benchmark'', tg_streamName = benchmarkDataImageStreamName getenv, tg_source = snd sources,
        tg_sourceEnv = BenchmarkDataImageStreamSource, tg_resolvedType = BenchmarkDataImageResolved,
        tg_healthType = BenchmarkDataImageImportHealthy,
        tg_selection = sp_benchmarkDataImageStream (cat_spec catalog), tg_field = BenchmarkImageField\<rparr>])"

text \<open>What the loop over the targets updates.\<close>

record 'w rstate =
  rs_catalog :: Catalog
  rs_params :: CatalogParams
  rs_streams :: "string \<rightharpoonup> ImageStream"
  rs_causes :: "go_error list"
  rs_world :: 'w

text \<open>The closures \<^verbatim>\<open>resolved\<close> and \<^verbatim>\<open>health\<close>.\<close>

definition set_resolved :: "cond_api \<Rightarrow> time \<Rightarrow> target \<Rightarrow> string \<Rightarrow> string \<Rightarrow> string \<Rightarrow> 'w rstate \<Rightarrow> 'w rstate" where
  "set_resolved A now tg status reason message s =
     s\<lparr>rs_catalog := setCatalogDataImageCondition A now (tg_resolvedType tg) status reason
        (tg_name tg @ '': '' @ message) (rs_catalog s)\<rparr>"

definition set_health :: "cond_api \<Rightarrow> time \<Rightarrow> target \<Rightarrow> string \<Rightarrow> string \<Rightarrow> string \<Rightarrow> 'w rstate \<Rightarrow> 'w rstate" where
  "set_health A now tg status reason message s =
     s\<lparr>rs_catalog := setCatalogDataImageCondition A now (tg_healthType tg) status reason
        (tg_name tg @ '': '' @ message) (rs_catalog s)\<rparr>"

definition put_image :: "target \<Rightarrow> string \<Rightarrow> 'w rstate \<Rightarrow> 'w rstate" where
  "put_image tg v s = s\<lparr>rs_params := write_image (tg_field tg) v (rs_params s)\<rparr>"

definition awaiting_recovery :: "cond_api \<Rightarrow> Catalog \<Rightarrow> target \<Rightarrow> bool" where
  "awaiting_recovery A catalog tg =
     ((case cfind A catalog (tg_healthType tg) of None \<Rightarrow> False
       | Some h \<Rightarrow> cond_status h = ConditionFalse)
      \<or> (case cfind A catalog (tg_resolvedType tg) of None \<Rightarrow> False
         | Some r \<Rightarrow> cond_reason r = ''AwaitingSuccessfulImport''))"

definition imports_release :: "string \<Rightarrow> ImageStream \<Rightarrow> bool" where
  "imports_release releaseCatalogImage stream =
     list_ex (\<lambda>tag. tr_name tag = catalogDataImageStreamTag
        \<and> tr_from tag = Some \<lparr>ref_kind = ''DockerImage'', ref_name = releaseCatalogImage\<rparr>)
      (is_specTags stream)"

definition serving_previous :: "cond_api \<Rightarrow> Catalog \<Rightarrow> target \<Rightarrow> string \<Rightarrow> string \<Rightarrow> bool" where
  "serving_previous A catalog tg healthStatus previousImage =
     (healthStatus = ConditionUnknown \<and> \<not> awaiting_recovery A catalog tg
      \<and> (case cfind A catalog (tg_resolvedType tg) of None \<Rightarrow> False
         | Some r \<Rightarrow> cond_observedGeneration r = cat_generation catalog
                    \<and> cond_reason r = ''ImageStreamResolved'')
      \<and> previousImage \<noteq> []
      \<and> (case activation catalog of None \<Rightarrow> False
         | Some a \<Rightarrow> act_state a = ''Succeeded''
             \<and> ((tg_name tg = ''catalog'' \<and> img_catalog (act_requestedImages a) = previousImage)
                \<or> (tg_name tg = ''benchmark'' \<and> img_benchmark (act_requestedImages a) = previousImage))))"

text \<open>
  The end of the loop body, once the target's ImageStream is at hand: first what is observed
  of the stream (compatibility flag, import evidence, health condition), then the decision.
\<close>

definition observe_stream ::
  "'w catalog_api \<Rightarrow> cond_api \<Rightarrow> env \<Rightarrow> time \<Rightarrow> target \<Rightarrow> ImageStream \<Rightarrow> bool \<Rightarrow> 'w rstate \<Rightarrow> 'w rstate" where
  "observe_stream K A getenv now tg stream servingPrevious s =
     (let releaseCatalogImage = GetStringConfigWithDefault getenv CatalogDataImage DefaultCatalogDataImage;
          (status, reason, message) = catalogDataImageImportHealth stream;
          params = (if tg_name tg = ''catalog'' \<and> imports_release releaseCatalogImage stream
                    then (rs_params s)\<lparr>cp_allowLegacyRuntimeFile := True\<rparr> else rs_params s);
          fingerprintStatus = (if servingPrevious then ConditionTrue else status);
          params = params\<lparr>cp_imageImportEvidence := cp_imageImportEvidence params
                 @ catalogImageImportEvidence (ca_quote K) stream (tg_name tg) fingerprintStatus\<rparr>
      in set_health A now tg status reason message (s\<lparr>rs_params := params\<rparr>))"

definition keep_applied ::
  "'w catalog_api \<Rightarrow> cond_api \<Rightarrow> time \<Rightarrow> target \<Rightarrow> 'w rstate \<Rightarrow> 'w rstate" where
  "keep_applied K A now tg s =
     (case retainAppliedCatalogDataImages K (rs_catalog s) (rs_params s) (rs_world s) of
        (Inl e, w') \<Rightarrow>
          (let s = set_resolved A now tg ConditionFalse ''AppliedImageReadFailed'' (error_string e) s
           in s\<lparr>rs_causes := rs_causes s @ [e], rs_world := w'\<rparr>)
      | (Inr applied, w') \<Rightarrow>
          (let img = (if tg_name tg = ''catalog'' then cp_catalogDataImage applied
                      else cp_benchmarkDataImage applied)
           in set_resolved A now tg ConditionFalse ''NoSuccessfulImport''
                (''Waiting for the first successful import; using the current applied or release image: '' @ img)
                (put_image tg img (s\<lparr>rs_world := w'\<rparr>))))"

definition settle_stream ::
  "'w catalog_api \<Rightarrow> cond_api \<Rightarrow> time \<Rightarrow> target \<Rightarrow> import_health \<Rightarrow> bool \<Rightarrow> bool \<Rightarrow> string \<Rightarrow> 'w rstate \<Rightarrow> 'w rstate" where
  "settle_stream K A now tg importHealth awaitingRecovery servingPrevious previousImage s =
     (let (status, reason, message) = importHealth in
      if status = ConditionFalse then
        set_resolved A now tg ConditionFalse reason
          (''The requested import is unusable; Catalog readiness is false and deployment containment is requested. '' @ message) s
      else if status = ConditionUnknown \<and> awaitingRecovery then
        set_resolved A now tg ConditionUnknown ''AwaitingSuccessfulImport''
          ''Deployment containment remains in place after the previous import failure; waiting for a successful import or a valid manual selection'' s
      else if previousImage \<noteq> [] \<and> (status = ConditionTrue \<or> servingPrevious) then
        set_resolved A now tg ConditionTrue ''ImageStreamResolved''
          (''Using the last successfully imported image: '' @ previousImage) (put_image tg previousImage s)
      else keep_applied K A now tg s)"

definition resolve_stream ::
  "'w catalog_api \<Rightarrow> cond_api \<Rightarrow> env \<Rightarrow> time \<Rightarrow> target \<Rightarrow> ImageStream \<Rightarrow> 'w rstate \<Rightarrow> 'w rstate" where
  "resolve_stream K A getenv now tg stream s =
     (let awaitingRecovery = awaiting_recovery A (rs_catalog s) tg;
          importHealth = catalogDataImageImportHealth stream;
          previousImage = lastImportedCatalogDataImage stream;
          servingPrevious = serving_previous A (rs_catalog s) tg (fst importHealth) previousImage
      in settle_stream K A now tg importHealth awaitingRecovery servingPrevious previousImage
           (observe_stream K A getenv now tg stream servingPrevious s))"

text \<open>Obtaining the stream: from an earlier round, or from the cluster.\<close>

definition resolve_tracked ::
  "'w catalog_api \<Rightarrow> cond_api \<Rightarrow> env \<Rightarrow> time \<Rightarrow> target \<Rightarrow> 'w rstate \<Rightarrow> 'w rstate" where
  "resolve_tracked K A getenv now tg s =
     (case rs_streams s (tg_streamName tg) of
        Some stream \<Rightarrow> resolve_stream K A getenv now tg stream s
      | None \<Rightarrow>
          (case ensureCatalogDataImageStreamForSource K (rs_catalog s) (rs_params s)
                  (tg_streamName tg) (tg_source tg) (rs_world s) of
             (Inl e, w') \<Rightarrow>
               (let s = set_resolved A now tg ConditionFalse ''ImageStreamUnavailable'' (error_string e) s;
                    s = set_health A now tg ConditionFalse ''ImageStreamUnavailable'' (error_string e) s
                in s\<lparr>rs_causes := rs_causes s @ [e], rs_world := w'\<rparr>)
           | (Inr stream, w') \<Rightarrow>
               resolve_stream K A getenv now tg stream
                 (s\<lparr>rs_streams := (rs_streams s)(tg_streamName tg \<mapsto> stream), rs_world := w'\<rparr>)))"

text \<open>One round of the loop; each \<^verbatim>\<open>continue\<close> is the end of a branch.\<close>

definition resolve_target ::
  "'w catalog_api \<Rightarrow> cond_api \<Rightarrow> env \<Rightarrow> time \<Rightarrow> target \<Rightarrow> 'w rstate \<Rightarrow> 'w rstate" where
  "resolve_target K A getenv now tg s =
     (let sel = dataImageSelection (ca_quote K) (tg_selection tg);
          tracked = set_health A now tg ConditionTrue ''NotTrackingImageStream''
                      ''The selection does not follow ImageStream imports''
      in case sel of
        Inl err \<Rightarrow> set_resolved A now tg ConditionFalse ''InvalidDataImageSelection'' (error_string err) (tracked s)
      | Inr selection \<Rightarrow>
          if selection = [] then
            set_resolved A now tg ConditionTrue ''ReleaseDefault''
              (''Using the current release image: '' @ read_image (tg_field tg) (rs_params s)) (tracked s)
          else if selection \<noteq> catalogDataImageStreamTag then
            (let img = ResolveImage getenv (Some selection) (tg_sourceEnv tg) (tg_source tg) in
             set_resolved A now tg ConditionTrue ''DigestPinned''
               (''Using the pinned image: '' @ img) (put_image tg img (tracked s)))
          else if \<not> ca_isOpenShift K then
            set_resolved A now tg ConditionFalse ''UnsupportedDataImageSelection''
              ''The stable selection requires OpenShift ImageStreams'' (tracked s)
          else resolve_tracked K A getenv now tg s)"

text \<open>\<^verbatim>\<open>aggregateDataImageConditions\<close>. Go reads through the two pointers: \<open>None\<close> is the panic on a nil one.\<close>

definition condition_priority :: "condition \<Rightarrow> int" where
  "condition_priority c =
     (if cond_status c = ConditionFalse \<and> cond_reason c \<noteq> ''NoSuccessfulImport'' then 0
      else if cond_status c \<noteq> ConditionTrue then 1 else 2)"

definition aggregateDataImageConditions ::
  "cond_api \<Rightarrow> time \<Rightarrow> string \<Rightarrow> string \<Rightarrow> string \<Rightarrow> Catalog \<Rightarrow> Catalog option" where
  "aggregateDataImageConditions A now aggregateType catalogType benchmarkType catalog =
     (case (cfind A catalog catalogType, cfind A catalog benchmarkType) of
        (Some c0, Some c1) \<Rightarrow>
          (let worst = (if condition_priority c1 < condition_priority c0 then c1 else c0);
               reason = (if cond_status worst = ConditionTrue \<and> cond_reason c0 \<noteq> cond_reason c1
                         then ''IndependentSelections'' else cond_reason worst)
           in Some (setCatalogDataImageCondition A now aggregateType (cond_status worst) reason
                     (cond_message c0 @ ''; '' @ cond_message c1) catalog))
      | _ \<Rightarrow> None)"

text \<open>The loop that looks for a fault to block on; again \<open>None\<close> is a nil dereference.\<close>

fun find_fault :: "cond_api \<Rightarrow> Catalog \<Rightarrow> target list \<Rightarrow> condition option \<Rightarrow> condition option option" where
  "find_fault A catalog [] fault = Some fault"
| "find_fault A catalog (tg # tgs) fault =
     (case cfind A catalog (tg_resolvedType tg) of
        None \<Rightarrow> None
      | Some c \<Rightarrow>
          if cond_reason c = ''AwaitingSuccessfulImport''
          then find_fault A catalog tgs (if fault = None then Some c else fault)
          else if cond_status c = ConditionFalse then
            (if cond_reason c \<noteq> ''NoSuccessfulImport'' then Some (Some c)
             else case cfind A catalog (tg_healthType tg) of
               None \<Rightarrow> None
             | Some h \<Rightarrow> if cond_status h \<noteq> ConditionUnknown then Some (Some c)
                        else find_fault A catalog tgs fault)
          else find_fault A catalog tgs fault)"

definition legacy_runtime_release :: "env \<Rightarrow> Catalog \<Rightarrow> CatalogParams \<Rightarrow> CatalogParams" where
  "legacy_runtime_release getenv catalog params =
     (if sp_catalogDataImageStream (cat_spec catalog) = Some catalogDataImageStreamTag then
        (let releaseCatalogImage = GetStringConfigWithDefault getenv CatalogDataImage DefaultCatalogDataImage;
             (_, releaseDigest, releasePinned) = cut (CHR ''@'') releaseCatalogImage;
             (_, selectedDigest, selectedPinned) = cut (CHR ''@'') (cp_catalogDataImage params);
             sameDigest = (releasePinned \<and> selectedPinned \<and> catalogDataDigestPattern releaseDigest
                           \<and> releaseDigest = selectedDigest)
         in if cp_catalogDataImage params = releaseCatalogImage \<or> sameDigest
            then params\<lparr>cp_allowLegacyRuntimeFile := True\<rparr> else params)
      else params)"

text \<open>What is recorded as resolved: the pair of the parameters, or the pair a matching activation pinned.\<close>

definition resolved_images :: "cond_api \<Rightarrow> Catalog \<Rightarrow> CatalogParams \<Rightarrow> CatalogDataImages option" where
  "resolved_images A catalog params =
     (if isConditionTrue A (conds catalog) conditionDataImageResolved then
        (let images = \<lparr>img_catalog = cp_catalogDataImage params, img_benchmark = cp_benchmarkDataImage params\<rparr> in
         case activation catalog of None \<Rightarrow> Some images
         | Some a \<Rightarrow> if act_requestedImages a = images then Some (act_images a) else Some images)
      else None)"

definition record_images :: "cond_api \<Rightarrow> time \<Rightarrow> CatalogParams \<Rightarrow> Catalog \<Rightarrow> Catalog" where
  "record_images A now params catalog =
     (let images = resolved_images A catalog params;
          catalog = (if st_resolvedImages (cat_status catalog) \<noteq> images
                     then setCatalogDataImageCondition A now conditionWorkloadAvailable ConditionFalse ''ImagesUpdating''
                       ''Waiting for the workload rollout for the current catalog and benchmark images'' catalog
                     else catalog)
      in catalog\<lparr>cat_status := (cat_status catalog)\<lparr>st_resolvedImages := images\<rparr>\<rparr>)"

text \<open>The statements after the loops: block or allow updates, reduce readiness, report.\<close>

definition conclude_resolution ::
  "cond_api \<Rightarrow> time \<Rightarrow> condition option \<Rightarrow> go_error list \<Rightarrow> Catalog \<Rightarrow> go_error option \<times> Catalog" where
  "conclude_resolution A now fault causes catalog =
     (case fault of
        Some f \<Rightarrow>
          (Some (ImagesUnavailable (errors_join (map Some causes))),
           reduceCatalogImageReadiness A now
             (setCatalogDataImageCondition A now conditionDataImageUpdateBlocked ConditionTrue (cond_reason f)
               (cond_message f @ ''; recovery requires a successful import or a valid Catalog selection (pin a working digest or clear to the release default)'') catalog))
      | None \<Rightarrow>
          (None, reduceCatalogImageReadiness A now
             (setCatalogDataImageCondition A now conditionDataImageUpdateBlocked ConditionFalse ''UpdatesAllowed''
               ''Data image updates are allowed'' catalog)))"

definition initial_rstate :: "Catalog \<Rightarrow> CatalogParams \<Rightarrow> 'w \<Rightarrow> 'w rstate" where
  "initial_rstate catalog params w =
     \<lparr>rs_catalog = catalog,
      rs_params = params\<lparr>cp_allowLegacyRuntimeFile :=
        strval (sp_catalogDataImageStream (cat_spec catalog)) = []\<rparr>,
      rs_streams = Map.empty, rs_causes = [], rs_world = w\<rparr>"

definition resolve_targets ::
  "'w catalog_api \<Rightarrow> cond_api \<Rightarrow> env \<Rightarrow> time \<Rightarrow> Catalog \<Rightarrow> CatalogParams \<Rightarrow> 'w \<Rightarrow> 'w rstate" where
  "resolve_targets K A getenv now catalog params w =
     fold (resolve_target K A getenv now) (targets getenv catalog) (initial_rstate catalog params w)"

definition resolveCatalogDataImages ::
  "'w catalog_api \<Rightarrow> cond_api \<Rightarrow> env \<Rightarrow> time \<Rightarrow> Catalog \<Rightarrow> CatalogParams \<Rightarrow> 'w
   \<Rightarrow> (go_error option \<times> Catalog \<times> CatalogParams \<times> 'w) option" where
  "resolveCatalogDataImages K A getenv now catalog params w =
     (let s = resolve_targets K A getenv now catalog params w;
          params = legacy_runtime_release getenv (rs_catalog s) (rs_params s)
      in case aggregateDataImageConditions A now conditionDataImageResolved
                CatalogDataImageResolved BenchmarkDataImageResolved (rs_catalog s) of
        None \<Rightarrow> None
      | Some c1 \<Rightarrow>
          (case aggregateDataImageConditions A now conditionDataImageImportHealthy
                  CatalogDataImageImportHealthy BenchmarkDataImageImportHealthy c1 of
             None \<Rightarrow> None
           | Some c2 \<Rightarrow>
               let c3 = record_images A now params c2 in
               (case find_fault A c3 (targets getenv catalog) None of
                  None \<Rightarrow> None
                | Some fault \<Rightarrow>
                    (case conclude_resolution A now fault (rs_causes s) c3 of
                       (e, c4) \<Rightarrow> Some (e, c4, params, rs_world s)))))"

section \<open>Which Catalogs follow an ImageStream\<close>

definition follows_stream :: "(string \<Rightarrow> string) \<Rightarrow> env \<Rightarrow> string \<Rightarrow> Catalog \<Rightarrow> bool" where
  "follows_stream quote getenv name catalog =
     ((name = CatalogDataImageStreamName
        \<and> dataImageSelection quote (sp_catalogDataImageStream (cat_spec catalog)) = Inr catalogDataImageStreamTag)
      \<or> (name = benchmarkDataImageStreamName getenv
        \<and> dataImageSelection quote (sp_benchmarkDataImageStream (cat_spec catalog)) = Inr catalogDataImageStreamTag))"

definition getCatalogsForDataImageStream ::
  "'w catalog_api \<Rightarrow> env \<Rightarrow> key \<Rightarrow> 'w \<Rightarrow> key list \<times> 'w" where
  "getCatalogsForDataImageStream K getenv obj w =
     (let (namespace', name) = obj in
      if name \<noteq> CatalogDataImageStreamName \<and> name \<noteq> BenchmarkDataImageStreamName then ([], w)
      else case ca_listCatalogs K namespace' w of
        (Inl e, w') \<Rightarrow> ([], w')
      | (Inr catalogs, w') \<Rightarrow>
          (map (\<lambda>c. (cat_namespace c, cat_name c)) (filter (follows_stream (ca_quote K) getenv name) catalogs), w'))"

section \<open>Immutable references\<close>

definition pinned :: "string \<Rightarrow> bool" where
  "pinned img = (case cut (CHR ''@'') img of (repository, digest, found) \<Rightarrow>
     found \<and> catalogDataDigestPattern digest)"

lemma pinned_append: "CHR ''@'' \<notin> set r \<Longrightarrow> catalogDataDigestPattern d \<Longrightarrow> pinned (r @ ''@'' @ d)"
  by (simp add: pinned_def cut_append)

lemma imported_pinned:
  assumes "importedCatalogDataImage item \<noteq> []"
  shows "pinned (importedCatalogDataImage item)"
proof -
  obtain r d f where c: "cut (CHR ''@'') (te_dockerImageReference item) = (r, d, f)"
    by (metis prod_cases3)
  have "CHR ''@'' \<notin> set r" "CHR ''@'' \<notin> set (take n r)" for n
    using cut_before_free[OF c] by (auto dest: in_set_takeD)
  then show ?thesis
    using assms pinned_append by (auto simp: importedCatalogDataImage_def c Let_def split: if_splits)
qed

lemma first_imported_pinned: "first_imported items \<noteq> [] \<Longrightarrow> pinned (first_imported items)"
  by (induction items) (auto simp: Let_def imported_pinned split: if_splits)

lemma lastImported_pinned:
  "lastImportedCatalogDataImage stream \<noteq> [] \<Longrightarrow> pinned (lastImportedCatalogDataImage stream)"
proof -
  have "last_imported_of tags \<noteq> [] \<Longrightarrow> pinned (last_imported_of tags)" for tags
    by (induction tags) (auto simp: Let_def first_imported_pinned split: if_splits)
  then show "lastImportedCatalogDataImage stream \<noteq> [] \<Longrightarrow> pinned (lastImportedCatalogDataImage stream)"
    by (simp add: lastImportedCatalogDataImage_def)
qed

text \<open>A successful import has an image to serve, so it is never reported as missing one.\<close>

lemma last_imported_of_find:
  "find (\<lambda>t. nt_tag t = catalogDataImageStreamTag) tags = Some tag \<Longrightarrow> first_imported (nt_items tag) \<noteq> []
   \<Longrightarrow> last_imported_of tags \<noteq> []"
  by (induction tags) (auto simp: Let_def split: if_splits)

lemma import_success_has_image:
  "fst (catalogDataImageImportHealth stream) = ConditionTrue \<Longrightarrow> lastImportedCatalogDataImage stream \<noteq> []"
  by (auto simp: catalogDataImageImportHealth_def lastImportedCatalogDataImage_def import_pending_def
      import_failure_def Let_def split: option.splits list.splits if_splits dest!: last_imported_of_find)

lemma import_health_status:
  "fst (catalogDataImageImportHealth stream) \<in> {ConditionTrue, ConditionFalse, ConditionUnknown}"
  "fst (catalogDataImageImportHealth stream) = ConditionFalse \<Longrightarrow>
     fst (snd (catalogDataImageImportHealth stream)) \<in> {''ImportFailed'', ''InvalidImportedImage''}"
  by (auto simp: catalogDataImageImportHealth_def import_pending_def import_failure_def Let_def
      split: option.splits list.splits if_splits)

text \<open>Trimming leaves a digest alone.\<close>

lemma strip_any_head:
  assumes "s \<noteq> []" and "hd s \<notin> hd ` set ps" and "[] \<notin> set ps"
  shows "strip_any ps s = s"
proof (rule strip_any_no_match, intro ballI impI)
  fix p assume p: "p \<in> set ps" "p \<noteq> []"
  then have "hd (take (length p) s) = hd s" using assms(1) by (cases p; cases s) auto
  moreover have "hd p \<noteq> hd s" using p(1) assms(2) by (metis imageI)
  ultimately show "take (length p) s \<noteq> p" by metis
qed

lemma trimSpace_digest:
  assumes "sha256DigestRe d"
  shows "trimSpace d = d"
proof -
  have d: "d = ''sha256:'' @ drop 7 d" "drop 7 d \<noteq> []"
    using assms by (metis append_take_drop_id sha256DigestRe_def, auto simp: sha256DigestRe_def)
  then have "last d = last (drop 7 d)" by (metis last_appendR)
  moreover have "last (drop 7 d) \<in> set (drop 7 d)" using d(2) by (rule last_in_set)
  ultimately have "lower_hex (last d)" using assms by (auto simp: sha256DigestRe_def list_all_iff)
  then have l: "hd (rev d) \<notin> hd ` set (map rev space_runes)"
    by (auto simp: hd_rev lower_hex_def Let_def space_runes_def)
  have "hd d = CHR ''s''" by (subst d(1)) simp
  then have h: "hd d \<notin> hd ` set space_runes" by (simp add: space_runes_def)
  have "[] \<notin> set space_runes" "[] \<notin> set (map rev space_runes)" by (simp_all add: space_runes_def)
  moreover have "d \<noteq> []" "rev d \<noteq> []" using d(2) by auto
  ultimately have "strip_any space_runes d = d" "strip_any (map rev space_runes) (rev d) = rev d"
    using strip_any_head h l by blast+
  then show ?thesis by (simp add: trimSpace_def)
qed

lemma ResolveImage_digest:
  assumes "catalogDataDigestPattern d"
  shows "ResolveImage getenv (Some d) envName def
       = repoBase (GetStringConfigWithDefault getenv envName def) @ ''@'' @ d"
  using assms by (simp add: ResolveImage_def Let_def catalogDataDigestPattern_def trimSpace_digest)

lemma ResolveImage_digest_pinned:
  "catalogDataDigestPattern d \<Longrightarrow> pinned (ResolveImage getenv (Some d) envName def)"
  by (simp only: ResolveImage_digest pinned_append repoBase_no_at not_False_eq_True)

lemma dataImageSelection_digest:
  "dataImageSelection quote sel = Inr x \<Longrightarrow> x \<noteq> [] \<Longrightarrow> x \<noteq> catalogDataImageStreamTag
   \<Longrightarrow> catalogDataDigestPattern x"
  by (auto simp: dataImageSelection_def split: option.splits if_splits)

end
