(* ===== verification/Catalog_Resolution.thy ===== *)
theory Catalog_Resolution
  imports Catalog_Images
begin

text \<open>
  Correctness of the data image resolver of \<open>Catalog_Images\<close>: what one round of its loop
  leaves behind (\<open>target_post\<close>), and from it that the resolver never dereferences a missing
  condition, fails closed, and serves only immutable images for a tracked or pinned selection.
\<close>

section \<open>What a round of the loop changes\<close>

text \<open>A Catalog without its conditions; the loop changes nothing else of it.\<close>

definition bare :: "Catalog \<Rightarrow> Catalog" where
  "bare c = c\<lparr>cat_status := (cat_status c)\<lparr>st_conditions := []\<rparr>\<rparr>"

lemma bare_set_condition [simp]: "bare (setCatalogDataImageCondition A now t s r m c) = bare c"
  by (simp add: bare_def setCatalogDataImageCondition_def)

lemma bare_fields:
  "cat_generation (bare c) = cat_generation c" "cat_spec (bare c) = cat_spec c"
  "activation (bare c) = activation c" "cat_namespace (bare c) = cat_namespace c"
  "cat_name (bare c) = cat_name c" "cat_uid (bare c) = cat_uid c" "cat_annotations (bare c) = cat_annotations c"
  "st_resolvedImages (cat_status (bare c)) = st_resolvedImages (cat_status c)"
  by (simp_all add: bare_def)

lemma bare_eq:
  assumes "bare d = bare c"
  shows "cat_generation d = cat_generation c" "cat_spec d = cat_spec c" "activation d = activation c"
    "cat_namespace d = cat_namespace c" "cat_name d = cat_name c" "cat_uid d = cat_uid c"
    "cat_annotations d = cat_annotations c"
    "st_resolvedImages (cat_status d) = st_resolvedImages (cat_status c)"
  using assms bare_fields by metis+

lemma write_read [simp]: "read_image f (write_image f v p) = v"
  by (cases f) auto

lemma rs_catalog_put [simp]: "rs_catalog (put_image tg v s) = rs_catalog s"
  and rs_params_put [simp]: "rs_params (put_image tg v s) = write_image (tg_field tg) v (rs_params s)"
  and rs_world_put [simp]: "rs_world (put_image tg v s) = rs_world s"
  and rs_causes_put [simp]: "rs_causes (put_image tg v s) = rs_causes s"
  by (simp_all add: put_image_def)

lemma rs_set [simp]:
  "rs_params (set_resolved A now tg st r m s) = rs_params s"
  "rs_world (set_resolved A now tg st r m s) = rs_world s"
  "rs_causes (set_resolved A now tg st r m s) = rs_causes s"
  "rs_params (set_health A now tg st r m s) = rs_params s"
  "rs_world (set_health A now tg st r m s) = rs_world s"
  "rs_causes (set_health A now tg st r m s) = rs_causes s"
  "bare (rs_catalog (set_resolved A now tg st r m s)) = bare (rs_catalog s)"
  "bare (rs_catalog (set_health A now tg st r m s)) = bare (rs_catalog s)"
  "cat_generation (rs_catalog (set_resolved A now tg st r m s)) = cat_generation (rs_catalog s)"
  "cat_generation (rs_catalog (set_health A now tg st r m s)) = cat_generation (rs_catalog s)"
  by (simp_all add: set_resolved_def set_health_def)

text \<open>The image a round settled on, when it resolved the selection.\<close>

definition image_settled :: "(string \<Rightarrow> string) \<Rightarrow> env \<Rightarrow> target \<Rightarrow> string \<Rightarrow> string \<Rightarrow> bool" where
  "image_settled quote getenv tg release img =
     (case dataImageSelection quote (tg_selection tg) of
        Inl _ \<Rightarrow> False
      | Inr sel \<Rightarrow> if sel = [] then img = release else pinned img)"

text \<open>Everything later code relies on of the two conditions and the image of a target.\<close>

definition target_post ::
  "(string \<Rightarrow> string) \<Rightarrow> cond_api \<Rightarrow> env \<Rightarrow> target \<Rightarrow> string \<Rightarrow> Catalog \<Rightarrow> string \<Rightarrow> bool" where
  "target_post quote A getenv tg release c img =
     (case (cfind A c (tg_resolvedType tg), cfind A c (tg_healthType tg)) of
        (Some r, Some h) \<Rightarrow>
          cond_observedGeneration r = cat_generation c
          \<and> (cond_status r = ConditionTrue \<and> image_settled quote getenv tg release img
                \<and> cond_reason r \<notin> {''NoSuccessfulImport'', ''AwaitingSuccessfulImport''}
             \<or> cond_status r = ConditionFalse \<and> cond_reason r = ''NoSuccessfulImport''
                \<and> cond_status h = ConditionUnknown
             \<or> cond_status r = ConditionFalse
                \<and> cond_reason r \<notin> {''NoSuccessfulImport'', ''AwaitingSuccessfulImport''}
             \<or> cond_status r = ConditionUnknown \<and> cond_reason r = ''AwaitingSuccessfulImport''
                \<and> cond_status h = ConditionUnknown)
      | _ \<Rightarrow> False)"

context conditions_api
begin

lemma find_set_resolved:
  "cfind A (rs_catalog (set_resolved A now tg st r m s)) u =
     (if u = tg_resolvedType tg then Some (stamp now (cfind A (rs_catalog s) u)
        (new_condition (rs_catalog s) u st r (tg_name tg @ '': '' @ m)))
      else cfind A (rs_catalog s) u)"
  by (simp add: set_resolved_def find_after_set)

lemma find_set_health:
  "cfind A (rs_catalog (set_health A now tg st r m s)) u =
     (if u = tg_healthType tg then Some (stamp now (cfind A (rs_catalog s) u)
        (new_condition (rs_catalog s) u st r (tg_name tg @ '': '' @ m)))
      else cfind A (rs_catalog s) u)"
  by (simp add: set_health_def find_after_set)

lemmas find_setters = find_set_resolved find_set_health

lemma observe_stream_frame:
  "bare (rs_catalog (observe_stream K A getenv now tg stream b s)) = bare (rs_catalog s)"
  "t \<noteq> tg_healthType tg \<Longrightarrow>
     cfind A (rs_catalog (observe_stream K A getenv now tg stream b s)) t = cfind A (rs_catalog s) t"
  "cat_generation (rs_catalog (observe_stream K A getenv now tg stream b s)) = cat_generation (rs_catalog s)"
  by (simp_all add: observe_stream_def Let_def find_setters split: prod.split)

lemma observe_stream_health:
  "\<exists>h. cfind A (rs_catalog (observe_stream K A getenv now tg stream b s)) (tg_healthType tg) = Some h
     \<and> cond_status h = fst (catalogDataImageImportHealth stream)"
  by (simp add: observe_stream_def Let_def find_setters split: prod.split)

lemma keep_applied_frame:
  "bare (rs_catalog (keep_applied K A now tg s)) = bare (rs_catalog s)"
  "t \<noteq> tg_resolvedType tg \<Longrightarrow> cfind A (rs_catalog (keep_applied K A now tg s)) t = cfind A (rs_catalog s) t"
  "cat_generation (rs_catalog (keep_applied K A now tg s)) = cat_generation (rs_catalog s)"
  by (simp_all add: keep_applied_def Let_def find_setters split: prod.split sum.split)

lemma keep_applied_resolved:
  "\<exists>r. cfind A (rs_catalog (keep_applied K A now tg s)) (tg_resolvedType tg) = Some r
     \<and> cond_observedGeneration r = cat_generation (rs_catalog s) \<and> cond_status r = ConditionFalse
     \<and> cond_reason r \<in> {''NoSuccessfulImport'', ''AppliedImageReadFailed''}"
  by (simp add: keep_applied_def Let_def find_setters split: prod.split sum.split)

lemma settle_stream_frame:
  "bare (rs_catalog (settle_stream K A now tg h a b p s)) = bare (rs_catalog s)"
  "t \<noteq> tg_resolvedType tg \<Longrightarrow> cfind A (rs_catalog (settle_stream K A now tg h a b p s)) t = cfind A (rs_catalog s) t"
  "cat_generation (rs_catalog (settle_stream K A now tg h a b p s)) = cat_generation (rs_catalog s)"
  by (cases h, simp_all add: settle_stream_def find_setters keep_applied_frame)+

lemma resolve_stream_frame:
  "bare (rs_catalog (resolve_stream K A getenv now tg stream s)) = bare (rs_catalog s)"
  "t \<notin> {tg_resolvedType tg, tg_healthType tg} \<Longrightarrow>
     cfind A (rs_catalog (resolve_stream K A getenv now tg stream s)) t = cfind A (rs_catalog s) t"
  by (simp_all add: resolve_stream_def Let_def settle_stream_frame observe_stream_frame)

lemma resolve_tracked_frame:
  "bare (rs_catalog (resolve_tracked K A getenv now tg s)) = bare (rs_catalog s)"
  "t \<notin> {tg_resolvedType tg, tg_healthType tg} \<Longrightarrow>
     cfind A (rs_catalog (resolve_tracked K A getenv now tg s)) t = cfind A (rs_catalog s) t"
  by (simp_all add: resolve_tracked_def Let_def find_setters resolve_stream_frame
      split: prod.split sum.split option.split)

lemma resolve_target_frame:
  "bare (rs_catalog (resolve_target K A getenv now tg s)) = bare (rs_catalog s)"
  "t \<notin> {tg_resolvedType tg, tg_healthType tg} \<Longrightarrow>
     cfind A (rs_catalog (resolve_target K A getenv now tg s)) t = cfind A (rs_catalog s) t"
  by (simp_all add: resolve_target_def Let_def find_setters resolve_tracked_frame split: sum.split)

lemma settle_stream_post:
  fixes K :: "'w catalog_api" and s :: "'w rstate"
  assumes s': "s' = settle_stream K A now tg (st, r, m) a b p s"
    and "tg_resolvedType tg \<noteq> tg_healthType tg"
    and sel: "dataImageSelection quote (tg_selection tg) = Inr catalogDataImageStreamTag"
    and h: "cfind A (rs_catalog s) (tg_healthType tg) = Some h" "cond_status h = st"
    and st: "st \<in> {ConditionTrue, ConditionFalse, ConditionUnknown}"
    and r: "st = ConditionFalse \<Longrightarrow> r \<in> {''ImportFailed'', ''InvalidImportedImage''}"
    and i: "st = ConditionTrue \<Longrightarrow> p \<noteq> []" and p: "p \<noteq> [] \<Longrightarrow> pinned p"
  shows "target_post quote A getenv tg release (rs_catalog s') (read_image (tg_field tg) (rs_params s'))"
proof -
  have h': "cfind A (rs_catalog s') (tg_healthType tg) = Some h"
    using assms(2) h(1) by (simp add: s' settle_stream_frame)
  have g: "cat_generation (rs_catalog s') = cat_generation (rs_catalog s)"
    by (simp add: s' settle_stream_frame)
  have stable: "catalogDataImageStreamTag \<noteq> []" by (simp add: catalogDataImageStreamTag_def)
  consider (fail) "st = ConditionFalse" | (wait) "st = ConditionUnknown" "a"
    | (image) "st \<noteq> ConditionFalse" "\<not> (st = ConditionUnknown \<and> a)" "p \<noteq> [] \<and> (st = ConditionTrue \<or> b)"
    | (keep) "st \<noteq> ConditionFalse" "\<not> (st = ConditionUnknown \<and> a)" "\<not> (p \<noteq> [] \<and> (st = ConditionTrue \<or> b))"
    by blast
  then show ?thesis
  proof cases
    case keep
    then have "s' = keep_applied K A now tg s" by (simp only: s' settle_stream_def Let_def prod.case if_False)
    moreover have "st = ConditionUnknown" using keep st i by blast
    ultimately show ?thesis
      using keep_applied_resolved[of K now tg s] h' h(2) g by (auto simp: target_post_def)
  qed (use r p h' h(2) g sel stable in
       \<open>auto simp: s' settle_stream_def find_setters target_post_def image_settled_def\<close>)
qed

lemma resolve_stream_post:
  assumes "tg_resolvedType tg \<noteq> tg_healthType tg"
    and "dataImageSelection quote (tg_selection tg) = Inr catalogDataImageStreamTag"
  shows "target_post quote A getenv tg release (rs_catalog (resolve_stream K A getenv now tg stream s))
     (read_image (tg_field tg) (rs_params (resolve_stream K A getenv now tg stream s)))"
proof -
  obtain st r m where h: "catalogDataImageImportHealth stream = (st, r, m)" by (metis prod_cases3)
  obtain o' where "\<And>b. cfind A (rs_catalog (observe_stream K A getenv now tg stream b s)) (tg_healthType tg) = Some (o' b)"
      "\<And>b. cond_status (o' b) = st"
    using observe_stream_health[of K getenv now tg stream _ s] unfolding h fst_conv by metis
  then show ?thesis
    unfolding resolve_stream_def Let_def h fst_conv
    using import_health_status[of stream] import_success_has_image[of stream] lastImported_pinned[of stream]
    by (intro settle_stream_post[OF refl assms]) (auto simp: h)
qed

lemma resolve_tracked_post:
  assumes "tg_resolvedType tg \<noteq> tg_healthType tg"
    and "dataImageSelection quote (tg_selection tg) = Inr catalogDataImageStreamTag"
  shows "target_post quote A getenv tg release (rs_catalog (resolve_tracked K A getenv now tg s))
     (read_image (tg_field tg) (rs_params (resolve_tracked K A getenv now tg s)))"
proof (cases "rs_streams s (tg_streamName tg)")
  case None
  obtain x w where e: "ensureCatalogDataImageStreamForSource K (rs_catalog s) (rs_params s)
      (tg_streamName tg) (tg_source tg) (rs_world s) = (x, w)" by fastforce
  show ?thesis
  proof (cases x)
    case (Inl err)
    then show ?thesis using assms(1)
      by (simp add: resolve_tracked_def None e Let_def target_post_def find_setters)
  next
    case (Inr stream)
    then show ?thesis using resolve_stream_post[OF assms] by (simp add: resolve_tracked_def None e)
  qed
qed (simp add: resolve_tracked_def resolve_stream_post[OF assms])

lemma resolve_target_post:
  assumes "tg_resolvedType tg \<noteq> tg_healthType tg" and "quote = ca_quote K"
    and "release = read_image (tg_field tg) (rs_params s)"
  shows "target_post quote A getenv tg release (rs_catalog (resolve_target K A getenv now tg s))
     (read_image (tg_field tg) (rs_params (resolve_target K A getenv now tg s)))"
proof (cases "dataImageSelection quote (tg_selection tg)")
  case (Inl e)
  then show ?thesis using assms
    by (simp add: resolve_target_def find_setters target_post_def Let_def)
next
  case (Inr sel)
  have stable: "catalogDataImageStreamTag \<noteq> []" by (simp add: catalogDataImageStreamTag_def)
  consider "sel = []" | "sel \<noteq> []" "sel \<noteq> catalogDataImageStreamTag" | "sel = catalogDataImageStreamTag"
    by blast
  then show ?thesis
  proof cases
    case 3
    show ?thesis
    proof (cases "ca_isOpenShift K")
      case True
      then show ?thesis using assms(2) Inr stable 3 resolve_tracked_post[OF assms(1) Inr[unfolded 3]]
        by (simp add: resolve_target_def)
    next
      case False
      then show ?thesis using assms(1,2) Inr stable 3
        by (simp add: resolve_target_def Let_def target_post_def find_setters)
    qed
  qed (use assms Inr stable dataImageSelection_digest[OF Inr] ResolveImage_digest_pinned in
       \<open>simp_all add: resolve_target_def find_setters target_post_def Let_def image_settled_def\<close>)
qed

end

lemma write_other [simp]: "f \<noteq> g \<Longrightarrow> read_image f (write_image g v p) = read_image f p"
  by (cases f; cases g) auto

lemma read_flags [simp]:
  "read_image f (p\<lparr>cp_allowLegacyRuntimeFile := b\<rparr>) = read_image f p"
  "read_image f (p\<lparr>cp_imageImportEvidence := e\<rparr>) = read_image f p"
  by (cases f; simp)+

lemma rs_params_resolve:
  assumes "f \<noteq> tg_field tg"
  shows "read_image f (rs_params (keep_applied K A now tg s)) = read_image f (rs_params s)"
    and "read_image f (rs_params (observe_stream K A getenv now tg stream b s)) = read_image f (rs_params s)"
    and "read_image f (rs_params (settle_stream K A now tg h a b p s)) = read_image f (rs_params s)"
    and "read_image f (rs_params (resolve_stream K A getenv now tg stream s)) = read_image f (rs_params s)"
    and "read_image f (rs_params (resolve_tracked K A getenv now tg s)) = read_image f (rs_params s)"
    and "read_image f (rs_params (resolve_target K A getenv now tg s)) = read_image f (rs_params s)"
proof -
  show keep: "read_image f (rs_params (keep_applied K A now tg s)) = read_image f (rs_params s)" for s
    using assms by (simp add: keep_applied_def Let_def split: prod.split sum.split)
  show observe: "read_image f (rs_params (observe_stream K A getenv now tg stream b s)) = read_image f (rs_params s)"
    for b s stream by (simp add: observe_stream_def Let_def split: prod.split)
  show settle: "read_image f (rs_params (settle_stream K A now tg h a b p s)) = read_image f (rs_params s)"
    for h a b p s using assms keep by (cases h) (simp add: settle_stream_def)
  show stream: "read_image f (rs_params (resolve_stream K A getenv now tg stream s)) = read_image f (rs_params s)"
    for s stream by (simp add: resolve_stream_def Let_def settle observe)
  show tracked: "read_image f (rs_params (resolve_tracked K A getenv now tg s)) = read_image f (rs_params s)"
    by (simp add: resolve_tracked_def Let_def stream split: option.split prod.split sum.split)
  show "read_image f (rs_params (resolve_target K A getenv now tg s)) = read_image f (rs_params s)"
    using assms by (simp add: resolve_target_def Let_def tracked split: sum.split)
qed

section \<open>The whole resolver\<close>

definition catalog_target :: "env \<Rightarrow> Catalog \<Rightarrow> target" where
  "catalog_target getenv c = hd (targets getenv c)"

definition benchmark_target :: "env \<Rightarrow> Catalog \<Rightarrow> target" where
  "benchmark_target getenv c = hd (tl (targets getenv c))"

lemma targets_eq: "targets getenv c = [catalog_target getenv c, benchmark_target getenv c]"
  by (simp add: catalog_target_def benchmark_target_def targets_def Let_def)

lemma target_fields [simp]:
  "tg_resolvedType (catalog_target getenv c) = CatalogDataImageResolved"
  "tg_healthType (catalog_target getenv c) = CatalogDataImageImportHealthy"
  "tg_field (catalog_target getenv c) = CatalogImageField"
  "tg_selection (catalog_target getenv c) = sp_catalogDataImageStream (cat_spec c)"
  "tg_resolvedType (benchmark_target getenv c) = BenchmarkDataImageResolved"
  "tg_healthType (benchmark_target getenv c) = BenchmarkDataImageImportHealthy"
  "tg_field (benchmark_target getenv c) = BenchmarkImageField"
  "tg_selection (benchmark_target getenv c) = sp_benchmarkDataImageStream (cat_spec c)"
  by (simp_all add: catalog_target_def benchmark_target_def targets_def Let_def)

lemma target_post_cong:
  assumes "cfind A c (tg_resolvedType tg) = cfind A d (tg_resolvedType tg)"
    and "cfind A c (tg_healthType tg) = cfind A d (tg_healthType tg)"
    and "cat_generation c = cat_generation d"
  shows "target_post quote A getenv tg release c img = target_post quote A getenv tg release d img"
  by (simp only: target_post_def assms)

context conditions_api
begin

lemma resolve_targets_post:
  fixes K :: "'w catalog_api"
  assumes s: "s = resolve_targets K A getenv now c params w"
  shows "target_post (ca_quote K) A getenv (catalog_target getenv c) (cp_catalogDataImage params)
           (rs_catalog s) (cp_catalogDataImage (rs_params s))"
    and "target_post (ca_quote K) A getenv (benchmark_target getenv c) (cp_benchmarkDataImage params)
           (rs_catalog s) (cp_benchmarkDataImage (rs_params s))"
    and "bare (rs_catalog s) = bare c"
    and "t \<notin> {CatalogDataImageResolved, CatalogDataImageImportHealthy, BenchmarkDataImageResolved,
           BenchmarkDataImageImportHealthy} \<Longrightarrow> cfind A (rs_catalog s) t = cfind A c t"
proof -
  let ?t1 = "catalog_target getenv c" and ?t2 = "benchmark_target getenv c"
  let ?s0 = "initial_rstate c params w"
  let ?s1 = "resolve_target K A getenv now ?t1 ?s0"
  have s2: "s = resolve_target K A getenv now ?t2 ?s1"
    by (simp add: s resolve_targets_def targets_eq)
  have init: "rs_catalog ?s0 = c" "cp_catalogDataImage (rs_params ?s0) = cp_catalogDataImage params"
      "cp_benchmarkDataImage (rs_params ?s0) = cp_benchmarkDataImage params"
    by (simp_all add: initial_rstate_def)
  show b: "bare (rs_catalog s) = bare c" by (simp add: s2 resolve_target_frame init)
  show "t \<notin> {CatalogDataImageResolved, CatalogDataImageImportHealthy, BenchmarkDataImageResolved,
      BenchmarkDataImageImportHealthy} \<Longrightarrow> cfind A (rs_catalog s) t = cfind A c t"
    by (simp add: s2 resolve_target_frame init)
  have "cp_benchmarkDataImage (rs_params ?s1) = cp_benchmarkDataImage params"
    using rs_params_resolve(6)[of BenchmarkImageField ?t1 K A getenv now ?s0] by (simp add: init)
  then show "target_post (ca_quote K) A getenv ?t2 (cp_benchmarkDataImage params) (rs_catalog s)
      (cp_benchmarkDataImage (rs_params s))"
    using resolve_target_post[of ?t2 "ca_quote K" K "cp_benchmarkDataImage params" ?s1 getenv now]
    by (simp add: s2)
  have "target_post (ca_quote K) A getenv ?t1 (cp_catalogDataImage params) (rs_catalog ?s1)
      (cp_catalogDataImage (rs_params ?s1))"
    using resolve_target_post[of ?t1 "ca_quote K" K "cp_catalogDataImage params" ?s0 getenv now]
    by (simp add: init)
  moreover have "cp_catalogDataImage (rs_params s) = cp_catalogDataImage (rs_params ?s1)"
    using rs_params_resolve(6)[of CatalogImageField ?t2 K A getenv now ?s1] by (simp add: s2)
  moreover have "cat_generation (rs_catalog s) = cat_generation (rs_catalog ?s1)"
    by (rule bare_eq) (simp add: s2 resolve_target_frame)
  ultimately show "target_post (ca_quote K) A getenv ?t1 (cp_catalogDataImage params) (rs_catalog s)
      (cp_catalogDataImage (rs_params s))"
    using target_post_cong[of A "rs_catalog s" ?t1 "rs_catalog ?s1"]
    by (simp add: s2 resolve_target_frame)
qed

end

text \<open>A condition that makes the resolver block updates.\<close>

definition blocking :: "condition \<Rightarrow> bool" where
  "blocking r = (cond_reason r = ''AwaitingSuccessfulImport''
     \<or> cond_status r = ConditionFalse \<and> cond_reason r \<noteq> ''NoSuccessfulImport'')"

lemma target_postD:
  assumes "target_post quote A getenv tg release c img"
  shows "\<exists>r h. cfind A c (tg_resolvedType tg) = Some r \<and> cfind A c (tg_healthType tg) = Some h
    \<and> (cond_status r = ConditionTrue \<longrightarrow> image_settled quote getenv tg release img)
    \<and> (cond_reason r = ''NoSuccessfulImport'' \<longrightarrow> cond_status h = ConditionUnknown)
    \<and> (blocking r \<longrightarrow> cond_status r \<noteq> ConditionTrue)"
proof -
  from assms obtain r h where rh: "cfind A c (tg_resolvedType tg) = Some r" "cfind A c (tg_healthType tg) = Some h"
    by (auto simp: target_post_def split: option.splits)
  then have "cond_status r = ConditionTrue \<and> image_settled quote getenv tg release img
         \<and> cond_reason r \<notin> {''NoSuccessfulImport'', ''AwaitingSuccessfulImport''}
       \<or> cond_status r = ConditionFalse \<and> cond_reason r = ''NoSuccessfulImport''
         \<and> cond_status h = ConditionUnknown
       \<or> cond_status r = ConditionFalse
         \<and> cond_reason r \<notin> {''NoSuccessfulImport'', ''AwaitingSuccessfulImport''}
       \<or> cond_status r = ConditionUnknown \<and> cond_reason r = ''AwaitingSuccessfulImport''
         \<and> cond_status h = ConditionUnknown"
    using assms by (simp_all only: target_post_def prod.case option.case)
  then have "(cond_status r = ConditionTrue \<longrightarrow> image_settled quote getenv tg release img)
    \<and> (cond_reason r = ''NoSuccessfulImport'' \<longrightarrow> cond_status h = ConditionUnknown)
    \<and> (blocking r \<longrightarrow> cond_status r \<noteq> ConditionTrue)"
    by (elim disjE conjE; simp add: blocking_def)
  with rh show ?thesis by blast
qed

lemma find_fault_targets:
  assumes "cfind A c CatalogDataImageResolved = Some r1" "cfind A c CatalogDataImageImportHealthy = Some h1"
    and "cfind A c BenchmarkDataImageResolved = Some r2" "cfind A c BenchmarkDataImageImportHealthy = Some h2"
    and "cond_reason r1 = ''NoSuccessfulImport'' \<Longrightarrow> cond_status h1 = ConditionUnknown"
    and "cond_reason r2 = ''NoSuccessfulImport'' \<Longrightarrow> cond_status h2 = ConditionUnknown"
  obtains fault where "find_fault A c (targets getenv d) None = Some fault"
    and "fault = None \<longleftrightarrow> \<not> (blocking r1 \<or> blocking r2)"
    and "\<And>f. fault = Some f \<Longrightarrow> f = r1 \<or> f = r2"
proof -
  let ?f = "if cond_reason r1 = ''AwaitingSuccessfulImport'' then
        (if cond_reason r2 \<noteq> ''AwaitingSuccessfulImport'' \<and> blocking r2 then Some r2 else Some r1)
      else if blocking r1 then Some r1 else if blocking r2 then Some r2 else None"
  have "find_fault A c (targets getenv d) None = Some ?f"
    using assms by (simp add: targets_eq blocking_def)
  moreover have "?f = None \<longleftrightarrow> \<not> (blocking r1 \<or> blocking r2)" by (simp add: blocking_def)
  ultimately show thesis using that[of ?f] by (simp split: if_splits)
qed

lemma record_images_simps:
  "st_resolvedImages (cat_status (record_images A now p c)) = resolved_images A c p"
  "cat_generation (record_images A now p c) = cat_generation c"
  "cat_spec (record_images A now p c) = cat_spec c"
  "activation (record_images A now p c) = activation c"
  by (simp_all add: record_images_def Let_def)

context conditions_api
begin

lemma find_record_images:
  "t \<noteq> conditionWorkloadAvailable \<Longrightarrow> cfind A (record_images A now p c) t = cfind A c t"
  by (simp add: record_images_def Let_def find_after_set)

lemma aggregate_find:
  assumes "cfind A c t1 = Some r1" and "cfind A c t2 = Some r2"
  obtains c' g where "aggregateDataImageConditions A now t t1 t2 c = Some c'"
    and "bare c' = bare c" and "\<And>u. u \<noteq> t \<Longrightarrow> cfind A c' u = cfind A c u"
    and "cfind A c' t = Some g" and "cond_observedGeneration g = cat_generation c"
    and "cond_status g = ConditionTrue \<longleftrightarrow> cond_status r1 = ConditionTrue \<and> cond_status r2 = ConditionTrue"
    and "cond_status g = ConditionTrue \<Longrightarrow> cond_reason g \<in> {''IndependentSelections'', cond_reason r1, cond_reason r2}"
proof -
  obtain st r m where a: "aggregateDataImageConditions A now t t1 t2 c
        = Some (setCatalogDataImageCondition A now t st r m c)"
      and st: "st = ConditionTrue \<longleftrightarrow> cond_status r1 = ConditionTrue \<and> cond_status r2 = ConditionTrue"
      and r: "st = ConditionTrue \<Longrightarrow> r \<in> {''IndependentSelections'', cond_reason r1, cond_reason r2}"
    using assms by (auto simp: aggregateDataImageConditions_def Let_def condition_priority_def)
  show thesis
    using r by (intro that[OF a, of "stamp now (cfind A c t) (new_condition c t st r m)"])
      (simp_all add: find_after_set st)
qed

lemma conclude_find:
  assumes "conclude_resolution A now fault causes c = (e, c')"
  shows "e = None \<longleftrightarrow> fault = None"
    and "isConditionTrue A (conds c') conditionDataImageUpdateBlocked \<longleftrightarrow> fault \<noteq> None"
    and "cfind A c' conditionDataImageResolved = cfind A c conditionDataImageResolved"
    and "st_resolvedImages (cat_status c') = st_resolvedImages (cat_status c)"
    and "cat_generation c' = cat_generation c"
    and "isConditionTrue A (conds c') conditionCatalogReady \<Longrightarrow> current_true A c conditionDataImageResolved"
    and "isConditionTrue A (conds c') ConditionTypeAvailable \<Longrightarrow> current_true A c conditionDataImageResolved"
    and "isConditionTrue A (conds c') conditionImageSelectionReady \<Longrightarrow> current_true A c conditionDataImageResolved"
  using assms
  by (auto simp: conclude_resolution_def reduce_keeps find_after_set isConditionTrue_def[of A _ conditionDataImageUpdateBlocked]
      reduce_status ready_true_iff selection_true_iff current_true_def split: option.splits)

lemma resolve_targets_conditions:
  fixes K :: "'w catalog_api"
  assumes s: "s = resolve_targets K A getenv now c params w"
  obtains r1 h1 r2 h2 where
    "cfind A (rs_catalog s) CatalogDataImageResolved = Some r1"
    "cfind A (rs_catalog s) CatalogDataImageImportHealthy = Some h1"
    "cfind A (rs_catalog s) BenchmarkDataImageResolved = Some r2"
    "cfind A (rs_catalog s) BenchmarkDataImageImportHealthy = Some h2"
    "cond_reason r1 = ''NoSuccessfulImport'' \<Longrightarrow> cond_status h1 = ConditionUnknown"
    "cond_reason r2 = ''NoSuccessfulImport'' \<Longrightarrow> cond_status h2 = ConditionUnknown"
    "blocking r1 \<or> blocking r2 \<Longrightarrow> \<not> (cond_status r1 = ConditionTrue \<and> cond_status r2 = ConditionTrue)"
    "cond_status r1 = ConditionTrue \<Longrightarrow> image_settled (ca_quote K) getenv (catalog_target getenv c)
         (cp_catalogDataImage params) (cp_catalogDataImage (rs_params s))"
    "cond_status r2 = ConditionTrue \<Longrightarrow> image_settled (ca_quote K) getenv (benchmark_target getenv c)
         (cp_benchmarkDataImage params) (cp_benchmarkDataImage (rs_params s))"
  using target_postD[OF resolve_targets_post(1)[OF s]] target_postD[OF resolve_targets_post(2)[OF s]]
  unfolding target_fields by blast

text \<open>The aggregated conditions and the fault, over the same four conditions.\<close>

lemma aggregate_both:
  assumes "cfind A c CatalogDataImageResolved = Some r1" "cfind A c CatalogDataImageImportHealthy = Some h1"
    and "cfind A c BenchmarkDataImageResolved = Some r2" "cfind A c BenchmarkDataImageImportHealthy = Some h2"
  obtains c1 c2 g where
    "aggregateDataImageConditions A now conditionDataImageResolved
       CatalogDataImageResolved BenchmarkDataImageResolved c = Some c1"
    "aggregateDataImageConditions A now conditionDataImageImportHealthy
       CatalogDataImageImportHealthy BenchmarkDataImageImportHealthy c1 = Some c2"
    "bare c2 = bare c" "cfind A c2 conditionDataImageResolved = Some g"
    "cond_observedGeneration g = cat_generation c2"
    "cond_status g = ConditionTrue \<longleftrightarrow> cond_status r1 = ConditionTrue \<and> cond_status r2 = ConditionTrue"
    "\<And>u. u \<notin> {conditionDataImageResolved, conditionDataImageImportHealthy} \<Longrightarrow> cfind A c2 u = cfind A c u"
proof -
  obtain c1 g where a1: "aggregateDataImageConditions A now conditionDataImageResolved
        CatalogDataImageResolved BenchmarkDataImageResolved c = Some c1" "bare c1 = bare c"
      "\<And>u. u \<noteq> conditionDataImageResolved \<Longrightarrow> cfind A c1 u = cfind A c u"
      "cfind A c1 conditionDataImageResolved = Some g" "cond_observedGeneration g = cat_generation c"
      "cond_status g = ConditionTrue \<longleftrightarrow> cond_status r1 = ConditionTrue \<and> cond_status r2 = ConditionTrue"
    by (rule aggregate_find[OF assms(1,3), of now conditionDataImageResolved]) blast
  have h: "cfind A c1 CatalogDataImageImportHealthy = Some h1" "cfind A c1 BenchmarkDataImageImportHealthy = Some h2"
    using assms by (simp_all add: a1(3))
  obtain c2 where a2: "aggregateDataImageConditions A now conditionDataImageImportHealthy
        CatalogDataImageImportHealthy BenchmarkDataImageImportHealthy c1 = Some c2" "bare c2 = bare c1"
      "\<And>u. u \<noteq> conditionDataImageImportHealthy \<Longrightarrow> cfind A c2 u = cfind A c1 u"
    by (rule aggregate_find[OF h, of now conditionDataImageImportHealthy]) blast
  show thesis
    using a1 a2 bare_eq(1)[of c2 c] by (intro that[OF a1(1) a2(1)]) simp_all
qed

text \<open>The resolver seen through the two target conditions \<open>r1\<close> and \<open>r2\<close>.\<close>

lemma resolver_result:
  fixes K :: "'w catalog_api"
  obtains e c' w' r1 r2 p where
    "p = legacy_runtime_release getenv (rs_catalog (resolve_targets K A getenv now c params w))
           (rs_params (resolve_targets K A getenv now c params w))"
    and "w' = rs_world (resolve_targets K A getenv now c params w)"
    and "cfind A (rs_catalog (resolve_targets K A getenv now c params w)) CatalogDataImageResolved = Some r1"
    and "cfind A (rs_catalog (resolve_targets K A getenv now c params w)) BenchmarkDataImageResolved = Some r2"
    and "resolveCatalogDataImages K A getenv now c params w = Some (e, c', p, w')"
    and "e = None \<longleftrightarrow> \<not> (blocking r1 \<or> blocking r2)"
    and "isConditionTrue A (conds c') conditionDataImageUpdateBlocked \<longleftrightarrow> e \<noteq> None"
    and "blocking r1 \<or> blocking r2 \<Longrightarrow> \<not> (cond_status r1 = ConditionTrue \<and> cond_status r2 = ConditionTrue)"
    and "current_true A c' conditionDataImageResolved \<longleftrightarrow> cond_status r1 = ConditionTrue \<and> cond_status r2 = ConditionTrue"
    and "isConditionTrue A (conds c') conditionDataImageResolved \<longleftrightarrow> current_true A c' conditionDataImageResolved"
    and "st_resolvedImages (cat_status c') \<noteq> None \<longleftrightarrow> current_true A c' conditionDataImageResolved"
    and "\<And>t. t \<in> {conditionCatalogReady, ConditionTypeAvailable, conditionImageSelectionReady} \<Longrightarrow>
           isConditionTrue A (conds c') t \<Longrightarrow> current_true A c' conditionDataImageResolved"
    and "cond_status r1 = ConditionTrue \<Longrightarrow>
           image_settled (ca_quote K) getenv (catalog_target getenv c) (cp_catalogDataImage params) (cp_catalogDataImage p)"
    and "cond_status r2 = ConditionTrue \<Longrightarrow>
           image_settled (ca_quote K) getenv (benchmark_target getenv c) (cp_benchmarkDataImage params) (cp_benchmarkDataImage p)"
proof -
  let ?s = "resolve_targets K A getenv now c params w"
  let ?p = "legacy_runtime_release getenv (rs_catalog ?s) (rs_params ?s)"
  have img: "cp_catalogDataImage ?p = cp_catalogDataImage (rs_params ?s)"
      "cp_benchmarkDataImage ?p = cp_benchmarkDataImage (rs_params ?s)"
    by (simp_all add: legacy_runtime_release_def Let_def split: prod.split)
  obtain r1 h1 r2 h2 where t: "cfind A (rs_catalog ?s) CatalogDataImageResolved = Some r1"
      "cfind A (rs_catalog ?s) CatalogDataImageImportHealthy = Some h1"
      "cfind A (rs_catalog ?s) BenchmarkDataImageResolved = Some r2"
      "cfind A (rs_catalog ?s) BenchmarkDataImageImportHealthy = Some h2"
      "cond_reason r1 = ''NoSuccessfulImport'' \<Longrightarrow> cond_status h1 = ConditionUnknown"
      "cond_reason r2 = ''NoSuccessfulImport'' \<Longrightarrow> cond_status h2 = ConditionUnknown"
    and post: "blocking r1 \<or> blocking r2 \<Longrightarrow> \<not> (cond_status r1 = ConditionTrue \<and> cond_status r2 = ConditionTrue)"
      "cond_status r1 = ConditionTrue \<Longrightarrow> image_settled (ca_quote K) getenv (catalog_target getenv c)
         (cp_catalogDataImage params) (cp_catalogDataImage (rs_params ?s))"
      "cond_status r2 = ConditionTrue \<Longrightarrow> image_settled (ca_quote K) getenv (benchmark_target getenv c)
         (cp_benchmarkDataImage params) (cp_benchmarkDataImage (rs_params ?s))"
    by (rule resolve_targets_conditions[OF refl, where K=K and getenv=getenv and now=now and c=c
          and params=params and w=w]) blast
  from t(1-4) obtain c1 c2 g where a: "aggregateDataImageConditions A now conditionDataImageResolved
        CatalogDataImageResolved BenchmarkDataImageResolved (rs_catalog ?s) = Some c1"
      "aggregateDataImageConditions A now conditionDataImageImportHealthy
        CatalogDataImageImportHealthy BenchmarkDataImageImportHealthy c1 = Some c2"
      "cfind A c2 conditionDataImageResolved = Some g" "cond_observedGeneration g = cat_generation c2"
      "cond_status g = ConditionTrue \<longleftrightarrow> cond_status r1 = ConditionTrue \<and> cond_status r2 = ConditionTrue"
      "\<And>u. u \<notin> {conditionDataImageResolved, conditionDataImageImportHealthy} \<Longrightarrow> cfind A c2 u = cfind A (rs_catalog ?s) u"
    by (rule aggregate_both[where now=now]) blast
  let ?c3 = "record_images A now ?p c2"
  have f: "cfind A ?c3 CatalogDataImageResolved = Some r1" "cfind A ?c3 CatalogDataImageImportHealthy = Some h1"
      "cfind A ?c3 BenchmarkDataImageResolved = Some r2" "cfind A ?c3 BenchmarkDataImageImportHealthy = Some h2"
    using t(1-4) by (simp_all add: find_record_images a(6))
  obtain fault where ff: "find_fault A ?c3 (targets getenv c) None = Some fault"
      "fault = None \<longleftrightarrow> \<not> (blocking r1 \<or> blocking r2)"
    by (rule find_fault_targets[OF f t(5,6)]) blast+
  obtain e c' where cr: "conclude_resolution A now fault (rs_causes ?s) ?c3 = (e, c')" by fastforce
  note cf = conclude_find[OF cr]
  have cur: "current_true A c' conditionDataImageResolved \<longleftrightarrow> cond_status g = ConditionTrue"
      "current_true A ?c3 conditionDataImageResolved \<longleftrightarrow> cond_status g = ConditionTrue"
      "isConditionTrue A (conds c') conditionDataImageResolved \<longleftrightarrow> cond_status g = ConditionTrue"
      "isConditionTrue A (conds c2) conditionDataImageResolved \<longleftrightarrow> cond_status g = ConditionTrue"
    using a(3,4) cf(3,5)
    by (simp_all add: current_true_def isConditionTrue_def find_record_images record_images_simps)
  have images: "st_resolvedImages (cat_status c') \<noteq> None \<longleftrightarrow> cond_status g = ConditionTrue"
    using cf(4) cur(4) by (auto simp: record_images_simps resolved_images_def Let_def split: option.splits if_splits)
  have "resolveCatalogDataImages K A getenv now c params w = Some (e, c', ?p, rs_world ?s)"
    by (simp add: resolveCatalogDataImages_def Let_def a(1,2) ff(1) cr)
  moreover have "e = None \<longleftrightarrow> \<not> (blocking r1 \<or> blocking r2)" using cf(1) ff(2) by blast
  moreover have "isConditionTrue A (conds c') conditionDataImageUpdateBlocked \<longleftrightarrow> e \<noteq> None"
    using cf(1,2) by blast
  moreover note post(1)
  moreover have "current_true A c' conditionDataImageResolved
      \<longleftrightarrow> cond_status r1 = ConditionTrue \<and> cond_status r2 = ConditionTrue" using cur(1) a(5) by blast
  ultimately show thesis
    using cf(6-8) cur images post(2,3) unfolding img[symmetric] by (intro that[OF refl refl t(1,3)]) blast+
qed

lemma resolver_view:
  assumes "resolveCatalogDataImages K A getenv now c params w = Some (e, c', p, w')"
  shows "isConditionTrue A (conds c') conditionDataImageUpdateBlocked \<longleftrightarrow> e \<noteq> None"
    and "e \<noteq> None \<Longrightarrow> \<not> current_true A c' conditionDataImageResolved"
    and "isConditionTrue A (conds c') conditionDataImageResolved \<longleftrightarrow> current_true A c' conditionDataImageResolved"
    and "st_resolvedImages (cat_status c') \<noteq> None \<longleftrightarrow> current_true A c' conditionDataImageResolved"
    and "t \<in> {conditionCatalogReady, ConditionTypeAvailable, conditionImageSelectionReady} \<Longrightarrow>
           isConditionTrue A (conds c') t \<Longrightarrow> current_true A c' conditionDataImageResolved"
    and "current_true A c' conditionDataImageResolved \<Longrightarrow>
           image_settled (ca_quote K) getenv (catalog_target getenv c) (cp_catalogDataImage params) (cp_catalogDataImage p)"
    and "current_true A c' conditionDataImageResolved \<Longrightarrow>
           image_settled (ca_quote K) getenv (benchmark_target getenv c) (cp_benchmarkDataImage params) (cp_benchmarkDataImage p)"
  using assms
  by - (rule resolver_result[where K=K and getenv=getenv and now=now and c=c and params=params and w=w]; force)+

lemma resolver_blocks_iff:
  assumes "resolveCatalogDataImages K A getenv now c params w = Some (e, c', p, w')"
  shows "\<exists>r1 r2. cfind A (rs_catalog (resolve_targets K A getenv now c params w)) CatalogDataImageResolved = Some r1
    \<and> cfind A (rs_catalog (resolve_targets K A getenv now c params w)) BenchmarkDataImageResolved = Some r2
    \<and> (e = None \<longleftrightarrow> \<not> (blocking r1 \<or> blocking r2))
    \<and> (current_true A c' conditionDataImageResolved \<longleftrightarrow> cond_status r1 = ConditionTrue \<and> cond_status r2 = ConditionTrue)
    \<and> w' = rs_world (resolve_targets K A getenv now c params w)"
  using assms
  by - (rule resolver_result[where K=K and getenv=getenv and now=now and c=c and params=params and w=w]; force)

text \<open>A target that does not track an ImageStream makes no API call and always resolves.\<close>

lemma resolve_target_untracked:
  assumes "dataImageSelection (ca_quote K) (tg_selection tg) = Inr sel" and "sel \<noteq> catalogDataImageStreamTag"
    and "tg_resolvedType tg \<noteq> tg_healthType tg"
  shows "rs_world (resolve_target K A getenv now tg s) = rs_world s"
    and "\<exists>r. cfind A (rs_catalog (resolve_target K A getenv now tg s)) (tg_resolvedType tg) = Some r
       \<and> cond_status r = ConditionTrue \<and> cond_reason r \<in> {''ReleaseDefault'', ''DigestPinned''}"
  using assms by (auto simp: resolve_target_def Let_def find_setters)

lemma resolve_targets_last:
  "resolve_targets K A getenv now c params w = resolve_target K A getenv now (benchmark_target getenv c)
     (resolve_target K A getenv now (catalog_target getenv c) (initial_rstate c params w))"
  by (simp add: resolve_targets_def targets_eq)

lemma catalog_resolution_kept:
  "cfind A (rs_catalog (resolve_targets K A getenv now c params w)) CatalogDataImageResolved
     = cfind A (rs_catalog (resolve_target K A getenv now (catalog_target getenv c) (initial_rstate c params w)))
         CatalogDataImageResolved"
  by (simp add: resolve_targets_last resolve_target_frame)

lemma resolver_recovers:
  assumes r: "resolveCatalogDataImages K A getenv now c params w = Some (e, c', p, w')"
    and s1: "dataImageSelection (ca_quote K) (sp_catalogDataImageStream (cat_spec c)) = Inr s1" "s1 \<noteq> catalogDataImageStreamTag"
    and s2: "dataImageSelection (ca_quote K) (sp_benchmarkDataImageStream (cat_spec c)) = Inr s2" "s2 \<noteq> catalogDataImageStreamTag"
  shows "e = None" and "current_true A c' conditionDataImageResolved" and "w' = w"
proof -
  let ?t1 = "catalog_target getenv c" and ?t2 = "benchmark_target getenv c"
  let ?s1 = "resolve_target K A getenv now ?t1 (initial_rstate c params w)"
  have sel: "dataImageSelection (ca_quote K) (tg_selection ?t1) = Inr s1"
      "dataImageSelection (ca_quote K) (tg_selection ?t2) = Inr s2" using s1 s2 by simp_all
  note u1 = resolve_target_untracked[OF sel(1) s1(2)] and u2 = resolve_target_untracked[OF sel(2) s2(2)]
  have w: "rs_world (resolve_targets K A getenv now c params w) = w"
    using u1(1) u2(1) by (simp add: resolve_targets_last initial_rstate_def)
  obtain r1 r2 where rr:
      "cfind A (rs_catalog (resolve_targets K A getenv now c params w)) CatalogDataImageResolved = Some r1"
      "cfind A (rs_catalog (resolve_targets K A getenv now c params w)) BenchmarkDataImageResolved = Some r2"
      "e = None \<longleftrightarrow> \<not> (blocking r1 \<or> blocking r2)"
      "current_true A c' conditionDataImageResolved \<longleftrightarrow> cond_status r1 = ConditionTrue \<and> cond_status r2 = ConditionTrue"
      "w' = rs_world (resolve_targets K A getenv now c params w)"
    using resolver_blocks_iff[OF r] by blast
  have ok: "\<not> blocking x" if "cond_status x = ConditionTrue" "cond_reason x \<in> {''ReleaseDefault'', ''DigestPinned''}" for x
    using that by (auto simp: blocking_def)
  have 1: "cond_status r1 = ConditionTrue \<and> cond_reason r1 \<in> {''ReleaseDefault'', ''DigestPinned''}"
    using u1(2)[of getenv now "initial_rstate c params w"] rr(1) by (auto simp: catalog_resolution_kept)
  have 2: "cond_status r2 = ConditionTrue \<and> cond_reason r2 \<in> {''ReleaseDefault'', ''DigestPinned''}"
    using u2(2)[of getenv now ?s1] rr(2) by (auto simp: resolve_targets_last)
  show "e = None" "current_true A c' conditionDataImageResolved" "w' = w"
    using 1 2 ok rr(3-5) w by blast+
qed

text \<open>A pending import after a failed one leaves the target waiting, and the whole resolution blocked.\<close>

lemma resolve_stream_waits:
  assumes "tg_resolvedType tg \<noteq> tg_healthType tg" and "awaiting_recovery A (rs_catalog s) tg"
    and "fst (catalogDataImageImportHealth stream) = ConditionUnknown"
  shows "\<exists>r. cfind A (rs_catalog (resolve_stream K A getenv now tg stream s)) (tg_resolvedType tg) = Some r \<and> blocking r"
proof -
  obtain st r m where h: "catalogDataImageImportHealth stream = (st, r, m)" by (metis prod_cases3)
  then show ?thesis using assms
    by (simp add: resolve_stream_def settle_stream_def Let_def find_setters blocking_def)
qed

end

section \<open>Properties\<close>

text \<open>A cluster for the witnesses: its ImageStreams; every other call finds nothing.\<close>

definition sample_stream :: "TagEventCondition list \<Rightarrow> TagEvent list \<Rightarrow> ImageStream" where
  "sample_stream cs items = \<lparr>is_name = CatalogDataImageStreamName, is_namespace = ''ns'', is_uid = ''uid1'',
     is_labels = Map.empty, is_controller = None,
     is_specTags = [\<lparr>tr_name = catalogDataImageStreamTag, tr_annotations = None,
       tr_from = Some \<lparr>ref_kind = ''DockerImage'', ref_name = ''quay.io/a/b:c''\<rparr>, tr_reference = False,
       tr_generation = Some 2, tr_importPolicy = [], tr_referencePolicy = []\<rparr>],
     is_statusTags = [\<lparr>nt_tag = catalogDataImageStreamTag, nt_items = items, nt_conditions = cs\<rparr>]\<rparr>"

definition sample_api :: "ImageStream \<Rightarrow> unit catalog_api" where
  "sample_api stream = \<lparr>ca_isOpenShift = True, ca_quote = (\<lambda>s. s),
     ca_applyStream = (\<lambda>p. Inr (catalog_data_imagestream_tmpl p)),
     ca_setControllerReference = (\<lambda>c s. Inr s),
     ca_createOrUpdateStream = (\<lambda>k f w. (Inr stream, w)),
     ca_getDeployment = (\<lambda>k w. (Inl (ApiError NotFound ''not found''), w)),
     ca_listCatalogs = (\<lambda>n w. (Inr [], w)),
     ca_listEndpointSlices = (\<lambda>n v w. (Inr [], w)), ca_listPods = (\<lambda>n l w. (Inr [], w))\<rparr>"

definition sample_params :: CatalogParams where
  "sample_params = \<lparr>cp_name = ''model-catalog'', cp_namespace = ''ns'', cp_component = ''model-catalog'',
     cp_catalogDataImage = ''quay.io/a/b:c'', cp_benchmarkDataImage = ''quay.io/a/d:e'',
     cp_activationBlocked = False, cp_allowLegacyRuntimeFile = False, cp_activationAttempt = [],
     cp_imageImportEvidence = [], cp_dataImageStreamName = [], cp_dataImageStreamSource = [],
     cp_adminGroups = [], cp_labeledSources = [], cp_hfSources = [], cp_hfSecretsHash = [],
     cp_postgresSecretHash = [], cp_proxyTLSArgs = [], cp_proxy = None,
     cp_postgresImage = [], cp_postgresResources = None, cp_catalogResources = None, cp_sizeLimit = None,
     cp_gateway = ([], [], []), cp_httpRouteNamespace = [], cp_applicationsNamespace = []\<rparr>"

definition sample_digest :: string where
  "sample_digest = ''sha256:'' @ replicate 64 (CHR ''a'')"

text \<open>A Catalog whose two selections are given.\<close>

definition selecting :: "string option \<Rightarrow> string option \<Rightarrow> Catalog" where
  "selecting s1 s2 = (sample_catalog None [])\<lparr>cat_spec := \<lparr>sp_catalogDataImageStream = s1,
     sp_benchmarkDataImageStream = s2, sp_proxy = None,
       sp_catalogResources = None, sp_postgresResources = None, sp_sizeLimit = None\<rparr>\<rparr>"

definition failed_import :: TagEventCondition where
  "failed_import = \<lparr>tc_type = ''ImportSuccess'', tc_status = ''False'', tc_reason = ''Unauthorized'',
     tc_message = [], tc_generation = 2\<rparr>"

definition good_import :: TagEvent where
  "good_import = \<lparr>te_dockerImageReference = ''quay.io/a/b:c'', te_image = sample_digest, te_generation = 2\<rparr>"

text \<open>
  The resolver never dereferences a missing condition. Every round of its loop leaves both
  conditions of its target behind, so the aggregation and the search for a fault, which read
  through pointers, return for every Catalog, every cluster and every answer of the API.
\<close>

theorem resolver_total:
  assumes "conditions_api A"
  shows "\<exists>e c' p' w'. resolveCatalogDataImages K A getenv now c params w = Some (e, c', p', w')"
  by (rule conditions_api.resolver_result[OF assms, where K=K and getenv=getenv and now=now and c=c
        and params=params and w=w]) blast

theorem resolver_total_witness:
  "\<exists>e c' p' w'. resolveCatalogDataImages (sample_api (sample_stream [failed_import] [])) list_conditions (\<lambda>_. []) 5
     (selecting (Some ''stable'') None) sample_params () = Some (e, c', p', w')"
  by (rule resolver_total[OF lc.conditions_api_axioms])

text \<open>
  C11: the resolver fails closed. When it reports the images unavailable, updates are blocked,
  no image pair is recorded as resolved, and the Catalog is neither Ready nor Available nor
  reported with a ready selection, whatever the conditions said before. When it does not,
  updates are allowed.
\<close>

theorem resolver_fails_closed:
  assumes "conditions_api A"
    and "resolveCatalogDataImages K A getenv now c params w = Some (e, c', p', w')"
  shows "(isConditionTrue A (conds c') conditionDataImageUpdateBlocked \<longleftrightarrow> e \<noteq> None)
    \<and> (e \<noteq> None \<longrightarrow> st_resolvedImages (cat_status c') = None
         \<and> \<not> isConditionTrue A (conds c') conditionCatalogReady
         \<and> \<not> isConditionTrue A (conds c') ConditionTypeAvailable
         \<and> \<not> isConditionTrue A (conds c') conditionImageSelectionReady)"
  using conditions_api.resolver_view[OF assms] by blast

theorem resolver_fails_closed_witness:
  "case resolveCatalogDataImages (sample_api (sample_stream [failed_import] [good_import])) list_conditions
      (\<lambda>_. []) 5 (selecting (Some ''stable'') None) sample_params () of
     Some (Some e, c', _) \<Rightarrow> isConditionTrue list_conditions (conds c') conditionDataImageUpdateBlocked
       \<and> st_resolvedImages (cat_status c') = None
   | _ \<Rightarrow> False"
proof -
  let ?r = "resolveCatalogDataImages (sample_api (sample_stream [failed_import] [good_import])) list_conditions
      (\<lambda>_. []) 5 (selecting (Some ''stable'') None) sample_params ()"
  have "case ?r of Some (Some e, _) \<Rightarrow> True | _ \<Rightarrow> False" by code_simp
  then obtain e c' p' w' where "?r = Some (Some e, c', p', w')"
    by (auto split: option.splits prod.splits)
  with resolver_fails_closed[OF lc.conditions_api_axioms this] show ?thesis by simp
qed

text \<open>
  C12: what a resolved selection serves. When the aggregated resolution is true, each target
  with an empty selection keeps the release image it was given, and each other target, pinned
  or following an ImageStream, is an immutable reference \<^verbatim>\<open>repository@sha256:...\<close>, never a tag.
\<close>

theorem resolver_serves_immutable:
  assumes "conditions_api A"
    and "resolveCatalogDataImages K A getenv now c params w = Some (e, c', p', w')"
    and "isConditionTrue A (conds c') conditionDataImageResolved"
  shows "(if strval (sp_catalogDataImageStream (cat_spec c)) = []
          then cp_catalogDataImage p' = cp_catalogDataImage params else pinned (cp_catalogDataImage p'))
       \<and> (if strval (sp_benchmarkDataImageStream (cat_spec c)) = []
          then cp_benchmarkDataImage p' = cp_benchmarkDataImage params else pinned (cp_benchmarkDataImage p'))"
proof -
  have settled: "if strval (tg_selection tg) = [] then img = rel else pinned img"
    if "image_settled q getenv tg rel img" for q tg rel img
    using that by (auto simp: image_settled_def dataImageSelection_def split: option.splits if_splits)
  note view = conditions_api.resolver_view[OF assms(1,2)]
  show ?thesis
    using settled[OF view(6)] settled[OF view(7)] view(3) assms(3) by simp
qed

theorem resolver_serves_immutable_witness:
  "case resolveCatalogDataImages (sample_api (sample_stream [] [good_import])) list_conditions
      (\<lambda>_. []) 5 (selecting (Some ''stable'') None) sample_params () of
     Some (e, c', p', _) \<Rightarrow> pinned (cp_catalogDataImage p')
   | None \<Rightarrow> False"
proof -
  let ?r = "resolveCatalogDataImages (sample_api (sample_stream [] [good_import])) list_conditions
      (\<lambda>_. []) 5 (selecting (Some ''stable'') None) sample_params ()"
  have "case ?r of Some (_, c', _) \<Rightarrow> isConditionTrue list_conditions (conds c') conditionDataImageResolved
      | _ \<Rightarrow> False" by code_simp
  then obtain e c' p' w' where r: "?r = Some (e, c', p', w')"
      "isConditionTrue list_conditions (conds c') conditionDataImageResolved"
    by (auto split: option.splits prod.splits)
  have "strval (sp_catalogDataImageStream (cat_spec (selecting (Some ''stable'') None))) \<noteq> []"
    by (simp add: selecting_def)
  then show ?thesis using resolver_serves_immutable[OF lc.conditions_api_axioms r] by (simp add: r(1))
qed

text \<open>
  Recovery does not depend on the cluster. With both selections empty or pinned to a
  digest, the resolver makes no API call, is never blocked and resolves the pair, whatever the
  API would answer, whatever the import history is and whatever conditions an earlier failure
  left behind. This is the way out that the blocked condition's message promises.
\<close>

theorem resolver_recovery_without_cluster:
  assumes "conditions_api A"
    and "dataImageSelection (ca_quote K) (sp_catalogDataImageStream (cat_spec c)) = Inr s1" "s1 \<noteq> catalogDataImageStreamTag"
    and "dataImageSelection (ca_quote K) (sp_benchmarkDataImageStream (cat_spec c)) = Inr s2" "s2 \<noteq> catalogDataImageStreamTag"
  shows "\<exists>c' p'. resolveCatalogDataImages K A getenv now c params w = Some (None, c', p', w)
    \<and> isConditionTrue A (conds c') conditionDataImageResolved
    \<and> \<not> isConditionTrue A (conds c') conditionDataImageUpdateBlocked
    \<and> st_resolvedImages (cat_status c') \<noteq> None"
proof -
  obtain e c' p' w' where r: "resolveCatalogDataImages K A getenv now c params w = Some (e, c', p', w')"
    by (rule conditions_api.resolver_result[OF assms(1), where K=K and getenv=getenv and now=now and c=c
        and params=params and w=w]) blast
  show ?thesis
    using conditions_api.resolver_recovers[OF assms(1) r assms(2-5)]
      conditions_api.resolver_view[OF assms(1) r] r by blast
qed

theorem resolver_recovery_without_cluster_witness:
  "\<exists>c' p'. resolveCatalogDataImages (sample_api (sample_stream [failed_import] [])) list_conditions (\<lambda>_. []) 5
      (selecting (Some sample_digest) None) sample_params () = Some (None, c', p', ())
    \<and> st_resolvedImages (cat_status c') \<noteq> None"
proof -
  have "dataImageSelection (ca_quote (sample_api (sample_stream [failed_import] [])))
      (sp_catalogDataImageStream (cat_spec (selecting (Some sample_digest) None))) = Inr sample_digest"
      "dataImageSelection (ca_quote (sample_api (sample_stream [failed_import] [])))
      (sp_benchmarkDataImageStream (cat_spec (selecting (Some sample_digest) None))) = Inr []"
      "sample_digest \<noteq> catalogDataImageStreamTag" "[] \<noteq> catalogDataImageStreamTag"
    by code_simp+
  from resolver_recovery_without_cluster[OF lc.conditions_api_axioms this(1) this(3) this(2) this(4)]
  show ?thesis by blast
qed

text \<open>
  Containment is sticky. Once the import of a tracked catalog selection is recorded as
  failed (or its resolution as waiting after a failure), a merely pending import never lifts
  the block: the resolver keeps reporting the images unavailable until an import succeeds or
  the selection changes.
\<close>

theorem failed_import_blocks_until_success:
  assumes "conditions_api A"
    and "ca_isOpenShift K"
    and "sp_catalogDataImageStream (cat_spec c) = Some catalogDataImageStreamTag"
    and "awaiting_recovery A c (catalog_target getenv c)"
    and "ensureCatalogDataImageStreamForSource K c
           (params\<lparr>cp_allowLegacyRuntimeFile := False\<rparr>) CatalogDataImageStreamName
           (fst (catalogDataImageSources getenv)) w = (Inr stream, w1)"
    and "fst (catalogDataImageImportHealth stream) = ConditionUnknown"
    and "resolveCatalogDataImages K A getenv now c params w = Some (e, c', p', w')"
  shows "e \<noteq> None \<and> isConditionTrue A (conds c') conditionDataImageUpdateBlocked"
proof -
  let ?t = "catalog_target getenv c" and ?s = "initial_rstate c params w"
  have fields: "tg_streamName ?t = CatalogDataImageStreamName" "tg_source ?t = fst (catalogDataImageSources getenv)"
    by (simp_all add: catalog_target_def targets_def Let_def)
  have stable: "catalogDataImageStreamTag \<noteq> []" by (simp add: catalogDataImageStreamTag_def)
  have "resolve_target K A getenv now ?t ?s = resolve_stream K A getenv now ?t stream
      (?s\<lparr>rs_streams := [tg_streamName ?t \<mapsto> stream], rs_world := w1\<rparr>)"
    using assms(2,3,5) stable
    by (simp add: resolve_target_def resolve_tracked_def dataImageSelection_def initial_rstate_def fields)
  moreover have "awaiting_recovery A (rs_catalog (?s\<lparr>rs_streams := [tg_streamName ?t \<mapsto> stream], rs_world := w1\<rparr>)) ?t"
    using assms(4) by (simp add: initial_rstate_def)
  ultimately have "\<exists>r. cfind A (rs_catalog (resolve_target K A getenv now ?t ?s)) CatalogDataImageResolved = Some r \<and> blocking r"
    using conditions_api.resolve_stream_waits[OF assms(1), of ?t _ stream K getenv now] assms(6) by fastforce
  then show ?thesis
    using conditions_api.resolver_blocks_iff[OF assms(1,7)] conditions_api.resolver_view(1)[OF assms(1,7)]
    unfolding conditions_api.catalog_resolution_kept[OF assms(1)] by auto
qed

theorem failed_import_blocks_until_success_witness:
  "case resolveCatalogDataImages (sample_api (sample_stream [] [])) list_conditions (\<lambda>_. []) 5
      ((selecting (Some catalogDataImageStreamTag) None)\<lparr>cat_status := \<lparr>st_activation = None,
         st_conditions = [sample_condition CatalogDataImageImportHealthy ''False'' ''ImportFailed''],
         st_resolvedImages = None, st_observedGeneration = 0\<rparr>\<rparr>) sample_params () of
     Some (e, _) \<Rightarrow> e \<noteq> None | None \<Rightarrow> False"
proof -
  let ?K = "sample_api (sample_stream [] [])"
  let ?c = "(selecting (Some catalogDataImageStreamTag) None)\<lparr>cat_status := \<lparr>st_activation = None,
         st_conditions = [sample_condition CatalogDataImageImportHealthy ''False'' ''ImportFailed''],
         st_resolvedImages = None, st_observedGeneration = 0\<rparr>\<rparr>"
  obtain e c' p' w' where r: "resolveCatalogDataImages ?K list_conditions (\<lambda>_. []) 5 ?c sample_params () = Some (e, c', p', w')"
    by (rule lc.resolver_result[where K="?K" and getenv="\<lambda>_. []" and now=5 and c="?c" and params=sample_params and w="()"]) blast
  have "ca_isOpenShift ?K" "sp_catalogDataImageStream (cat_spec ?c) = Some catalogDataImageStreamTag"
      "fst (catalogDataImageImportHealth (sample_stream [] [])) = ConditionUnknown"
      "awaiting_recovery list_conditions ?c (catalog_target (\<lambda>_. []) ?c)" by code_simp+
  moreover have "ensureCatalogDataImageStreamForSource ?K ?c (sample_params\<lparr>cp_allowLegacyRuntimeFile := False\<rparr>)
      CatalogDataImageStreamName (fst (catalogDataImageSources (\<lambda>_. []))) () = (Inr (sample_stream [] []), ())"
    by (simp add: ensureCatalogDataImageStreamForSource_def sample_api_def)
  ultimately show ?thesis
    using failed_import_blocks_until_success[OF lc.conditions_api_axioms _ _ _ _ _ r] r by simp
qed

end
