(* ===== verification/Catalog_Streams.thy ===== *)
theory Catalog_Streams
  imports Catalog_Resolution
begin

text \<open>
  Correctness of the ImageStream reconciliation and of the import evidence of
  \<open>Catalog_Images\<close>: what a merge keeps of the cluster's tags, and that the evidence strings
  that enter the activation request tell different observations apart.
\<close>

section \<open>Merging tags\<close>

definition has_tag :: "string \<Rightarrow> TagReference list \<Rightarrow> bool" where
  "has_tag n tags = list_ex (\<lambda>t. tr_name t = n) tags"

definition managed_by_operator :: "TagReference \<Rightarrow> bool" where
  "managed_by_operator tag =
     (case tr_from tag of None \<Rightarrow> True
      | Some f \<Rightarrow> ref_kind f = ''DockerImage''
          \<and> ref_name f = (case tr_annotations tag of None \<Rightarrow> [] | Some m \<Rightarrow> mapget m managedDataImageSourceAnnotation))"

lemma merge_tag_from:
  "tr_from (merge_tag d src t) = (if managed_by_operator t then Some src else tr_from t)"
  "tr_generation (merge_tag d src t) = (if managed_by_operator t \<and> tr_from t \<noteq> Some src then Some 0 else tr_generation t)"
  "tr_name (merge_tag d src t) = tr_name t"
  by (auto simp: merge_tag_def managed_by_operator_def Let_def split: option.splits)

lemma merge_tag_manual:
  "\<not> managed_by_operator t \<Longrightarrow> tr_from t \<noteq> Some src \<Longrightarrow> tr_annotations (merge_tag d src t) = tr_annotations t"
  by (auto simp: merge_tag_def managed_by_operator_def Let_def split: option.splits)

lemma merge_tag_again: "merge_tag d src (merge_tag d src t) = merge_tag d src t"
  by (auto simp: merge_tag_def Let_def split: option.splits)

lemma update_first_others:
  assumes "\<And>t. tr_name (f t) = tr_name t"
  shows "filter (\<lambda>t. tr_name t \<noteq> n) (update_first n f tags) = filter (\<lambda>t. tr_name t \<noteq> n) tags"
  by (induction tags) (auto simp: assms)

lemma update_first_find:
  assumes "\<And>t. tr_name (f t) = tr_name t"
  shows "find (\<lambda>t. tr_name t = n) (update_first n f tags) = map_option f (find (\<lambda>t. tr_name t = n) tags)"
  by (induction tags) (auto simp: assms)

lemma update_first_twice:
  assumes "\<And>t. tr_name (f t) = tr_name t" and "\<And>t. f (f t) = f t"
  shows "update_first n f (update_first n f tags) = update_first n f tags"
  by (induction tags) (auto simp: assms)

lemma update_first_names:
  assumes "\<And>t. tr_name (f t) = tr_name t"
  shows "map tr_name (update_first n f tags) = map tr_name tags"
  by (induction tags) (auto simp: assms)

lemma merge_one:
  assumes "tr_from d = Some src"
  shows "merge_tags [d] tags = Inr (if \<forall>t \<in> set tags. tr_name t \<noteq> tr_name d then tags @ [d]
           else update_first (tr_name d) (merge_tag d src) tags)"
  using assms by simp

lemma find_none_names: "(find (\<lambda>t. tr_name t = n) tags = None) = (\<forall>t \<in> set tags. tr_name t \<noteq> n)"
  by (auto simp: find_None_iff)

text \<open>The tag the template renders.\<close>

definition tmpl_tag :: "CatalogParams \<Rightarrow> TagReference" where
  "tmpl_tag p = hd (is_specTags (catalog_data_imagestream_tmpl p))"

definition tmpl_source :: "CatalogParams \<Rightarrow> ObjectReference" where
  "tmpl_source p = \<lparr>ref_kind = ''DockerImage'', ref_name = cp_dataImageStreamSource p\<rparr>"

lemma tmpl_tags_have_source:
  "is_specTags (catalog_data_imagestream_tmpl p) = [tmpl_tag p]"
  "tr_from (tmpl_tag p) = Some (tmpl_source p)" "tr_name (tmpl_tag p) = catalogDataImageStreamTag"
  "tr_annotations (tmpl_tag p) = Some [managedDataImageSourceAnnotation \<mapsto> ref_name (tmpl_source p)]"
  by (simp_all add: tmpl_tag_def tmpl_source_def catalog_data_imagestream_tmpl_def)

lemma merge_tag_own: "merge_tag (tmpl_tag p) (tmpl_source p) (tmpl_tag p) = tmpl_tag p"
  by (simp add: merge_tag_def tmpl_tag_def tmpl_source_def catalog_data_imagestream_tmpl_def Let_def)

lemma merge_tmpl_twice:
  assumes "merge_tags (is_specTags (catalog_data_imagestream_tmpl p)) tags = Inr tags'"
  shows "merge_tags (is_specTags (catalog_data_imagestream_tmpl p)) tags' = Inr tags'"
proof (cases "\<forall>t \<in> set tags. tr_name t \<noteq> catalogDataImageStreamTag")
  case True
  have "update_first catalogDataImageStreamTag f (tags @ [tmpl_tag p]) = tags @ [f (tmpl_tag p)]" for f
    using True by (induction tags) (auto simp: tmpl_tags_have_source)
  then show ?thesis
    using assms True
    by (auto simp: tmpl_tags_have_source merge_one merge_tag_own simp del: merge_tags.simps)
next
  case False
  let ?u = "update_first catalogDataImageStreamTag (merge_tag (tmpl_tag p) (tmpl_source p))"
  have tags': "tags' = ?u tags" using assms False by (simp add: tmpl_tags_have_source merge_one del: merge_tags.simps)
  have names: "map tr_name tags' = map tr_name tags"
    unfolding tags' by (rule update_first_names) (rule merge_tag_from)
  have "\<not> (\<forall>t \<in> set tags'. tr_name t \<noteq> catalogDataImageStreamTag)"
    using False arg_cong[OF names, of "\<lambda>ns. catalogDataImageStreamTag \<in> set ns"] by force
  then show ?thesis
    by (simp add: tmpl_tags_have_source merge_one tags' update_first_twice merge_tag_from merge_tag_again
        del: merge_tags.simps)
qed

text \<open>
  C33: reconciling the ImageStream respects what others put there. Every tag other than
  \<^verbatim>\<open>stable\<close> is kept, in order; a \<^verbatim>\<open>stable\<close> tag whose source somebody set by hand keeps that
  source and its import generation; one that still follows the operator's source moves to the
  configured source, and asks for a fresh import (generation 0) exactly when the source
  changed; and reconciling the result again changes no tag. \<^verbatim>\<open>SetControllerReference\<close> is
  assumed to leave the tags alone.
\<close>

theorem stream_merge_respects_others:
  assumes "mutateCatalogDataImageStream setRef c (catalog_data_imagestream_tmpl p) stream = Inr stream'"
    and "\<And>s s'. setRef c s = Inr s' \<Longrightarrow> is_specTags s' = is_specTags s"
  shows "filter (\<lambda>t. tr_name t \<noteq> catalogDataImageStreamTag) (is_specTags stream')
           = filter (\<lambda>t. tr_name t \<noteq> catalogDataImageStreamTag) (is_specTags stream)
    \<and> (case (find (\<lambda>t. tr_name t = catalogDataImageStreamTag) (is_specTags stream),
             find (\<lambda>t. tr_name t = catalogDataImageStreamTag) (is_specTags stream')) of
         (None, Some t') \<Rightarrow> t' = tmpl_tag p
       | (Some t, Some t') \<Rightarrow>
           (if managed_by_operator t
            then tr_from t' = Some (tmpl_source p)
              \<and> tr_generation t' = (if tr_from t = Some (tmpl_source p) then tr_generation t else Some 0)
            else tr_from t' = tr_from t \<and> tr_generation t' = tr_generation t)
       | _ \<Rightarrow> False)
    \<and> merge_tags (is_specTags (catalog_data_imagestream_tmpl p)) (is_specTags stream') = Inr (is_specTags stream')"
proof -
  obtain s1 where "setRef c (stream\<lparr>is_labels := is_labels stream ++ is_labels (catalog_data_imagestream_tmpl p)\<rparr>) = Inr s1"
      and m: "merge_tags (is_specTags (catalog_data_imagestream_tmpl p)) (is_specTags s1) = Inr (is_specTags stream')"
    using assms(1) by (auto simp: mutateCatalogDataImageStream_def Let_def split: sum.splits)
  with assms(2) have s1: "is_specTags s1 = is_specTags stream" by fastforce
  let ?tags = "is_specTags stream" and ?u = "merge_tag (tmpl_tag p) (tmpl_source p)"
  have m': "is_specTags stream' = (if \<forall>t \<in> set ?tags. tr_name t \<noteq> catalogDataImageStreamTag
      then ?tags @ [tmpl_tag p] else update_first catalogDataImageStreamTag ?u ?tags)"
    using m by (auto simp: s1 tmpl_tags_have_source merge_one simp del: merge_tags.simps split: if_splits)
  have app: "find P (xs @ [y]) = (case find P xs of None \<Rightarrow> if P y then Some y else None | Some x \<Rightarrow> Some x)"
    for P xs and y :: TagReference by (induction xs) auto
  note twice = merge_tmpl_twice[OF m]
  show ?thesis
  proof (cases "find (\<lambda>t. tr_name t = catalogDataImageStreamTag) ?tags")
    case None
    then show ?thesis using m' twice find_none_names[of catalogDataImageStreamTag ?tags]
      by (simp add: app tmpl_tags_have_source(3))
  next
    case (Some t)
    then have "is_specTags stream' = update_first catalogDataImageStreamTag ?u ?tags"
      using m' find_none_names[of catalogDataImageStreamTag ?tags] by auto
    then show ?thesis using twice Some
      by (auto simp: update_first_others update_first_find merge_tag_from)
  qed
qed

theorem stream_merge_respects_others_witness:
  "filter (\<lambda>t. tr_name t \<noteq> catalogDataImageStreamTag)
     (case mutateCatalogDataImageStream (\<lambda>c s. Inr s) (sample_catalog None [])
        (catalog_data_imagestream_tmpl sample_params)
        ((sample_stream [] [])\<lparr>is_specTags := [(tmpl_tag sample_params)\<lparr>tr_name := ''mine''\<rparr>]\<rparr>) of
        Inr s \<Rightarrow> is_specTags s | Inl e \<Rightarrow> []) = [(tmpl_tag sample_params)\<lparr>tr_name := ''mine''\<rparr>]"
proof -
  let ?t = "(tmpl_tag sample_params)\<lparr>tr_name := ''mine''\<rparr>"
  let ?s = "(sample_stream [] [])\<lparr>is_specTags := [?t]\<rparr>"
  obtain s' where m: "mutateCatalogDataImageStream (\<lambda>c s. Inr s) (sample_catalog None [])
      (catalog_data_imagestream_tmpl sample_params) ?s = Inr s'"
    by (simp add: mutateCatalogDataImageStream_def Let_def tmpl_tags_have_source catalogDataImageStreamTag_def)
  show ?thesis
    using stream_merge_respects_others[OF m] by (simp add: m catalogDataImageStreamTag_def)
qed

section \<open>Import evidence\<close>

text \<open>
  What the evidence relies on of \<^verbatim>\<open>strconv.Quote\<close> (\<^verbatim>\<open>%q\<close>): a quoted string ends where its own
  closing quote is, so it can be read off the front of a longer text.
\<close>

locale quoted_strings =
  fixes quote :: "string \<Rightarrow> string"
  assumes quote_prefix: "quote a @ x = quote b @ y \<Longrightarrow> a = b"
begin

lemma quote_append: "quote a @ x = quote b @ y \<longleftrightarrow> a = b \<and> x = y"
  using quote_prefix by auto

lemma quote_end: "quote a @ c # x = quote b @ c # y \<longleftrightarrow> a = b \<and> x = y"
  using quote_append[of a "c # x" b "c # y"] by simp

end

text \<open>The documented quoting, on text without control characters.\<close>

definition escape :: "char \<Rightarrow> string" where
  "escape c = (if c = CHR 0x22 \<or> c = CHR 0x5C then [CHR 0x5C, c] else [c])"

definition quote_ascii :: "string \<Rightarrow> string" where
  "quote_ascii s = CHR 0x22 # concat (map escape s) @ [CHR 0x22]"

lemma escape_prefix:
  "concat (map escape a) @ CHR 0x22 # x = concat (map escape b) @ CHR 0x22 # y \<Longrightarrow> a = b"
proof (induction a arbitrary: b)
  case Nil
  then show ?case by (cases b) (auto simp: escape_def split: if_splits)
next
  case (Cons c a)
  then show ?case by (cases b) (auto simp: escape_def split: if_splits)
qed

interpretation aq: quoted_strings quote_ascii
  by unfold_locales (auto simp: quote_ascii_def dest: escape_prefix)

text \<open>Decimal numbers read back.\<close>

definition read_nat :: "string \<Rightarrow> nat" where
  "read_nat s = foldl (\<lambda>a c. a * 10 + (of_char c - 48)) 0 s"

lemma read_show_nat: "read_nat (show_nat n) = n"
proof (induction n rule: show_nat.induct)
  case (1 n)
  show ?case
  proof (cases "n < 10")
    case True
    then show ?thesis by (subst show_nat.simps) (simp add: read_nat_def)
  next
    case False
    then have "read_nat (show_nat n) = read_nat (show_nat (n div 10)) * 10 + n mod 10"
      by (subst show_nat.simps) (simp add: read_nat_def)
    then show ?thesis using 1 False by simp
  qed
qed

lemma show_nat_nonempty: "show_nat n \<noteq> []" and show_nat_no_sign: "hd (show_nat n) \<noteq> CHR ''-''"
proof (induction n rule: show_nat.induct)
  case (1 n)
  have digit: "char_of (48 + d) \<noteq> CHR ''-''" if "d < (10 :: nat)" for d
  proof
    assume "char_of (48 + d) = CHR ''-''"
    then have "(of_char (char_of (48 + d) :: char) :: nat) = of_char (CHR ''-'')" by simp
    then show False using that by simp
  qed
  { case 1 show ?case by (subst show_nat.simps) simp }
  { case 2 show ?case using 1 digit by (subst show_nat.simps) auto }
qed

lemma show_int_inj: "show_int a = show_int b \<Longrightarrow> a = b"
proof -
  assume e: "show_int a = show_int b"
  have n: "show_nat m \<noteq> CHR ''-'' # xs" for m xs using show_nat_no_sign[of m] by auto
  have inj: "show_nat k = show_nat m \<Longrightarrow> k = m" for k m by (metis read_show_nat)
  from e show "a = b"
    using n inj[of "nat (- a)" "nat (- b)"] inj[of "nat a" "nat b"]
    by (auto simp: show_int_def split: if_splits dest: sym)
qed

lemma show_int_nonempty: "show_int a \<noteq> []"
  by (simp add: show_int_def show_nat_nonempty)

text \<open>What an evidence string stands for.\<close>

type_synonym observation = "ImageStream \<times> string \<times> string" \<comment> \<open>stream, target, status\<close>

definition observed :: "observation \<Rightarrow> string \<times> string \<times> string \<times> int option" where
  "observed ob = (case ob of (stream, target, status) \<Rightarrow> (is_uid stream, target, status,
     if status \<noteq> ConditionTrue then requested_generation stream else None))"

definition evidence :: "(string \<Rightarrow> string) \<Rightarrow> observation list \<Rightarrow> string" where
  "evidence quote obs =
     concat (map (\<lambda>(stream, target, status). catalogImageImportEvidence quote stream target status) obs)"

context quoted_strings
begin

lemma evidence_step:
  assumes "catalogImageImportEvidence quote s1 t1 u1 @ x = catalogImageImportEvidence quote s2 t2 u2 @ y"
  shows "observed (s1, t1, u1) = observed (s2, t2, u2) \<and> x = y"
proof -
  let ?g = "\<lambda>s u. if u \<noteq> ConditionTrue
      then (case requested_generation s of None \<Rightarrow> [] | Some g \<Rightarrow> show_int g) else []"
  have "is_uid s1 = is_uid s2 \<and> t1 = t2 \<and> u1 = u2 \<and> ?g s1 u1 = ?g s2 u2 \<and> x = y"
    using assms by (auto simp: catalogImageImportEvidence_def Let_def quote_end)
  then show ?thesis
    by (auto simp: observed_def show_int_nonempty show_int_nonempty[symmetric] dest: show_int_inj
        split: option.splits if_splits)
qed

lemma evidence_inj: "evidence quote xs = evidence quote ys \<Longrightarrow> map observed xs = map observed ys"
proof (induction xs arbitrary: ys)
  case Nil
  then show ?case
    by (cases ys) (auto simp: evidence_def catalogImageImportEvidence_def split: prod.splits)
next
  case (Cons a xs)
  show ?case
  proof (cases ys)
    case Nil
    then show ?thesis using Cons.prems by (auto simp: evidence_def catalogImageImportEvidence_def split: prod.splits)
  next
    case (Cons b zs)
    obtain s1 t1 u1 s2 t2 u2 where ab: "a = (s1, t1, u1)" "b = (s2, t2, u2)" by (metis prod_cases3)
    have "catalogImageImportEvidence quote s1 t1 u1 @ evidence quote xs
        = catalogImageImportEvidence quote s2 t2 u2 @ evidence quote zs"
      using Cons.prems by (simp add: \<open>ys = b # zs\<close> ab evidence_def)
    from evidence_step[OF this] have "observed a = observed b" "evidence quote xs = evidence quote zs"
      by (simp_all add: ab)
    then show ?thesis using Cons.IH[of zs] \<open>ys = b # zs\<close> by simp
  qed
qed

end

text \<open>
  The import evidence distinguishes observations. Two sequences of observed targets give
  the same evidence only if they agree, one by one, on the stream's identity, the target, the
  import status and, for an import that is not successful, the requested generation. So a
  retry or a recovery gets a new activation request, while re-importing the same healthy
  digest does not.
\<close>

theorem evidence_injective:
  assumes "quoted_strings quote" and "evidence quote xs = evidence quote ys"
  shows "map observed xs = map observed ys"
  by (rule quoted_strings.evidence_inj[OF assms])

theorem evidence_injective_witness:
  "map observed [(sample_stream [] [], ''catalog'', ''True'')]
     = map observed [((sample_stream [] [])\<lparr>is_specTags := []\<rparr>, ''catalog'', ''True'')]"
proof -
  have "evidence quote_ascii [(sample_stream [] [], ''catalog'', ''True'')]
      = evidence quote_ascii [((sample_stream [] [])\<lparr>is_specTags := []\<rparr>, ''catalog'', ''True'')]"
    by (simp add: evidence_def catalogImageImportEvidence_def sample_stream_def)
  from evidence_injective[OF aq.quoted_strings_axioms this] show ?thesis .
qed

end
