(* ===== verification/Catalog_Activation.thy ===== *)
theory Catalog_Activation
  imports Catalog_Resolution
begin

text \<open>
  The activation protocol: \<^verbatim>\<open>internal/controller/catalog_activation.go\<close> (what a pod's status says
  about a candidate), \<^verbatim>\<open>catalog_activation_protocol.go\<close> (the attempt's state machine) and the
  workload check of \<^verbatim>\<open>catalog_controller.go\<close> they rely on. \<^verbatim>\<open>json.Unmarshal\<close> of a validator's
  report, the request's SHA-256 fingerprint and the random attempt id are arguments.
\<close>

section \<open>Workload availability\<close>

fun waiting_container :: "ContainerStatus list \<Rightarrow> (string \<times> string) option" where
  "waiting_container [] = None"
| "waiting_container (s # ss) =
     (case cs_waiting s of
        Some wt \<Rightarrow> if \<not> cs_ready s \<and> w_reason wt \<noteq> containerCreatingReason
                   then Some (cs_name s, w_message wt) else waiting_container ss
      | None \<Rightarrow> waiting_container ss)"

definition checkPodStatus ::
  "'w catalog_api \<Rightarrow> string \<Rightarrow> string \<Rightarrow> string \<Rightarrow> verdict \<Rightarrow> int \<Rightarrow> 'w \<Rightarrow> verdict \<times> 'w" where
  "checkPodStatus K app component namespace' condition unavailableReplicas w =
     (let (_, _, message) = condition;
          (answer, w') = ca_listPods K namespace' [''app'' \<mapsto> app, ''component'' \<mapsto> component] w;
          pods = (case answer of Inl e \<Rightarrow> [] | Inr ps \<Rightarrow> ps)
      in case waiting_container (concat (map p_statuses pods)) of
           Some (name, text) \<Rightarrow>
             ((ConditionFalse, ReasonConfigurationError, ''container '' @ name @ '' waiting: '' @ text), w')
         | None \<Rightarrow>
             ((ConditionFalse, ReasonDeploymentUnavailable,
               if message = [] then show_int unavailableReplicas @ '' unavailable replicas'' else message), w'))"

definition desired_replicas :: "Deployment \<Rightarrow> int" where
  "desired_replicas d = (case d_replicas d of None \<Rightarrow> 1 | Some n \<Rightarrow> n)"

text \<open>The images of the two init containers of a pod template; the last of a name counts.\<close>

fun init_images :: "Container list \<Rightarrow> string \<times> string \<Rightarrow> string \<times> string" where
  "init_images [] p = p"
| "init_images (c # cs) p = init_images cs
     (if c_name c = ''catalog-data-init'' then (c_image c, snd p)
      else if c_name c = ''benchmark-data-init'' then (fst p, c_image c) else p)"

definition template_mismatch :: "Deployment \<Rightarrow> CatalogDataImages option \<Rightarrow> bool" where
  "template_mismatch d images =
     (case images of None \<Rightarrow> False
      | Some i \<Rightarrow> init_images (d_initContainers d) ([], []) \<noteq> (img_catalog i, img_benchmark i))"

definition rollout_incomplete :: "Deployment \<Rightarrow> bool" where
  "rollout_incomplete d =
     (d_updatedReplicas d \<noteq> desired_replicas d \<or> d_statusReplicas d \<noteq> desired_replicas d
      \<or> d_readyReplicas d < desired_replicas d \<or> d_availableReplicas d < desired_replicas d)"

definition has_ready_endpoints :: "EndpointSlice list \<Rightarrow> bool" where
  "has_ready_endpoints slices =
     list_ex (\<lambda>sl. list_ex (\<lambda>ep. (ep_ready ep = None \<or> ep_ready ep = Some True) \<and> ep_addresses ep \<noteq> [])
       (es_endpoints sl)) slices"

text \<open>The last part of the check: endpoints and cooldown of a rolled out Deployment.\<close>

definition check_endpoints ::
  "'w catalog_api \<Rightarrow> time \<Rightarrow> key \<Rightarrow> time \<Rightarrow> 'w \<Rightarrow> verdict \<times> 'w" where
  "check_endpoints K now k since w =
     (case ca_listEndpointSlices K (fst k) (snd k) w of
        (Inl e, w') \<Rightarrow> ((ConditionFalse, ReasonDeploymentUnavailable,
                         ''Service endpoint slices not found: '' @ error_string e), w')
      | (Inr slices, w') \<Rightarrow>
          if \<not> has_ready_endpoints slices then
            ((ConditionFalse, ReasonDeploymentUnavailable,
              ''Service endpoints not ready - no ready addresses available''), w')
          else if now - since < deploymentDelay then
            ((ConditionFalse, ReasonDeploymentCooldown, ''Deployment only recently available''), w')
          else ((ConditionTrue, ReasonDeploymentAvailable, ''Deployment is available''), w'))"

definition rollout_message :: "Deployment \<Rightarrow> string" where
  "rollout_message d =
     ''Waiting for rollout completion: desired='' @ show_int (desired_replicas d)
     @ '', replicas='' @ show_int (d_statusReplicas d) @ '', updated='' @ show_int (d_updatedReplicas d)
     @ '', ready='' @ show_int (d_readyReplicas d) @ '', available='' @ show_int (d_availableReplicas d)"

definition checkDeploymentAvailability ::
  "'w catalog_api \<Rightarrow> time \<Rightarrow> key \<Rightarrow> string \<Rightarrow> string \<Rightarrow> CatalogDataImages option \<Rightarrow> ('w, verdict) call" where
  "checkDeploymentAvailability K now k app podComponent images w =
     (case ca_getDeployment K k w of
        (Inl e, w') \<Rightarrow> (Inl e, w')
      | (Inr d, w') \<Rightarrow>
          if desired_replicas d = 0 then
            (Inr (ConditionFalse, ''ScaledDown'', ''Deployment is scaled to zero replicas''), w')
          else if template_mismatch d images then
            (Inr (ConditionFalse, ''ImagesUpdating'',
                  ''Deployment template does not yet contain the current catalog and benchmark images''), w')
          else if d_observedGeneration d < d_generation d then
            (Inr (ConditionFalse, ReasonDeploymentUnavailable,
                  ''Waiting for the deployment controller to observe the current template''), w')
          else
            (let parsed = parseDeploymentConditions d;
                 incomplete = (available parsed \<and> rollout_incomplete d);
                 avail = (available parsed \<and> \<not> incomplete);
                 progress = (if incomplete then rollout_message d else []);
                 condition = (if avail then (ConditionFalse, [], [])
                              else (ConditionFalse, ReasonDeploymentUnavailable,
                                    ''Deployment is unavailable: ''
                                    @ (if dc_text parsed = [] then progress else dc_text parsed)));
                 (condition, w2) = (if d_unavailableReplicas d \<noteq> 0
                    then checkPodStatus K app podComponent (fst k) condition (d_unavailableReplicas d) w'
                    else (condition, w'))
             in if avail then (case check_endpoints K now k (availableSince parsed) w2 of (v, w3) \<Rightarrow> (Inr v, w3))
                else (Inr condition, w2)))"

section \<open>What a pod says about the candidate\<close>

record catalogActivationFailure =
  af_stage :: string
  af_reason :: string
  af_message :: string

definition reasonDataImagePullRetrying :: string where "reasonDataImagePullRetrying = ''DataImagePullRetrying''"
definition reasonCatalogRestarting :: string where "reasonCatalogRestarting = ''CatalogRestarting''"
definition activationAttemptAnnotation :: string where
  "activationAttemptAnnotation = ''aihub.opendatahub.io/activation-attempt''"

definition safe_summary :: "string \<Rightarrow> string \<times> string \<times> string" where
  "safe_summary reason =
     (if reason = ''CatalogPodFailed'' then (''Activation'', reason, ''Catalog pod failed'')
      else if reason = ''CatalogContainerFailed'' then (''Initialization'', reason, ''Catalog container could not start'')
      else if reason = ''DataImagePullFailed'' then (''Pull'', reason, ''Selected image could not be pulled'')
      else if reason = ''DataImageInitializationFailed'' then
        (''Initialization'', reason, ''Required data image files could not be copied'')
      else if reason = ''CatalogContentInvalid'' then (''Loading'', reason, ''Shipped catalog content failed validation'')
      else if reason = ''BenchmarkContentInvalid'' then (''Loading'', reason, ''Shipped benchmark content failed validation'')
      else if reason = ''ActivationFailed'' then (''Activation'', reason, ''Catalog validation failed'')
      else if reason = ''ActivationTimedOut'' then
        (''Activation'', reason, ''Catalog validation or startup did not complete within ten minutes'')
      else if reason = ''CatalogStartupFailed'' then (''Activation'', reason, ''Catalog process did not start'')
      else (''Activation'', ''CatalogStartupFailed'', ''Catalog activation failed''))"

definition safeCatalogActivationFailure :: "catalogActivationFailure \<Rightarrow> catalogActivationFailure" where
  "safeCatalogActivationFailure failure =
     (let (stage, reason, summary) = safe_summary (af_reason failure)
      in \<lparr>af_stage = stage, af_reason = reason,
          af_message = ''['' @ stage @ ''] '' @ reason @ '': '' @ summary
            @ ''. Correct spec.catalogDataImageStream or spec.benchmarkDataImageStream and retry the selected images''\<rparr>)"

definition retryableCatalogActivation :: "catalogActivationFailure option \<Rightarrow> bool" where
  "retryableCatalogActivation observation =
     (case observation of None \<Rightarrow> False
      | Some f \<Rightarrow> af_reason f = reasonDataImagePullRetrying \<or> af_reason f = reasonCatalogRestarting)"

definition container_image :: "Container list \<Rightarrow> string \<Rightarrow> string" where
  "container_image containers name =
     (case find (\<lambda>c. c_name c = name) containers of None \<Rightarrow> [] | Some c \<Rightarrow> c_image c)"

definition matchesCatalogImages :: "Pod \<Rightarrow> Deployment \<Rightarrow> bool" where
  "matchesCatalogImages pod desired =
     (list_all (\<lambda>name. let wanted = container_image (d_initContainers desired) name in
          wanted \<noteq> [] \<and> container_image (p_initContainers pod) name = wanted)
        [''catalog-data-init'', ''benchmark-data-init'']
      \<and> (let wanted = container_image (d_containers desired) ''catalog'' in
          wanted \<noteq> [] \<and> container_image (p_containers pod) ''catalog'' = wanted))"

definition failure :: "string \<Rightarrow> string \<Rightarrow> catalogActivationFailure" where
  "failure stage reason = \<lparr>af_stage = stage, af_reason = reason, af_message = []\<rparr>"

text \<open>
  The closure \<^verbatim>\<open>check\<close>. \<open>decodeReport\<close> is \<^verbatim>\<open>json.Unmarshal\<close> into a stage and a reason, \<open>None\<close> when
  it fails.
\<close>

definition terminated_of :: "ContainerStatus \<Rightarrow> ContainerStateTerminated option" where
  "terminated_of status =
     (case (cs_terminated status, cs_waiting status) of
        (None, Some wt) \<Rightarrow> if w_reason wt = ''CrashLoopBackOff'' then cs_lastTerminated status else None
      | (t, _) \<Rightarrow> t)"

definition report_failure :: "(string \<Rightarrow> (string \<times> string) option) \<Rightarrow> string \<Rightarrow> catalogActivationFailure" where
  "report_failure decodeReport message =
     (case decodeReport message of
        Some (stage, reason) \<Rightarrow>
          if (stage = ''Loading'' \<or> stage = ''Activation'')
             \<and> (reason = ''CatalogContentInvalid'' \<or> reason = ''BenchmarkContentInvalid'' \<or> reason = ''ActivationFailed'')
          then failure stage reason else failure ''Activation'' ''CatalogStartupFailed''
      | None \<Rightarrow> failure ''Activation'' ''CatalogStartupFailed'')"

definition waiting_failure :: "ContainerStatus \<Rightarrow> catalogActivationFailure option" where
  "waiting_failure status =
     (case cs_waiting status of None \<Rightarrow> None
      | Some wt \<Rightarrow>
          if w_reason wt \<in> {''CreateContainerConfigError'', ''CreateContainerError'', ''RunContainerError''}
          then Some (failure ''Initialization'' ''CatalogContainerFailed'')
          else if w_reason wt \<in> {''ErrImagePull'', ''ImagePullBackOff''}
          then Some (failure ''Pull'' reasonDataImagePullRetrying)
          else if w_reason wt = ''InvalidImageName'' then Some (failure ''Pull'' ''DataImagePullFailed'')
          else None)"

definition check_container ::
  "(string \<Rightarrow> (string \<times> string) option) \<Rightarrow> ContainerStatus \<Rightarrow> bool \<Rightarrow> catalogActivationFailure option" where
  "check_container decodeReport status init =
     (case waiting_failure status of
        Some f \<Rightarrow> Some f
      | None \<Rightarrow>
          (case terminated_of status of
             None \<Rightarrow> None
           | Some t \<Rightarrow>
               if t_exitCode t = 0 then None
               else if \<not> init then Some (failure ''Activation'' reasonCatalogRestarting)
               else if cs_name status \<noteq> ''catalog-content-validation''
               then Some (failure ''Initialization'' ''DataImageInitializationFailed'')
               else Some (report_failure decodeReport (t_message t))))"

fun first_failure :: "(ContainerStatus \<Rightarrow> catalogActivationFailure option) \<Rightarrow> ContainerStatus list
    \<Rightarrow> catalogActivationFailure option" where
  "first_failure f [] = None"
| "first_failure f (s # ss) = (case f s of Some x \<Rightarrow> Some x | None \<Rightarrow> first_failure f ss)"

definition catalogPodFailure ::
  "(string \<Rightarrow> (string \<times> string) option) \<Rightarrow> Pod \<Rightarrow> catalogActivationFailure option" where
  "catalogPodFailure decodeReport pod =
     (if p_phase pod = ''Failed'' then Some (failure ''Activation'' ''CatalogPodFailed'')
      else case first_failure (\<lambda>s. check_container decodeReport s True)
             (filter (\<lambda>s. cs_name s \<in> {''catalog-data-init'', ''benchmark-data-init'', ''catalog-content-validation''})
               (p_initStatuses pod)) of
        Some f \<Rightarrow> Some f
      | None \<Rightarrow> first_failure (\<lambda>s. check_container decodeReport s False)
                  (filter (\<lambda>s. cs_name s = ''catalog'') (p_statuses pod)))"

text \<open>The pods of the current attempt that are not going away.\<close>

definition current_pod :: "Catalog \<Rightarrow> Deployment \<Rightarrow> Pod \<Rightarrow> bool" where
  "current_pod catalog d pod =
     (p_deletion pod = None \<and> matchesCatalogImages pod d
      \<and> (case activation catalog of None \<Rightarrow> True
         | Some a \<Rightarrow> mapget (p_annotations pod) activationAttemptAnnotation = act_attemptID a))"

fun pods_failure ::
  "(string \<Rightarrow> (string \<times> string) option) \<Rightarrow> catalogActivationFailure option \<Rightarrow> Pod list
   \<Rightarrow> catalogActivationFailure option" where
  "pods_failure decodeReport retrying [] = retrying"
| "pods_failure decodeReport retrying (pod # pods) =
     (case catalogPodFailure decodeReport pod of
        None \<Rightarrow> pods_failure decodeReport retrying pods
      | Some f \<Rightarrow> if retryableCatalogActivation (Some f) then pods_failure decodeReport (Some f) pods
                  else Some (safeCatalogActivationFailure f))"

definition catalogActivationFailure_of ::
  "'w catalog_api \<Rightarrow> (string \<Rightarrow> (string \<times> string) option) \<Rightarrow> Catalog
   \<Rightarrow> ('w, catalogActivationFailure option) call" where
  "catalogActivationFailure_of K decodeReport catalog w =
     (case ca_getDeployment K (cat_namespace catalog, catalogResourceName) w of
        (Inl e, w') \<Rightarrow> (Inl e, w')
      | (Inr d, w') \<Rightarrow>
          (case ca_listPods K (cat_namespace catalog) (d_selector d) w' of
             (Inl e, w'') \<Rightarrow> (Inl e, w'')
           | (Inr pods, w'') \<Rightarrow> (Inr (pods_failure decodeReport None (filter (current_pod catalog d) pods)), w'')))"

definition isCatalogPod :: "labels \<Rightarrow> bool" where
  "isCatalogPod ls = (mapget ls ''app'' = catalogResourceName \<and> mapget ls ''component'' = catalogResourceName)"

definition getCatalogsForPod :: "'w catalog_api \<Rightarrow> string \<Rightarrow> labels \<Rightarrow> 'w \<Rightarrow> key list \<times> 'w" where
  "getCatalogsForPod K namespace' ls w =
     (if \<not> isCatalogPod ls then ([], w)
      else case ca_listCatalogs K namespace' w of
        (Inl e, w') \<Rightarrow> ([], w')
      | (Inr cs, w') \<Rightarrow> (map (\<lambda>c. (cat_namespace c, cat_name c)) cs, w'))"

section \<open>The attempt\<close>

definition pod_validated :: "Pod \<Rightarrow> bool" where
  "pod_validated pod =
     list_ex (\<lambda>s. cs_name s = ''catalog-content-validation''
        \<and> (case cs_terminated s of None \<Rightarrow> False | Some t \<Rightarrow> t_exitCode t = 0)) (p_initStatuses pod)"

definition ready_map :: "ContainerStatus list \<Rightarrow> string \<rightharpoonup> bool" where
  "ready_map ss = fold (\<lambda>s m. m(cs_name s \<mapsto> cs_ready s)) ss Map.empty"

definition counted_pod :: "CatalogActivationStatus \<Rightarrow> Deployment \<Rightarrow> Pod \<Rightarrow> bool" where
  "counted_pod a d pod =
     (p_deletion pod = None \<and> mapget (p_annotations pod) activationAttemptAnnotation = act_attemptID a
      \<and> matchesCatalogImages pod d
      \<and> pod_validated pod \<and> ready_map (p_statuses pod) ''catalog'' = Some True)"

text \<open>\<open>a\<close> is \<^verbatim>\<open>catalog.Status.Activation\<close>, which the caller has checked.\<close>

definition validatedCatalogWorkload ::
  "'w catalog_api \<Rightarrow> time \<Rightarrow> Catalog \<Rightarrow> CatalogActivationStatus \<Rightarrow> ('w, bool) call" where
  "validatedCatalogWorkload K now catalog a w =
     (case ca_getDeployment K (cat_namespace catalog, catalogResourceName) w of
        (Inl e, w1) \<Rightarrow> (case ignoreNotFound e of None \<Rightarrow> (Inr False, w1) | Some e \<Rightarrow> (Inl e, w1))
      | (Inr d, w1) \<Rightarrow>
          if mapget (d_templateAnnotations d) activationAttemptAnnotation \<noteq> act_attemptID a then (Inr False, w1)
          else (case checkDeploymentAvailability K now (d_namespace d, d_name d) catalogResourceName catalogResourceName
                       (Some (act_images a)) w1 of
                  (Inl e, w2) \<Rightarrow> (Inl e, w2)
                | (Inr (status, _, _), w2) \<Rightarrow>
                    if status \<noteq> ConditionTrue then (Inr False, w2)
                    else (case ca_listPods K (cat_namespace catalog) (d_selector d) w2 of
                            (Inl e, w3) \<Rightarrow> (Inl e, w3)
                          | (Inr pods, w3) \<Rightarrow>
                              (let count = int (length (filter (counted_pod a d) pods));
                                   desired = desired_replicas d
                               in (Inr (desired > 0 \<and> count = desired), w3)))))"

definition activation_request :: "env \<Rightarrow> Catalog \<Rightarrow> CatalogParams \<Rightarrow> condition \<Rightarrow> string list" where
  "activation_request getenv catalog params resolved =
     [cat_uid catalog, strval (sp_catalogDataImageStream (cat_spec catalog)),
      strval (sp_benchmarkDataImageStream (cat_spec catalog)), cp_catalogDataImage params,
      cp_benchmarkDataImage params, GetStringConfigWithDefault getenv RestImage DefaultRestImage,
      GetStringConfigWithDefault getenv ModelRegistryOperatorImage DefaultOperatorImage,
      cond_status resolved, cond_reason resolved, cp_imageImportEvidence params,
      show_bool (cp_allowLegacyRuntimeFile params),
      mapget (cat_annotations catalog) ''aihub.opendatahub.io/retry-activation'']"

definition new_attempt ::
  "time \<Rightarrow> string \<Rightarrow> string \<Rightarrow> Catalog \<Rightarrow> CatalogParams \<Rightarrow> CatalogActivationStatus" where
  "new_attempt now nonce fp catalog params =
     (let images = \<lparr>img_catalog = cp_catalogDataImage params, img_benchmark = cp_benchmarkDataImage params\<rparr>
      in \<lparr>act_catalogUID = cat_uid catalog, act_attemptID = nonce, act_requestHash = fp,
          act_requestedImages = images, act_images = images, act_state = ''Pending'',
          act_stage = ''Activation'', act_reason = ''ActivationPending'',
          act_message = ''Waiting for image validation and the selected workload'', act_startedAt = now,
          act_recoveredAt = None,
          act_lastSuccessful = (case activation catalog of None \<Rightarrow> None | Some a \<Rightarrow> act_lastSuccessful a)\<rparr>)"

text \<open>The attempt while its images are not resolved; a failed one stays as it is.\<close>

definition unresolved_attempt :: "condition \<Rightarrow> CatalogActivationStatus \<Rightarrow> CatalogActivationStatus" where
  "unresolved_attempt resolved a =
     (if cond_status resolved \<noteq> ConditionTrue \<and> act_state a \<noteq> ''Failed'' then
        a\<lparr>act_state := (if cond_status resolved = ConditionFalse \<and> cond_reason resolved \<noteq> ''NoSuccessfulImport''
                        then ''Failed'' else ''Pending''),
          act_stage := (if cond_reason resolved = ''InvalidImageSelection'' then ''Selection'' else ''Import''),
          act_reason := cond_reason resolved,
          act_message := ''Selected images are not ready; inspect the Catalog image resolution conditions and correct the selection or import source''\<rparr>
      else a)"

definition set_activation :: "CatalogActivationStatus \<Rightarrow> Catalog \<Rightarrow> Catalog" where
  "set_activation a catalog = catalog\<lparr>cat_status := (cat_status catalog)\<lparr>st_activation := Some a\<rparr>\<rparr>"

definition begin_attempt ::
  "time \<Rightarrow> go_error + string \<Rightarrow> string \<Rightarrow> Catalog \<Rightarrow> CatalogParams \<Rightarrow> go_error + CatalogActivationStatus" where
  "begin_attempt now nonce fp catalog params =
     (case activation catalog of
        Some a \<Rightarrow> if act_requestHash a = fp then Inr a
                  else (case nonce of Inl e \<Rightarrow> Inl e | Inr n \<Rightarrow> Inr (new_attempt now n fp catalog params))
      | None \<Rightarrow> (case nonce of Inl e \<Rightarrow> Inl e | Inr n \<Rightarrow> Inr (new_attempt now n fp catalog params)))"

definition prepareActivation ::
  "cond_api \<Rightarrow> env \<Rightarrow> (string list \<Rightarrow> string) \<Rightarrow> go_error + string \<Rightarrow> time \<Rightarrow> Catalog \<Rightarrow> CatalogParams
   \<Rightarrow> go_error option \<times> Catalog \<times> CatalogParams" where
  "prepareActivation A getenv fingerprint nonce now catalog params =
     (case cfind A catalog conditionDataImageResolved of
        None \<Rightarrow> (Some (ErrorText ''activation requires image resolution observations''), catalog, params)
      | Some resolved \<Rightarrow>
          (case begin_attempt now nonce (fingerprint (activation_request getenv catalog params resolved)) catalog params of
             Inl e \<Rightarrow> (Some e, catalog, params)
           | Inr a0 \<Rightarrow>
               (let a = unresolved_attempt resolved a0;
                    catalog = set_activation a catalog;
                    params = params\<lparr>cp_activationAttempt := act_attemptID a,
                      cp_activationBlocked := (act_state a = ''Failed''),
                      cp_catalogDataImage := img_catalog (act_images a),
                      cp_benchmarkDataImage := img_benchmark (act_images a)\<rparr>;
                    catalog = (if cond_status resolved = ConditionTrue
                      then catalog\<lparr>cat_status := (cat_status catalog)\<lparr>st_resolvedImages := Some (act_images a)\<rparr>\<rparr>
                      else catalog)
                in (None, reduceCatalogImageReadiness A now catalog, params))))"

text \<open>Ten minutes.\<close>

definition activationDeadline :: time where "activationDeadline = 10 * 60 * 1000000000"

definition fail_with :: "string \<Rightarrow> CatalogActivationStatus \<Rightarrow> CatalogActivationStatus" where
  "fail_with reason a =
     (let safe = safeCatalogActivationFailure (failure [] reason)
      in a\<lparr>act_state := ''Failed'', act_stage := af_stage safe, act_reason := af_reason safe,
           act_message := af_message safe\<rparr>)"

text \<open>The branches of \<^verbatim>\<open>observeActivation\<close>, one each.\<close>

definition normalize_failed :: "CatalogActivationStatus \<Rightarrow> CatalogActivationStatus" where
  "normalize_failed a =
     (if act_stage a = ''Import'' \<or> act_stage a = ''Selection'' then
        a\<lparr>act_message := ''Selected images could not be resolved; inspect the Catalog image resolution conditions and correct the selection or import source''\<rparr>
      else fail_with (act_reason a) a)"

definition succeed :: "time \<Rightarrow> CatalogActivationStatus \<Rightarrow> CatalogActivationStatus" where
  "succeed now a =
     (let same = (case act_lastSuccessful a of None \<Rightarrow> False | Some l \<Rightarrow> succ_attemptID l = act_attemptID a)
      in a\<lparr>act_recoveredAt := (if act_state a = ''Pending'' \<and> same then Some now else act_recoveredAt a),
           act_state := ''Succeeded'', act_stage := ''Activation'', act_reason := ''WorkloadValidated'',
           act_message := ''Selected images passed preflight and the catalog workload is ready'',
           act_lastSuccessful := (if same then act_lastSuccessful a
             else Some \<lparr>succ_catalogUID = act_catalogUID a, succ_attemptID = act_attemptID a,
                        succ_images = act_images a, succ_activatedAt = now\<rparr>)\<rparr>)"

definition retry :: "time \<Rightarrow> catalogActivationFailure \<Rightarrow> CatalogActivationStatus \<Rightarrow> CatalogActivationStatus" where
  "retry now f a =
     (let a = (if act_state a = ''Succeeded'' then
                 a\<lparr>act_startedAt := (case act_recoveredAt a of
                      None \<Rightarrow> now
                    | Some r \<Rightarrow> if now - r \<ge> activationDeadline then now else act_startedAt a),
                   act_recoveredAt := None\<rparr>
               else a);
          a = a\<lparr>act_state := ''Pending'', act_stage := af_stage f, act_reason := af_reason f,
                act_message := (if af_reason f = reasonDataImagePullRetrying
                                then ''Kubernetes is retrying a selected image pull''
                                else if af_reason f = reasonCatalogRestarting
                                then ''Catalog process restarted; waiting for a ready workload''
                                else act_message a)\<rparr>
      in if now - act_startedAt a > activationDeadline
         then fail_with (if af_reason f = reasonDataImagePullRetrying then ''DataImagePullFailed''
                         else ''CatalogStartupFailed'') a
         else a)"

definition time_out :: "CatalogActivationStatus \<Rightarrow> CatalogActivationStatus" where
  "time_out a = a\<lparr>act_state := ''Failed'', act_stage := ''Activation'', act_reason := ''ActivationTimedOut'',
     act_message := ''Catalog validation/startup did not complete within ten minutes; correct spec.catalogDataImageStream or spec.benchmarkDataImageStream, or change aihub.opendatahub.io/retry-activation''\<rparr>"

definition advance ::
  "'w catalog_api \<Rightarrow> time \<Rightarrow> Catalog \<Rightarrow> catalogActivationFailure option \<Rightarrow> CatalogActivationStatus
   \<Rightarrow> ('w, CatalogActivationStatus \<times> bool) call" where
  "advance K now catalog fail a w =
     (if act_state a = ''Failed'' then (Inr (normalize_failed a, False), w)
      else case fail of
        Some f \<Rightarrow>
          if \<not> retryableCatalogActivation fail then
            (let safe = safeCatalogActivationFailure f in
             (Inr (a\<lparr>act_state := ''Failed'', act_stage := af_stage safe, act_reason := af_reason safe,
                     act_message := af_message safe\<rparr>, False), w))
          else (case validatedCatalogWorkload K now catalog a w of
                  (Inl e, w') \<Rightarrow> (Inl e, w')
                | (Inr ready, w') \<Rightarrow> (Inr ((if ready then succeed now a else retry now f a), ready), w'))
      | None \<Rightarrow>
          (case validatedCatalogWorkload K now catalog a w of
             (Inl e, w') \<Rightarrow> (Inl e, w')
           | (Inr ready, w') \<Rightarrow>
               (Inr ((if ready then succeed now a
                      else if now - act_startedAt a > activationDeadline \<and> act_state a = ''Pending'' then time_out a
                      else a), ready), w')))"

definition publish_activation :: "cond_api \<Rightarrow> time \<Rightarrow> bool \<Rightarrow> CatalogActivationStatus \<Rightarrow> Catalog \<Rightarrow> Catalog" where
  "publish_activation A now currentReady a catalog =
     (let c1 = setCatalogDataImageCondition A now conditionDataActivationReady
                 (if act_state a = ''Succeeded'' \<and> currentReady then ConditionTrue else ConditionFalse)
                 (act_reason a) (act_message a) (set_activation a catalog)
      in if act_state a \<noteq> ''Pending'' \<or> cfind A c1 conditionDataImageActivationFailed = None
         then setCatalogDataImageCondition A now conditionDataImageActivationFailed
                (if act_state a = ''Failed'' then ConditionTrue else ConditionFalse)
                (act_reason a) (act_message a) c1
         else c1)"

definition observeActivation ::
  "'w catalog_api \<Rightarrow> cond_api \<Rightarrow> time \<Rightarrow> Catalog \<Rightarrow> catalogActivationFailure option \<Rightarrow> 'w
   \<Rightarrow> go_error option \<times> Catalog \<times> 'w" where
  "observeActivation K A now catalog fail w =
     (case activation catalog of
        None \<Rightarrow> (None, catalog, w)
      | Some a \<Rightarrow>
          (case advance K now catalog fail a w of
             (Inl e, w') \<Rightarrow> (Some e, catalog, w')
           | (Inr (a', currentReady), w') \<Rightarrow> (None, publish_activation A now currentReady a' catalog, w')))"

end
