(* ===== verification/Catalog_Protocol.thy ===== *)
theory Catalog_Protocol
  imports Catalog_Activation
begin

text \<open>
  Correctness of the activation protocol of \<open>Catalog_Activation\<close>: the attempt as a state
  machine over \<^verbatim>\<open>prepareActivation\<close> and \<^verbatim>\<open>observeActivation\<close>, what a reported success stands for,
  and which texts can reach the status.
\<close>

section \<open>Frames\<close>

lemma set_activation_simps [simp]:
  "activation (set_activation a c) = Some a" "cat_generation (set_activation a c) = cat_generation c"
  "conds (set_activation a c) = conds c" "cat_spec (set_activation a c) = cat_spec c"
  "st_resolvedImages (cat_status (set_activation a c)) = st_resolvedImages (cat_status c)"
  by (simp_all add: set_activation_def)

lemma publish_activation_simps [simp]:
  "activation (publish_activation A now r a c) = Some a"
  "cat_generation (publish_activation A now r a c) = cat_generation c"
  by (simp_all add: publish_activation_def Let_def)

text \<open>What identifies an attempt, and that no step of it changes that.\<close>

definition attempt_identity :: "CatalogActivationStatus \<Rightarrow> string \<times> string \<times> string \<times> CatalogDataImages \<times> CatalogDataImages" where
  "attempt_identity a = (act_catalogUID a, act_attemptID a, act_requestHash a, act_requestedImages a, act_images a)"

lemma attempt_identity_update [simp]:
  "attempt_identity (a\<lparr>act_state := s\<rparr>) = attempt_identity a"
  "attempt_identity (a\<lparr>act_stage := s\<rparr>) = attempt_identity a"
  "attempt_identity (a\<lparr>act_reason := s\<rparr>) = attempt_identity a"
  "attempt_identity (a\<lparr>act_message := s\<rparr>) = attempt_identity a"
  "attempt_identity (a\<lparr>act_startedAt := t\<rparr>) = attempt_identity a"
  "attempt_identity (a\<lparr>act_recoveredAt := rt\<rparr>) = attempt_identity a"
  "attempt_identity (a\<lparr>act_lastSuccessful := ls\<rparr>) = attempt_identity a"
  by (simp_all add: attempt_identity_def)

lemma attempt_identity_simps [simp]:
  "attempt_identity (unresolved_attempt r a) = attempt_identity a"
  "attempt_identity (normalize_failed a) = attempt_identity a"
  "attempt_identity (succeed now a) = attempt_identity a"
  "attempt_identity (retry now f a) = attempt_identity a"
  "attempt_identity (time_out a) = attempt_identity a"
  "attempt_identity (fail_with s a) = attempt_identity a"
  by (simp_all add: unresolved_attempt_def normalize_failed_def succeed_def retry_def
      time_out_def fail_with_def Let_def)

lemma prepare_activation:
  assumes "prepareActivation A getenv fp nonce now c p = (None, c', p')"
  obtains r a0 a where "cfind A c conditionDataImageResolved = Some r"
    and "begin_attempt now nonce (fp (activation_request getenv c p r)) c p = Inr a0"
    and "a = unresolved_attempt r a0" and "activation c' = Some a"
    and "cp_activationBlocked p' = (act_state a = ''Failed'')" and "cp_activationAttempt p' = act_attemptID a"
    and "cp_catalogDataImage p' = img_catalog (act_images a)"
    and "cp_benchmarkDataImage p' = img_benchmark (act_images a)"
  using assms by (auto simp: prepareActivation_def Let_def split: option.splits sum.splits)

lemma observe_activation:
  assumes "observeActivation K A now c f w = (e, c', w')" and "activation c = Some a"
  shows "\<exists>a'. activation c' = Some a' \<and> (e \<noteq> None \<longrightarrow> c' = c)
    \<and> (e = None \<longrightarrow> (\<exists>r. advance K now c f a w = (Inr (a', r), w') \<and> c' = publish_activation A now r a' c))"
  using assms by (auto simp: observeActivation_def split: prod.splits sum.splits)

section \<open>The attempt's state machine\<close>

inductive attempt_step ::
  "'w catalog_api \<Rightarrow> cond_api \<Rightarrow> env \<Rightarrow> (string list \<Rightarrow> string)
   \<Rightarrow> CatalogActivationStatus \<Rightarrow> CatalogActivationStatus \<Rightarrow> bool"
  for K :: "'w catalog_api" and A getenv fp where
  prepare: "\<lbrakk>activation c = Some a; prepareActivation A getenv fp nonce now c p = (None, c', p');
             activation c' = Some a'; act_requestHash a' = act_requestHash a\<rbrakk>
            \<Longrightarrow> attempt_step K A getenv fp a a'"
| observe: "\<lbrakk>activation c = Some a; observeActivation K A now c f w = (e, c', w'); activation c' = Some a'\<rbrakk>
            \<Longrightarrow> attempt_step K A getenv fp a a'"

inductive_cases attempt_stepE: "attempt_step K A getenv fp a a'"

lemma begin_attempt_same:
  assumes "begin_attempt now nonce h c p = Inr a0" and "activation c = Some a" and "act_requestHash a0 = act_requestHash a"
  shows "a0 = a"
  using assms by (auto simp: begin_attempt_def new_attempt_def Let_def split: if_splits sum.splits)

lemma unresolved_failed: "act_state a = ''Failed'' \<Longrightarrow> unresolved_attempt r a = a"
  by (simp add: unresolved_attempt_def)

lemma normalize_state: "act_state a = ''Failed'' \<Longrightarrow> act_state (normalize_failed a) = ''Failed''"
  by (simp add: normalize_failed_def fail_with_def Let_def)

lemma advance_identity:
  assumes "advance K now c f a w = (Inr (a', r), w')"
  shows "attempt_identity a' = attempt_identity a"
    and "act_state a = ''Failed'' \<Longrightarrow> act_state a' = ''Failed'' \<and> \<not> r"
  using assms
  by (auto simp: advance_def normalize_state Let_def split: if_splits option.splits prod.splits sum.splits)

lemma attempt_step_keeps:
  assumes "attempt_step K A getenv fp a a'"
  shows "attempt_identity a' = attempt_identity a \<and> (act_state a = ''Failed'' \<longrightarrow> act_state a' = ''Failed'')"
  using assms
proof cases
  case (prepare c nonce now p c' p')
  from prepare(2) show ?thesis
  proof (rule prepare_activation)
    fix r a0 x assume b: "begin_attempt now nonce (fp (activation_request getenv c p r)) c p = Inr a0"
      and x: "x = unresolved_attempt r a0" "activation c' = Some x"
    have "act_requestHash a0 = act_requestHash a'" using x prepare(3)
      by (simp add: unresolved_attempt_def split: if_splits)
    then have "a0 = a" using begin_attempt_same[OF b prepare(1)] prepare(4) by simp
    then show ?thesis using x prepare(3) unresolved_failed[of a0 r] by auto
  qed
next
  case (observe c now f w e c' w')
  then show ?thesis
    using observe_activation[OF observe(2,1)] advance_identity[of K now c f a w] by force
qed

text \<open>
  C7: a failed attempt stays failed. In every run of the two operations that decide an
  attempt, with any API answers, any clock and any resolution in between, as long as the
  request is the same the attempt keeps its identity, its images and, once \<^verbatim>\<open>Failed\<close>, that state.
  Only a changed request (selection, images, evidence, runtime or retry annotation) starts over.
\<close>

theorem failed_attempt_is_final:
  assumes "(attempt_step K A getenv fp)\<^sup>*\<^sup>* a a'" and "act_state a = ''Failed''"
  shows "act_state a' = ''Failed'' \<and> attempt_identity a' = attempt_identity a"
  using assms by (induction rule: rtranclp_induct) (auto dest: attempt_step_keeps)

theorem failed_attempt_is_final_witness:
  "act_state (sample_activation ''Failed'') = ''Failed''
   \<and> (attempt_step (sample_api (sample_stream [] [])) list_conditions (\<lambda>_. []) (\<lambda>_. ''h''))\<^sup>*\<^sup>*
       (sample_activation ''Failed'') (normalize_failed (sample_activation ''Failed''))
   \<and> act_state (normalize_failed (sample_activation ''Failed'')) = ''Failed''"
proof -
  let ?K = "sample_api (sample_stream [] [])" and ?a = "sample_activation ''Failed''"
  have f: "act_state ?a = ''Failed''" by (simp add: sample_activation_def)
  have "attempt_step ?K list_conditions (\<lambda>_. []) (\<lambda>_. ''h'') ?a (normalize_failed ?a)"
  proof (rule attempt_step.observe)
    show act: "activation (sample_catalog (Some ?a) []) = Some ?a" by (simp add: sample_catalog_def)
    show "observeActivation ?K list_conditions 5 (sample_catalog (Some ?a) []) None ()
        = (None, publish_activation list_conditions 5 False (normalize_failed ?a) (sample_catalog (Some ?a) []), ())"
      by (simp add: observeActivation_def advance_def f act)
  qed simp
  then have s: "(attempt_step ?K list_conditions (\<lambda>_. []) (\<lambda>_. ''h''))\<^sup>*\<^sup>* ?a (normalize_failed ?a)" by blast
  show ?thesis using failed_attempt_is_final[OF s f] s f by blast
qed

text \<open>
  A failed attempt blocks the workload. When the current request has failed, preparing it
  again leaves it failed and hands the templates the flag that keeps the candidate from
  running, with the attempt's own pair of images.
\<close>

theorem failed_attempt_blocks_workload:
  assumes "prepareActivation A getenv fp nonce now c p = (None, c', p')"
    and "cfind A c conditionDataImageResolved = Some r"
    and "activation c = Some a" "act_state a = ''Failed''"
    and "act_requestHash a = fp (activation_request getenv c p r)"
  shows "cp_activationBlocked p' \<and> activation c' = Some a \<and> cp_activationAttempt p' = act_attemptID a
    \<and> cp_catalogDataImage p' = img_catalog (act_images a)
    \<and> cp_benchmarkDataImage p' = img_benchmark (act_images a)"
proof -
  have b: "begin_attempt now nonce (fp (activation_request getenv c p r)) c p = Inr a"
    using assms(3,5) by (simp add: begin_attempt_def)
  show ?thesis
    using assms(2,4) b unresolved_failed[of a r] by (rule_tac prepare_activation[OF assms(1)]) simp
qed

theorem failed_attempt_blocks_workload_witness:
  "cp_activationBlocked (snd (snd (prepareActivation list_conditions (\<lambda>_. []) (\<lambda>_. ''h'') (Inr ''n'') 5
     (sample_catalog (Some (sample_activation ''Failed'')) [sample_condition conditionDataImageResolved ''True'' ''Resolved''])
     sample_params)))"
proof -
  let ?c = "sample_catalog (Some (sample_activation ''Failed'')) [sample_condition conditionDataImageResolved ''True'' ''Resolved'']"
  let ?r = "sample_condition conditionDataImageResolved ''True'' ''Resolved''"
  have r: "cfind list_conditions ?c conditionDataImageResolved = Some ?r"
    by (simp add: sample_catalog_def list_conditions_def list_find_def sample_condition_def)
  obtain e c' p' where pr: "prepareActivation list_conditions (\<lambda>_. []) (\<lambda>_. ''h'') (Inr ''n'') 5 ?c sample_params = (e, c', p')"
    by (metis prod_cases3)
  moreover have "e = None" using pr by (auto simp: prepareActivation_def r begin_attempt_def Let_def
        split: option.splits if_splits)
  moreover have "activation ?c = Some (sample_activation ''Failed'')" "act_state (sample_activation ''Failed'') = ''Failed''"
      "act_requestHash (sample_activation ''Failed'') = ''h''" by (simp_all add: sample_catalog_def sample_activation_def)
  ultimately show ?thesis
    using failed_attempt_blocks_workload[of list_conditions "\<lambda>_. []" "\<lambda>_. ''h''" "Inr ''n''" 5 ?c sample_params c' p' ?r] r
    by simp
qed

section \<open>What a success stands for\<close>

lemma validated_workload:
  assumes "validatedCatalogWorkload K now c a w = (Inr True, w')"
  shows "\<exists>d w1 w2 reason msg pods. ca_getDeployment K (cat_namespace c, catalogResourceName) w = (Inr d, w1)
    \<and> mapget (d_templateAnnotations d) activationAttemptAnnotation = act_attemptID a
    \<and> checkDeploymentAvailability K now (d_namespace d, d_name d) catalogResourceName catalogResourceName
        (Some (act_images a)) w1 = (Inr (ConditionTrue, reason, msg), w2)
    \<and> ca_listPods K (cat_namespace c) (d_selector d) w2 = (Inr pods, w')
    \<and> 0 < desired_replicas d \<and> int (length (filter (counted_pod a d) pods)) = desired_replicas d"
  using assms
  by (auto simp: validatedCatalogWorkload_def Let_def split: prod.splits sum.splits option.splits if_splits)

lemma advance_ready:
  assumes "advance K now c f a w = (Inr (a', True), w')"
  shows "validatedCatalogWorkload K now c a w = (Inr True, w') \<and> a' = succeed now a"
  using assms by (auto simp: advance_def Let_def split: if_splits option.splits prod.splits sum.splits)

context conditions_api
begin

lemma publish_ready:
  "isConditionTrue A (conds (publish_activation A now r a c)) conditionDataActivationReady
     \<longleftrightarrow> act_state a = ''Succeeded'' \<and> r"
  by (simp add: publish_activation_def Let_def isConditionTrue_def find_after_set)

lemma publish_failed:
  "act_state a = ''Failed'' \<Longrightarrow>
     isConditionTrue A (conds (publish_activation A now r a c)) conditionDataImageActivationFailed"
  by (simp add: publish_activation_def Let_def isConditionTrue_def find_after_set)

end

text \<open>
  C2: \<^verbatim>\<open>DataActivationReady\<close> is never reported on old evidence. If the condition is true after
  \<^verbatim>\<open>observeActivation\<close>, then in this very call the API showed a Deployment of the current
  attempt that passed the availability check for the attempt's pair of images, and exactly as
  many pods as replicas were desired, at least one, are of this attempt and these images, not
  terminating, with a passed content validation and a ready catalog container.
\<close>

theorem activation_ready_is_validated:
  assumes "conditions_api A"
    and "activation c = Some a"
    and "observeActivation K A now c f w = (None, c', w')"
    and "isConditionTrue A (conds c') conditionDataActivationReady"
  shows "act_state a \<noteq> ''Failed''
    \<and> (\<exists>d w1 w2 reason msg pods. ca_getDeployment K (cat_namespace c, catalogResourceName) w = (Inr d, w1)
      \<and> mapget (d_templateAnnotations d) activationAttemptAnnotation = act_attemptID a
      \<and> checkDeploymentAvailability K now (d_namespace d, d_name d) catalogResourceName catalogResourceName
          (Some (act_images a)) w1 = (Inr (ConditionTrue, reason, msg), w2)
      \<and> ca_listPods K (cat_namespace c) (d_selector d) w2 = (Inr pods, w')
      \<and> 0 < desired_replicas d \<and> int (length (filter (counted_pod a d) pods)) = desired_replicas d)"
proof -
  obtain a' r where adv: "advance K now c f a w = (Inr (a', r), w')" and c': "c' = publish_activation A now r a' c"
    using observe_activation[OF assms(3,2)] by blast
  have r: "r" using assms(4) conditions_api.publish_ready[OF assms(1)] by (simp add: c')
  have "act_state a \<noteq> ''Failed''" using advance_identity(2)[OF adv] r by blast
  moreover from adv r have "advance K now c f a w = (Inr (a', True), w')" by simp
  note validated_workload[OF conjunct1[OF advance_ready[OF this]]]
  ultimately show ?thesis by (intro conjI)
qed

text \<open>
  The availability check itself accepts only a Deployment whose template carries the pair of
  images, whose rollout the controller has observed and completed, and which has a ready
  endpoint for at least the cooldown.
\<close>

lemma checkPodStatus_false:
  "\<exists>r m w'. checkPodStatus K app component n v u w = ((ConditionFalse, r, m), w')"
  by (cases v) (auto simp: checkPodStatus_def Let_def split: prod.split option.split)

lemma unavailable_false:
  assumes "ca_getDeployment K k w = (Inr d, w1)" and "desired_replicas d \<noteq> 0" "\<not> template_mismatch d images"
    and "\<not> d_observedGeneration d < d_generation d"
    and "\<not> (available (parseDeploymentConditions d) \<and> \<not> rollout_incomplete d)"
  shows "\<exists>r m w2. checkDeploymentAvailability K now k app component images w = (Inr (ConditionFalse, r, m), w2)"
proof (cases "d_unavailableReplicas d = 0")
  case True
  then show ?thesis using assms by (simp add: checkDeploymentAvailability_def Let_def)
next
  case False
  let ?v = "(ConditionFalse, ReasonDeploymentUnavailable, ''Deployment is unavailable: ''
      @ (if dc_text (parseDeploymentConditions d) = []
         then (if available (parseDeploymentConditions d) \<and> rollout_incomplete d then rollout_message d else [])
         else dc_text (parseDeploymentConditions d)))"
  obtain r m w2 where "checkPodStatus K app component (fst k) ?v (d_unavailableReplicas d) w1 = ((ConditionFalse, r, m), w2)"
    using checkPodStatus_false[of K app component "fst k" ?v "d_unavailableReplicas d" w1] by (elim exE)
  then show ?thesis using assms False by (simp add: checkDeploymentAvailability_def Let_def)
qed

lemma deployment_available:
  assumes "checkDeploymentAvailability K now k app component images w = (Inr (ConditionTrue, reason, msg), w')"
  shows "\<exists>d w1. ca_getDeployment K k w = (Inr d, w1) \<and> desired_replicas d \<noteq> 0 \<and> \<not> template_mismatch d images
    \<and> d_generation d \<le> d_observedGeneration d \<and> available (parseDeploymentConditions d) \<and> \<not> rollout_incomplete d
    \<and> deploymentDelay \<le> now - availableSince (parseDeploymentConditions d)
    \<and> reason = ReasonDeploymentAvailable"
proof -
  obtain x w1 where g: "ca_getDeployment K k w = (x, w1)" by fastforce
  show ?thesis
  proof (cases x)
    case (Inl e)
    then show ?thesis using assms by (simp add: checkDeploymentAvailability_def g)
  next
    case (Inr d)
    have ce: "check_endpoints K now k s w2 = ((ConditionTrue, reason, msg), w') \<Longrightarrow>
        deploymentDelay \<le> now - s \<and> reason = ReasonDeploymentAvailable" for s w2
      by (auto simp: check_endpoints_def split: prod.splits sum.splits if_splits)
    let ?p = "parseDeploymentConditions d"
    have nz: "desired_replicas d \<noteq> 0" "\<not> template_mismatch d images" "\<not> d_observedGeneration d < d_generation d"
      using assms by (auto simp: checkDeploymentAvailability_def g Inr split: if_splits)
    have av: "available ?p \<and> \<not> rollout_incomplete d"
      using unavailable_false[OF g[unfolded Inr] nz, of now app component] assms by (rule_tac ccontr) simp
    then obtain w2 where "check_endpoints K now k (availableSince ?p) w2 = ((ConditionTrue, reason, msg), w')"
      using assms nz by (auto simp: checkDeploymentAvailability_def g Inr Let_def split: if_splits prod.splits)
    with ce nz av Inr g show ?thesis by fastforce
  qed
qed

end
