(* ===== verification/Catalog_Outcomes.thy ===== *)
theory Catalog_Outcomes
  imports Catalog_Protocol
begin

text \<open>
  More of the activation protocol: which texts reach the status, the deadline, the record of
  the last success, and a cluster in which an attempt succeeds.
\<close>

section \<open>Texts\<close>

definition known_reasons :: "string list" where
  "known_reasons = [''CatalogPodFailed'', ''CatalogContainerFailed'', ''DataImagePullFailed'',
     ''DataImageInitializationFailed'', ''CatalogContentInvalid'', ''BenchmarkContentInvalid'',
     ''ActivationFailed'', ''ActivationTimedOut'', ''CatalogStartupFailed'']"

text \<open>The failures the operator may publish: one per known reason, and the default.\<close>

definition known_failures :: "(string \<times> string \<times> string) list" where
  "known_failures = map (\<lambda>r. let f = safeCatalogActivationFailure (failure [] r)
     in (af_stage f, af_reason f, af_message f)) (''unknown'' # known_reasons)"

lemma safe_failure_known:
  "(af_stage (safeCatalogActivationFailure f), af_reason (safeCatalogActivationFailure f),
    af_message (safeCatalogActivationFailure f)) \<in> set known_failures"
proof -
  have same: "safeCatalogActivationFailure f = safeCatalogActivationFailure (failure [] (af_reason f))"
    by (simp add: safeCatalogActivationFailure_def failure_def)
  have default: "safe_summary r = safe_summary ''unknown''" if "r \<notin> set known_reasons" for r
    using that by (simp add: safe_summary_def known_reasons_def)
  have "safeCatalogActivationFailure (failure [] (af_reason f)) = safeCatalogActivationFailure (failure [] ''unknown'')
      \<or> af_reason f \<in> set known_reasons"
    using default[of "af_reason f"] by (auto simp: safeCatalogActivationFailure_def failure_def)
  then show ?thesis
    unfolding same known_failures_def Let_def set_map by (auto simp del: set_simps intro: image_eqI simp: list.set(2))
qed

definition timeout_failure :: "string \<times> string \<times> string" where
  "timeout_failure = (''Activation'', ''ActivationTimedOut'',
     ''Catalog validation/startup did not complete within ten minutes; correct spec.catalogDataImageStream or spec.benchmarkDataImageStream, or change aihub.opendatahub.io/retry-activation'')"

definition import_text :: string where
  "import_text = ''Selected images could not be resolved; inspect the Catalog image resolution conditions and correct the selection or import source''"

abbreviation act_text :: "CatalogActivationStatus \<Rightarrow> string \<times> string \<times> string" where
  "act_text a \<equiv> (act_stage a, act_reason a, act_message a)"

lemma fail_with_known: "act_text (fail_with r a) \<in> set known_failures"
  using safe_failure_known[of "failure [] r"] by (simp add: fail_with_def Let_def)

lemma retry_failed: "act_state (retry now f a) = ''Failed'' \<Longrightarrow> act_text (retry now f a) \<in> set known_failures"
  using fail_with_known by (auto simp: retry_def Let_def split: if_splits)

lemma succeed_state [simp]: "act_state (succeed now a) = ''Succeeded''"
  by (simp add: succeed_def Let_def)

lemma time_out_text: "act_text (time_out a) = timeout_failure"
  by (simp add: time_out_def timeout_failure_def)

lemma normalize_text:
  "act_text (normalize_failed a) \<in> set known_failures
   \<or> act_stage a \<in> {''Import'', ''Selection''} \<and> act_text (normalize_failed a) = (act_stage a, act_reason a, import_text)"
  using fail_with_known by (auto simp: normalize_failed_def import_text_def)

text \<open>
  No container output reaches the status. Pods report termination messages and reasons of
  arbitrary content; whatever they say, a failed attempt is published with one of ten fixed
  texts, the fixed timeout text, or, for a resolution failure, the recorded resolution reason
  with a fixed message.
\<close>

theorem failure_texts_are_fixed:
  assumes "activation c = Some a"
    and "observeActivation K A now c f w = (None, c', w')"
    and "activation c' = Some a'" and "act_state a' = ''Failed''"
  shows "act_text a' \<in> set (timeout_failure # known_failures)
    \<or> act_state a = ''Failed'' \<and> act_stage a \<in> {''Import'', ''Selection''}
      \<and> act_text a' = (act_stage a, act_reason a, import_text)"
proof -
  obtain r where adv: "advance K now c f a w = (Inr (a', r), w')"
    using observe_activation[OF assms(2,1)] assms(3) by force
  have safe: "act_text (a\<lparr>act_state := ''Failed'', act_stage := af_stage s, act_reason := af_reason s,
        act_message := af_message s\<rparr>) \<in> set known_failures" if "s = safeCatalogActivationFailure x" for s x
    using safe_failure_known[of x] that by simp
  show ?thesis
  proof (cases "act_state a = ''Failed''")
    case True
    then show ?thesis using adv normalize_text[of a] by (auto simp: advance_def)
  next
    case False
    then show ?thesis using adv assms(4) safe retry_failed time_out_text[of a]
      by (auto simp: advance_def Let_def split: option.splits if_splits prod.splits sum.splits)
  qed
qed

theorem failure_texts_are_fixed_witness:
  "case observeActivation (sample_api (sample_stream [] [])) list_conditions 5
      (sample_catalog (Some (sample_activation ''Pending'')) [])
      (Some \<lparr>af_stage = ''secret'', af_reason = ''token=abc'', af_message = ''stack trace''\<rparr>) () of
     (None, c', _) \<Rightarrow> (case activation c' of Some a' \<Rightarrow> act_text a' \<in> set (timeout_failure # known_failures) | None \<Rightarrow> False)
   | _ \<Rightarrow> False"
proof -
  let ?a = "sample_activation ''Pending''" and ?f = "\<lparr>af_stage = ''secret'', af_reason = ''token=abc'', af_message = ''stack trace''\<rparr>"
  let ?c = "sample_catalog (Some ?a) []" and ?K = "sample_api (sample_stream [] [])"
  obtain e c' w' where r: "observeActivation ?K list_conditions 5 ?c (Some ?f) () = (e, c', w')" by (metis prod_cases3)
  have "case observeActivation ?K list_conditions 5 ?c (Some ?f) () of (e, c', w') \<Rightarrow>
      e = None \<and> map_option act_state (activation c') = Some ''Failed''" by code_simp
  then obtain a' where a': "e = None" "activation c' = Some a'" "act_state a' = ''Failed''" by (auto simp: r)
  have "activation ?c = Some ?a" "act_state ?a \<noteq> ''Failed''" by (simp_all add: sample_defs)
  then show ?thesis using failure_texts_are_fixed[OF _ r[unfolded a'(1)] a'(2,3)] by (simp add: r a')
qed

section \<open>The deadline\<close>

lemma deadline_advance:
  assumes "act_state a = ''Pending''" and "now - act_startedAt a > activationDeadline"
    and "validatedCatalogWorkload K now c a w = (Inr False, w1)"
  shows "\<exists>a' w'. advance K now c f a w = (Inr (a', False), w') \<and> act_state a' = ''Failed''"
  using assms
  by (cases f) (simp_all add: advance_def time_out_def retry_def fail_with_def Let_def)

text \<open>
  An attempt does not hang. Once ten minutes have passed since a pending attempt started
  and its workload still does not validate, the next observation ends it: whatever the pods
  report, retryable or not, the attempt is \<^verbatim>\<open>Failed\<close> and \<^verbatim>\<open>DataImageActivationFailed\<close> is true.
\<close>

theorem pending_attempt_ends:
  assumes "conditions_api A" and "activation c = Some a" and "act_state a = ''Pending''"
    and "now - act_startedAt a > activationDeadline"
    and "validatedCatalogWorkload K now c a w = (Inr False, w1)"
  shows "\<exists>c' a' w'. observeActivation K A now c f w = (None, c', w') \<and> activation c' = Some a'
    \<and> act_state a' = ''Failed'' \<and> isConditionTrue A (conds c') conditionDataImageActivationFailed"
proof -
  obtain a' w' where adv: "advance K now c f a w = (Inr (a', False), w')" "act_state a' = ''Failed''"
    using deadline_advance[OF assms(3-5), of f] by blast
  then have "observeActivation K A now c f w = (None, publish_activation A now False a' c, w')"
    by (simp add: observeActivation_def assms(2))
  then show ?thesis using conditions_api.publish_failed[OF assms(1) adv(2)] adv(2) by auto
qed

theorem pending_attempt_ends_witness:
  "\<exists>c' a' w'. observeActivation (sample_api (sample_stream [] [])) list_conditions (activationDeadline + 6)
      (sample_catalog (Some (sample_activation ''Pending'')) [])
      (Some (failure ''Pull'' reasonDataImagePullRetrying)) () = (None, c', w')
    \<and> activation c' = Some a' \<and> act_state a' = ''Failed''"
proof -
  let ?a = "sample_activation ''Pending''" and ?K = "sample_api (sample_stream [] [])"
  let ?c = "sample_catalog (Some ?a) []"
  have "activation ?c = Some ?a" "act_state ?a = ''Pending''" "(activationDeadline + 6) - act_startedAt ?a > activationDeadline"
    by (simp_all add: sample_defs)
  moreover have "validatedCatalogWorkload ?K (activationDeadline + 6) ?c ?a () = (Inr False, ())"
    by (simp add: validatedCatalogWorkload_def sample_api_def ignoreNotFound_def is_kind_def)
  ultimately show ?thesis
    using pending_attempt_ends[OF lc.conditions_api_axioms, of ?c ?a "activationDeadline + 6" ?K "()" "()"
        "Some (failure ''Pull'' reasonDataImagePullRetrying)"] by blast
qed

section \<open>The last success\<close>

lemma last_success_kept [simp]:
  "act_lastSuccessful (unresolved_attempt r a) = act_lastSuccessful a"
  "act_lastSuccessful (fail_with s a) = act_lastSuccessful a"
  "act_lastSuccessful (normalize_failed a) = act_lastSuccessful a"
  "act_lastSuccessful (retry now f a) = act_lastSuccessful a"
  "act_lastSuccessful (time_out a) = act_lastSuccessful a"
  by (simp_all add: unresolved_attempt_def fail_with_def normalize_failed_def retry_def time_out_def Let_def)

lemma advance_last_success:
  assumes "advance K now c f a w = (Inr (a', r), w')"
  shows "act_lastSuccessful a' = act_lastSuccessful a \<or> r \<and> a' = succeed now a"
  using assms
  by (auto simp: advance_def Let_def split: if_splits option.splits prod.splits sum.splits)

lemma succeed_last:
  "act_lastSuccessful (succeed now a) \<noteq> act_lastSuccessful a \<Longrightarrow>
     act_lastSuccessful (succeed now a) = Some \<lparr>succ_catalogUID = act_catalogUID a, succ_attemptID = act_attemptID a,
       succ_images = act_images a, succ_activatedAt = now\<rparr>"
  by (auto simp: succeed_def Let_def split: if_splits)

text \<open>
  The record of the last success is only written by a success. Preparing an attempt
  carries it over, also to a new attempt after a changed request, and an observation changes it
  only when the workload of this attempt was validated in that call, to this attempt's identity
  and images.
\<close>

theorem last_success_is_earned:
  assumes "activation c = Some a"
    and "observeActivation K A now c f w = (None, c', w')" and "activation c' = Some a'"
    and "prepareActivation A getenv fp nonce later c' p = (None, c'', p'')" and "activation c'' = Some a''"
  shows "act_lastSuccessful a'' = act_lastSuccessful a'
    \<and> (act_lastSuccessful a' = act_lastSuccessful a
       \<or> validatedCatalogWorkload K now c a w = (Inr True, w') \<and> act_state a' = ''Succeeded''
         \<and> act_lastSuccessful a' = Some \<lparr>succ_catalogUID = act_catalogUID a, succ_attemptID = act_attemptID a,
             succ_images = act_images a, succ_activatedAt = now\<rparr>)"
proof -
  obtain r where adv: "advance K now c f a w = (Inr (a', r), w')"
    using observe_activation[OF assms(2,1)] assms(3) by force
  have "act_lastSuccessful a'' = act_lastSuccessful a'"
  proof (rule prepare_activation[OF assms(4)])
    fix q a0 b assume "begin_attempt later nonce (fp (activation_request getenv c' p q)) c' p = Inr a0"
      "b = unresolved_attempt q a0" "activation c'' = Some b"
    then show ?thesis using assms(3,5)
      by (auto simp: begin_attempt_def new_attempt_def Let_def split: if_splits sum.splits)
  qed
  moreover have "act_lastSuccessful a' = act_lastSuccessful a
     \<or> validatedCatalogWorkload K now c a w = (Inr True, w') \<and> act_state a' = ''Succeeded''
       \<and> act_lastSuccessful a' = Some \<lparr>succ_catalogUID = act_catalogUID a, succ_attemptID = act_attemptID a,
           succ_images = act_images a, succ_activatedAt = now\<rparr>"
    using advance_last_success[OF adv] succeed_last[of now a] advance_ready[of K now c f a w a' w'] adv
    by (metis succeed_state)
  ultimately show ?thesis by blast
qed

section \<open>A cluster in which the attempt succeeds\<close>

definition sample_containers :: "Container list" where
  "sample_containers = [\<lparr>c_name = ''catalog-data-init'', c_image = ''quay.io/a/b:c''\<rparr>,
     \<lparr>c_name = ''benchmark-data-init'', c_image = ''quay.io/a/d:e''\<rparr>]"

definition sample_deployment :: Deployment where
  "sample_deployment = \<lparr>d_name = ''model-catalog'', d_namespace = ''ns'', d_generation = 1, d_deletion = None,
     d_replicas = Some 1, d_selector = Map.empty, d_templateAnnotations = [activationAttemptAnnotation \<mapsto> ''a1''],
     d_initContainers = sample_containers, d_containers = [\<lparr>c_name = ''catalog'', c_image = ''quay.io/a/r:1''\<rparr>],
     d_conditions = [\<lparr>dc_type = ''Available'', dc_status = ''True'', dc_message = [], dc_lastTransition = 0\<rparr>],
     d_observedGeneration = 1, d_statusReplicas = 1, d_updatedReplicas = 1, d_readyReplicas = 1,
     d_availableReplicas = 1, d_unavailableReplicas = 0\<rparr>"

definition sample_pod :: Pod where
  "sample_pod = \<lparr>p_name = ''pod'', p_namespace = ''ns'', p_annotations = [activationAttemptAnnotation \<mapsto> ''a1''],
     p_labels = Map.empty, p_deletion = None, p_initContainers = sample_containers,
     p_containers = [\<lparr>c_name = ''catalog'', c_image = ''quay.io/a/r:1''\<rparr>], p_phase = ''Running'',
     p_initStatuses = [\<lparr>cs_name = ''catalog-content-validation'', cs_ready = True, cs_waiting = None,
       cs_terminated = Some \<lparr>t_exitCode = 0, t_reason = [], t_message = []\<rparr>, cs_lastTerminated = None\<rparr>],
     p_statuses = [\<lparr>cs_name = ''catalog'', cs_ready = True, cs_waiting = None, cs_terminated = None,
       cs_lastTerminated = None\<rparr>], p_conditions = []\<rparr>"

definition healthy_api :: "unit catalog_api" where
  "healthy_api = (sample_api (sample_stream [] []))\<lparr>
     ca_getDeployment := (\<lambda>k w. (Inr sample_deployment, w)), ca_listPods := (\<lambda>n l w. (Inr [sample_pod], w)),
     ca_listEndpointSlices := (\<lambda>n v w. (Inr [\<lparr>es_endpoints = [\<lparr>ep_ready = None, ep_addresses = [''10.0.0.1'']\<rparr>]\<rparr>], w))\<rparr>"

theorem activation_ready_is_validated_witness:
  "0 < desired_replicas sample_deployment
   \<and> length (filter (counted_pod (sample_activation ''Pending'') sample_deployment) [sample_pod]) = 1"
proof -
  let ?a = "sample_activation ''Pending''" and ?now = "deploymentDelay + 1"
  let ?c = "sample_catalog (Some ?a) []"
  obtain e c' w' where r: "observeActivation healthy_api list_conditions ?now ?c None () = (e, c', w')" by (metis prod_cases3)
  have "case observeActivation healthy_api list_conditions ?now ?c None () of (e, c', w') \<Rightarrow>
      e = None \<and> isConditionTrue list_conditions (conds c') conditionDataActivationReady" by code_simp
  then have ready: "e = None" "isConditionTrue list_conditions (conds c') conditionDataActivationReady" by (simp_all add: r)
  have "activation ?c = Some ?a" by (simp add: sample_catalog_def)
  from activation_ready_is_validated[OF lc.conditions_api_axioms this r[unfolded ready(1)] ready(2)]
  obtain d w1 w2 pods where "ca_getDeployment healthy_api (cat_namespace ?c, catalogResourceName) () = (Inr d, w1)"
      "ca_listPods healthy_api (cat_namespace ?c) (d_selector d) w2 = (Inr pods, w')"
      "0 < desired_replicas d" "int (length (filter (counted_pod ?a d) pods)) = desired_replicas d" by blast
  moreover from this(1,2) have "d = sample_deployment" "pods = [sample_pod]" by (simp_all add: healthy_api_def)
  moreover have "desired_replicas sample_deployment = 1" by (simp add: desired_replicas_def sample_deployment_def)
  ultimately show ?thesis by simp
qed

text \<open>The new attempt of a changed request carries the success of the attempt before it.\<close>

definition activated_sample :: Catalog where
  "activated_sample = fst (snd (observeActivation healthy_api list_conditions (deploymentDelay + 1)
     (sample_catalog (Some (sample_activation ''Pending'')) [sample_condition conditionDataImageResolved ''True'' ''Resolved''])
     None ()))"

theorem last_success_is_earned_witness:
  "case prepareActivation list_conditions (\<lambda>_. []) (\<lambda>_. ''other'') (Inr ''n2'') 9 activated_sample sample_params of
     (_, c'', _) \<Rightarrow> (case activation c'' of None \<Rightarrow> False
       | Some a'' \<Rightarrow> map_option succ_attemptID (act_lastSuccessful a'') = Some ''a1'')"
proof -
  let ?a = "sample_activation ''Pending''" and ?now = "deploymentDelay + 1"
  let ?c = "sample_catalog (Some ?a) [sample_condition conditionDataImageResolved ''True'' ''Resolved'']"
  let ?P = "prepareActivation list_conditions (\<lambda>_. []) (\<lambda>_. ''other'') (Inr ''n2'') 9 activated_sample sample_params"
  obtain e c' w' where r: "observeActivation healthy_api list_conditions ?now ?c None () = (e, c', w')" by (metis prod_cases3)
  then have c': "activated_sample = c'" by (simp add: activated_sample_def)
  obtain e2 c'' p'' where pr: "?P = (e2, c'', p'')" by (metis prod_cases3)
  have "fst (observeActivation healthy_api list_conditions ?now ?c None ()) = None
      \<and> (case activation activated_sample of None \<Rightarrow> False | Some a' \<Rightarrow> act_lastSuccessful a' \<noteq> None)
      \<and> fst ?P = None \<and> activation (fst (snd ?P)) \<noteq> None" by code_simp
  then obtain a' a'' where e: "e = None" "e2 = None" and a: "activation c' = Some a'" "act_lastSuccessful a' \<noteq> None"
      "activation c'' = Some a''" by (auto simp: r c' pr[unfolded c'] split: option.splits)
  have "activation ?c = Some ?a" "act_lastSuccessful ?a = None" "act_attemptID ?a = ''a1''" by (simp_all add: sample_defs)
  then show ?thesis
    using last_success_is_earned[OF _ r[unfolded e(1)] a(1) pr[unfolded e(2) c'] a(3)] a by (auto simp: pr[unfolded c'] c')
qed

text \<open>
  \<^verbatim>\<open>prepareActivation\<close> tests for the reason \<^verbatim>\<open>InvalidImageSelection\<close>, which no code sets: the
  resolver reports \<^verbatim>\<open>InvalidDataImageSelection\<close>. So an invalid selection is published with the
  stage \<^verbatim>\<open>Import\<close>, and the stage \<^verbatim>\<open>Selection\<close> is never reached.
\<close>

lemma invalid_selection_reported_as_import:
  "case resolveCatalogDataImages (sample_api (sample_stream [] [])) list_conditions (\<lambda>_. []) 5
      (selecting (Some ''latest'') None) sample_params () of
     Some (_, c', p', _) \<Rightarrow>
       (case prepareActivation list_conditions (\<lambda>_. []) (\<lambda>_. ''h'') (Inr ''n'') 6 c' p' of
          (_, c'', _) \<Rightarrow> map_option (\<lambda>a. (act_state a, act_stage a, act_reason a)) (activation c'')
             = Some (''Failed'', ''Import'', ''InvalidDataImageSelection''))
   | None \<Rightarrow> False"
  by code_simp

end
