(* ===== verification/Catalog_Lifecycle.thy ===== *)
theory Catalog_Lifecycle
  imports Catalog_Outcomes
begin

text \<open>
  The abstract specification of an activation. An attempt for a request is tried, served or
  rejected, and two functions say what a resolution and an observation do to it. The branches
  of the operations of \<open>Catalog_Activation\<close> refine them: what a reader of the Catalog's
  status sees of an operation is the abstract function of what was seen before; \<open>Activation_Runs\<close> puts
  them together. The status they publish also has the type its custom resource definition gives it.
\<close>

section \<open>The published type\<close>

text \<open>The enumerations of \<^verbatim>\<open>CatalogActivationStatus\<close> that the API server enforces.\<close>

definition activation_states :: "string list" where
  "activation_states = [''Pending'', ''Failed'', ''Succeeded'']"

definition activation_stages :: "string list" where
  "activation_stages = [''Activation'', ''Import'', ''Selection'', ''Loading'', ''Initialization'', ''Pull'']"

definition admissible :: "CatalogActivationStatus \<Rightarrow> bool" where
  "admissible a = (act_state a \<in> set activation_states \<and> act_stage a \<in> set activation_stages)"

definition admissible_status :: "Catalog \<Rightarrow> bool" where
  "admissible_status c = (case activation c of None \<Rightarrow> True | Some a \<Rightarrow> admissible a)"

text \<open>An observation of the pods, as \<open>catalogActivationFailure_of\<close> makes them.\<close>

definition staged :: "catalogActivationFailure option \<Rightarrow> bool" where
  "staged f = (case f of None \<Rightarrow> True | Some x \<Rightarrow> af_stage x \<in> set activation_stages)"

lemma safe_staged [simp]: "af_stage (safeCatalogActivationFailure f) \<in> set activation_stages"
  by (simp add: safeCatalogActivationFailure_def safe_summary_def activation_stages_def Let_def)

lemma report_staged: "af_stage (report_failure decode m) \<in> set activation_stages"
  by (auto simp: report_failure_def failure_def activation_stages_def split: option.splits)

lemma waiting_staged: "waiting_failure s = Some f \<Longrightarrow> af_stage f \<in> set activation_stages"
  by (auto simp: waiting_failure_def failure_def activation_stages_def split: option.splits if_splits)

lemma container_staged: "check_container decode s i = Some f \<Longrightarrow> af_stage f \<in> set activation_stages"
  using report_staged waiting_staged
  by (auto simp: check_container_def failure_def activation_stages_def split: option.splits if_splits)

lemma first_failure_from: "first_failure g ss = Some f \<Longrightarrow> \<exists>s \<in> set ss. g s = Some f"
  by (induction ss) (auto split: option.splits)

lemma pod_staged: "catalogPodFailure decode pod = Some f \<Longrightarrow> af_stage f \<in> set activation_stages"
  by (auto simp: catalogPodFailure_def failure_def activation_stages_def split: if_splits option.splits
      dest!: first_failure_from dest: container_staged)

lemma pods_staged: "staged r \<Longrightarrow> staged (pods_failure decode r pods)"
  by (induction decode r pods rule: pods_failure.induct) (auto simp: staged_def pod_staged split: option.splits)

lemma observation_staged:
  assumes "catalogActivationFailure_of K decode c w = (Inr f, w')" shows "staged f"
  using assms pods_staged[of None decode]
  by (auto simp: catalogActivationFailure_of_def staged_def[of None] split: prod.splits sum.splits)

lemma fail_with_admissible [simp]: "admissible (fail_with r a)"
  by (simp add: fail_with_def admissible_def activation_states_def Let_def)

lemma retry_admissible: "af_stage f \<in> set activation_stages \<Longrightarrow> admissible (retry now f a)"
  by (auto simp: retry_def admissible_def activation_states_def Let_def fail_with_def)

lemma succeed_admissible: "admissible (succeed now a)"
  by (simp add: succeed_def admissible_def activation_states_def activation_stages_def Let_def)

lemma time_out_admissible: "admissible (time_out a)"
  by (simp add: time_out_def admissible_def activation_states_def activation_stages_def)

lemma advance_admissible:
  assumes "advance K now c f a w = (Inr (a', r), w')" "admissible a" "staged f"
  shows "admissible a'"
proof -
  have keep: "admissible (normalize_failed a)"
    using assms(2) by (auto simp: normalize_failed_def admissible_def[of "_\<lparr>act_message := _\<rparr>"] admissible_def[of a])
  have broken: "admissible (a\<lparr>act_state := ''Failed'', act_stage := af_stage (safeCatalogActivationFailure x),
      act_reason := y, act_message := z\<rparr>)" for x y z
    by (simp add: admissible_def activation_states_def)
  show ?thesis
    using assms keep broken retry_admissible succeed_admissible[of now a] time_out_admissible[of a]
    by (auto simp: advance_def staged_def Let_def split: if_splits option.splits prod.splits sum.splits)
qed

lemma new_admissible: "admissible (new_attempt now n h c p)"
  by (simp add: new_attempt_def admissible_def activation_states_def activation_stages_def Let_def)

lemma unresolved_admissible: "admissible a \<Longrightarrow> admissible (unresolved_attempt r a)"
  by (simp add: unresolved_attempt_def admissible_def activation_states_def activation_stages_def)

lemma begin_admissible:
  "begin_attempt now nonce h c p = Inr a \<Longrightarrow> admissible_status c \<Longrightarrow> admissible a"
  by (auto simp: begin_attempt_def admissible_status_def new_admissible split: option.splits if_splits sum.splits)

lemma prepare_keeps_type:
  "prepareActivation A getenv fp nonce now c p = (None, c', p') \<Longrightarrow> admissible_status c \<Longrightarrow> admissible_status c'"
  by (erule prepare_activation) (simp add: admissible_status_def begin_admissible unresolved_admissible)

lemma observe_keeps_type:
  assumes "staged f" and o: "observeActivation K A now c f w = (e, c', w')" and "admissible_status c"
  shows "admissible_status c'"
proof (cases "activation c")
  case None
  with o assms(3) show ?thesis by (simp add: observeActivation_def)
next
  case (Some a)
  from observe_activation[OF o Some] consider "c' = c"
    | a' r where "advance K now c f a w = (Inr (a', r), w')" "c' = publish_activation A now r a' c" by blast
  then show ?thesis
  proof cases
    case 2
    from advance_admissible[OF 2(1) _ assms(1)] assms(3) Some 2(2)
    show ?thesis by (simp add: admissible_status_def)
  qed (use assms in simp)
qed

text \<open>
  C35: the status the activation protocol publishes has its declared type. Whatever the cluster
  answers and whatever containers report, preparing an attempt and observing it with what the
  pods report write states and stages of the enumerations of the custom resource definition.
\<close>

theorem activation_status_typed:
  assumes "admissible_status c"
  shows "(prepareActivation A getenv fp nonce now c p = (None, c', p') \<longrightarrow> admissible_status c') \<and>
         (catalogActivationFailure_of K decode c u = (Inr f, v) \<longrightarrow>
          observeActivation K A now c f w = (e, c', w') \<longrightarrow> admissible_status c')"
  using prepare_keeps_type[of A getenv fp nonce now c p c' p'] observe_keeps_type[of f K A now c w e c' w']
    observation_staged[of K decode c u f v] assms by blast

section \<open>The abstract lifecycle\<close>

record attempt =
  at_id :: string
  at_request :: string
  at_images :: CatalogDataImages

datatype lifecycle = NoAttempt | Trying attempt | Serving attempt | Rejected attempt

datatype resolution = ImagesResolved | ImagesAwaited | ImagesInvalid

datatype verdict_on = Validated | Broken | Overdue | Retrying | Silent

fun attempt_of :: "lifecycle \<Rightarrow> attempt option" where
  "attempt_of NoAttempt = None"
| "attempt_of (Trying a) = Some a"
| "attempt_of (Serving a) = Some a"
| "attempt_of (Rejected a) = Some a"

definition take_up :: "attempt \<Rightarrow> lifecycle \<Rightarrow> lifecycle" where
  "take_up new s = (if map_option at_request (attempt_of s) = Some (at_request new) then s else Trying new)"

fun resolve :: "resolution \<Rightarrow> lifecycle \<Rightarrow> lifecycle" where
  "resolve v NoAttempt = NoAttempt"
| "resolve v (Rejected a) = Rejected a"
| "resolve v (Trying a) = (case v of ImagesInvalid \<Rightarrow> Rejected a | _ \<Rightarrow> Trying a)"
| "resolve v (Serving a) = (case v of ImagesResolved \<Rightarrow> Serving a | ImagesAwaited \<Rightarrow> Trying a | ImagesInvalid \<Rightarrow> Rejected a)"

fun observe :: "verdict_on \<Rightarrow> lifecycle \<Rightarrow> lifecycle" where
  "observe v NoAttempt = NoAttempt"
| "observe v (Rejected a) = Rejected a"
| "observe Validated s = (case attempt_of s of None \<Rightarrow> s | Some a \<Rightarrow> Serving a)"
| "observe Broken s = (case attempt_of s of None \<Rightarrow> s | Some a \<Rightarrow> Rejected a)"
| "observe Overdue s = (case attempt_of s of None \<Rightarrow> s | Some a \<Rightarrow> Rejected a)"
| "observe Retrying s = (case attempt_of s of None \<Rightarrow> s | Some a \<Rightarrow> Trying a)"
| "observe Silent s = s"

section \<open>The abstraction\<close>

definition the_attempt :: "CatalogActivationStatus \<Rightarrow> attempt" where
  "the_attempt a = \<lparr>at_id = act_attemptID a, at_request = act_requestHash a, at_images = act_images a\<rparr>"

definition phase :: "CatalogActivationStatus \<Rightarrow> lifecycle" where
  "phase a = (if act_state a = ''Failed'' then Rejected (the_attempt a)
     else if act_state a = ''Succeeded'' then Serving (the_attempt a) else Trying (the_attempt a))"

definition lifecycle_of :: "Catalog \<Rightarrow> lifecycle" where
  "lifecycle_of c = (case activation c of None \<Rightarrow> NoAttempt | Some a \<Rightarrow> phase a)"

definition resolution_of :: "condition \<Rightarrow> resolution" where
  "resolution_of r = (if cond_status r = ConditionTrue then ImagesResolved
     else if cond_status r = ConditionFalse \<and> cond_reason r \<noteq> ''NoSuccessfulImport'' then ImagesInvalid else ImagesAwaited)"

text \<open>The time an attempt has had, and when a retry that follows a success has used it up.\<close>

definition had_too_long :: "time \<Rightarrow> bool \<Rightarrow> CatalogActivationStatus \<Rightarrow> bool" where
  "had_too_long now retrying a =
     (if act_state a = ''Succeeded'' then
        retrying \<and> (case act_recoveredAt a of None \<Rightarrow> False
          | Some r \<Rightarrow> now - r < activationDeadline \<and> activationDeadline < now - act_startedAt a)
      else activationDeadline < now - act_startedAt a)"

definition verdict_of :: "time \<Rightarrow> catalogActivationFailure option \<Rightarrow> bool \<Rightarrow> CatalogActivationStatus \<Rightarrow> verdict_on" where
  "verdict_of now f ready a =
     (if f \<noteq> None \<and> \<not> retryableCatalogActivation f then Broken
      else if ready then Validated
      else if had_too_long now (f \<noteq> None) a then Overdue
      else if f \<noteq> None then Retrying else Silent)"

lemma attempt_identity_the: "attempt_identity a' = attempt_identity a \<Longrightarrow> the_attempt a' = the_attempt a"
  by (simp add: attempt_identity_def the_attempt_def)

lemma attempt_of_phase [simp]: "attempt_of (phase a) = Some (the_attempt a)"
  by (simp add: phase_def)

lemma the_attempt_simps [simp]:
  "the_attempt (succeed now a) = the_attempt a" "the_attempt (retry now f a) = the_attempt a"
  "the_attempt (time_out a) = the_attempt a" "the_attempt (normalize_failed a) = the_attempt a"
  by (intro attempt_identity_the; simp)+

lemma timed_out: "act_state (time_out a) = ''Failed''"
  by (simp add: time_out_def)

lemma retry_state:
  "act_state a \<in> set activation_states \<Longrightarrow> act_state a \<noteq> ''Failed'' \<Longrightarrow>
     act_state (retry now f a) = (if had_too_long now True a then ''Failed'' else ''Pending'')"
  by (auto simp: retry_def had_too_long_def fail_with_def Let_def activation_states_def activationDeadline_def split: option.splits)

lemma phase_cases:
  "act_state a \<in> set activation_states \<Longrightarrow> act_state a \<noteq> ''Failed'' \<Longrightarrow>
     phase a = Trying (the_attempt a) \<and> act_state a = ''Pending'' \<or> phase a = Serving (the_attempt a) \<and> act_state a = ''Succeeded''"
  by (auto simp: phase_def activation_states_def)

section \<open>The refinement\<close>

lemma advance_phase:
  assumes "advance K now c f a w = (Inr (a', ready), w')" "admissible a"
  shows "phase a' = observe (verdict_of now f ready a) (phase a)"
proof (cases "act_state a = ''Failed''")
  case True
  with assms(1) have "a' = normalize_failed a" by (simp add: advance_def)
  with True show ?thesis by (simp add: phase_def normalize_state)
next
  case False
  have st: "act_state a \<in> set activation_states" using assms(2) by (simp add: admissible_def)
  show ?thesis
  proof (cases f)
    case None
    with assms(1) False have a': "a' = (if ready then succeed now a
        else if now - act_startedAt a > activationDeadline \<and> act_state a = ''Pending'' then time_out a else a)"
      by (auto simp: advance_def split: prod.splits sum.splits)
    from phase_cases[OF st False] show ?thesis
      by (auto simp: a' None verdict_of_def had_too_long_def phase_def[of "succeed _ _"] phase_def[of "time_out _"] timed_out)
  next
    case (Some x)
    show ?thesis
    proof (cases "retryableCatalogActivation f")
      case True
      with assms(1) False Some have a': "a' = (if ready then succeed now a else retry now x a)"
        by (auto simp: advance_def split: prod.splits sum.splits)
      from phase_cases[OF st False] show ?thesis
        by (auto simp: a' Some True[unfolded Some] verdict_of_def phase_def[of "succeed _ _"] phase_def[of "retry _ _ _"] retry_state[OF st False])
    next
      case broken: False
      have "advance K now c f a w = (Inr (a\<lparr>act_state := ''Failed'', act_stage := af_stage (safeCatalogActivationFailure x),
          act_reason := af_reason (safeCatalogActivationFailure x), act_message := af_message (safeCatalogActivationFailure x)\<rparr>, False), w)"
        using False broken by (simp add: advance_def Some Let_def)
      with assms(1) have "act_state a' = ''Failed''" by auto
      then have "phase a' = Rejected (the_attempt a)"
        using attempt_identity_the[OF advance_identity(1)[OF assms(1)]] by (simp add: phase_def)
      moreover have "verdict_of now f ready a = Broken" using broken Some by (simp add: verdict_of_def)
      ultimately show ?thesis using phase_cases[OF st False] by (elim disjE conjE) simp_all
    qed
  qed
qed

lemma unresolved_phase:
  "admissible a \<Longrightarrow> phase (unresolved_attempt r a) = resolve (resolution_of r) (phase a)"
  by (auto simp: unresolved_attempt_def resolution_of_def phase_def the_attempt_def split: resolution.splits)

section \<open>The theorems on a sample\<close>

definition started_attempt :: CatalogActivationStatus where
  "started_attempt = (sample_activation ''Pending'')\<lparr>act_stage := ''Activation''\<rparr>"

lemma sample_admissible: "admissible_status (sample_catalog (Some started_attempt) cs)"
  by (simp add: admissible_status_def admissible_def activation_states_def activation_stages_def started_attempt_def sample_defs)

lemma sample_attempt: "activation (sample_catalog (Some a) cs) = Some a"
  by (simp add: sample_catalog_def)

definition sample_resolved :: Catalog where
  "sample_resolved = sample_catalog (Some started_attempt) [sample_condition conditionDataImageResolved ''True'' ''Resolved'']"

definition sample_prepared :: "go_error option \<times> Catalog \<times> CatalogParams" where
  "sample_prepared = prepareActivation list_conditions (\<lambda>_. []) (\<lambda>_. ''other'') (Inr ''n2'') 9 sample_resolved sample_params"

definition sample_observed :: "go_error option \<times> Catalog \<times> unit" where
  "sample_observed = observeActivation healthy_api list_conditions (deploymentDelay + 1) sample_resolved None ()"

lemma sample_prepared_run: "sample_prepared = (None, fst (snd sample_prepared), snd (snd sample_prepared))"
proof -
  have "fst sample_prepared = None" by code_simp
  then show ?thesis by (metis prod.collapse)
qed

lemma sample_observed_run: "sample_observed = (None, fst (snd sample_observed), snd (snd sample_observed))"
proof -
  have "fst sample_observed = None" by code_simp
  then show ?thesis by (metis prod.collapse)
qed

lemma activation_status_typed_witness:
  "admissible_status (fst (snd sample_prepared)) \<and> admissible_status (fst (snd sample_observed))"
proof -
  have adm: "admissible_status sample_resolved" by (simp only: sample_resolved_def sample_admissible)
  have pods: "catalogActivationFailure_of healthy_api (\<lambda>_. None) sample_resolved () = (Inr None, ())" by code_simp
  from activation_status_typed[OF adm] sample_prepared_run[unfolded sample_prepared_def]
    pods sample_observed_run[unfolded sample_observed_def] sample_prepared_def sample_observed_def
  show ?thesis by metis
qed

end
