(* ===== verification/Activation_Runs.thy ===== *)
theory Activation_Runs
  imports Catalog_Lifecycle
begin

text \<open>
  Runs of the activation protocol. The reconciler calls \<^verbatim>\<open>prepareActivation\<close> and
  \<^verbatim>\<open>observeActivation\<close> again and again, in between others edit the Catalog; each step of such a run is
  labelled with what it decided. The runs refine the abstract lifecycle of \<open>Catalog_Lifecycle\<close>, so
  a fact about the lifecycle is a fact about every run.
\<close>

section \<open>Functional refinement of labelled steps\<close>

inductive trace :: "('s \<Rightarrow> 'e \<Rightarrow> 's \<Rightarrow> bool) \<Rightarrow> 's \<Rightarrow> 'e list \<Rightarrow> 's \<Rightarrow> bool" for step where
  idle: "trace step s [] s"
| more: "trace step s es s1 \<Longrightarrow> step s1 e s2 \<Longrightarrow> trace step s (es @ [e]) s2"

inductive_simps trace_nil: "trace step s [] s'"

locale functional_refinement =
  fixes abs :: "'s \<Rightarrow> 'a" and inv :: "'s \<Rightarrow> bool"
    and cstep :: "'s \<Rightarrow> 'e \<Rightarrow> 's \<Rightarrow> bool" and astep :: "'e \<Rightarrow> 'a \<Rightarrow> 'a"
  assumes keeps: "inv s \<Longrightarrow> cstep s e s' \<Longrightarrow> inv s'"
    and simulates: "inv s \<Longrightarrow> cstep s e s' \<Longrightarrow> abs s' = astep e (abs s)"
begin

lemma trace_inv: "trace cstep s es s' \<Longrightarrow> inv s \<Longrightarrow> inv s'"
  by (induction rule: trace.induct) (auto intro: keeps)

lemma trace_abs: "trace cstep s es s' \<Longrightarrow> inv s \<Longrightarrow> abs s' = fold astep es (abs s)"
  by (induction rule: trace.induct) (auto simp: simulates[OF trace_inv])

text \<open>An abstract predicate that a run establishes is established by one of its steps.\<close>

lemma trace_change:
  "trace cstep s es s' \<Longrightarrow> inv s \<Longrightarrow> \<not> P (abs s) \<Longrightarrow> P (abs s') \<Longrightarrow>
     \<exists>es1 e es2 s1 s2. es = es1 @ e # es2 \<and> trace cstep s es1 s1 \<and> cstep s1 e s2 \<and>
       \<not> P (abs s1) \<and> P (astep e (abs s1))"
proof (induction rule: trace.induct)
  case (more s es s1 e s2)
  show ?case
  proof (cases "P (abs s1)")
    case True
    then obtain es1 e1 es2 t1 t2 where "es = es1 @ e1 # es2" "trace cstep s es1 t1" "cstep t1 e1 t2"
      "\<not> P (abs t1)" "P (astep e1 (abs t1))"
      using more.IH more.prems(1,2) by blast
    then show ?thesis
      by (intro exI[of _ es1] exI[of _ e1] exI[of _ "es2 @ [e]"] exI[of _ t1] exI[of _ t2]) simp
  next
    case False
    then show ?thesis
      using more.hyps more.prems(3) simulates[OF trace_inv[OF more.hyps(1) more.prems(1)] more.hyps(2)]
      by (intro exI[of _ es] exI[of _ e] exI[of _ "[]"] exI[of _ s1] exI[of _ s2]) simp
  qed
qed simp

end

section \<open>Steps of the activation protocol\<close>

datatype activation_event = Prepared attempt resolution | Observed verdict_on | Elsewhere

fun life :: "activation_event \<Rightarrow> lifecycle \<Rightarrow> lifecycle" where
  "life (Prepared new v) s = resolve v (take_up new s)"
| "life (Observed v) s = observe v s"
| "life Elsewhere s = s"

text \<open>The attempt that a preparation stands for: its request and images, under the id it publishes.\<close>

definition wanted_attempt :: "env \<Rightarrow> (string list \<Rightarrow> string) \<Rightarrow> Catalog \<Rightarrow> CatalogParams \<Rightarrow> condition \<Rightarrow> string
    \<Rightarrow> attempt" where
  "wanted_attempt getenv fp c p r attemptID = \<lparr>at_id = attemptID, at_request = fp (activation_request getenv c p r),
     at_images = \<lparr>img_catalog = cp_catalogDataImage p, img_benchmark = cp_benchmarkDataImage p\<rparr>\<rparr>"

text \<open>A successful call of either operation, labelled with the attempt it stands for and the resolution it
read, or with the verdict; and any change, of others or of a call that fails, that leaves the
activation status alone.\<close>

inductive activation_step ::
  "'w catalog_api \<Rightarrow> cond_api \<Rightarrow> (string \<Rightarrow> (string \<times> string) option) \<Rightarrow> env \<Rightarrow> (string list \<Rightarrow> string)
   \<Rightarrow> Catalog \<Rightarrow> activation_event \<Rightarrow> Catalog \<Rightarrow> bool"
  for K :: "'w catalog_api" and A decode getenv fp where
  prepared: "\<lbrakk>prepareActivation A getenv fp nonce now c p = (None, c', p'); activation c' = Some a;
      cfind A c conditionDataImageResolved = Some r\<rbrakk>
    \<Longrightarrow> activation_step K A decode getenv fp c
      (Prepared (wanted_attempt getenv fp c p r (act_attemptID a)) (resolution_of r)) c'"
| observed: "\<lbrakk>activation c = Some a; catalogActivationFailure_of K decode c u = (Inr f, v);
      observeActivation K A now c f w = (None, c', w');
      ready = (fst (validatedCatalogWorkload K now c a w) = Inr True)\<rbrakk>
    \<Longrightarrow> activation_step K A decode getenv fp c (Observed (verdict_of now f ready a)) c'"
| elsewhere: "activation c' = activation c \<Longrightarrow> activation_step K A decode getenv fp c Elsewhere c'"

inductive_cases observed_stepE: "activation_step K A decode getenv fp c (Observed v) c'"

text \<open>The calls that are no labelled step are steps \<open>Elsewhere\<close>.\<close>

lemma failed_prepare_elsewhere:
  "prepareActivation A getenv fp nonce now c p = (Some e, c', p') \<Longrightarrow>
     activation_step K A decode getenv fp c Elsewhere c'"
  by (rule elsewhere) (auto simp: prepareActivation_def Let_def split: option.splits sum.splits)

lemma failed_observe_elsewhere:
  "observeActivation K A now c f w = (Some e, c', w') \<or>
   activation c = None \<and> observeActivation K A now c f w = (e', c', w') \<Longrightarrow>
     activation_step K A decode getenv fp c Elsewhere c'"
  by (rule elsewhere) (auto simp: observeActivation_def split: option.splits prod.splits sum.splits)

lemma advance_life:
  assumes "advance K now c f a w = (Inr (a', r), w')" "admissible a"
  shows "phase a' = observe (verdict_of now f (fst (validatedCatalogWorkload K now c a w) = Inr True) a) (phase a)"
proof -
  consider "act_state a = ''Failed''" | "f \<noteq> None" "\<not> retryableCatalogActivation f"
    | "r = (fst (validatedCatalogWorkload K now c a w) = Inr True)"
    using assms(1) by (auto simp: advance_def split: option.splits if_splits prod.splits sum.splits)
  then show ?thesis
  proof cases
    case 1
    then show ?thesis
      using advance_phase[OF assms] by (simp add: phase_def)
  next
    case 2
    then show ?thesis
      using advance_phase[OF assms] by (simp add: verdict_of_def)
  qed (use advance_phase[OF assms] in simp)
qed

lemma prepared_life:
  assumes "prepareActivation A getenv fp nonce now c p = (None, c', p')" "activation c' = Some a"
    and "cfind A c conditionDataImageResolved = Some r" "admissible_status c"
  shows "lifecycle_of c'
    = resolve (resolution_of r) (take_up (wanted_attempt getenv fp c p r (act_attemptID a)) (lifecycle_of c))"
  using assms(1)
proof (rule prepare_activation)
  fix r' a0 a'
  assume r': "cfind A c conditionDataImageResolved = Some r'"
    and b: "begin_attempt now nonce (fp (activation_request getenv c p r')) c p = Inr a0"
    and a': "a' = unresolved_attempt r' a0" "activation c' = Some a'"
  have a: "a = unresolved_attempt r a0" "r' = r"
    using r' a' assms(2,3) by auto
  have "act_attemptID a = act_attemptID a0"
    by (simp add: a unresolved_attempt_def)
  then have "phase a0 = take_up (wanted_attempt getenv fp c p r (act_attemptID a)) (lifecycle_of c)"
    using b by (auto simp: begin_attempt_def wanted_attempt_def lifecycle_of_def take_up_def new_attempt_def a(2)
      the_attempt_def phase_def Let_def split: option.splits if_splits sum.splits)
  then show ?thesis
    using unresolved_phase[OF begin_admissible[OF b assms(4)], of r] assms(2) a(1) by (simp add: lifecycle_of_def)
qed

interpretation activation: functional_refinement lifecycle_of admissible_status
    "activation_step K A decode getenv fp" life
  for K :: "'w catalog_api" and A decode getenv fp
proof
  fix c e c'
  assume adm: "admissible_status c" and step: "activation_step K A decode getenv fp c e c'"
  from step show "admissible_status c'"
  proof cases
    case (prepared nonce now p p' a r)
    then show ?thesis using adm by (blast intro: prepare_keeps_type)
  next
    case (observed a u f v now w w' ready)
    then show ?thesis using adm by (blast intro: observe_keeps_type observation_staged)
  next
    case elsewhere
    then show ?thesis using adm by (simp add: admissible_status_def)
  qed
next
  fix c e c'
  assume adm: "admissible_status c" and step: "activation_step K A decode getenv fp c e c'"
  from step show "lifecycle_of c' = life e (lifecycle_of c)"
  proof cases
    case (prepared nonce now p p' a r)
    then show ?thesis using prepared_life[OF prepared(2-4) adm] by simp
  next
    case (observed a u f v now w w' ready)
    obtain a' r where "advance K now c f a w = (Inr (a', r), w')" "c' = publish_activation A now r a' c"
      using observe_activation[OF observed(4,2)] by blast
    then show ?thesis
      using advance_life[of K now c f a w a' r w'] adm observed(1,2,5)
      by (simp add: lifecycle_of_def admissible_status_def)
  next
    case elsewhere
    then show ?thesis by (simp add: lifecycle_of_def)
  qed
qed

section \<open>The properties of runs\<close>

text \<open>
  C5: every run of the activation protocol refines the lifecycle. From a Catalog with a
  typed status, after any interleaving of preparing, observing and edits by others, with any
  answers of the cluster and any clock, the status shows what folding the abstract steps over
  the labels of the run gives; and an attempt rejected at some point stays rejected while no
  other request is prepared.
\<close>

theorem activation_runs_refine:
  assumes "trace (activation_step K A decode getenv fp) c es c'" "admissible_status c"
  shows "admissible_status c' \<and> lifecycle_of c' = fold life es (lifecycle_of c)
    \<and> (\<forall>t. lifecycle_of c = Rejected t
        \<longrightarrow> (\<forall>new v. Prepared new v \<in> set es \<longrightarrow> at_request new = at_request t)
        \<longrightarrow> lifecycle_of c' = Rejected t)"
proof -
  have step: "life e (Rejected t) = Rejected t"
    if "\<And>new v. e = Prepared new v \<Longrightarrow> at_request new = at_request t" for e t
    using that by (cases e) (auto simp: take_up_def)
  have "fold life es (Rejected t) = Rejected t"
    if "\<forall>new v. Prepared new v \<in> set es \<longrightarrow> at_request new = at_request t" for t
    using that by (induction es) (auto simp: step)
  then show ?thesis
    using activation.trace_inv[OF assms] activation.trace_abs[OF assms] by auto
qed

lemma life_serving:
  "life e s = Serving t \<Longrightarrow> s \<noteq> Serving t \<Longrightarrow> e = Observed Validated \<and> s = Trying t"
  by (cases e; cases s)
    (auto simp: take_up_def split: if_splits resolution.splits, (rename_tac v a, case_tac v, auto)+)

text \<open>
  C6: what is served was validated. When a run ends with an attempt served that was not
  served at its start, then one of its steps observed this very attempt while it was being
  tried, and in that call \<^verbatim>\<open>validatedCatalogWorkload\<close> found the workload of the attempt valid.
\<close>

theorem served_attempt_was_validated:
  assumes "trace (activation_step K A decode getenv fp) c es c'" "admissible_status c"
    and "lifecycle_of c \<noteq> Serving t" "lifecycle_of c' = Serving t"
  shows "\<exists>es1 es2 c1 a now w. es = es1 @ Observed Validated # es2
    \<and> trace (activation_step K A decode getenv fp) c es1 c1 \<and> lifecycle_of c1 = Trying t
    \<and> activation c1 = Some a \<and> the_attempt a = t \<and> fst (validatedCatalogWorkload K now c1 a w) = Inr True"
proof -
  obtain es1 e es2 c1 c2 where run: "es = es1 @ e # es2" "trace (activation_step K A decode getenv fp) c es1 c1"
    and step: "activation_step K A decode getenv fp c1 e c2"
    and new: "lifecycle_of c1 \<noteq> Serving t" "life e (lifecycle_of c1) = Serving t"
    using activation.trace_change[of K A decode getenv fp c es c' "\<lambda>s. s = Serving t"] assms by blast
  have e: "e = Observed Validated" "lifecycle_of c1 = Trying t"
    using life_serving[OF new(2,1)] by simp_all
  obtain a f now w where o: "activation c1 = Some a"
    "verdict_of now f (fst (validatedCatalogWorkload K now c1 a w) = Inr True) a = Validated"
    using step unfolding e(1) by (elim observed_stepE) metis
  have "the_attempt a = t"
    using e(2) o(1) attempt_of_phase[of a] by (simp add: lifecycle_of_def)
  moreover have "fst (validatedCatalogWorkload K now c1 a w) = Inr True"
    using o(2) by (auto simp: verdict_of_def split: if_splits)
  ultimately show ?thesis
    using run e o(1)
    by (intro exI[of _ es1] exI[of _ es2] exI[of _ c1] exI[of _ a] exI[of _ now] exI[of _ w]) simp
qed

section \<open>The theorems on a sample\<close>

lemma sample_run:
  "trace (activation_step healthy_api list_conditions (\<lambda>_. None) (\<lambda>_. []) (\<lambda>_. ''other'')) sample_resolved
     [Observed Validated] (fst (snd sample_observed))"
proof -
  have act: "activation sample_resolved = Some started_attempt"
    by (simp only: sample_resolved_def sample_attempt)
  have pods: "catalogActivationFailure_of healthy_api (\<lambda>_. None) sample_resolved () = (Inr None, ())" by code_simp
  have valid: "fst (validatedCatalogWorkload healthy_api (deploymentDelay + 1) sample_resolved started_attempt ()) = Inr True"
    by code_simp
  have run: "observeActivation healthy_api list_conditions (deploymentDelay + 1) sample_resolved None ()
      = (None, fst (snd sample_observed), snd (snd sample_observed))"
    unfolding sample_observed_def[symmetric] by (rule sample_observed_run)
  have "activation_step healthy_api list_conditions (\<lambda>_. None) (\<lambda>_. []) (\<lambda>_. ''other'') sample_resolved
      (Observed (verdict_of (deploymentDelay + 1) None True started_attempt)) (fst (snd sample_observed))"
    by (rule activation_step.observed[OF act pods run]) (simp add: valid)
  then show ?thesis
    using trace.more[OF trace.idle] by (simp add: verdict_of_def)
qed

lemma sample_phases:
  "lifecycle_of sample_resolved = Trying (the_attempt started_attempt)" "admissible_status sample_resolved"
  by (simp add: sample_resolved_def lifecycle_of_def sample_attempt phase_def started_attempt_def sample_activation_def)
    (simp only: sample_resolved_def sample_admissible)

lemma activation_runs_refine_witness:
  "lifecycle_of (fst (snd sample_observed)) = Serving (the_attempt started_attempt)"
  using activation_runs_refine[OF sample_run sample_phases(2)] by (simp add: sample_phases(1))

lemma served_attempt_was_validated_witness:
  "\<exists>c1 a now w. lifecycle_of c1 = Trying (the_attempt started_attempt) \<and> activation c1 = Some a
    \<and> fst (validatedCatalogWorkload healthy_api now c1 a w) = Inr True"
proof -
  have "lifecycle_of (fst (snd sample_observed)) = fold life [Observed Validated] (lifecycle_of sample_resolved)"
    by (rule activation.trace_abs[OF sample_run sample_phases(2)])
  then have "lifecycle_of (fst (snd sample_observed)) = Serving (the_attempt started_attempt)"
    by (simp add: sample_phases(1))
  then show ?thesis
    using served_attempt_was_validated[OF sample_run sample_phases(2), of "the_attempt started_attempt"]
    by (auto simp: sample_phases(1))
qed

end
