(* ===== verification/Go_Memory.thy ===== *)
theory Go_Memory
  imports Prelude "HOL-Library.Monad_Syntax" "HOL-Library.AList"
begin

text \<open>Go values with references, and the steps of which the generated deep copies consist.

The memory is a list of allocated arrays, addressed by position; a new allocation is appended, and
what is allocated is never freed while it can be reached. A pointer refers to an array of one
element, a slice to a window of an array, a map (with string keys) to the struct of its entries, in
the order in which it is ranged over. Strings, numbers and booleans hold no reference and are
\<^term>\<open>Plain\<close>.

\<^verbatim>\<open>ty\<close> is the layout of a Go type, \<^verbatim>\<open>view\<close> the value that a reader sees who follows every reference,
and \<^verbatim>\<open>reach\<close> the arrays such a reader visits. The locale \<^verbatim>\<open>deep_copier\<close> is the contract of
\<^verbatim>\<open>DeepCopyInto\<close>: the copy reads as the original, uses new memory only, and leaves the old memory as
it was. The rules in \<^verbatim>\<open>copies\<close> derive it for a type from the steps its generated function takes.\<close>

named_theorems copies

section \<open>Values, memory, layouts\<close>

type_synonym addr = nat

datatype go =
    Plain string
  | Nil_ref
  | Ref addr
  | Slice addr nat nat
  | Struct "(string \<times> go) list"

type_synonym memory = "go list list"

datatype ty =
    Scalar
  | Pointer ty
  | SliceOf ty
  | MapOf ty
  | StructOf "(string \<times> ty) list"

datatype tree =
    Leaf string
  | Nothing
  | Pointee tree
  | Elems "tree list"
  | Entries "(string \<times> tree) list"
  | Fields "(string \<times> tree) list"

definition load :: "memory \<Rightarrow> addr \<Rightarrow> go option" where
  "load m a = (if a < length m then (case m ! a of [x] \<Rightarrow> Some x | _ \<Rightarrow> None) else None)"

definition elems :: "memory \<Rightarrow> addr \<Rightarrow> nat \<Rightarrow> nat \<Rightarrow> go list option" where
  "elems m a off n = (if a < length m \<and> off + n \<le> length (m ! a)
     then Some (take n (drop off (m ! a))) else None)"

fun view_with :: "(string \<times> (memory \<Rightarrow> go \<Rightarrow> tree option)) list \<Rightarrow> memory \<Rightarrow> (string \<times> go) list
    \<Rightarrow> (string \<times> tree) list option" where
  "view_with [] m [] = Some []"
| "view_with ((n, g) # gs) m ((k, v) # vs) = (if n = k
     then do { t \<leftarrow> g m v; ts \<leftarrow> view_with gs m vs; Some ((n, t) # ts) } else None)"
| "view_with _ m _ = None"

primrec view :: "ty \<Rightarrow> memory \<Rightarrow> go \<Rightarrow> tree option" where
  "view Scalar = (\<lambda>m v. case v of Plain s \<Rightarrow> Some (Leaf s) | _ \<Rightarrow> None)"
| "view (Pointer T) = (\<lambda>m v. case v of Nil_ref \<Rightarrow> Some Nothing
     | Ref a \<Rightarrow> do { x \<leftarrow> load m a; t \<leftarrow> view T m x; Some (Pointee t) } | _ \<Rightarrow> None)"
| "view (SliceOf T) = (\<lambda>m v. case v of Nil_ref \<Rightarrow> Some Nothing
     | Slice a off n \<Rightarrow> do { xs \<leftarrow> elems m a off n; ts \<leftarrow> those (map (view T m) xs); Some (Elems ts) }
     | _ \<Rightarrow> None)"
| "view (MapOf T) = (\<lambda>m v. case v of Nil_ref \<Rightarrow> Some Nothing
     | Ref a \<Rightarrow> (case load m a of
         Some (Struct vs) \<Rightarrow> if distinct (map fst vs)
           then do { ts \<leftarrow> those (map (view T m) (map snd vs)); Some (Entries (zip (map fst vs) ts)) }
           else None
       | _ \<Rightarrow> None)
     | _ \<Rightarrow> None)"
| "view (StructOf fs) = (\<lambda>m v. case v of
       Struct vs \<Rightarrow> map_option Fields (view_with (map (map_prod id view) fs) m vs) | _ \<Rightarrow> None)"

fun reach_with :: "(string \<times> (memory \<Rightarrow> go \<Rightarrow> addr set)) list \<Rightarrow> memory \<Rightarrow> (string \<times> go) list
    \<Rightarrow> addr set" where
  "reach_with ((n, g) # gs) m ((k, v) # vs) = g m v \<union> reach_with gs m vs"
| "reach_with _ m _ = {}"

primrec reach :: "ty \<Rightarrow> memory \<Rightarrow> go \<Rightarrow> addr set" where
  "reach Scalar = (\<lambda>m v. {})"
| "reach (Pointer T) = (\<lambda>m v. case v of
       Ref a \<Rightarrow> insert a (case load m a of Some x \<Rightarrow> reach T m x | None \<Rightarrow> {}) | _ \<Rightarrow> {})"
| "reach (SliceOf T) = (\<lambda>m v. case v of
       Slice a off n \<Rightarrow> insert a (case elems m a off n of Some xs \<Rightarrow> (\<Union>x\<in>set xs. reach T m x) | None \<Rightarrow> {})
     | _ \<Rightarrow> {})"
| "reach (MapOf T) = (\<lambda>m v. case v of
       Ref a \<Rightarrow> insert a (case load m a of Some (Struct vs) \<Rightarrow> (\<Union>x\<in>set (map snd vs). reach T m x) | _ \<Rightarrow> {})
     | _ \<Rightarrow> {})"
| "reach (StructOf fs) = (\<lambda>m v. case v of
       Struct vs \<Rightarrow> reach_with (map (map_prod id reach) fs) m vs | _ \<Rightarrow> {})"

text \<open>The same, with the layouts of the fields instead of their readers.\<close>

fun view_fields :: "(string \<times> ty) list \<Rightarrow> memory \<Rightarrow> (string \<times> go) list
    \<Rightarrow> (string \<times> tree) list option" where
  "view_fields [] m [] = Some []"
| "view_fields ((n, T) # fs) m ((k, v) # vs) = (if n = k
     then do { t \<leftarrow> view T m v; ts \<leftarrow> view_fields fs m vs; Some ((n, t) # ts) } else None)"
| "view_fields _ m _ = None"

fun reach_fields :: "(string \<times> ty) list \<Rightarrow> memory \<Rightarrow> (string \<times> go) list \<Rightarrow> addr set" where
  "reach_fields ((n, T) # fs) m ((k, v) # vs) = reach T m v \<union> reach_fields fs m vs"
| "reach_fields _ m _ = {}"

lemma view_with: "view_with (map (map_prod id view) fs) m vs = view_fields fs m vs"
proof (induction fs arbitrary: vs)
  case Nil
  then show ?case by (cases vs) simp_all
next
  case (Cons f fs)
  then show ?case by (cases f; cases vs) auto
qed

lemma reach_with: "reach_with (map (map_prod id reach) fs) m vs = reach_fields fs m vs"
  by (induction fs m vs rule: reach_fields.induct) auto

lemma view_StructOf [simp]:
  "view (StructOf fs) m v = (case v of Struct vs \<Rightarrow> map_option Fields (view_fields fs m vs) | _ \<Rightarrow> None)"
  by (simp add: view_with cong: go.case_cong)

lemma reach_StructOf [simp]:
  "reach (StructOf fs) m v = (case v of Struct vs \<Rightarrow> reach_fields fs m vs | _ \<Rightarrow> {})"
  by (simp add: reach_with cong: go.case_cong)

declare view.simps(5) [simp del] reach.simps(5) [simp del]

text \<open>A type whose values hold no reference; assignment copies those.\<close>

primrec flat :: "ty \<Rightarrow> bool" where
  "flat Scalar = True"
| "flat (Pointer T) = False"
| "flat (SliceOf T) = False"
| "flat (MapOf T) = False"
| "flat (StructOf fs) = list_all snd (map (map_prod id flat) fs)"

section \<open>The steps of a copy\<close>

text \<open>A copier takes the value to copy and returns what is written to the destination; \<^term>\<open>None\<close> is
a fault (a dereferenced nil or a bound exceeded).\<close>

type_synonym copier = "go \<Rightarrow> memory \<Rightarrow> (go \<times> memory) option"

definition zero :: go where
  "zero = Plain []"

text \<open>\<^verbatim>\<open>*out = *in\<close>.\<close>

definition keep :: copier where
  "keep v m = Some (v, m)"

text \<open>\<^verbatim>\<open>if in.F != nil { *out = new(T); (*in).DeepCopyInto(*out) }\<close>; with \<^term>\<open>keep\<close> it is \<^verbatim>\<open>**out = **in\<close>.
It is also the body of every \<^verbatim>\<open>DeepCopy\<close>, whose receiver is a pointer.\<close>

definition new_copy :: "copier \<Rightarrow> copier" where
  "new_copy f p m = (case p of Nil_ref \<Rightarrow> Some (Nil_ref, m)
     | Ref a \<Rightarrow> do {
         x \<leftarrow> load m a;
         (y, m') \<leftarrow> f x (m @ [[zero]]);
         Some (Ref (length m), m'[length m := [y]])
       }
     | _ \<Rightarrow> None)"

text \<open>\<^verbatim>\<open>x := (*in).DeepCopy(); *out = &x\<close>, for a \<^verbatim>\<open>DeepCopy\<close> that takes and returns a value.\<close>

definition value_copy :: "copier \<Rightarrow> copier" where
  "value_copy f p m = (case p of Nil_ref \<Rightarrow> Some (Nil_ref, m)
     | Ref a \<Rightarrow> do {
         x \<leftarrow> load m a;
         (y, m') \<leftarrow> f x m;
         Some (Ref (length m'), m' @ [[y]])
       }
     | _ \<Rightarrow> None)"

text \<open>\<^verbatim>\<open>*out = make([]T, len(*in))\<close> followed by \<^verbatim>\<open>copy(*out, *in)\<close>, or by a loop of \<^verbatim>\<open>DeepCopyInto\<close>.\<close>

definition slice_copy :: copier where
  "slice_copy s m = (case s of Nil_ref \<Rightarrow> Some (Nil_ref, m)
     | Slice a off n \<Rightarrow> do {
         xs \<leftarrow> elems m a off n;
         Some (Slice (length m) 0 n, (m @ [replicate n zero])[length m := xs])
       }
     | _ \<Rightarrow> None)"

fun copy_elems :: "copier \<Rightarrow> addr \<Rightarrow> nat \<Rightarrow> go list \<Rightarrow> memory \<Rightarrow> memory option" where
  "copy_elems f a i [] m = Some m"
| "copy_elems f a i (x # xs) m = do {
     (y, m') \<leftarrow> f x m;
     copy_elems f a (Suc i) xs (m'[a := (m' ! a)[i := y]])
   }"

definition each_copy :: "copier \<Rightarrow> copier" where
  "each_copy f s m = (case s of Nil_ref \<Rightarrow> Some (Nil_ref, m)
     | Slice a off n \<Rightarrow> do {
         xs \<leftarrow> elems m a off n;
         m' \<leftarrow> copy_elems f (length m) 0 xs (m @ [replicate n zero]);
         Some (Slice (length m) 0 n, m')
       }
     | _ \<Rightarrow> None)"

text \<open>\<^verbatim>\<open>*out = make(map[string]T, len(*in))\<close> and \<^verbatim>\<open>(*out)[key] = val\<close> for each entry.\<close>

definition map_copy :: copier where
  "map_copy p m = (case p of Nil_ref \<Rightarrow> Some (Nil_ref, m)
     | Ref a \<Rightarrow> (case load m a of
         Some (Struct vs) \<Rightarrow> Some (Ref (length m),
           (m @ [[Struct []]])[length m := [Struct (fold (\<lambda>(k, v). AList.update k v) vs [])]])
       | _ \<Rightarrow> None)
     | _ \<Rightarrow> None)"

text \<open>A \<^verbatim>\<open>DeepCopyInto\<close>: \<^verbatim>\<open>*out = *in\<close>, then the steps, each of which reads a field of \<^verbatim>\<open>in\<close> and
writes the field of \<^verbatim>\<open>out\<close>.\<close>

definition set_field :: "string \<Rightarrow> go \<Rightarrow> (string \<times> go) list \<Rightarrow> (string \<times> go) list" where
  "set_field n y vs = map (\<lambda>(k, v). if k = n then (k, y) else (k, v)) vs"

fun copy_fields :: "(string \<times> copier) list \<Rightarrow> (string \<times> go) list \<Rightarrow> (string \<times> go) list \<Rightarrow> memory
    \<Rightarrow> ((string \<times> go) list \<times> memory) option" where
  "copy_fields [] src out m = Some (out, m)"
| "copy_fields ((n, f) # steps) src out m = do {
     x \<leftarrow> map_of src n;
     (y, m') \<leftarrow> f x m;
     copy_fields steps src (set_field n y out) m'
   }"

definition copy_into :: "(string \<times> copier) list \<Rightarrow> copier" where
  "copy_into steps v m = (case v of
       Struct vs \<Rightarrow> do { (out, m') \<leftarrow> copy_fields steps vs vs m; Some (Struct out, m') }
     | _ \<Rightarrow> None)"

text \<open>\<^verbatim>\<open>DeepCopyObject\<close> returns an interface: the untyped nil, or the copy with its dynamic type.\<close>

definition as_object :: "string \<Rightarrow> (go \<times> memory) option
    \<Rightarrow> ((string \<times> go) option \<times> memory) option" where
  "as_object name r = do {
     (c, m) \<leftarrow> r;
     Some (if c \<noteq> Nil_ref then Some (name, c) else None, m)
   }"

section \<open>Views depend on the reachable arrays only\<close>

lemma those_map_Some: "(those (map g xs) = Some ts) = list_all2 (\<lambda>x t. g x = Some t) xs ts"
proof (induction xs arbitrary: ts)
  case (Cons x xs)
  then show ?case
    by (cases ts) (auto split: option.split)
qed auto

lemma view_fields_names:
  "view_fields gs m vs = Some ts \<Longrightarrow> map fst vs = map fst gs \<and> map fst ts = map fst gs"
  by (induction gs m vs arbitrary: ts rule: view_fields.induct)
    (auto split: if_splits option.splits Option.bind_splits)

lemma load_Some: "(load m a = Some x) = (a < length m \<and> m ! a = [x])"
  by (auto simp: load_def split: list.split)

lemma load_ok: "a < length m \<Longrightarrow> m ! a = [x] \<Longrightarrow> load m a = Some x"
  by (simp add: load_def)

lemma elems_Some:
  "(elems m a off n = Some xs) = (a < length m \<and> off + n \<le> length (m ! a) \<and> xs = take n (drop off (m ! a)))"
  by (auto simp: elems_def)

text \<open>Two memories agree on the arrays of a set, all of which the second one has.\<close>

definition agree :: "addr set \<Rightarrow> memory \<Rightarrow> memory \<Rightarrow> bool" where
  "agree A m m' \<longleftrightarrow> (\<forall>a\<in>A. a < length m' \<and> m' ! a = m ! a)"

lemma agree_subset: "agree B m m' \<Longrightarrow> A \<subseteq> B \<Longrightarrow> agree A m m'"
  by (auto simp: agree_def)

lemma agree_insert:
  "agree (insert a A) m m' = (a < length m' \<and> m' ! a = m ! a \<and> agree A m m')"
  by (auto simp: agree_def)

lemma agree_Un: "agree (A \<union> B) m m' = (agree A m m' \<and> agree B m m')"
  by (auto simp: agree_def)

lemma values_agree:
  assumes "\<And>x t. view T m x = Some t \<Longrightarrow> agree (reach T m x) m m'
      \<Longrightarrow> view T m' x = Some t \<and> reach T m' x = reach T m x"
    and "list_all2 (\<lambda>x t. view T m x = Some t) xs ts"
    and "agree (\<Union>x\<in>set xs. reach T m x) m m'"
  shows "list_all2 (\<lambda>x t. view T m' x = Some t) xs ts"
    "(\<Union>x\<in>set xs. reach T m' x) = (\<Union>x\<in>set xs. reach T m x)"
proof -
  have all: "view T m' x = Some u \<and> reach T m' x = reach T m x"
    if "x \<in> set xs" "view T m x = Some u" for x u
    by (rule assms(1)[OF that(2)]) (use assms(3) that(1) in \<open>auto simp: agree_def\<close>)
  then show "list_all2 (\<lambda>x t. view T m' x = Some t) xs ts"
    using assms(2) by (auto simp: list_all2_conv_all_nth)
  show "(\<Union>x\<in>set xs. reach T m' x) = (\<Union>x\<in>set xs. reach T m x)"
  proof (rule SUP_cong[OF refl])
    fix x assume x: "x \<in> set xs"
    then obtain u where "view T m x = Some u"
      using assms(2) by (auto simp: list_all2_conv_all_nth in_set_conv_nth)
    then show "reach T m' x = reach T m x"
      using all[OF x] by blast
  qed
qed

lemma view_agree:
  "view T m v = Some t \<Longrightarrow> agree (reach T m v) m m'
   \<Longrightarrow> view T m' v = Some t \<and> reach T m' v = reach T m v"
proof (induction T arbitrary: v t)
  case Scalar
  then show ?case by simp
next
  case (Pointer T)
  then show ?case
    by (cases v) (auto simp: load_Some load_ok agree_insert split: Option.bind_splits)
next
  case (SliceOf T)
  show ?case
  proof (cases v)
    case (Slice a off n)
    obtain xs ts where e: "elems m a off n = Some xs" "t = Elems ts"
      "list_all2 (\<lambda>x t. view T m x = Some t) xs ts"
      using SliceOf.prems(1) by (auto simp: Slice those_map_Some split: Option.bind_splits)
    have ag: "a < length m'" "m' ! a = m ! a" "agree (\<Union>x\<in>set xs. reach T m x) m m'"
      using SliceOf.prems(2) e(1) by (auto simp: Slice agree_def)
    have e': "elems m' a off n = Some xs"
      using e(1) ag(1,2) by (simp add: elems_Some)
    show ?thesis
      using e(1,2) e' values_agree[OF SliceOf.IH e(3) ag(3)] those_map_Some[of "view T m'" xs ts]
      by (simp add: Slice)
  qed (use SliceOf.prems in auto)
next
  case (MapOf T)
  show ?case
  proof (cases v)
    case (Ref a)
    obtain vs ts where e: "load m a = Some (Struct vs)" "distinct (map fst vs)"
      "t = Entries (zip (map fst vs) ts)" "list_all2 (\<lambda>x t. view T m x = Some t) (map snd vs) ts"
      using MapOf.prems(1)
      by (auto simp: Ref those_map_Some simp del: map_map split: option.splits go.splits if_splits
        Option.bind_splits)
    have ag: "a < length m'" "m' ! a = m ! a" "agree (\<Union>x\<in>set (map snd vs). reach T m x) m m'"
      using MapOf.prems(2) e(1) by (auto simp: Ref agree_def)
    have e': "load m' a = Some (Struct vs)"
      using e(1) ag(1,2) by (simp add: load_Some)
    show ?thesis
      using e(1-3) e' values_agree[OF MapOf.IH e(4) ag(3)] those_map_Some[of "view T m'" "map snd vs" ts]
      by (simp add: Ref del: map_map)
  qed (use MapOf.prems in auto)
next
  case (StructOf fs)
  show ?case
  proof (cases v)
    case (Struct vs)
    have "view_fields fs m' vs = Some ts
        \<and> reach_fields fs m' vs = reach_fields fs m vs"
      if "view_fields fs m vs = Some ts"
        "agree (reach_fields fs m vs) m m'" for ts
      using StructOf.IH that
    proof (induction fs arbitrary: vs ts)
      case (Cons f fs)
      obtain n U where f: "f = (n, U)" by (cases f)
      obtain x us where vs: "vs = (n, x) # us"
        using Cons.prems(2) by (cases vs) (auto simp: f split: if_splits)
      obtain u tail where t: "view U m x = Some u"
        "view_fields fs m us = Some tail" "ts = (n, u) # tail"
        using Cons.prems(2) by (auto simp: f vs split: Option.bind_splits)
      have "view U m' x = Some u \<and> reach U m' x = reach U m x"
        by (rule Cons.prems(1)[of f U]) (use Cons.prems(3) t(1) in \<open>auto simp: f vs agree_Un\<close>)
      moreover have "view_fields fs m' us = Some tail
          \<and> reach_fields fs m' us = reach_fields fs m us"
      proof (rule Cons.IH[OF _ t(2)])
        show "view V m' w = Some z \<and> reach V m' w = reach V m w"
          if "e \<in> set fs" "V \<in> Basic_BNFs.snds e" "view V m w = Some z" "agree (reach V m w) m m'"
          for e V w z
          by (rule Cons.prems(1)[of e V]) (use that in auto)
      qed (use Cons.prems(3) in \<open>simp add: f vs agree_Un\<close>)
      ultimately show ?case
        using t by (simp add: f vs)
    next
      case Nil
      then show ?case by (cases vs) simp_all
    qed
    then show ?thesis
      using StructOf.prems by (auto simp: Struct)
  qed (use StructOf.prems in auto)
qed

lemma reach_allocated: "view T m v = Some t \<Longrightarrow> a \<in> reach T m v \<Longrightarrow> a < length m"
proof (induction T arbitrary: v t)
  case (Pointer T)
  then show ?case
    by (cases v) (auto simp: load_Some load_ok split: Option.bind_splits)
next
  case (SliceOf T)
  then show ?case
    by (cases v) (fastforce simp: elems_Some those_map_Some list_all2_conv_all_nth in_set_conv_nth
      split: Option.bind_splits)+
next
  case (MapOf T)
  show ?case
  proof (cases v)
    case (Ref b)
    obtain vs ts where e: "load m b = Some (Struct vs)"
      "list_all2 (\<lambda>x t. view T m x = Some t) (map snd vs) ts"
      using MapOf.prems(1)
      by (auto simp: Ref those_map_Some simp del: map_map split: option.splits go.splits if_splits
        Option.bind_splits)
    from MapOf.prems(2) e(1) consider "a = b" | x where "x \<in> set (map snd vs)" "a \<in> reach T m x"
      by (auto simp: Ref)
    then show ?thesis
    proof cases
      case 1
      then show ?thesis using e(1) by (simp add: load_Some)
    next
      case 2
      then obtain u where "view T m x = Some u"
        using e(2) by (auto simp: list_all2_conv_all_nth in_set_conv_nth simp del: set_map)
      then show ?thesis
        using 2(2) by (rule MapOf.IH)
    qed
  qed (use MapOf.prems in auto)
next
  case (StructOf fs)
  have "a < length m"
    if "view_fields fs m vs = Some ts"
      "a \<in> reach_fields fs m vs" for vs ts
    using StructOf.IH that
  proof (induction fs arbitrary: vs ts)
    case (Cons f fs)
    obtain n U where f: "f = (n, U)" by (cases f)
    obtain x us where vs: "vs = (n, x) # us"
      using Cons.prems(2) by (cases vs) (auto simp: f split: if_splits)
    obtain u tail where t: "view U m x = Some u"
      "view_fields fs m us = Some tail" "ts = (n, u) # tail"
      using Cons.prems(2) by (auto simp: f vs split: Option.bind_splits)
    from Cons.prems(3) consider "a \<in> reach U m x"
      | "a \<in> reach_fields fs m us"
      by (auto simp: f vs)
    then show ?case
    proof cases
      case 1
      then show ?thesis
        using Cons.prems(1)[of f U] t(1) by (simp add: f)
    next
      case 2
      show ?thesis
        by (rule Cons.IH[OF _ t(2) 2]) (rule Cons.prems(1), auto)
    qed
  qed auto
  then show ?case
    using StructOf.prems by (cases v) auto
qed simp

lemma flat_reach: "flat T \<Longrightarrow> reach T m v = {}"
proof (induction T arbitrary: v)
  case (StructOf fs)
  have "reach_fields fs m vs = {}"
    if "\<And>n U v. (n, U) \<in> set fs \<Longrightarrow> reach U m v = {}" for vs
    using that
  proof (induction fs arbitrary: vs)
    case (Cons f fs)
    have "reach_fields fs m us = {}" for us
      by (rule Cons.IH) (use Cons.prems in auto)
    moreover have "reach (snd f) m v = {}" for v
      by (rule Cons.prems[of "fst f"]) simp
    ultimately show ?case
      by (cases f; cases vs) (auto simp:)
  qed auto
  moreover have "reach U m v = {}" if "(n, U) \<in> set fs" for n U v
    by (rule StructOf.IH[OF that])
      (use StructOf.prems that in \<open>auto simp: list_all_iff\<close>)
  ultimately show ?case by (cases v) auto
qed auto

lemma view_append:
  assumes "view T m v = Some t"
  shows "view T (m @ ys) v = Some t" "reach T (m @ ys) v = reach T m v"
proof -
  have "agree (reach T m v) m (m @ ys)"
    using reach_allocated[OF assms] by (auto simp: agree_def nth_append dest: trans_less_add1)
  then show "view T (m @ ys) v = Some t" "reach T (m @ ys) v = reach T m v"
    using view_agree[OF assms] by blast+
qed

section \<open>The contract of a deep copy\<close>

locale deep_copier =
  fixes T :: ty and f :: copier
  assumes copied: "view T m v = Some t
    \<Longrightarrow> \<exists>y ys. f v m = Some (y, m @ ys) \<and> view T (m @ ys) y = Some t
      \<and> (\<forall>a\<in>reach T (m @ ys) y. length m \<le> a)"
begin

lemma copy_exists:
  assumes "view T m v = Some t"
  obtains y ys where "f v m = Some (y, m @ ys)" "view T (m @ ys) y = Some t"
    "\<And>a. a \<in> reach T (m @ ys) y \<Longrightarrow> length m \<le> a"
  using copied[OF assms] by blast

lemma isolated:
  assumes "view T m v = Some t" "f v m = Some (y, m')"
  shows "reach T m v \<inter> reach T m' y = {}"
  using copied[OF assms(1)] reach_allocated[OF assms(1)] assms(2) by fastforce

lemma original_unchanged:
  assumes "view T m v = Some t" "f v m = Some (y, m')"
    and "agree ({..<length m'} - reach T m' y) m' m''"
  shows "view T m'' v = Some t"
proof -
  obtain ys where ys: "m' = m @ ys" "\<And>a. a \<in> reach T m' y \<Longrightarrow> length m \<le> a"
    using copied[OF assms(1)] assms(2) by auto
  have "a < length m'' \<and> m'' ! a = m ! a" if "a \<in> reach T m v" for a
  proof -
    have l: "a < length m"
      by (rule reach_allocated[OF assms(1) that])
    then have "a \<in> {..<length m'} - reach T m' y"
      using ys by fastforce
    then show ?thesis
      using assms(3) l by (auto simp: agree_def ys(1) nth_append)
  qed
  then have "agree (reach T m v) m m''"
    by (simp add: agree_def)
  then show ?thesis
    using view_agree[OF assms(1)] by blast
qed

lemma copy_unchanged:
  assumes "view T m v = Some t" "f v m = Some (y, m')"
    and "agree ({..<length m'} - reach T m v) m' m''"
  shows "view T m'' y = Some t"
proof -
  have v: "view T m' y = Some t"
    using copied[OF assms(1)] assms(2) by auto
  have "agree (reach T m' y) m' m''"
    using assms(3) isolated[OF assms(1,2)] reach_allocated[OF v] by (auto simp: agree_def)
  then show ?thesis
    using view_agree[OF v] by blast
qed

end

lemma keep_copies [copies]: "flat T \<Longrightarrow> deep_copier T keep"
  by unfold_locales (auto simp: keep_def flat_reach intro!: exI[of _ "[]"])

lemma new_copies [copies]:
  assumes "deep_copier T f"
  shows "deep_copier (Pointer T) (new_copy f)"
proof
  fix m v t
  assume v: "view (Pointer T) m v = Some t"
  show "\<exists>y ys. new_copy f v m = Some (y, m @ ys) \<and> view (Pointer T) (m @ ys) y = Some t
      \<and> (\<forall>a\<in>reach (Pointer T) (m @ ys) y. length m \<le> a)"
  proof (cases v)
    case (Ref a)
    obtain x u where x: "load m a = Some x" "view T m x = Some u" "t = Pointee u"
      using v by (auto simp: Ref split: Option.bind_splits)
    obtain y ys where y: "f x (m @ [[zero]]) = Some (y, (m @ [[zero]]) @ ys)"
      "view T ((m @ [[zero]]) @ ys) y = Some u"
      "\<And>a. a \<in> reach T ((m @ [[zero]]) @ ys) y \<Longrightarrow> length (m @ [[zero]]) \<le> a"
      using deep_copier.copy_exists[OF assms view_append(1)[OF x(2), of "[[zero]]"]] by blast
    have ag: "agree (reach T ((m @ [[zero]]) @ ys) y) ((m @ [[zero]]) @ ys) (m @ [y] # ys)"
      using y(3) reach_allocated[OF y(2)] by (fastforce simp: agree_def nth_append nth_Cons')
    have "view T (m @ [y] # ys) y = Some u" "\<And>a. a \<in> reach T (m @ [y] # ys) y \<Longrightarrow> length m \<le> a"
      using view_agree[OF y(2) ag] y(3) by fastforce+
    then show ?thesis
      using x y(1) by (auto simp: new_copy_def Ref load_ok intro!: exI[of _ "[y] # ys"])
  qed (use v in \<open>auto simp: new_copy_def\<close>)
qed

lemma value_copies [copies]:
  assumes "deep_copier T f"
  shows "deep_copier (Pointer T) (value_copy f)"
proof
  fix m v t
  assume v: "view (Pointer T) m v = Some t"
  show "\<exists>y ys. value_copy f v m = Some (y, m @ ys) \<and> view (Pointer T) (m @ ys) y = Some t
      \<and> (\<forall>a\<in>reach (Pointer T) (m @ ys) y. length m \<le> a)"
  proof (cases v)
    case (Ref a)
    obtain x u where x: "load m a = Some x" "view T m x = Some u" "t = Pointee u"
      using v by (auto simp: Ref split: Option.bind_splits)
    obtain y ys where y: "f x m = Some (y, m @ ys)" "view T (m @ ys) y = Some u"
      "\<And>a. a \<in> reach T (m @ ys) y \<Longrightarrow> length m \<le> a"
      using deep_copier.copy_exists[OF assms x(2)] by blast
    have l: "load (m @ ys @ [[y]]) (length m + length ys) = Some y"
      by (simp add: load_def nth_append)
    then show ?thesis
      using x y view_append[OF y(2), of "[[y]]"]
      by (auto simp: value_copy_def Ref intro!: exI[of _ "ys @ [[y]]"])
  qed (use v in \<open>auto simp: value_copy_def\<close>)
qed

lemma slice_copies [copies]:
  assumes "flat T"
  shows "deep_copier (SliceOf T) slice_copy"
proof
  fix m v t
  assume v: "view (SliceOf T) m v = Some t"
  show "\<exists>y ys. slice_copy v m = Some (y, m @ ys) \<and> view (SliceOf T) (m @ ys) y = Some t
      \<and> (\<forall>a\<in>reach (SliceOf T) (m @ ys) y. length m \<le> a)"
  proof (cases v)
    case (Slice a off n)
    obtain xs ts where x: "elems m a off n = Some xs" "t = Elems ts"
      "list_all2 (\<lambda>x t. view T m x = Some t) xs ts"
      using v by (auto simp: Slice those_map_Some split: Option.bind_splits)
    have "list_all2 (\<lambda>x t. view T (m @ [xs]) x = Some t) xs ts"
      using x(3) by (rule list_all2_mono) (simp add: view_append)
    moreover have "elems (m @ [xs]) (length m) 0 n = Some xs"
      using x(1) by (auto simp: elems_Some)
    ultimately show ?thesis
      using x(1,2) those_map_Some[of "view T (m @ [xs])" xs ts]
      by (auto simp: slice_copy_def Slice flat_reach[OF assms] intro!: exI[of _ "[xs]"])
  qed (use v in \<open>auto simp: slice_copy_def\<close>)
qed

lemma update_fresh: "k \<notin> fst ` set us \<Longrightarrow> AList.update k v us = us @ [(k, v)]"
  by (induction us) auto

lemma fold_update_distinct:
  "distinct (map fst (us @ vs)) \<Longrightarrow> fold (\<lambda>(k, v). AList.update k v) vs us = us @ vs"
proof (induction vs arbitrary: us)
  case (Cons e vs)
  have "AList.update (fst e) (snd e) us = us @ [e]"
    using Cons.prems update_fresh[of "fst e" us "snd e"] by auto
  then show ?case
    using Cons.IH[of "us @ [e]"] Cons.prems by (simp add: case_prod_beta)
qed simp

lemma map_copies [copies]:
  assumes "flat T"
  shows "deep_copier (MapOf T) map_copy"
proof
  fix m v t
  assume v: "view (MapOf T) m v = Some t"
  show "\<exists>y ys. map_copy v m = Some (y, m @ ys) \<and> view (MapOf T) (m @ ys) y = Some t
      \<and> (\<forall>a\<in>reach (MapOf T) (m @ ys) y. length m \<le> a)"
  proof (cases v)
    case (Ref a)
    obtain vs ts where e: "load m a = Some (Struct vs)" "distinct (map fst vs)"
      "t = Entries (zip (map fst vs) ts)" "list_all2 (\<lambda>x t. view T m x = Some t) (map snd vs) ts"
      using v by (auto simp: Ref those_map_Some simp del: map_map
        split: option.splits go.splits if_splits Option.bind_splits)
    let ?m = "m @ [[Struct vs]]"
    have "list_all2 (\<lambda>x t. view T ?m x = Some t) (map snd vs) ts"
      using e(4) by (rule list_all2_mono) (simp add: view_append)
    then have "those (map (view T ?m) (map snd vs)) = Some ts"
      by (simp only: those_map_Some)
    moreover have "load ?m (length m) = Some (Struct vs)"
      by (simp add: load_def)
    ultimately show ?thesis
      using e(1-3) fold_update_distinct[of "[]" vs]
      by (auto simp: map_copy_def Ref flat_reach[OF assms] simp del: map_map intro!: exI[of _ "[[Struct vs]]"])
  qed (use v in \<open>auto simp: map_copy_def\<close>)
qed

text \<open>The loop over a slice: the elements written so far are copies, and no reference of theirs leads
to the array that is being filled.\<close>

lemma copy_elems_copies:
  assumes "deep_copier T f"
  shows "list_all2 (\<lambda>x t. view T m x = Some t) xs ts
    \<Longrightarrow> list_all2 (\<lambda>y t. view T (m @ [ys @ replicate (length xs) zero] @ ws) y = Some t) ys us
    \<Longrightarrow> (\<And>y a. y \<in> set ys \<Longrightarrow> a \<in> reach T (m @ [ys @ replicate (length xs) zero] @ ws) y \<Longrightarrow> length m < a)
    \<Longrightarrow> \<exists>ys' ws'. copy_elems f (length m) (length ys) xs (m @ [ys @ replicate (length xs) zero] @ ws)
          = Some (m @ [ys'] @ ws')
        \<and> list_all2 (\<lambda>y t. view T (m @ [ys'] @ ws') y = Some t) ys' (us @ ts)
        \<and> (\<forall>y\<in>set ys'. \<forall>a\<in>reach T (m @ [ys'] @ ws') y. length m < a)"
proof (induction xs arbitrary: ts ys us ws)
  case Nil
  then show ?case by auto
next
  case (Cons x xs)
  let ?n = "m @ [ys @ replicate (length (x # xs)) zero] @ ws"
  obtain u ts' where ts: "ts = u # ts'" "view T m x = Some u"
    "list_all2 (\<lambda>x t. view T m x = Some t) xs ts'"
    using Cons.prems(1) by (cases ts) auto
  have xn: "view T ?n x = Some u"
    using view_append(1)[OF ts(2)] by blast
  obtain y zs where y: "f x ?n = Some (y, ?n @ zs)" "view T (?n @ zs) y = Some u"
    "\<And>a. a \<in> reach T (?n @ zs) y \<Longrightarrow> length ?n \<le> a"
    using deep_copier.copy_exists[OF assms xn] by blast
  let ?n' = "m @ [(ys @ [y]) @ replicate (length xs) zero] @ ws @ zs"
  have step: "(?n @ zs)[length m := ((?n @ zs) ! length m)[length ys := y]] = ?n'"
    by (simp add: nth_append list_update_append)
  have keep: "view T ?n' w = Some z \<and> reach T ?n' w = reach T (?n @ zs) w"
    if "view T (?n @ zs) w = Some z" "\<And>a. a \<in> reach T (?n @ zs) w \<Longrightarrow> length m < a" for w z
  proof (rule view_agree[OF that(1)])
    show "agree (reach T (?n @ zs) w) (?n @ zs) ?n'"
      using that(2) reach_allocated[OF that(1)] by (fastforce simp: agree_def nth_append nth_Cons')
  qed
  have old: "view T ?n' w = Some z \<and> reach T ?n' w = reach T ?n w"
    if "view T ?n w = Some z" "\<And>a. a \<in> reach T ?n w \<Longrightarrow> length m < a" for w z
    using keep[of w z] view_append[OF that(1), of zs] that(2) by simp
  have new: "view T ?n' y = Some u \<and> reach T ?n' y = reach T (?n @ zs) y"
    by (rule keep[OF y(2)]) (use y(3) in fastforce)
  have ys: "list_all2 (\<lambda>y t. view T ?n' y = Some t) (ys @ [y]) (us @ [u])"
  proof (rule list_all2_appendI)
    show "list_all2 (\<lambda>y t. view T ?n' y = Some t) ys us"
      unfolding list_all2_conv_all_nth
    proof (intro conjI allI impI)
      show l: "length ys = length us"
        using Cons.prems(2) by (rule list_all2_lengthD)
      show "view T ?n' (ys ! i) = Some (us ! i)" if "i < length ys" for i
        using old[OF list_all2_nthD[OF Cons.prems(2) that]] Cons.prems(3)[OF nth_mem[OF that]]
        by blast
    qed
  qed (use new in simp)
  have far: "length m < a" if w: "w \<in> set (ys @ [y])" and a: "a \<in> reach T ?n' w" for w a
  proof (cases "w \<in> set ys")
    case True
    then obtain z where "view T ?n w = Some z"
      using Cons.prems(2) by (auto simp: list_all2_conv_all_nth in_set_conv_nth)
    then show ?thesis
      using old[of w z] Cons.prems(3)[OF True] a by blast
  next
    case False
    then have "a \<in> reach T (?n @ zs) y"
      using w a new by simp
    then show ?thesis
      using y(3) by fastforce
  qed
  show ?case
    using Cons.IH[OF ts(3) ys far] y(1) step ts(1) by simp
qed

lemma each_copies [copies]:
  assumes "deep_copier T f"
  shows "deep_copier (SliceOf T) (each_copy f)"
proof
  fix m v t
  assume v: "view (SliceOf T) m v = Some t"
  show "\<exists>y ys. each_copy f v m = Some (y, m @ ys) \<and> view (SliceOf T) (m @ ys) y = Some t
      \<and> (\<forall>a\<in>reach (SliceOf T) (m @ ys) y. length m \<le> a)"
  proof (cases v)
    case (Slice a off n)
    obtain xs ts where x: "elems m a off n = Some xs" "t = Elems ts"
      "list_all2 (\<lambda>x t. view T m x = Some t) xs ts"
      using v by (auto simp: Slice those_map_Some split: Option.bind_splits)
    have n: "n = length xs"
      using x(1) by (auto simp: elems_Some)
    obtain ys ws where ys: "copy_elems f (length m) 0 xs (m @ [replicate n zero]) = Some (m @ [ys] @ ws)"
      "list_all2 (\<lambda>y t. view T (m @ [ys] @ ws) y = Some t) ys ts"
      "\<And>y a. y \<in> set ys \<Longrightarrow> a \<in> reach T (m @ [ys] @ ws) y \<Longrightarrow> length m < a"
      using copy_elems_copies[OF assms x(3), of "[]" "[]" "[]"] unfolding n by auto
    have "elems (m @ [ys] @ ws) (length m) 0 n = Some ys"
      using list_all2_lengthD[OF ys(2)] list_all2_lengthD[OF x(3)]
      by (simp add: elems_Some nth_append n)
    then show ?thesis
      using x(1,2) ys those_map_Some[of "view T (m @ [ys] @ ws)" ys ts]
      by (auto simp: each_copy_def Slice intro!: exI[of _ "[ys] @ ws"] dest: less_imp_le)
  qed (use v in \<open>auto simp: each_copy_def\<close>)
qed

text \<open>A struct is copied deeply when every field that holds references has a step with a deep
copier; the steps are listed in the order of the fields.\<close>

fun covers :: "(string \<times> ty) list \<Rightarrow> (string \<times> copier) list \<Rightarrow> bool" where
  "covers [] steps = (steps = [])"
| "covers ((n, T) # fs) [] = (flat T \<and> covers fs [])"
| "covers ((n, T) # fs) ((k, f) # steps) =
     (if k = n then deep_copier T f \<and> covers fs steps else flat T \<and> covers fs ((k, f) # steps))"

lemma set_field_skip: "n \<notin> fst ` set vs \<Longrightarrow> set_field n y vs = vs"
  by (induction vs) (auto simp: set_field_def)

lemma set_field_mid:
  "n \<notin> fst ` set pre \<Longrightarrow> n \<notin> fst ` set vs \<Longrightarrow> set_field n y (pre @ (n, x) # vs) = (pre @ [(n, y)]) @ vs"
  using set_field_skip[of n pre] set_field_skip[of n vs] by (simp add: set_field_def)

lemma view_fields_append:
  "view_fields fs m vs = Some ts \<Longrightarrow> view_fields fs (m @ ys) vs = Some ts"
  using view_append(1)[of "StructOf fs" m "Struct vs" "Fields ts" ys] by simp

lemma copy_fields_copies:
  "covers fs steps \<Longrightarrow> distinct (map fst fs) \<Longrightarrow> view_fields fs m vs = Some ts
    \<Longrightarrow> (\<And>n. n \<in> fst ` set fs \<Longrightarrow> map_of src n = map_of vs n)
    \<Longrightarrow> fst ` set pre \<inter> fst ` set fs = {}
    \<Longrightarrow> \<exists>out ys. copy_fields steps src (pre @ vs) m = Some (pre @ out, m @ ys)
        \<and> view_fields fs (m @ ys) out = Some ts \<and> (\<forall>a\<in>reach_fields fs (m @ ys) out. length m \<le> a)"
proof (induction fs arbitrary: steps m vs ts pre)
  case Nil
  then show ?case
    by (cases vs) (auto intro!: exI[of _ "[]"])
next
  case (Cons e fs)
  obtain n T where e: "e = (n, T)" by (cases e)
  obtain x us where vs: "vs = (n, x) # us"
    using Cons.prems(3) by (cases vs) (auto simp: e split: if_splits)
  obtain u ts' where t: "view T m x = Some u" "view_fields fs m us = Some ts'" "ts = (n, u) # ts'"
    using Cons.prems(3) by (auto simp: e vs split: Option.bind_splits)
  have n: "n \<notin> fst ` set fs" "fst ` set us = fst ` set fs" "distinct (map fst fs)"
    "fst ` set (pre @ [(n, z)]) \<inter> fst ` set fs = {}" for z
    using Cons.prems(2,5) arg_cong[OF conjunct1[OF view_fields_names[OF t(2)]], of set] by (auto simp: e)
  have src: "map_of src k = map_of us k" if "k \<in> fst ` set fs" for k
    using Cons.prems(4)[of k] that n(1) by (auto simp: e vs)
  show ?case
  proof (cases "\<exists>f rest. steps = (n, f) # rest")
    case True
    then obtain f rest where s: "steps = (n, f) # rest" by blast
    obtain y zs where y: "f x m = Some (y, m @ zs)" "view T (m @ zs) y = Some u"
      "\<And>a. a \<in> reach T (m @ zs) y \<Longrightarrow> length m \<le> a"
      using deep_copier.copy_exists[OF _ t(1), of f] Cons.prems(1) by (auto simp: e s)
    obtain out ys where o: "copy_fields rest src ((pre @ [(n, y)]) @ us) (m @ zs)
        = Some ((pre @ [(n, y)]) @ out, (m @ zs) @ ys)"
      "view_fields fs ((m @ zs) @ ys) out = Some ts'"
      "\<And>a. a \<in> reach_fields fs ((m @ zs) @ ys) out \<Longrightarrow> length (m @ zs) \<le> a"
      using Cons.IH[OF _ n(3) view_fields_append[OF t(2), of zs] src n(4)[of y], of rest] Cons.prems(1)
      by (auto simp: e s)
    have far: "length m \<le> a" if "a \<in> reach_fields fs (m @ zs @ ys) out" for a
      using o(3)[of a] that by simp
    have "map_of src n = Some x" "set_field n y (pre @ (n, x) # us) = (pre @ [(n, y)]) @ us"
      using Cons.prems(4)[of n] set_field_mid[of n pre us] Cons.prems(5) n(1,2) by (auto simp: e vs)
    then show ?thesis
      using y o t(3) view_append[OF y(2), of ys]
      by (auto simp: e s vs intro!: exI[of _ "(n, y) # out"] exI[of _ "zs @ ys"]
        dest: y(3) far)
  next
    case False
    then have c: "flat T" "covers fs steps"
      using Cons.prems(1) by (cases steps; auto simp: e split: if_splits)+
    obtain out ys where o: "copy_fields steps src ((pre @ [(n, x)]) @ us) m
        = Some ((pre @ [(n, x)]) @ out, m @ ys)"
      "view_fields fs (m @ ys) out = Some ts'"
      "\<And>a. a \<in> reach_fields fs (m @ ys) out \<Longrightarrow> length m \<le> a"
      using Cons.IH[OF c(2) n(3) t(2) src n(4)[of x]] by auto
    then show ?thesis
      using t(3) view_append[OF t(1), of ys]
      by (auto simp: e vs flat_reach[OF c(1)] intro!: exI[of _ "(n, x) # out"])
  qed
qed

lemma into_copies [copies]:
  assumes "covers fs steps" "distinct (map fst fs)"
  shows "deep_copier (StructOf fs) (copy_into steps)"
proof
  fix m v t
  assume v: "view (StructOf fs) m v = Some t"
  then obtain vs ts where s: "v = Struct vs" "view_fields fs m vs = Some ts" "t = Fields ts"
    by (auto split: go.splits)
  obtain out ys where "copy_fields steps vs ([] @ vs) m = Some ([] @ out, m @ ys)"
    "view_fields fs (m @ ys) out = Some ts" "\<forall>a\<in>reach_fields fs (m @ ys) out. length m \<le> a"
    using copy_fields_copies[OF assms s(2), of vs "[]"] by auto
  then show "\<exists>y ys. copy_into steps v m = Some (y, m @ ys) \<and> view (StructOf fs) (m @ ys) y = Some t
      \<and> (\<forall>a\<in>reach (StructOf fs) (m @ ys) y. length m \<le> a)"
    using s by (auto simp: copy_into_def)
qed

section \<open>Types of libraries\<close>

text \<open>The layouts and copiers of the library types that the API types are built from are parameters.
Their documented contract is that of every generated \<^verbatim>\<open>DeepCopyInto\<close>; \<^verbatim>\<open>TypeMeta\<close>, two strings, is
assigned. A \<^verbatim>\<open>Time\<close> and a \<^verbatim>\<open>Quantity\<close> are immutable, so what their copies may share is part of a
scalar.\<close>

definition library_types :: "string list" where
  "library_types = [''metav1.ObjectMeta'', ''metav1.ListMeta'', ''metav1.Condition'', ''metav1.Time'',
     ''resource.Quantity'', ''v1.ResourceRequirements'', ''common.Status'',
     ''common.ComponentReleaseStatus'']"

definition library_contract :: "(string \<Rightarrow> ty) \<Rightarrow> (string \<Rightarrow> copier) \<Rightarrow> bool" where
  "library_contract lib cp \<longleftrightarrow> flat (lib ''metav1.TypeMeta'')
     \<and> (\<forall>n\<in>set library_types. deep_copier (lib n) (cp n))"

lemmas library = library_contract_def library_types_def

end
