(* ===== verification/Copies_Registry.thy ===== *)
theory Copies_Registry
  imports Go_Memory
begin

text \<open>The layouts of the registry types of both API versions (\<^verbatim>\<open>api/v1alpha1\<close> and \<^verbatim>\<open>api/v1beta1\<close>) and
their generated deep copies, with the contract of a deep copy for each of them.\<close>

definition v1alpha1_ConfigMapKeyValue :: "ty" where
  "v1alpha1_ConfigMapKeyValue = StructOf [
     (''Name'', Scalar), (''Key'', Scalar)]"

definition v1alpha1_ConfigMapKeyValue_DeepCopyInto :: "copier" where
  "v1alpha1_ConfigMapKeyValue_DeepCopyInto = copy_into []"

definition v1alpha1_ConfigMapKeyValue_DeepCopy :: "copier" where
  "v1alpha1_ConfigMapKeyValue_DeepCopy = new_copy v1alpha1_ConfigMapKeyValue_DeepCopyInto"

lemma v1alpha1_ConfigMapKeyValue_flat [simp]: "flat v1alpha1_ConfigMapKeyValue"
  by (simp add: v1alpha1_ConfigMapKeyValue_def)

lemma v1alpha1_ConfigMapKeyValue_copies [copies]:
  "deep_copier v1alpha1_ConfigMapKeyValue v1alpha1_ConfigMapKeyValue_DeepCopyInto"
  by (simp add: v1alpha1_ConfigMapKeyValue_def v1alpha1_ConfigMapKeyValue_DeepCopyInto_def copies)

definition v1alpha1_SecretKeyValue :: "ty" where
  "v1alpha1_SecretKeyValue = StructOf [
     (''Name'', Scalar), (''Key'', Scalar)]"

definition v1alpha1_SecretKeyValue_DeepCopyInto :: "copier" where
  "v1alpha1_SecretKeyValue_DeepCopyInto = copy_into []"

definition v1alpha1_SecretKeyValue_DeepCopy :: "copier" where
  "v1alpha1_SecretKeyValue_DeepCopy = new_copy v1alpha1_SecretKeyValue_DeepCopyInto"

lemma v1alpha1_SecretKeyValue_flat [simp]: "flat v1alpha1_SecretKeyValue"
  by (simp add: v1alpha1_SecretKeyValue_def)

lemma v1alpha1_SecretKeyValue_copies [copies]:
  "deep_copier v1alpha1_SecretKeyValue v1alpha1_SecretKeyValue_DeepCopyInto"
  by (simp add: v1alpha1_SecretKeyValue_def v1alpha1_SecretKeyValue_DeepCopyInto_def copies)

definition v1alpha1_PostgresConfig :: "ty" where
  "v1alpha1_PostgresConfig = StructOf [
     (''Host'', Scalar), (''HostAddress'', Scalar), (''Port'', Pointer Scalar),
     (''Username'', Scalar), (''PasswordSecret'', Pointer v1alpha1_SecretKeyValue),
     (''Database'', Scalar), (''SkipDBCreation'', Scalar), (''SSLMode'', Scalar),
     (''SSLCertificateSecret'', Pointer v1alpha1_SecretKeyValue),
     (''SSLKeySecret'', Pointer v1alpha1_SecretKeyValue),
     (''SSLPasswordSecret'', Pointer v1alpha1_SecretKeyValue),
     (''SSLRootCertificateConfigMap'', Pointer v1alpha1_ConfigMapKeyValue),
     (''SSLRootCertificateSecret'', Pointer v1alpha1_SecretKeyValue)]"

definition v1alpha1_PostgresConfig_DeepCopyInto :: "copier" where
  "v1alpha1_PostgresConfig_DeepCopyInto = copy_into [
     (''Port'', new_copy keep), (''PasswordSecret'', new_copy keep),
     (''SSLCertificateSecret'', new_copy keep), (''SSLKeySecret'', new_copy keep),
     (''SSLPasswordSecret'', new_copy keep), (''SSLRootCertificateConfigMap'', new_copy keep),
     (''SSLRootCertificateSecret'', new_copy keep)]"

definition v1alpha1_PostgresConfig_DeepCopy :: "copier" where
  "v1alpha1_PostgresConfig_DeepCopy = new_copy v1alpha1_PostgresConfig_DeepCopyInto"

lemma v1alpha1_PostgresConfig_copies [copies]:
  "deep_copier v1alpha1_PostgresConfig v1alpha1_PostgresConfig_DeepCopyInto"
  by (simp add: v1alpha1_PostgresConfig_def v1alpha1_PostgresConfig_DeepCopyInto_def copies)

definition v1alpha1_MySQLConfig :: "ty" where
  "v1alpha1_MySQLConfig = StructOf [
     (''Host'', Scalar), (''Port'', Pointer Scalar), (''Username'', Scalar),
     (''PasswordSecret'', Pointer v1alpha1_SecretKeyValue), (''Database'', Scalar),
     (''SkipDBCreation'', Scalar), (''SSLCertificateSecret'', Pointer v1alpha1_SecretKeyValue),
     (''SSLKeySecret'', Pointer v1alpha1_SecretKeyValue),
     (''SSLRootCertificateConfigMap'', Pointer v1alpha1_ConfigMapKeyValue),
     (''SSLRootCertificatesConfigMapName'', Pointer Scalar),
     (''SSLRootCertificateSecret'', Pointer v1alpha1_SecretKeyValue),
     (''SSLRootCertificatesSecretName'', Pointer Scalar), (''SSLCipher'', Pointer Scalar),
     (''VerifyServerCert'', Pointer Scalar)]"

definition v1alpha1_MySQLConfig_DeepCopyInto :: "copier" where
  "v1alpha1_MySQLConfig_DeepCopyInto = copy_into [
     (''Port'', new_copy keep), (''PasswordSecret'', new_copy keep),
     (''SSLCertificateSecret'', new_copy keep), (''SSLKeySecret'', new_copy keep),
     (''SSLRootCertificateConfigMap'', new_copy keep),
     (''SSLRootCertificatesConfigMapName'', new_copy keep),
     (''SSLRootCertificateSecret'', new_copy keep),
     (''SSLRootCertificatesSecretName'', new_copy keep), (''SSLCipher'', new_copy keep),
     (''VerifyServerCert'', new_copy keep)]"

definition v1alpha1_MySQLConfig_DeepCopy :: "copier" where
  "v1alpha1_MySQLConfig_DeepCopy = new_copy v1alpha1_MySQLConfig_DeepCopyInto"

lemma v1alpha1_MySQLConfig_copies [copies]:
  "deep_copier v1alpha1_MySQLConfig v1alpha1_MySQLConfig_DeepCopyInto"
  by (simp add: v1alpha1_MySQLConfig_def v1alpha1_MySQLConfig_DeepCopyInto_def copies)

definition v1alpha1_RestSpec :: "(string \<Rightarrow> ty) \<Rightarrow> ty" where
  "v1alpha1_RestSpec lib = StructOf [
     (''Port'', Pointer Scalar), (''ServiceRoute'', Scalar),
     (''Resources'', Pointer (lib ''v1.ResourceRequirements'')), (''Image'', Scalar)]"

definition v1alpha1_RestSpec_DeepCopyInto :: "(string \<Rightarrow> copier) \<Rightarrow> copier" where
  "v1alpha1_RestSpec_DeepCopyInto cp = copy_into [
     (''Port'', new_copy keep), (''Resources'', new_copy (cp ''v1.ResourceRequirements''))]"

definition v1alpha1_RestSpec_DeepCopy :: "(string \<Rightarrow> copier) \<Rightarrow> copier" where
  "v1alpha1_RestSpec_DeepCopy cp = new_copy (v1alpha1_RestSpec_DeepCopyInto cp)"

lemma v1alpha1_RestSpec_copies [copies]:
  "library_contract lib cp \<Longrightarrow> deep_copier (v1alpha1_RestSpec lib) (v1alpha1_RestSpec_DeepCopyInto cp)"
  by (simp add: v1alpha1_RestSpec_def v1alpha1_RestSpec_DeepCopyInto_def copies library)

definition v1alpha1_GrpcSpec :: "(string \<Rightarrow> ty) \<Rightarrow> ty" where
  "v1alpha1_GrpcSpec lib = StructOf [
     (''Port'', Pointer Scalar), (''Resources'', Pointer (lib ''v1.ResourceRequirements'')),
     (''Image'', Scalar)]"

definition v1alpha1_GrpcSpec_DeepCopyInto :: "(string \<Rightarrow> copier) \<Rightarrow> copier" where
  "v1alpha1_GrpcSpec_DeepCopyInto cp = copy_into [
     (''Port'', new_copy keep), (''Resources'', new_copy (cp ''v1.ResourceRequirements''))]"

definition v1alpha1_GrpcSpec_DeepCopy :: "(string \<Rightarrow> copier) \<Rightarrow> copier" where
  "v1alpha1_GrpcSpec_DeepCopy cp = new_copy (v1alpha1_GrpcSpec_DeepCopyInto cp)"

lemma v1alpha1_GrpcSpec_copies [copies]:
  "library_contract lib cp \<Longrightarrow> deep_copier (v1alpha1_GrpcSpec lib) (v1alpha1_GrpcSpec_DeepCopyInto cp)"
  by (simp add: v1alpha1_GrpcSpec_def v1alpha1_GrpcSpec_DeepCopyInto_def copies library)

definition v1alpha1_TLSServerSettings :: "ty" where
  "v1alpha1_TLSServerSettings = StructOf [
     (''Mode'', Scalar), (''CredentialName'', Pointer Scalar)]"

definition v1alpha1_TLSServerSettings_DeepCopyInto :: "copier" where
  "v1alpha1_TLSServerSettings_DeepCopyInto = copy_into [
     (''CredentialName'', new_copy keep)]"

definition v1alpha1_TLSServerSettings_DeepCopy :: "copier" where
  "v1alpha1_TLSServerSettings_DeepCopy = new_copy v1alpha1_TLSServerSettings_DeepCopyInto"

lemma v1alpha1_TLSServerSettings_copies [copies]:
  "deep_copier v1alpha1_TLSServerSettings v1alpha1_TLSServerSettings_DeepCopyInto"
  by (simp add: v1alpha1_TLSServerSettings_def v1alpha1_TLSServerSettings_DeepCopyInto_def copies)

definition v1alpha1_ServerConfig :: "ty" where
  "v1alpha1_ServerConfig = StructOf [
     (''Port'', Pointer Scalar), (''TLS'', Pointer v1alpha1_TLSServerSettings),
     (''GatewayRoute'', Scalar)]"

definition v1alpha1_ServerConfig_DeepCopyInto :: "copier" where
  "v1alpha1_ServerConfig_DeepCopyInto = copy_into [
     (''Port'', new_copy keep), (''TLS'', new_copy v1alpha1_TLSServerSettings_DeepCopyInto)]"

definition v1alpha1_ServerConfig_DeepCopy :: "copier" where
  "v1alpha1_ServerConfig_DeepCopy = new_copy v1alpha1_ServerConfig_DeepCopyInto"

lemma v1alpha1_ServerConfig_copies [copies]:
  "deep_copier v1alpha1_ServerConfig v1alpha1_ServerConfig_DeepCopyInto"
  by (simp add: v1alpha1_ServerConfig_def v1alpha1_ServerConfig_DeepCopyInto_def copies)

definition v1alpha1_GatewayConfig :: "ty" where
  "v1alpha1_GatewayConfig = StructOf [
     (''Domain'', Scalar), (''IstioIngress'', Pointer Scalar), (''ControlPlane'', Pointer Scalar),
     (''Rest'', v1alpha1_ServerConfig), (''Grpc'', v1alpha1_ServerConfig)]"

definition v1alpha1_GatewayConfig_DeepCopyInto :: "copier" where
  "v1alpha1_GatewayConfig_DeepCopyInto = copy_into [
     (''IstioIngress'', new_copy keep), (''ControlPlane'', new_copy keep),
     (''Rest'', v1alpha1_ServerConfig_DeepCopyInto),
     (''Grpc'', v1alpha1_ServerConfig_DeepCopyInto)]"

definition v1alpha1_GatewayConfig_DeepCopy :: "copier" where
  "v1alpha1_GatewayConfig_DeepCopy = new_copy v1alpha1_GatewayConfig_DeepCopyInto"

lemma v1alpha1_GatewayConfig_copies [copies]:
  "deep_copier v1alpha1_GatewayConfig v1alpha1_GatewayConfig_DeepCopyInto"
  by (simp add: v1alpha1_GatewayConfig_def v1alpha1_GatewayConfig_DeepCopyInto_def copies)

definition v1alpha1_IstioConfig :: "ty" where
  "v1alpha1_IstioConfig = StructOf [
     (''AuthProvider'', Scalar), (''AuthConfigLabels'', MapOf Scalar), (''TlsMode'', Scalar),
     (''Gateway'', Pointer v1alpha1_GatewayConfig), (''Audiences'', SliceOf Scalar)]"

definition v1alpha1_IstioConfig_DeepCopyInto :: "copier" where
  "v1alpha1_IstioConfig_DeepCopyInto = copy_into [
     (''AuthConfigLabels'', map_copy), (''Gateway'', new_copy v1alpha1_GatewayConfig_DeepCopyInto),
     (''Audiences'', slice_copy)]"

definition v1alpha1_IstioConfig_DeepCopy :: "copier" where
  "v1alpha1_IstioConfig_DeepCopy = new_copy v1alpha1_IstioConfig_DeepCopyInto"

lemma v1alpha1_IstioConfig_copies [copies]:
  "deep_copier v1alpha1_IstioConfig v1alpha1_IstioConfig_DeepCopyInto"
  by (simp add: v1alpha1_IstioConfig_def v1alpha1_IstioConfig_DeepCopyInto_def copies)

definition v1alpha1_OAuthProxyConfig :: "ty" where
  "v1alpha1_OAuthProxyConfig = StructOf [
     (''Port'', Pointer Scalar), (''TLSCertificateSecret'', Pointer v1alpha1_SecretKeyValue),
     (''TLSKeySecret'', Pointer v1alpha1_SecretKeyValue), (''ServiceRoute'', Scalar),
     (''Domain'', Scalar), (''RoutePort'', Pointer Scalar), (''Image'', Scalar)]"

definition v1alpha1_OAuthProxyConfig_DeepCopyInto :: "copier" where
  "v1alpha1_OAuthProxyConfig_DeepCopyInto = copy_into [
     (''Port'', new_copy keep), (''TLSCertificateSecret'', new_copy keep),
     (''TLSKeySecret'', new_copy keep), (''RoutePort'', new_copy keep)]"

definition v1alpha1_OAuthProxyConfig_DeepCopy :: "copier" where
  "v1alpha1_OAuthProxyConfig_DeepCopy = new_copy v1alpha1_OAuthProxyConfig_DeepCopyInto"

lemma v1alpha1_OAuthProxyConfig_copies [copies]:
  "deep_copier v1alpha1_OAuthProxyConfig v1alpha1_OAuthProxyConfig_DeepCopyInto"
  by (simp add: v1alpha1_OAuthProxyConfig_def v1alpha1_OAuthProxyConfig_DeepCopyInto_def copies)

definition v1alpha1_ModelRegistrySpec :: "(string \<Rightarrow> ty) \<Rightarrow> ty" where
  "v1alpha1_ModelRegistrySpec lib = StructOf [
     (''Rest'', v1alpha1_RestSpec lib), (''Grpc'', v1alpha1_GrpcSpec lib),
     (''Postgres'', Pointer v1alpha1_PostgresConfig), (''MySQL'', Pointer v1alpha1_MySQLConfig),
     (''EnableDatabaseUpgrade'', Pointer Scalar), (''DowngradeDbSchemaVersion'', Pointer Scalar),
     (''Istio'', Pointer v1alpha1_IstioConfig),
     (''OAuthProxy'', Pointer v1alpha1_OAuthProxyConfig)]"

definition v1alpha1_ModelRegistrySpec_DeepCopyInto :: "(string \<Rightarrow> copier) \<Rightarrow> copier" where
  "v1alpha1_ModelRegistrySpec_DeepCopyInto cp = copy_into [
     (''Rest'', v1alpha1_RestSpec_DeepCopyInto cp), (''Grpc'', v1alpha1_GrpcSpec_DeepCopyInto cp),
     (''Postgres'', new_copy v1alpha1_PostgresConfig_DeepCopyInto),
     (''MySQL'', new_copy v1alpha1_MySQLConfig_DeepCopyInto),
     (''EnableDatabaseUpgrade'', new_copy keep), (''DowngradeDbSchemaVersion'', new_copy keep),
     (''Istio'', new_copy v1alpha1_IstioConfig_DeepCopyInto),
     (''OAuthProxy'', new_copy v1alpha1_OAuthProxyConfig_DeepCopyInto)]"

definition v1alpha1_ModelRegistrySpec_DeepCopy :: "(string \<Rightarrow> copier) \<Rightarrow> copier" where
  "v1alpha1_ModelRegistrySpec_DeepCopy cp = new_copy (v1alpha1_ModelRegistrySpec_DeepCopyInto cp)"

lemma v1alpha1_ModelRegistrySpec_copies [copies]:
  "library_contract lib cp \<Longrightarrow> deep_copier (v1alpha1_ModelRegistrySpec lib) (v1alpha1_ModelRegistrySpec_DeepCopyInto cp)"
  by (simp add: v1alpha1_ModelRegistrySpec_def v1alpha1_ModelRegistrySpec_DeepCopyInto_def copies library)

definition v1alpha1_ModelRegistryStatus :: "(string \<Rightarrow> ty) \<Rightarrow> ty" where
  "v1alpha1_ModelRegistryStatus lib = StructOf [
     (''Hosts'', SliceOf Scalar), (''HostsStr'', Scalar), (''SpecDefaults'', Scalar),
     (''Conditions'', SliceOf (lib ''metav1.Condition''))]"

definition v1alpha1_ModelRegistryStatus_DeepCopyInto :: "(string \<Rightarrow> copier) \<Rightarrow> copier" where
  "v1alpha1_ModelRegistryStatus_DeepCopyInto cp = copy_into [
     (''Hosts'', slice_copy), (''Conditions'', each_copy (cp ''metav1.Condition''))]"

definition v1alpha1_ModelRegistryStatus_DeepCopy :: "(string \<Rightarrow> copier) \<Rightarrow> copier" where
  "v1alpha1_ModelRegistryStatus_DeepCopy cp = new_copy (v1alpha1_ModelRegistryStatus_DeepCopyInto cp)"

lemma v1alpha1_ModelRegistryStatus_copies [copies]:
  "library_contract lib cp \<Longrightarrow> deep_copier (v1alpha1_ModelRegistryStatus lib) (v1alpha1_ModelRegistryStatus_DeepCopyInto cp)"
  by (simp add: v1alpha1_ModelRegistryStatus_def v1alpha1_ModelRegistryStatus_DeepCopyInto_def copies library)

definition v1alpha1_ModelRegistry :: "(string \<Rightarrow> ty) \<Rightarrow> ty" where
  "v1alpha1_ModelRegistry lib = StructOf [
     (''TypeMeta'', lib ''metav1.TypeMeta''), (''ObjectMeta'', lib ''metav1.ObjectMeta''),
     (''Spec'', v1alpha1_ModelRegistrySpec lib), (''Status'', v1alpha1_ModelRegistryStatus lib)]"

definition v1alpha1_ModelRegistry_DeepCopyInto :: "(string \<Rightarrow> copier) \<Rightarrow> copier" where
  "v1alpha1_ModelRegistry_DeepCopyInto cp = copy_into [
     (''TypeMeta'', keep), (''ObjectMeta'', cp ''metav1.ObjectMeta''),
     (''Spec'', v1alpha1_ModelRegistrySpec_DeepCopyInto cp),
     (''Status'', v1alpha1_ModelRegistryStatus_DeepCopyInto cp)]"

definition v1alpha1_ModelRegistry_DeepCopy :: "(string \<Rightarrow> copier) \<Rightarrow> copier" where
  "v1alpha1_ModelRegistry_DeepCopy cp = new_copy (v1alpha1_ModelRegistry_DeepCopyInto cp)"

definition v1alpha1_ModelRegistry_DeepCopyObject :: "(string \<Rightarrow> copier) \<Rightarrow> go \<Rightarrow> memory
    \<Rightarrow> ((string \<times> go) option \<times> memory) option" where
  "v1alpha1_ModelRegistry_DeepCopyObject cp p m = as_object ''*v1alpha1.ModelRegistry'' (v1alpha1_ModelRegistry_DeepCopy cp p m)"

lemma v1alpha1_ModelRegistry_copies [copies]:
  "library_contract lib cp \<Longrightarrow> deep_copier (v1alpha1_ModelRegistry lib) (v1alpha1_ModelRegistry_DeepCopyInto cp)"
  by (simp add: v1alpha1_ModelRegistry_def v1alpha1_ModelRegistry_DeepCopyInto_def copies library)

definition v1alpha1_ModelRegistryList :: "(string \<Rightarrow> ty) \<Rightarrow> ty" where
  "v1alpha1_ModelRegistryList lib = StructOf [
     (''TypeMeta'', lib ''metav1.TypeMeta''), (''ListMeta'', lib ''metav1.ListMeta''),
     (''Items'', SliceOf (v1alpha1_ModelRegistry lib))]"

definition v1alpha1_ModelRegistryList_DeepCopyInto :: "(string \<Rightarrow> copier) \<Rightarrow> copier" where
  "v1alpha1_ModelRegistryList_DeepCopyInto cp = copy_into [
     (''TypeMeta'', keep), (''ListMeta'', cp ''metav1.ListMeta''),
     (''Items'', each_copy (v1alpha1_ModelRegistry_DeepCopyInto cp))]"

definition v1alpha1_ModelRegistryList_DeepCopy :: "(string \<Rightarrow> copier) \<Rightarrow> copier" where
  "v1alpha1_ModelRegistryList_DeepCopy cp = new_copy (v1alpha1_ModelRegistryList_DeepCopyInto cp)"

definition v1alpha1_ModelRegistryList_DeepCopyObject :: "(string \<Rightarrow> copier) \<Rightarrow> go \<Rightarrow> memory
    \<Rightarrow> ((string \<times> go) option \<times> memory) option" where
  "v1alpha1_ModelRegistryList_DeepCopyObject cp p m = as_object ''*v1alpha1.ModelRegistryList'' (v1alpha1_ModelRegistryList_DeepCopy cp p m)"

lemma v1alpha1_ModelRegistryList_copies [copies]:
  "library_contract lib cp \<Longrightarrow> deep_copier (v1alpha1_ModelRegistryList lib) (v1alpha1_ModelRegistryList_DeepCopyInto cp)"
  by (simp add: v1alpha1_ModelRegistryList_def v1alpha1_ModelRegistryList_DeepCopyInto_def copies library)

definition v1beta1_ConfigMapKeyValue :: "ty" where
  "v1beta1_ConfigMapKeyValue = StructOf [
     (''Name'', Scalar), (''Key'', Scalar)]"

definition v1beta1_ConfigMapKeyValue_DeepCopyInto :: "copier" where
  "v1beta1_ConfigMapKeyValue_DeepCopyInto = copy_into []"

definition v1beta1_ConfigMapKeyValue_DeepCopy :: "copier" where
  "v1beta1_ConfigMapKeyValue_DeepCopy = new_copy v1beta1_ConfigMapKeyValue_DeepCopyInto"

lemma v1beta1_ConfigMapKeyValue_flat [simp]: "flat v1beta1_ConfigMapKeyValue"
  by (simp add: v1beta1_ConfigMapKeyValue_def)

lemma v1beta1_ConfigMapKeyValue_copies [copies]:
  "deep_copier v1beta1_ConfigMapKeyValue v1beta1_ConfigMapKeyValue_DeepCopyInto"
  by (simp add: v1beta1_ConfigMapKeyValue_def v1beta1_ConfigMapKeyValue_DeepCopyInto_def copies)

definition v1beta1_SecretKeyValue :: "ty" where
  "v1beta1_SecretKeyValue = StructOf [
     (''Name'', Scalar), (''Key'', Scalar)]"

definition v1beta1_SecretKeyValue_DeepCopyInto :: "copier" where
  "v1beta1_SecretKeyValue_DeepCopyInto = copy_into []"

definition v1beta1_SecretKeyValue_DeepCopy :: "copier" where
  "v1beta1_SecretKeyValue_DeepCopy = new_copy v1beta1_SecretKeyValue_DeepCopyInto"

lemma v1beta1_SecretKeyValue_flat [simp]: "flat v1beta1_SecretKeyValue"
  by (simp add: v1beta1_SecretKeyValue_def)

lemma v1beta1_SecretKeyValue_copies [copies]:
  "deep_copier v1beta1_SecretKeyValue v1beta1_SecretKeyValue_DeepCopyInto"
  by (simp add: v1beta1_SecretKeyValue_def v1beta1_SecretKeyValue_DeepCopyInto_def copies)

definition v1beta1_PostgresConfig :: "ty" where
  "v1beta1_PostgresConfig = StructOf [
     (''Host'', Scalar), (''HostAddress'', Scalar), (''Port'', Pointer Scalar),
     (''Username'', Scalar), (''PasswordSecret'', Pointer v1beta1_SecretKeyValue),
     (''Database'', Scalar), (''SkipDBCreation'', Scalar), (''GenerateDeployment'', Pointer Scalar),
     (''SSLMode'', Scalar), (''SSLCertificateSecret'', Pointer v1beta1_SecretKeyValue),
     (''SSLKeySecret'', Pointer v1beta1_SecretKeyValue),
     (''SSLPasswordSecret'', Pointer v1beta1_SecretKeyValue),
     (''SSLRootCertificateConfigMap'', Pointer v1beta1_ConfigMapKeyValue),
     (''SSLRootCertificateSecret'', Pointer v1beta1_SecretKeyValue), (''Image'', Scalar)]"

definition v1beta1_PostgresConfig_DeepCopyInto :: "copier" where
  "v1beta1_PostgresConfig_DeepCopyInto = copy_into [
     (''Port'', new_copy keep), (''PasswordSecret'', new_copy keep),
     (''GenerateDeployment'', new_copy keep), (''SSLCertificateSecret'', new_copy keep),
     (''SSLKeySecret'', new_copy keep), (''SSLPasswordSecret'', new_copy keep),
     (''SSLRootCertificateConfigMap'', new_copy keep),
     (''SSLRootCertificateSecret'', new_copy keep)]"

definition v1beta1_PostgresConfig_DeepCopy :: "copier" where
  "v1beta1_PostgresConfig_DeepCopy = new_copy v1beta1_PostgresConfig_DeepCopyInto"

lemma v1beta1_PostgresConfig_copies [copies]:
  "deep_copier v1beta1_PostgresConfig v1beta1_PostgresConfig_DeepCopyInto"
  by (simp add: v1beta1_PostgresConfig_def v1beta1_PostgresConfig_DeepCopyInto_def copies)

definition v1beta1_MySQLConfig :: "ty" where
  "v1beta1_MySQLConfig = StructOf [
     (''Host'', Scalar), (''Port'', Pointer Scalar), (''Username'', Scalar),
     (''PasswordSecret'', Pointer v1beta1_SecretKeyValue), (''Database'', Scalar),
     (''SkipDBCreation'', Scalar), (''SSLCertificateSecret'', Pointer v1beta1_SecretKeyValue),
     (''SSLKeySecret'', Pointer v1beta1_SecretKeyValue),
     (''SSLRootCertificateConfigMap'', Pointer v1beta1_ConfigMapKeyValue),
     (''SSLRootCertificatesConfigMapName'', Pointer Scalar),
     (''SSLRootCertificateSecret'', Pointer v1beta1_SecretKeyValue),
     (''SSLRootCertificatesSecretName'', Pointer Scalar), (''SSLCipher'', Pointer Scalar),
     (''VerifyServerCert'', Pointer Scalar)]"

definition v1beta1_MySQLConfig_DeepCopyInto :: "copier" where
  "v1beta1_MySQLConfig_DeepCopyInto = copy_into [
     (''Port'', new_copy keep), (''PasswordSecret'', new_copy keep),
     (''SSLCertificateSecret'', new_copy keep), (''SSLKeySecret'', new_copy keep),
     (''SSLRootCertificateConfigMap'', new_copy keep),
     (''SSLRootCertificatesConfigMapName'', new_copy keep),
     (''SSLRootCertificateSecret'', new_copy keep),
     (''SSLRootCertificatesSecretName'', new_copy keep), (''SSLCipher'', new_copy keep),
     (''VerifyServerCert'', new_copy keep)]"

definition v1beta1_MySQLConfig_DeepCopy :: "copier" where
  "v1beta1_MySQLConfig_DeepCopy = new_copy v1beta1_MySQLConfig_DeepCopyInto"

lemma v1beta1_MySQLConfig_copies [copies]:
  "deep_copier v1beta1_MySQLConfig v1beta1_MySQLConfig_DeepCopyInto"
  by (simp add: v1beta1_MySQLConfig_def v1beta1_MySQLConfig_DeepCopyInto_def copies)

definition v1beta1_RestSpec :: "(string \<Rightarrow> ty) \<Rightarrow> ty" where
  "v1beta1_RestSpec lib = StructOf [
     (''Port'', Pointer Scalar), (''ServiceRoute'', Scalar),
     (''Resources'', Pointer (lib ''v1.ResourceRequirements'')), (''Image'', Scalar)]"

definition v1beta1_RestSpec_DeepCopyInto :: "(string \<Rightarrow> copier) \<Rightarrow> copier" where
  "v1beta1_RestSpec_DeepCopyInto cp = copy_into [
     (''Port'', new_copy keep), (''Resources'', new_copy (cp ''v1.ResourceRequirements''))]"

definition v1beta1_RestSpec_DeepCopy :: "(string \<Rightarrow> copier) \<Rightarrow> copier" where
  "v1beta1_RestSpec_DeepCopy cp = new_copy (v1beta1_RestSpec_DeepCopyInto cp)"

lemma v1beta1_RestSpec_copies [copies]:
  "library_contract lib cp \<Longrightarrow> deep_copier (v1beta1_RestSpec lib) (v1beta1_RestSpec_DeepCopyInto cp)"
  by (simp add: v1beta1_RestSpec_def v1beta1_RestSpec_DeepCopyInto_def copies library)

definition v1beta1_GrpcSpec :: "(string \<Rightarrow> ty) \<Rightarrow> ty" where
  "v1beta1_GrpcSpec lib = StructOf [
     (''Port'', Pointer Scalar), (''Resources'', Pointer (lib ''v1.ResourceRequirements'')),
     (''Image'', Scalar)]"

definition v1beta1_GrpcSpec_DeepCopyInto :: "(string \<Rightarrow> copier) \<Rightarrow> copier" where
  "v1beta1_GrpcSpec_DeepCopyInto cp = copy_into [
     (''Port'', new_copy keep), (''Resources'', new_copy (cp ''v1.ResourceRequirements''))]"

definition v1beta1_GrpcSpec_DeepCopy :: "(string \<Rightarrow> copier) \<Rightarrow> copier" where
  "v1beta1_GrpcSpec_DeepCopy cp = new_copy (v1beta1_GrpcSpec_DeepCopyInto cp)"

lemma v1beta1_GrpcSpec_copies [copies]:
  "library_contract lib cp \<Longrightarrow> deep_copier (v1beta1_GrpcSpec lib) (v1beta1_GrpcSpec_DeepCopyInto cp)"
  by (simp add: v1beta1_GrpcSpec_def v1beta1_GrpcSpec_DeepCopyInto_def copies library)

definition v1beta1_OAuthProxyConfig :: "ty" where
  "v1beta1_OAuthProxyConfig = StructOf [
     (''Port'', Pointer Scalar), (''TLSCertificateSecret'', Pointer v1beta1_SecretKeyValue),
     (''TLSKeySecret'', Pointer v1beta1_SecretKeyValue), (''ServiceRoute'', Scalar),
     (''Domain'', Scalar), (''RoutePort'', Pointer Scalar), (''Image'', Scalar)]"

definition v1beta1_OAuthProxyConfig_DeepCopyInto :: "copier" where
  "v1beta1_OAuthProxyConfig_DeepCopyInto = copy_into [
     (''Port'', new_copy keep), (''TLSCertificateSecret'', new_copy keep),
     (''TLSKeySecret'', new_copy keep), (''RoutePort'', new_copy keep)]"

definition v1beta1_OAuthProxyConfig_DeepCopy :: "copier" where
  "v1beta1_OAuthProxyConfig_DeepCopy = new_copy v1beta1_OAuthProxyConfig_DeepCopyInto"

lemma v1beta1_OAuthProxyConfig_copies [copies]:
  "deep_copier v1beta1_OAuthProxyConfig v1beta1_OAuthProxyConfig_DeepCopyInto"
  by (simp add: v1beta1_OAuthProxyConfig_def v1beta1_OAuthProxyConfig_DeepCopyInto_def copies)

definition v1beta1_KubeRBACProxyConfig :: "ty" where
  "v1beta1_KubeRBACProxyConfig = StructOf [
     (''Port'', Pointer Scalar), (''TLSCertificateSecret'', Pointer v1beta1_SecretKeyValue),
     (''TLSKeySecret'', Pointer v1beta1_SecretKeyValue), (''ServiceRoute'', Scalar),
     (''Domain'', Scalar), (''RoutePort'', Pointer Scalar), (''Image'', Scalar)]"

definition v1beta1_KubeRBACProxyConfig_DeepCopyInto :: "copier" where
  "v1beta1_KubeRBACProxyConfig_DeepCopyInto = copy_into [
     (''Port'', new_copy keep), (''TLSCertificateSecret'', new_copy keep),
     (''TLSKeySecret'', new_copy keep), (''RoutePort'', new_copy keep)]"

definition v1beta1_KubeRBACProxyConfig_DeepCopy :: "copier" where
  "v1beta1_KubeRBACProxyConfig_DeepCopy = new_copy v1beta1_KubeRBACProxyConfig_DeepCopyInto"

lemma v1beta1_KubeRBACProxyConfig_copies [copies]:
  "deep_copier v1beta1_KubeRBACProxyConfig v1beta1_KubeRBACProxyConfig_DeepCopyInto"
  by (simp add: v1beta1_KubeRBACProxyConfig_def v1beta1_KubeRBACProxyConfig_DeepCopyInto_def copies)

definition v1beta1_ModelRegistrySpec :: "(string \<Rightarrow> ty) \<Rightarrow> ty" where
  "v1beta1_ModelRegistrySpec lib = StructOf [
     (''Rest'', v1beta1_RestSpec lib), (''Grpc'', v1beta1_GrpcSpec lib),
     (''Postgres'', Pointer v1beta1_PostgresConfig), (''MySQL'', Pointer v1beta1_MySQLConfig),
     (''EnableDatabaseUpgrade'', Pointer Scalar), (''DowngradeDbSchemaVersion'', Pointer Scalar),
     (''OAuthProxy'', Pointer v1beta1_OAuthProxyConfig),
     (''KubeRBACProxy'', Pointer v1beta1_KubeRBACProxyConfig)]"

definition v1beta1_ModelRegistrySpec_DeepCopyInto :: "(string \<Rightarrow> copier) \<Rightarrow> copier" where
  "v1beta1_ModelRegistrySpec_DeepCopyInto cp = copy_into [
     (''Rest'', v1beta1_RestSpec_DeepCopyInto cp), (''Grpc'', v1beta1_GrpcSpec_DeepCopyInto cp),
     (''Postgres'', new_copy v1beta1_PostgresConfig_DeepCopyInto),
     (''MySQL'', new_copy v1beta1_MySQLConfig_DeepCopyInto),
     (''EnableDatabaseUpgrade'', new_copy keep), (''DowngradeDbSchemaVersion'', new_copy keep),
     (''OAuthProxy'', new_copy v1beta1_OAuthProxyConfig_DeepCopyInto),
     (''KubeRBACProxy'', new_copy v1beta1_KubeRBACProxyConfig_DeepCopyInto)]"

definition v1beta1_ModelRegistrySpec_DeepCopy :: "(string \<Rightarrow> copier) \<Rightarrow> copier" where
  "v1beta1_ModelRegistrySpec_DeepCopy cp = new_copy (v1beta1_ModelRegistrySpec_DeepCopyInto cp)"

lemma v1beta1_ModelRegistrySpec_copies [copies]:
  "library_contract lib cp \<Longrightarrow> deep_copier (v1beta1_ModelRegistrySpec lib) (v1beta1_ModelRegistrySpec_DeepCopyInto cp)"
  by (simp add: v1beta1_ModelRegistrySpec_def v1beta1_ModelRegistrySpec_DeepCopyInto_def copies library)

definition v1beta1_ModelRegistryStatus :: "(string \<Rightarrow> ty) \<Rightarrow> ty" where
  "v1beta1_ModelRegistryStatus lib = StructOf [
     (''Hosts'', SliceOf Scalar), (''HostsStr'', Scalar), (''SpecDefaults'', Scalar),
     (''Conditions'', SliceOf (lib ''metav1.Condition''))]"

definition v1beta1_ModelRegistryStatus_DeepCopyInto :: "(string \<Rightarrow> copier) \<Rightarrow> copier" where
  "v1beta1_ModelRegistryStatus_DeepCopyInto cp = copy_into [
     (''Hosts'', slice_copy), (''Conditions'', each_copy (cp ''metav1.Condition''))]"

definition v1beta1_ModelRegistryStatus_DeepCopy :: "(string \<Rightarrow> copier) \<Rightarrow> copier" where
  "v1beta1_ModelRegistryStatus_DeepCopy cp = new_copy (v1beta1_ModelRegistryStatus_DeepCopyInto cp)"

lemma v1beta1_ModelRegistryStatus_copies [copies]:
  "library_contract lib cp \<Longrightarrow> deep_copier (v1beta1_ModelRegistryStatus lib) (v1beta1_ModelRegistryStatus_DeepCopyInto cp)"
  by (simp add: v1beta1_ModelRegistryStatus_def v1beta1_ModelRegistryStatus_DeepCopyInto_def copies library)

definition v1beta1_ModelRegistry :: "(string \<Rightarrow> ty) \<Rightarrow> ty" where
  "v1beta1_ModelRegistry lib = StructOf [
     (''TypeMeta'', lib ''metav1.TypeMeta''), (''ObjectMeta'', lib ''metav1.ObjectMeta''),
     (''Spec'', v1beta1_ModelRegistrySpec lib), (''Status'', v1beta1_ModelRegistryStatus lib)]"

definition v1beta1_ModelRegistry_DeepCopyInto :: "(string \<Rightarrow> copier) \<Rightarrow> copier" where
  "v1beta1_ModelRegistry_DeepCopyInto cp = copy_into [
     (''TypeMeta'', keep), (''ObjectMeta'', cp ''metav1.ObjectMeta''),
     (''Spec'', v1beta1_ModelRegistrySpec_DeepCopyInto cp),
     (''Status'', v1beta1_ModelRegistryStatus_DeepCopyInto cp)]"

definition v1beta1_ModelRegistry_DeepCopy :: "(string \<Rightarrow> copier) \<Rightarrow> copier" where
  "v1beta1_ModelRegistry_DeepCopy cp = new_copy (v1beta1_ModelRegistry_DeepCopyInto cp)"

definition v1beta1_ModelRegistry_DeepCopyObject :: "(string \<Rightarrow> copier) \<Rightarrow> go \<Rightarrow> memory
    \<Rightarrow> ((string \<times> go) option \<times> memory) option" where
  "v1beta1_ModelRegistry_DeepCopyObject cp p m = as_object ''*v1beta1.ModelRegistry'' (v1beta1_ModelRegistry_DeepCopy cp p m)"

lemma v1beta1_ModelRegistry_copies [copies]:
  "library_contract lib cp \<Longrightarrow> deep_copier (v1beta1_ModelRegistry lib) (v1beta1_ModelRegistry_DeepCopyInto cp)"
  by (simp add: v1beta1_ModelRegistry_def v1beta1_ModelRegistry_DeepCopyInto_def copies library)

definition v1beta1_ModelRegistryList :: "(string \<Rightarrow> ty) \<Rightarrow> ty" where
  "v1beta1_ModelRegistryList lib = StructOf [
     (''TypeMeta'', lib ''metav1.TypeMeta''), (''ListMeta'', lib ''metav1.ListMeta''),
     (''Items'', SliceOf (v1beta1_ModelRegistry lib))]"

definition v1beta1_ModelRegistryList_DeepCopyInto :: "(string \<Rightarrow> copier) \<Rightarrow> copier" where
  "v1beta1_ModelRegistryList_DeepCopyInto cp = copy_into [
     (''TypeMeta'', keep), (''ListMeta'', cp ''metav1.ListMeta''),
     (''Items'', each_copy (v1beta1_ModelRegistry_DeepCopyInto cp))]"

definition v1beta1_ModelRegistryList_DeepCopy :: "(string \<Rightarrow> copier) \<Rightarrow> copier" where
  "v1beta1_ModelRegistryList_DeepCopy cp = new_copy (v1beta1_ModelRegistryList_DeepCopyInto cp)"

definition v1beta1_ModelRegistryList_DeepCopyObject :: "(string \<Rightarrow> copier) \<Rightarrow> go \<Rightarrow> memory
    \<Rightarrow> ((string \<times> go) option \<times> memory) option" where
  "v1beta1_ModelRegistryList_DeepCopyObject cp p m = as_object ''*v1beta1.ModelRegistryList'' (v1beta1_ModelRegistryList_DeepCopy cp p m)"

lemma v1beta1_ModelRegistryList_copies [copies]:
  "library_contract lib cp \<Longrightarrow> deep_copier (v1beta1_ModelRegistryList lib) (v1beta1_ModelRegistryList_DeepCopyInto cp)"
  by (simp add: v1beta1_ModelRegistryList_def v1beta1_ModelRegistryList_DeepCopyInto_def copies library)

end
