(* ===== verification/Copies_Modules.thy ===== *)
theory Copies_Modules
  imports Go_Memory
begin

text \<open>The layouts of the Catalog and AIHub types (\<^verbatim>\<open>api/catalog/v1alpha1\<close>, \<^verbatim>\<open>api/aihub/v1alpha1\<close>) and
their generated deep copies, with the contract of a deep copy for each of them.\<close>

definition catalog_CatalogResources :: "(string \<Rightarrow> ty) \<Rightarrow> ty" where
  "catalog_CatalogResources lib = StructOf [
     (''Catalog'', Pointer (lib ''v1.ResourceRequirements'')),
     (''Postgres'', Pointer (lib ''v1.ResourceRequirements''))]"

definition catalog_CatalogResources_DeepCopyInto :: "(string \<Rightarrow> copier) \<Rightarrow> copier" where
  "catalog_CatalogResources_DeepCopyInto cp = copy_into [
     (''Catalog'', new_copy (cp ''v1.ResourceRequirements'')),
     (''Postgres'', new_copy (cp ''v1.ResourceRequirements''))]"

definition catalog_CatalogResources_DeepCopy :: "(string \<Rightarrow> copier) \<Rightarrow> copier" where
  "catalog_CatalogResources_DeepCopy cp = new_copy (catalog_CatalogResources_DeepCopyInto cp)"

lemma catalog_CatalogResources_copies [copies]:
  "library_contract lib cp \<Longrightarrow> deep_copier (catalog_CatalogResources lib) (catalog_CatalogResources_DeepCopyInto cp)"
  by (simp add: catalog_CatalogResources_def catalog_CatalogResources_DeepCopyInto_def copies library)

definition catalog_CatalogDatabaseVolume :: "(string \<Rightarrow> ty) \<Rightarrow> ty" where
  "catalog_CatalogDatabaseVolume lib = StructOf [
     (''SizeLimit'', Pointer (lib ''resource.Quantity''))]"

definition catalog_CatalogDatabaseVolume_DeepCopyInto :: "(string \<Rightarrow> copier) \<Rightarrow> copier" where
  "catalog_CatalogDatabaseVolume_DeepCopyInto cp = copy_into [
     (''SizeLimit'', value_copy (cp ''resource.Quantity''))]"

definition catalog_CatalogDatabaseVolume_DeepCopy :: "(string \<Rightarrow> copier) \<Rightarrow> copier" where
  "catalog_CatalogDatabaseVolume_DeepCopy cp = new_copy (catalog_CatalogDatabaseVolume_DeepCopyInto cp)"

lemma catalog_CatalogDatabaseVolume_copies [copies]:
  "library_contract lib cp \<Longrightarrow> deep_copier (catalog_CatalogDatabaseVolume lib) (catalog_CatalogDatabaseVolume_DeepCopyInto cp)"
  by (simp add: catalog_CatalogDatabaseVolume_def catalog_CatalogDatabaseVolume_DeepCopyInto_def copies library)

definition catalog_CatalogDatabase :: "(string \<Rightarrow> ty) \<Rightarrow> ty" where
  "catalog_CatalogDatabase lib = StructOf [
     (''Volume'', catalog_CatalogDatabaseVolume lib)]"

definition catalog_CatalogDatabase_DeepCopyInto :: "(string \<Rightarrow> copier) \<Rightarrow> copier" where
  "catalog_CatalogDatabase_DeepCopyInto cp = copy_into [
     (''Volume'', catalog_CatalogDatabaseVolume_DeepCopyInto cp)]"

definition catalog_CatalogDatabase_DeepCopy :: "(string \<Rightarrow> copier) \<Rightarrow> copier" where
  "catalog_CatalogDatabase_DeepCopy cp = new_copy (catalog_CatalogDatabase_DeepCopyInto cp)"

lemma catalog_CatalogDatabase_copies [copies]:
  "library_contract lib cp \<Longrightarrow> deep_copier (catalog_CatalogDatabase lib) (catalog_CatalogDatabase_DeepCopyInto cp)"
  by (simp add: catalog_CatalogDatabase_def catalog_CatalogDatabase_DeepCopyInto_def copies library)

definition catalog_ProxyConfig :: "ty" where
  "catalog_ProxyConfig = StructOf [
     (''HTTPProxy'', Scalar), (''HTTPSProxy'', Scalar), (''NoProxy'', Scalar)]"

definition catalog_ProxyConfig_DeepCopyInto :: "copier" where
  "catalog_ProxyConfig_DeepCopyInto = copy_into []"

definition catalog_ProxyConfig_DeepCopy :: "copier" where
  "catalog_ProxyConfig_DeepCopy = new_copy catalog_ProxyConfig_DeepCopyInto"

lemma catalog_ProxyConfig_flat [simp]: "flat catalog_ProxyConfig"
  by (simp add: catalog_ProxyConfig_def)

lemma catalog_ProxyConfig_copies [copies]:
  "deep_copier catalog_ProxyConfig catalog_ProxyConfig_DeepCopyInto"
  by (simp add: catalog_ProxyConfig_def catalog_ProxyConfig_DeepCopyInto_def copies)

definition catalog_CatalogSpec :: "(string \<Rightarrow> ty) \<Rightarrow> ty" where
  "catalog_CatalogSpec lib = StructOf [
     (''Resources'', catalog_CatalogResources lib), (''Database'', catalog_CatalogDatabase lib),
     (''CatalogDataImage'', Pointer Scalar), (''BenchmarkDataImage'', Pointer Scalar),
     (''CatalogDataImageStream'', Pointer Scalar), (''BenchmarkDataImageStream'', Pointer Scalar),
     (''Proxy'', Pointer catalog_ProxyConfig)]"

definition catalog_CatalogSpec_DeepCopyInto :: "(string \<Rightarrow> copier) \<Rightarrow> copier" where
  "catalog_CatalogSpec_DeepCopyInto cp = copy_into [
     (''Resources'', catalog_CatalogResources_DeepCopyInto cp),
     (''Database'', catalog_CatalogDatabase_DeepCopyInto cp), (''CatalogDataImage'', new_copy keep),
     (''BenchmarkDataImage'', new_copy keep), (''CatalogDataImageStream'', new_copy keep),
     (''BenchmarkDataImageStream'', new_copy keep), (''Proxy'', new_copy keep)]"

definition catalog_CatalogSpec_DeepCopy :: "(string \<Rightarrow> copier) \<Rightarrow> copier" where
  "catalog_CatalogSpec_DeepCopy cp = new_copy (catalog_CatalogSpec_DeepCopyInto cp)"

lemma catalog_CatalogSpec_copies [copies]:
  "library_contract lib cp \<Longrightarrow> deep_copier (catalog_CatalogSpec lib) (catalog_CatalogSpec_DeepCopyInto cp)"
  by (simp add: catalog_CatalogSpec_def catalog_CatalogSpec_DeepCopyInto_def copies library)

definition catalog_CatalogDataImages :: "ty" where
  "catalog_CatalogDataImages = StructOf [
     (''Catalog'', Scalar), (''Benchmark'', Scalar)]"

definition catalog_CatalogDataImages_DeepCopyInto :: "copier" where
  "catalog_CatalogDataImages_DeepCopyInto = copy_into []"

definition catalog_CatalogDataImages_DeepCopy :: "copier" where
  "catalog_CatalogDataImages_DeepCopy = new_copy catalog_CatalogDataImages_DeepCopyInto"

lemma catalog_CatalogDataImages_flat [simp]: "flat catalog_CatalogDataImages"
  by (simp add: catalog_CatalogDataImages_def)

lemma catalog_CatalogDataImages_copies [copies]:
  "deep_copier catalog_CatalogDataImages catalog_CatalogDataImages_DeepCopyInto"
  by (simp add: catalog_CatalogDataImages_def catalog_CatalogDataImages_DeepCopyInto_def copies)

definition catalog_CatalogActivationSuccess :: "ty" where
  "catalog_CatalogActivationSuccess = StructOf [
     (''CatalogUID'', Scalar), (''AttemptID'', Scalar), (''Images'', catalog_CatalogDataImages),
     (''ActivatedAt'', Scalar)]"

definition catalog_CatalogActivationSuccess_DeepCopyInto :: "copier" where
  "catalog_CatalogActivationSuccess_DeepCopyInto = copy_into [
     (''Images'', keep)]"

definition catalog_CatalogActivationSuccess_DeepCopy :: "copier" where
  "catalog_CatalogActivationSuccess_DeepCopy = new_copy catalog_CatalogActivationSuccess_DeepCopyInto"

lemma catalog_CatalogActivationSuccess_flat [simp]: "flat catalog_CatalogActivationSuccess"
  by (simp add: catalog_CatalogActivationSuccess_def)

lemma catalog_CatalogActivationSuccess_copies [copies]:
  "deep_copier catalog_CatalogActivationSuccess catalog_CatalogActivationSuccess_DeepCopyInto"
  by (simp add: catalog_CatalogActivationSuccess_def catalog_CatalogActivationSuccess_DeepCopyInto_def copies)

definition catalog_CatalogActivationStatus :: "(string \<Rightarrow> ty) \<Rightarrow> ty" where
  "catalog_CatalogActivationStatus lib = StructOf [
     (''CatalogUID'', Scalar), (''AttemptID'', Scalar), (''RequestHash'', Scalar),
     (''RequestedImages'', catalog_CatalogDataImages), (''Images'', catalog_CatalogDataImages),
     (''State'', Scalar), (''Stage'', Scalar), (''Reason'', Scalar), (''Message'', Scalar),
     (''StartedAt'', lib ''metav1.Time''), (''RecoveredAt'', Pointer (lib ''metav1.Time'')),
     (''LastSuccessful'', Pointer catalog_CatalogActivationSuccess)]"

definition catalog_CatalogActivationStatus_DeepCopyInto :: "(string \<Rightarrow> copier) \<Rightarrow> copier" where
  "catalog_CatalogActivationStatus_DeepCopyInto cp = copy_into [
     (''RequestedImages'', keep), (''Images'', keep), (''StartedAt'', cp ''metav1.Time''),
     (''RecoveredAt'', new_copy (cp ''metav1.Time'')), (''LastSuccessful'', new_copy keep)]"

definition catalog_CatalogActivationStatus_DeepCopy :: "(string \<Rightarrow> copier) \<Rightarrow> copier" where
  "catalog_CatalogActivationStatus_DeepCopy cp = new_copy (catalog_CatalogActivationStatus_DeepCopyInto cp)"

lemma catalog_CatalogActivationStatus_copies [copies]:
  "library_contract lib cp \<Longrightarrow> deep_copier (catalog_CatalogActivationStatus lib) (catalog_CatalogActivationStatus_DeepCopyInto cp)"
  by (simp add: catalog_CatalogActivationStatus_def catalog_CatalogActivationStatus_DeepCopyInto_def copies library)

definition catalog_CatalogStatus :: "(string \<Rightarrow> ty) \<Rightarrow> ty" where
  "catalog_CatalogStatus lib = StructOf [
     (''Activation'', Pointer (catalog_CatalogActivationStatus lib)),
     (''Conditions'', SliceOf (lib ''metav1.Condition'')),
     (''ResolvedImages'', Pointer catalog_CatalogDataImages), (''ObservedGeneration'', Scalar)]"

definition catalog_CatalogStatus_DeepCopyInto :: "(string \<Rightarrow> copier) \<Rightarrow> copier" where
  "catalog_CatalogStatus_DeepCopyInto cp = copy_into [
     (''Activation'', new_copy (catalog_CatalogActivationStatus_DeepCopyInto cp)),
     (''Conditions'', each_copy (cp ''metav1.Condition'')), (''ResolvedImages'', new_copy keep)]"

definition catalog_CatalogStatus_DeepCopy :: "(string \<Rightarrow> copier) \<Rightarrow> copier" where
  "catalog_CatalogStatus_DeepCopy cp = new_copy (catalog_CatalogStatus_DeepCopyInto cp)"

lemma catalog_CatalogStatus_copies [copies]:
  "library_contract lib cp \<Longrightarrow> deep_copier (catalog_CatalogStatus lib) (catalog_CatalogStatus_DeepCopyInto cp)"
  by (simp add: catalog_CatalogStatus_def catalog_CatalogStatus_DeepCopyInto_def copies library)

definition catalog_Catalog :: "(string \<Rightarrow> ty) \<Rightarrow> ty" where
  "catalog_Catalog lib = StructOf [
     (''TypeMeta'', lib ''metav1.TypeMeta''), (''ObjectMeta'', lib ''metav1.ObjectMeta''),
     (''Spec'', catalog_CatalogSpec lib), (''Status'', catalog_CatalogStatus lib)]"

definition catalog_Catalog_DeepCopyInto :: "(string \<Rightarrow> copier) \<Rightarrow> copier" where
  "catalog_Catalog_DeepCopyInto cp = copy_into [
     (''TypeMeta'', keep), (''ObjectMeta'', cp ''metav1.ObjectMeta''),
     (''Spec'', catalog_CatalogSpec_DeepCopyInto cp),
     (''Status'', catalog_CatalogStatus_DeepCopyInto cp)]"

definition catalog_Catalog_DeepCopy :: "(string \<Rightarrow> copier) \<Rightarrow> copier" where
  "catalog_Catalog_DeepCopy cp = new_copy (catalog_Catalog_DeepCopyInto cp)"

definition catalog_Catalog_DeepCopyObject :: "(string \<Rightarrow> copier) \<Rightarrow> go \<Rightarrow> memory
    \<Rightarrow> ((string \<times> go) option \<times> memory) option" where
  "catalog_Catalog_DeepCopyObject cp p m = as_object ''*v1alpha1.Catalog'' (catalog_Catalog_DeepCopy cp p m)"

lemma catalog_Catalog_copies [copies]:
  "library_contract lib cp \<Longrightarrow> deep_copier (catalog_Catalog lib) (catalog_Catalog_DeepCopyInto cp)"
  by (simp add: catalog_Catalog_def catalog_Catalog_DeepCopyInto_def copies library)

definition catalog_CatalogList :: "(string \<Rightarrow> ty) \<Rightarrow> ty" where
  "catalog_CatalogList lib = StructOf [
     (''TypeMeta'', lib ''metav1.TypeMeta''), (''ListMeta'', lib ''metav1.ListMeta''),
     (''Items'', SliceOf (catalog_Catalog lib))]"

definition catalog_CatalogList_DeepCopyInto :: "(string \<Rightarrow> copier) \<Rightarrow> copier" where
  "catalog_CatalogList_DeepCopyInto cp = copy_into [
     (''TypeMeta'', keep), (''ListMeta'', cp ''metav1.ListMeta''),
     (''Items'', each_copy (catalog_Catalog_DeepCopyInto cp))]"

definition catalog_CatalogList_DeepCopy :: "(string \<Rightarrow> copier) \<Rightarrow> copier" where
  "catalog_CatalogList_DeepCopy cp = new_copy (catalog_CatalogList_DeepCopyInto cp)"

definition catalog_CatalogList_DeepCopyObject :: "(string \<Rightarrow> copier) \<Rightarrow> go \<Rightarrow> memory
    \<Rightarrow> ((string \<times> go) option \<times> memory) option" where
  "catalog_CatalogList_DeepCopyObject cp p m = as_object ''*v1alpha1.CatalogList'' (catalog_CatalogList_DeepCopy cp p m)"

lemma catalog_CatalogList_copies [copies]:
  "library_contract lib cp \<Longrightarrow> deep_copier (catalog_CatalogList lib) (catalog_CatalogList_DeepCopyInto cp)"
  by (simp add: catalog_CatalogList_def catalog_CatalogList_DeepCopyInto_def copies library)

definition hub_GatewaySpec :: "ty" where
  "hub_GatewaySpec = StructOf [
     (''Domain'', Scalar)]"

definition hub_GatewaySpec_DeepCopyInto :: "copier" where
  "hub_GatewaySpec_DeepCopyInto = copy_into []"

definition hub_GatewaySpec_DeepCopy :: "copier" where
  "hub_GatewaySpec_DeepCopy = new_copy hub_GatewaySpec_DeepCopyInto"

lemma hub_GatewaySpec_flat [simp]: "flat hub_GatewaySpec"
  by (simp add: hub_GatewaySpec_def)

lemma hub_GatewaySpec_copies [copies]:
  "deep_copier hub_GatewaySpec hub_GatewaySpec_DeepCopyInto"
  by (simp add: hub_GatewaySpec_def hub_GatewaySpec_DeepCopyInto_def copies)

definition hub_AIHubSpec :: "ty" where
  "hub_AIHubSpec = StructOf [
     (''ApplicationNamespace'', Scalar), (''InstancesNamespace'', Scalar),
     (''Gateway'', Pointer hub_GatewaySpec)]"

definition hub_AIHubSpec_DeepCopyInto :: "copier" where
  "hub_AIHubSpec_DeepCopyInto = copy_into [
     (''Gateway'', new_copy keep)]"

definition hub_AIHubSpec_DeepCopy :: "copier" where
  "hub_AIHubSpec_DeepCopy = new_copy hub_AIHubSpec_DeepCopyInto"

lemma hub_AIHubSpec_copies [copies]:
  "deep_copier hub_AIHubSpec hub_AIHubSpec_DeepCopyInto"
  by (simp add: hub_AIHubSpec_def hub_AIHubSpec_DeepCopyInto_def copies)

definition hub_AIHubStatus :: "(string \<Rightarrow> ty) \<Rightarrow> ty" where
  "hub_AIHubStatus lib = StructOf [
     (''Status'', lib ''common.Status''),
     (''ComponentReleaseStatus'', lib ''common.ComponentReleaseStatus'')]"

definition hub_AIHubStatus_DeepCopyInto :: "(string \<Rightarrow> copier) \<Rightarrow> copier" where
  "hub_AIHubStatus_DeepCopyInto cp = copy_into [
     (''Status'', cp ''common.Status''),
     (''ComponentReleaseStatus'', cp ''common.ComponentReleaseStatus'')]"

definition hub_AIHubStatus_DeepCopy :: "(string \<Rightarrow> copier) \<Rightarrow> copier" where
  "hub_AIHubStatus_DeepCopy cp = new_copy (hub_AIHubStatus_DeepCopyInto cp)"

lemma hub_AIHubStatus_copies [copies]:
  "library_contract lib cp \<Longrightarrow> deep_copier (hub_AIHubStatus lib) (hub_AIHubStatus_DeepCopyInto cp)"
  by (simp add: hub_AIHubStatus_def hub_AIHubStatus_DeepCopyInto_def copies library)

definition hub_AIHub :: "(string \<Rightarrow> ty) \<Rightarrow> ty" where
  "hub_AIHub lib = StructOf [
     (''TypeMeta'', lib ''metav1.TypeMeta''), (''ObjectMeta'', lib ''metav1.ObjectMeta''),
     (''Spec'', hub_AIHubSpec), (''Status'', hub_AIHubStatus lib)]"

definition hub_AIHub_DeepCopyInto :: "(string \<Rightarrow> copier) \<Rightarrow> copier" where
  "hub_AIHub_DeepCopyInto cp = copy_into [
     (''TypeMeta'', keep), (''ObjectMeta'', cp ''metav1.ObjectMeta''),
     (''Spec'', hub_AIHubSpec_DeepCopyInto), (''Status'', hub_AIHubStatus_DeepCopyInto cp)]"

definition hub_AIHub_DeepCopy :: "(string \<Rightarrow> copier) \<Rightarrow> copier" where
  "hub_AIHub_DeepCopy cp = new_copy (hub_AIHub_DeepCopyInto cp)"

definition hub_AIHub_DeepCopyObject :: "(string \<Rightarrow> copier) \<Rightarrow> go \<Rightarrow> memory
    \<Rightarrow> ((string \<times> go) option \<times> memory) option" where
  "hub_AIHub_DeepCopyObject cp p m = as_object ''*v1alpha1.AIHub'' (hub_AIHub_DeepCopy cp p m)"

lemma hub_AIHub_copies [copies]:
  "library_contract lib cp \<Longrightarrow> deep_copier (hub_AIHub lib) (hub_AIHub_DeepCopyInto cp)"
  by (simp add: hub_AIHub_def hub_AIHub_DeepCopyInto_def copies library)

definition hub_AIHubList :: "(string \<Rightarrow> ty) \<Rightarrow> ty" where
  "hub_AIHubList lib = StructOf [
     (''TypeMeta'', lib ''metav1.TypeMeta''), (''ListMeta'', lib ''metav1.ListMeta''),
     (''Items'', SliceOf (hub_AIHub lib))]"

definition hub_AIHubList_DeepCopyInto :: "(string \<Rightarrow> copier) \<Rightarrow> copier" where
  "hub_AIHubList_DeepCopyInto cp = copy_into [
     (''TypeMeta'', keep), (''ListMeta'', cp ''metav1.ListMeta''),
     (''Items'', each_copy (hub_AIHub_DeepCopyInto cp))]"

definition hub_AIHubList_DeepCopy :: "(string \<Rightarrow> copier) \<Rightarrow> copier" where
  "hub_AIHubList_DeepCopy cp = new_copy (hub_AIHubList_DeepCopyInto cp)"

definition hub_AIHubList_DeepCopyObject :: "(string \<Rightarrow> copier) \<Rightarrow> go \<Rightarrow> memory
    \<Rightarrow> ((string \<times> go) option \<times> memory) option" where
  "hub_AIHubList_DeepCopyObject cp p m = as_object ''*v1alpha1.AIHubList'' (hub_AIHubList_DeepCopy cp p m)"

lemma hub_AIHubList_copies [copies]:
  "library_contract lib cp \<Longrightarrow> deep_copier (hub_AIHubList lib) (hub_AIHubList_DeepCopyInto cp)"
  by (simp add: hub_AIHubList_def hub_AIHubList_DeepCopyInto_def copies library)

end
