(* ===== verification/Deep_Copies.thy ===== *)
theory Deep_Copies
  imports Copies_Registry Copies_Modules
begin

text \<open>Every generated deep copy of the API packages, as one table, and what a controller relies on
when it changes an object: the reconcilers keep a \<^verbatim>\<open>DeepCopy\<close> of an object (\<^verbatim>\<open>statusBefore\<close> and
\<^verbatim>\<open>beforeResolution\<close> in the Catalog reconciler, \<^verbatim>\<open>originalSpec\<close> in the registry reconciler, \<^verbatim>\<open>updated\<close>
in the AIHub reconciler), change the one and compare or patch with the other. The copy is equal to the
original and shares no memory with it.\<close>

definition api_copies :: "(string \<Rightarrow> ty) \<Rightarrow> (string \<Rightarrow> copier) \<Rightarrow> (ty \<times> copier) list" where
  "api_copies lib cp = [
     (Pointer v1alpha1_ConfigMapKeyValue, v1alpha1_ConfigMapKeyValue_DeepCopy),
     (Pointer v1alpha1_SecretKeyValue, v1alpha1_SecretKeyValue_DeepCopy),
     (Pointer v1alpha1_PostgresConfig, v1alpha1_PostgresConfig_DeepCopy),
     (Pointer v1alpha1_MySQLConfig, v1alpha1_MySQLConfig_DeepCopy),
     (Pointer (v1alpha1_RestSpec lib), v1alpha1_RestSpec_DeepCopy cp),
     (Pointer (v1alpha1_GrpcSpec lib), v1alpha1_GrpcSpec_DeepCopy cp),
     (Pointer v1alpha1_TLSServerSettings, v1alpha1_TLSServerSettings_DeepCopy),
     (Pointer v1alpha1_ServerConfig, v1alpha1_ServerConfig_DeepCopy),
     (Pointer v1alpha1_GatewayConfig, v1alpha1_GatewayConfig_DeepCopy),
     (Pointer v1alpha1_IstioConfig, v1alpha1_IstioConfig_DeepCopy),
     (Pointer v1alpha1_OAuthProxyConfig, v1alpha1_OAuthProxyConfig_DeepCopy),
     (Pointer (v1alpha1_ModelRegistrySpec lib), v1alpha1_ModelRegistrySpec_DeepCopy cp),
     (Pointer (v1alpha1_ModelRegistryStatus lib), v1alpha1_ModelRegistryStatus_DeepCopy cp),
     (Pointer (v1alpha1_ModelRegistry lib), v1alpha1_ModelRegistry_DeepCopy cp),
     (Pointer (v1alpha1_ModelRegistryList lib), v1alpha1_ModelRegistryList_DeepCopy cp),
     (Pointer v1beta1_ConfigMapKeyValue, v1beta1_ConfigMapKeyValue_DeepCopy),
     (Pointer v1beta1_SecretKeyValue, v1beta1_SecretKeyValue_DeepCopy),
     (Pointer v1beta1_PostgresConfig, v1beta1_PostgresConfig_DeepCopy),
     (Pointer v1beta1_MySQLConfig, v1beta1_MySQLConfig_DeepCopy),
     (Pointer (v1beta1_RestSpec lib), v1beta1_RestSpec_DeepCopy cp),
     (Pointer (v1beta1_GrpcSpec lib), v1beta1_GrpcSpec_DeepCopy cp),
     (Pointer v1beta1_OAuthProxyConfig, v1beta1_OAuthProxyConfig_DeepCopy),
     (Pointer v1beta1_KubeRBACProxyConfig, v1beta1_KubeRBACProxyConfig_DeepCopy),
     (Pointer (v1beta1_ModelRegistrySpec lib), v1beta1_ModelRegistrySpec_DeepCopy cp),
     (Pointer (v1beta1_ModelRegistryStatus lib), v1beta1_ModelRegistryStatus_DeepCopy cp),
     (Pointer (v1beta1_ModelRegistry lib), v1beta1_ModelRegistry_DeepCopy cp),
     (Pointer (v1beta1_ModelRegistryList lib), v1beta1_ModelRegistryList_DeepCopy cp),
     (Pointer (catalog_CatalogResources lib), catalog_CatalogResources_DeepCopy cp),
     (Pointer (catalog_CatalogDatabaseVolume lib), catalog_CatalogDatabaseVolume_DeepCopy cp),
     (Pointer (catalog_CatalogDatabase lib), catalog_CatalogDatabase_DeepCopy cp),
     (Pointer catalog_ProxyConfig, catalog_ProxyConfig_DeepCopy),
     (Pointer (catalog_CatalogSpec lib), catalog_CatalogSpec_DeepCopy cp),
     (Pointer catalog_CatalogDataImages, catalog_CatalogDataImages_DeepCopy),
     (Pointer (catalog_CatalogStatus lib), catalog_CatalogStatus_DeepCopy cp),
     (Pointer catalog_CatalogActivationSuccess, catalog_CatalogActivationSuccess_DeepCopy),
     (Pointer (catalog_CatalogActivationStatus lib), catalog_CatalogActivationStatus_DeepCopy cp),
     (Pointer (catalog_Catalog lib), catalog_Catalog_DeepCopy cp),
     (Pointer (catalog_CatalogList lib), catalog_CatalogList_DeepCopy cp),
     (Pointer hub_GatewaySpec, hub_GatewaySpec_DeepCopy),
     (Pointer hub_AIHubSpec, hub_AIHubSpec_DeepCopy),
     (Pointer (hub_AIHubStatus lib), hub_AIHubStatus_DeepCopy cp),
     (Pointer (hub_AIHub lib), hub_AIHub_DeepCopy cp),
     (Pointer (hub_AIHubList lib), hub_AIHubList_DeepCopy cp)]"

lemmas copy_defs =
  v1alpha1_ConfigMapKeyValue_DeepCopy_def v1alpha1_SecretKeyValue_DeepCopy_def
  v1alpha1_PostgresConfig_DeepCopy_def v1alpha1_MySQLConfig_DeepCopy_def
  v1alpha1_RestSpec_DeepCopy_def v1alpha1_GrpcSpec_DeepCopy_def
  v1alpha1_TLSServerSettings_DeepCopy_def v1alpha1_ServerConfig_DeepCopy_def
  v1alpha1_GatewayConfig_DeepCopy_def v1alpha1_IstioConfig_DeepCopy_def
  v1alpha1_OAuthProxyConfig_DeepCopy_def v1alpha1_ModelRegistrySpec_DeepCopy_def
  v1alpha1_ModelRegistryStatus_DeepCopy_def v1alpha1_ModelRegistry_DeepCopy_def
  v1alpha1_ModelRegistryList_DeepCopy_def v1beta1_ConfigMapKeyValue_DeepCopy_def
  v1beta1_SecretKeyValue_DeepCopy_def v1beta1_PostgresConfig_DeepCopy_def
  v1beta1_MySQLConfig_DeepCopy_def v1beta1_RestSpec_DeepCopy_def v1beta1_GrpcSpec_DeepCopy_def
  v1beta1_OAuthProxyConfig_DeepCopy_def v1beta1_KubeRBACProxyConfig_DeepCopy_def
  v1beta1_ModelRegistrySpec_DeepCopy_def v1beta1_ModelRegistryStatus_DeepCopy_def
  v1beta1_ModelRegistry_DeepCopy_def v1beta1_ModelRegistryList_DeepCopy_def
  catalog_CatalogResources_DeepCopy_def catalog_CatalogDatabaseVolume_DeepCopy_def
  catalog_CatalogDatabase_DeepCopy_def catalog_ProxyConfig_DeepCopy_def
  catalog_CatalogSpec_DeepCopy_def catalog_CatalogDataImages_DeepCopy_def
  catalog_CatalogStatus_DeepCopy_def catalog_CatalogActivationSuccess_DeepCopy_def
  catalog_CatalogActivationStatus_DeepCopy_def catalog_Catalog_DeepCopy_def
  catalog_CatalogList_DeepCopy_def hub_GatewaySpec_DeepCopy_def hub_AIHubSpec_DeepCopy_def
  hub_AIHubStatus_DeepCopy_def hub_AIHub_DeepCopy_def hub_AIHubList_DeepCopy_def

text \<open>The kinds registered in a scheme, with the copy that the machinery of the client library calls.\<close>

definition object_copies :: "(string \<Rightarrow> ty) \<Rightarrow> (string \<Rightarrow> copier)
    \<Rightarrow> (ty \<times> string \<times> (go \<Rightarrow> memory \<Rightarrow> ((string \<times> go) option \<times> memory) option)) list" where
  "object_copies lib cp = [
     (v1alpha1_ModelRegistry lib, ''*v1alpha1.ModelRegistry'', v1alpha1_ModelRegistry_DeepCopyObject cp),
     (v1alpha1_ModelRegistryList lib, ''*v1alpha1.ModelRegistryList'', v1alpha1_ModelRegistryList_DeepCopyObject cp),
     (v1beta1_ModelRegistry lib, ''*v1beta1.ModelRegistry'', v1beta1_ModelRegistry_DeepCopyObject cp),
     (v1beta1_ModelRegistryList lib, ''*v1beta1.ModelRegistryList'', v1beta1_ModelRegistryList_DeepCopyObject cp),
     (catalog_Catalog lib, ''*v1alpha1.Catalog'', catalog_Catalog_DeepCopyObject cp),
     (catalog_CatalogList lib, ''*v1alpha1.CatalogList'', catalog_CatalogList_DeepCopyObject cp),
     (hub_AIHub lib, ''*v1alpha1.AIHub'', hub_AIHub_DeepCopyObject cp),
     (hub_AIHubList lib, ''*v1alpha1.AIHubList'', hub_AIHubList_DeepCopyObject cp)]"

lemmas object_defs =
  v1alpha1_ModelRegistry_DeepCopyObject_def v1alpha1_ModelRegistryList_DeepCopyObject_def
  v1beta1_ModelRegistry_DeepCopyObject_def v1beta1_ModelRegistryList_DeepCopyObject_def
  catalog_Catalog_DeepCopyObject_def catalog_CatalogList_DeepCopyObject_def
  hub_AIHub_DeepCopyObject_def hub_AIHubList_DeepCopyObject_def

lemma api_copies_deep:
  assumes "library_contract lib cp" "(T, copy) \<in> set (api_copies lib cp)"
  shows "deep_copier T copy"
proof -
  have "\<forall>e\<in>set (api_copies lib cp). deep_copier (fst e) (snd e)"
    by (simp add: api_copies_def copy_defs copies assms(1))
  then show ?thesis
    using assms(2) by fastforce
qed

text \<open>The contract at the types without a part of a library.\<close>

interpretation registry_proxy: deep_copier v1beta1_KubeRBACProxyConfig v1beta1_KubeRBACProxyConfig_DeepCopyInto
  by (rule v1beta1_KubeRBACProxyConfig_copies)

interpretation registry_postgres: deep_copier v1beta1_PostgresConfig v1beta1_PostgresConfig_DeepCopyInto
  by (rule v1beta1_PostgresConfig_copies)

interpretation hub_spec: deep_copier hub_AIHubSpec hub_AIHubSpec_DeepCopyInto
  by (rule hub_AIHubSpec_copies)

text \<open>The proxy configuration of a registry can be changed through its copy: the original keeps its
port, secrets and route port.\<close>

lemma proxy_unchanged_by_copy:
  assumes "view v1beta1_KubeRBACProxyConfig m v = Some t"
    and "v1beta1_KubeRBACProxyConfig_DeepCopyInto v m = Some (y, m')"
    and "a \<in> reach v1beta1_KubeRBACProxyConfig m' y"
  shows "view v1beta1_KubeRBACProxyConfig (m'[a := c]) v = Some t"
  by (rule registry_proxy.original_unchanged[OF assms(1,2)])
    (use assms(3) in \<open>auto simp: agree_def intro!: nth_list_update_neq\<close>)

text \<open>A nil receiver yields the untyped nil, so a caller may compare the object with nil.\<close>

lemma object_copies_nil:
  "(T, name, copy) \<in> set (object_copies lib cp) \<Longrightarrow> copy Nil_ref m = Some (None, m)"
  by (auto simp: object_copies_def object_defs copy_defs as_object_def new_copy_def)

text \<open>The pointers behind the objects.\<close>

definition object_pointers :: "(string \<Rightarrow> ty) \<Rightarrow> (string \<Rightarrow> copier) \<Rightarrow> (ty \<times> string \<times> copier) list" where
  "object_pointers lib cp = [
     (v1alpha1_ModelRegistry lib, ''*v1alpha1.ModelRegistry'', v1alpha1_ModelRegistry_DeepCopy cp),
     (v1alpha1_ModelRegistryList lib, ''*v1alpha1.ModelRegistryList'', v1alpha1_ModelRegistryList_DeepCopy cp),
     (v1beta1_ModelRegistry lib, ''*v1beta1.ModelRegistry'', v1beta1_ModelRegistry_DeepCopy cp),
     (v1beta1_ModelRegistryList lib, ''*v1beta1.ModelRegistryList'', v1beta1_ModelRegistryList_DeepCopy cp),
     (catalog_Catalog lib, ''*v1alpha1.Catalog'', catalog_Catalog_DeepCopy cp),
     (catalog_CatalogList lib, ''*v1alpha1.CatalogList'', catalog_CatalogList_DeepCopy cp),
     (hub_AIHub lib, ''*v1alpha1.AIHub'', hub_AIHub_DeepCopy cp),
     (hub_AIHubList lib, ''*v1alpha1.AIHubList'', hub_AIHubList_DeepCopy cp)]"

lemma object_copies_pointers:
  "object_copies lib cp
    = map (\<lambda>(T, name, f). (T, name, \<lambda>p m. as_object name (f p m))) (object_pointers lib cp)"
  by (simp add: object_copies_def object_pointers_def object_defs fun_eq_iff)

lemma object_pointers_deep:
  assumes "library_contract lib cp" "(T, name, f) \<in> set (object_pointers lib cp)"
  shows "deep_copier (Pointer T) f"
proof -
  have "\<forall>e\<in>set (object_pointers lib cp). deep_copier (Pointer (fst e)) (snd (snd e))"
    by (simp add: object_pointers_def copy_defs copies assms(1))
  then show ?thesis
    using assms(2) by fastforce
qed

lemma object_copies_copy:
  assumes "library_contract lib cp" "(T, name, copy) \<in> set (object_copies lib cp)"
    and "view (Pointer T) m (Ref a) = Some t"
  shows "\<exists>b m'. copy (Ref a) m = Some (Some (name, Ref b), m') \<and> view (Pointer T) m' (Ref b) = Some t
    \<and> length m \<le> b"
proof -
  have obj: "\<exists>b m'. as_object name (f (Ref a) m) = Some (Some (name, Ref b), m')
      \<and> view (Pointer T) m' (Ref b) = Some t \<and> length m \<le> b"
    if d: "deep_copier (Pointer T) f" for f
  proof -
    obtain y ys where y: "f (Ref a) m = Some (y, m @ ys)" "view (Pointer T) (m @ ys) y = Some t"
      "\<And>b. b \<in> reach (Pointer T) (m @ ys) y \<Longrightarrow> length m \<le> b"
      using deep_copier.copy_exists[OF d assms(3)] by blast
    have "t \<noteq> Nothing"
      using assms(3) by (auto split: Option.bind_splits)
    then obtain b where b: "y = Ref b"
      using y(2) by (cases y) auto
    have "length m \<le> b"
      using y(3) unfolding b by auto
    then show ?thesis
      using y(1,2) unfolding b as_object_def by auto
  qed
  obtain f where "(T, name, f) \<in> set (object_pointers lib cp)" "copy = (\<lambda>p m. as_object name (f p m))"
    using assms(2) by (auto simp: object_copies_pointers)
  then show ?thesis
    using obj object_pointers_deep[OF assms(1)] by blast
qed

text \<open>
  C27: Every generated \<^verbatim>\<open>DeepCopy\<close> of the four API packages, given library types that copy
  themselves deeply, never faults, yields a pointer that reads as the original, shares no memory with
  it, and leaves the original as it was whatever is then written to the memory of the copy.
\<close>

theorem deep_copies_isolate:
  assumes "library_contract lib cp" "(T, copy) \<in> set (api_copies lib cp)" "view T m p = Some t"
  shows "\<exists>q m'. copy p m = Some (q, m') \<and> view T m' q = Some t \<and> reach T m p \<inter> reach T m' q = {}
    \<and> (\<forall>m''. agree ({..<length m'} - reach T m' q) m' m'' \<longrightarrow> view T m'' p = Some t)"
proof -
  have d: "deep_copier T copy"
    by (rule api_copies_deep[OF assms(1,2)])
  obtain q ys where q: "copy p m = Some (q, m @ ys)" "view T (m @ ys) q = Some t"
    using deep_copier.copy_exists[OF d assms(3)] by blast
  show ?thesis
    using q deep_copier.isolated[OF d assms(3) q(1)] deep_copier.original_unchanged[OF d assms(3) q(1)]
    by blast
qed

text \<open>A registry spec of which the gRPC part has a port and resources: the copy has both in memory of
its own.\<close>

definition grpc_memory :: memory where
  "grpc_memory = [[Plain ''9090''], [Plain ''cpu: 1''],
     [Struct [(''Port'', Ref 0), (''Resources'', Ref 1), (''Image'', Plain ''grpc:1'')]]]"

theorem deep_copies_isolate_witness:
  "\<exists>q m'. v1beta1_GrpcSpec_DeepCopy (\<lambda>_. keep) (Ref 2) grpc_memory = Some (q, m')
    \<and> view (Pointer (v1beta1_GrpcSpec (\<lambda>_. Scalar))) m' q
      = view (Pointer (v1beta1_GrpcSpec (\<lambda>_. Scalar))) grpc_memory (Ref 2)
    \<and> reach (Pointer (v1beta1_GrpcSpec (\<lambda>_. Scalar))) grpc_memory (Ref 2)
        \<inter> reach (Pointer (v1beta1_GrpcSpec (\<lambda>_. Scalar))) m' q = {}"
proof -
  have c: "library_contract (\<lambda>_. Scalar) (\<lambda>_. keep)"
    by (simp add: library copies)
  have i: "(Pointer (v1beta1_GrpcSpec (\<lambda>_. Scalar)), v1beta1_GrpcSpec_DeepCopy (\<lambda>_. keep))
      \<in> set (api_copies (\<lambda>_. Scalar) (\<lambda>_. keep))"
    by (simp add: api_copies_def)
  have v: "view (Pointer (v1beta1_GrpcSpec (\<lambda>_. Scalar))) grpc_memory (Ref 2)
      = Some (Pointee (Fields [(''Port'', Pointee (Leaf ''9090'')), (''Resources'', Pointee (Leaf ''cpu: 1'')),
          (''Image'', Leaf ''grpc:1'')]))"
    by (simp add: v1beta1_GrpcSpec_def grpc_memory_def load_def)
  show ?thesis
    using deep_copies_isolate[OF c i v] v by auto
qed

end
