(* ===== verification/Catalog_Content.thy ===== *)
theory Catalog_Content
  imports Prelude
begin

text \<open>
  \<^verbatim>\<open>internal/catalogcontent/validate.go\<close>: the init container's check of the shipped catalog and
  benchmark data. The file system, the YAML and JSON parsers, \<^verbatim>\<open>url.Parse\<close> and the struct decoding
  are the arguments of \<open>content_env\<close>; the shape checks on parsed documents are modelled on
  the datatype of JSON values. A Go map that only records what was seen is a list.
\<close>

datatype json = JNull | JBool bool | JNumber string | JString string | JArray "json list"
  | JObject "(string \<times> json) list"

type_synonym jobject = "(string \<times> json) list"

record Failure =
  f_stage :: string
  f_reason :: string
  f_message :: string

record Source =
  src_id :: string
  src_type :: string
  src_enabled :: "bool option"
  src_path :: string

record Config =
  c_models :: "Source list"
  c_legacyModels :: "Source list"
  c_mcp :: "Source list"
  c_agents :: "Source list"
  c_runtimes :: "Source list"
  c_skills :: "Source list"

record walk_entry =
  we_path :: string
  we_name :: string
  we_isDir :: bool
  we_error :: "go_error option"

record content_env =
  ce_read :: "string \<Rightarrow> go_error + string"
  ce_isDir :: "string \<Rightarrow> go_error + bool"
  ce_walk :: "string \<Rightarrow> walk_entry list"
  ce_sibling :: "string \<Rightarrow> string \<Rightarrow> string" \<comment> \<open>\<^verbatim>\<open>filepath.Join(filepath.Dir(path), name)\<close>\<close>
  ce_documents :: "string \<Rightarrow> (go_error + string) list" \<comment> \<open>what the YAML reader returns before EOF\<close>
  ce_yaml :: "string \<Rightarrow> go_error + json" \<comment> \<open>\<^verbatim>\<open>yaml.YAMLToJSONStrict\<close> and the JSON parser\<close>
  ce_json :: "string \<Rightarrow> go_error + json"
  ce_decodeConfig :: "json \<Rightarrow> go_error + Config"
  ce_decodeId :: "string \<Rightarrow> go_error + string"
  ce_url :: "string \<Rightarrow> go_error + (string \<times> string)" \<comment> \<open>scheme, host\<close>
  ce_yamlKeys :: "string \<Rightarrow> go_error + string list" \<comment> \<open>the keys with a value of a strict YAML object\<close>
  ce_typeError :: "json \<Rightarrow> go_error"
  ce_quote :: "string \<Rightarrow> string"
  ce_toLower :: "string \<Rightarrow> string"

section \<open>Failures\<close>

definition publicMessage :: "Failure \<Rightarrow> string" where
  "publicMessage f = (if f_reason f = ''BenchmarkContentInvalid'' then ''Shipped benchmark content failed validation''
     else ''Shipped catalog content failed validation'')"

definition failure_Error :: "Failure \<Rightarrow> string" where
  "failure_Error f = f_stage f @ '': '' @ f_reason f @ '': '' @ publicMessage f"

text \<open>What \<^verbatim>\<open>Write\<close> marshals; writing the file is not modelled.\<close>

definition bounded :: "Failure \<Rightarrow> Failure" where
  "bounded f = f\<lparr>f_message := publicMessage f\<rparr>"

section \<open>Reading files\<close>

definition maxYAMLBytes :: int where "maxYAMLBytes = 32 * 1048576"
definition maxNDJSONRecordBytes :: int where "maxNDJSONRecordBytes = 16 * 1048576"

definition readBoundedFile :: "content_env \<Rightarrow> string \<Rightarrow> int \<Rightarrow> go_error + string" where
  "readBoundedFile E path maxBytes =
     (case ce_read E path of
        Inl e \<Rightarrow> Inl e
      | Inr data \<Rightarrow> if int (length data) > maxBytes
                    then Inl (ErrorText (path @ '' exceeds '' @ show_int maxBytes @ '' bytes'')) else Inr data)"

fun no_more_documents :: "string \<Rightarrow> (go_error + string) list \<Rightarrow> go_error option" where
  "no_more_documents path [] = None"
| "no_more_documents path (Inl e # ds) = Some e"
| "no_more_documents path (Inr d # ds) =
     (if trimSpace d \<noteq> [] then Some (ErrorText (path @ '': multiple YAML documents are not supported''))
      else no_more_documents path ds)"

definition readYAML :: "content_env \<Rightarrow> string \<Rightarrow> go_error + json" where
  "readYAML E path =
     (case readBoundedFile E path maxYAMLBytes of
        Inl e \<Rightarrow> Inl e
      | Inr data \<Rightarrow>
          (case ce_documents E data of
             [] \<Rightarrow> Inl (Wrapped path (ErrorText ''EOF''))
           | Inl e # _ \<Rightarrow> Inl (Wrapped path e)
           | Inr _ # ds \<Rightarrow>
               (case no_more_documents path ds of
                  Some e \<Rightarrow> Inl e
                | None \<Rightarrow> (case ce_yaml E data of Inl e \<Rightarrow> Inl (Wrapped path e) | Inr v \<Rightarrow> Inr v))))"

definition readConfig :: "content_env \<Rightarrow> string \<Rightarrow> go_error + Config" where
  "readConfig E path =
     (case readYAML E path of
        Inl e \<Rightarrow> Inl e
      | Inr v \<Rightarrow> (case ce_decodeConfig E v of Inl e \<Rightarrow> Inl (Wrapped path e) | Inr c \<Rightarrow> Inr c))"

section \<open>Sources\<close>

definition groups :: "Config \<Rightarrow> (string \<times> Source list) list" where
  "groups c =
     [(''models'', c_models c @ filter (\<lambda>s. src_id s \<notin> src_id ` set (c_models c)) (c_legacyModels c)),
      (''mcp_servers'', c_mcp c), (''agents'', c_agents c), (''serving_runtimes'', c_runtimes c),
      (''skills'', c_skills c)]"

definition keyed :: "Config \<Rightarrow> (string \<times> Source) list" where
  "keyed c = concat (map (\<lambda>(k, ss). map (\<lambda>s. (k, s)) ss) (groups c))"

definition disabled :: "Source \<Rightarrow> bool" where
  "disabled s = (src_enabled s = Some False)"

fun collect_sources :: "content_env \<Rightarrow> string list \<Rightarrow> (string \<times> Source) list \<Rightarrow> go_error + Source list" where
  "collect_sources E ids [] = Inr []"
| "collect_sources E ids ((key, s) # rest) =
     (if trimSpace (src_id s) = [] \<or> src_id s \<in> set ids
      then Inl (ErrorText (''empty or duplicate source ID '' @ ce_quote E (src_id s)))
      else if disabled s then collect_sources E (src_id s # ids) rest
      else if key = ''skills'' then Inl (ErrorText ''shipped skill sources are not supported'')
      else if src_type s \<noteq> ''yaml'' \<or> src_path s = []
      then Inl (ErrorText (''source '' @ src_id s @ '' must specify a YAML catalog path''))
      else (case collect_sources E (src_id s # ids) rest of Inl e \<Rightarrow> Inl e | Inr ss \<Rightarrow> Inr (s # ss)))"

definition Sources :: "content_env \<Rightarrow> string \<Rightarrow> go_error + Source list" where
  "Sources E path =
     (case readConfig E path of
        Inl e \<Rightarrow> Inl e
      | Inr c \<Rightarrow>
          (case collect_sources E [] (keyed c) of
             Inl e \<Rightarrow> Inl e
           | Inr [] \<Rightarrow> Inl (ErrorText (''no enabled shipped sources in '' @ path))
           | Inr ss \<Rightarrow> Inr ss))"

section \<open>Entries\<close>

text \<open>The value of a key; the last one counts.\<close>

definition jfield :: "jobject \<Rightarrow> string \<Rightarrow> json option" where
  "jfield o' k = map_of (rev o') k"

definition stringField :: "jobject \<Rightarrow> string \<Rightarrow> string" where
  "stringField entry k = (case jfield entry k of Some (JString s) \<Rightarrow> s | _ \<Rightarrow> [])"

text \<open>
  \<^verbatim>\<open>json.Unmarshal\<close> into \<^verbatim>\<open>[]map[string]json.RawMessage\<close>: an array of objects, where null is a nil map
  (\<open>None\<close>); a null document is the empty slice.
\<close>

fun as_maps :: "content_env \<Rightarrow> json list \<Rightarrow> go_error + jobject option list" where
  "as_maps E [] = Inr []"
| "as_maps E (v # vs) =
     (case (case v of JObject fs \<Rightarrow> Inr (Some fs) | JNull \<Rightarrow> Inr None | _ \<Rightarrow> Inl (ce_typeError E v)) of
        Inl e \<Rightarrow> Inl e
      | Inr m \<Rightarrow> (case as_maps E vs of Inl e \<Rightarrow> Inl e | Inr ms \<Rightarrow> Inr (m # ms)))"

definition unmarshal_maps :: "content_env \<Rightarrow> json \<Rightarrow> go_error + jobject option list" where
  "unmarshal_maps E v = (case v of JNull \<Rightarrow> Inr [] | JArray vs \<Rightarrow> as_maps E vs | _ \<Rightarrow> Inl (ce_typeError E v))"

definition artifact_schemes :: "string list" where
  "artifact_schemes = [''oci'', ''http'', ''https'', ''s3'', ''gs'', ''az'', ''file'']"

definition uri_ok :: "content_env \<Rightarrow> jobject \<Rightarrow> bool" where
  "uri_ok E artifact = (case ce_url E (stringField artifact ''uri'') of
     Inl _ \<Rightarrow> False | Inr (scheme, host) \<Rightarrow> scheme \<in> set artifact_schemes)"

definition check_uri :: "content_env \<Rightarrow> jobject \<Rightarrow> go_error option" where
  "check_uri E artifact = (if uri_ok E artifact then None else Some (ErrorText ''invalid artifact URI''))"

definition check_artifact :: "content_env \<Rightarrow> string \<Rightarrow> jobject option \<Rightarrow> go_error option" where
  "check_artifact E kind a =
     (case a of None \<Rightarrow> Some (ErrorText ''null artifact'')
      | Some artifact \<Rightarrow>
          if kind = ''models'' then
            (case (case jfield artifact ''artifactType'' of
                     None \<Rightarrow> Inr [] | Some (JString t) \<Rightarrow> Inr t | Some JNull \<Rightarrow> Inr []
                   | Some v \<Rightarrow> Inl (Wrapped ''artifactType must be a string'' (ce_typeError E v))) of
               Inl e \<Rightarrow> Some e
             | Inr artifactType \<Rightarrow>
                 if artifactType = [] \<or> artifactType = ''model-artifact'' then check_uri E artifact
                 else if artifactType = ''metrics-artifact'' then None
                 else Some (ErrorText (''unknown artifactType '' @ ce_quote E artifactType)))
          else check_uri E artifact)"

fun first_error :: "('a \<Rightarrow> go_error option) \<Rightarrow> 'a list \<Rightarrow> go_error option" where
  "first_error f [] = None"
| "first_error f (x # xs) = (case f x of Some e \<Rightarrow> Some e | None \<Rightarrow> first_error f xs)"

definition check_artifacts :: "content_env \<Rightarrow> string \<Rightarrow> jobject \<Rightarrow> go_error option" where
  "check_artifacts E kind entry =
     (case jfield entry ''artifacts'' of None \<Rightarrow> None
      | Some raw \<Rightarrow> (case unmarshal_maps E raw of Inl e \<Rightarrow> Some e
          | Inr artifacts \<Rightarrow> first_error (check_artifact E kind) artifacts))"

definition check_tools :: "content_env \<Rightarrow> jobject \<Rightarrow> go_error option" where
  "check_tools E entry =
     (case jfield entry ''tools'' of None \<Rightarrow> None
      | Some raw \<Rightarrow> (case unmarshal_maps E raw of Inl e \<Rightarrow> Some e
          | Inr tools \<Rightarrow> first_error (\<lambda>t. if trimSpace (stringField (case t of None \<Rightarrow> [] | Some fs \<Rightarrow> fs) ''name'') = []
              then Some (ErrorText ''tool name is required'') else None) tools))"

definition endpoint_schemes :: "string list" where
  "endpoint_schemes = [''http'', ''https'', ''ws'', ''wss'']"

definition endpoint_ok :: "content_env \<Rightarrow> string \<Rightarrow> bool" where
  "endpoint_ok E endpoint = (case ce_url E endpoint of
     Inl _ \<Rightarrow> False | Inr (scheme, host) \<Rightarrow> host \<noteq> [] \<and> scheme \<in> set endpoint_schemes)"

text \<open>\<^verbatim>\<open>json.Unmarshal\<close> into \<^verbatim>\<open>map[string]string\<close>; Go ranges over it in no particular order.\<close>

fun as_strings :: "content_env \<Rightarrow> jobject \<Rightarrow> go_error + (string \<times> string) list" where
  "as_strings E [] = Inr []"
| "as_strings E ((k, v) # kvs) =
     (case (case v of JString s \<Rightarrow> Inr s | JNull \<Rightarrow> Inr [] | _ \<Rightarrow> Inl (ce_typeError E v)) of
        Inl e \<Rightarrow> Inl e
      | Inr s \<Rightarrow> (case as_strings E kvs of Inl e \<Rightarrow> Inl e | Inr r \<Rightarrow> Inr ((k, s) # r)))"

definition check_endpoints :: "content_env \<Rightarrow> jobject \<Rightarrow> go_error option" where
  "check_endpoints E entry =
     (case jfield entry ''endpoints'' of None \<Rightarrow> None
      | Some raw \<Rightarrow>
          (case (case raw of JNull \<Rightarrow> Inr [] | JObject kvs \<Rightarrow> as_strings E kvs | _ \<Rightarrow> Inl (ce_typeError E raw)) of
             Inl e \<Rightarrow> Some e
           | Inr endpoints \<Rightarrow> first_error (\<lambda>(k, u). if endpoint_ok E u then None
               else Some (ErrorText (''invalid '' @ k @ '' endpoint''))) endpoints))"

definition check_template :: "content_env \<Rightarrow> jobject \<Rightarrow> string \<Rightarrow> go_error option" where
  "check_template E version k =
     (let text = stringField version k in
      if text = [] then None
      else case ce_yamlKeys E text of
        Inl e \<Rightarrow> Some (Wrapped k e)
      | Inr ks \<Rightarrow> if ''kind'' \<notin> set ks \<or> ''apiVersion'' \<notin> set ks
                  then Some (ErrorText (k @ '' needs kind and apiVersion'')) else None)"

fun check_versions :: "content_env \<Rightarrow> string list \<Rightarrow> jobject option list \<Rightarrow> go_error option" where
  "check_versions E seen [] = None"
| "check_versions E seen (v # vs) =
     (let version = (case v of None \<Rightarrow> [] | Some fs \<Rightarrow> fs);
          id' = stringField version ''version''
      in if id' = [] \<or> id' \<in> set seen \<or> stringField version ''image'' = []
         then Some (ErrorText ''each version requires a unique version and image'')
         else case first_error (check_template E version) [''servingRuntimeTemplate'', ''llmInferenceServiceConfig''] of
           Some e \<Rightarrow> Some e
         | None \<Rightarrow> check_versions E (id' # seen) vs)"

definition check_runtime :: "content_env \<Rightarrow> jobject \<Rightarrow> go_error option" where
  "check_runtime E entry =
     (case jfield entry ''versions'' of
        None \<Rightarrow> Some (Wrapped ''versions'' (ErrorText ''unexpected end of JSON input''))
      | Some raw \<Rightarrow>
          (case unmarshal_maps E raw of
             Inl e \<Rightarrow> Some (Wrapped ''versions'' e)
           | Inr [] \<Rightarrow> Some (ErrorText ''versions are required'')
           | Inr vs \<Rightarrow> check_versions E [] vs))"

definition entry_name :: "jobject \<Rightarrow> string" where
  "entry_name entry = trimSpace (stringField entry ''name'')"

definition entry_identity :: "string \<Rightarrow> jobject \<Rightarrow> string" where
  "entry_identity kind entry =
     (if kind = ''mcp_servers'' then entry_name entry @ [CHR 0x00] @ stringField entry ''version'' else entry_name entry)"

text \<open>The checks that do not depend on the other entries, in the order of the code.\<close>

definition check_body :: "content_env \<Rightarrow> string \<Rightarrow> jobject \<Rightarrow> go_error option" where
  "check_body E kind entry =
     (case check_artifacts E kind entry of
        Some e \<Rightarrow> Some e
      | None \<Rightarrow>
          if kind = ''mcp_servers'' then
            (case check_tools E entry of Some e \<Rightarrow> Some e | None \<Rightarrow> check_endpoints E entry)
          else if kind = ''serving_runtimes'' then check_runtime E entry else None)"

definition validateEntry :: "content_env \<Rightarrow> string \<Rightarrow> jobject \<Rightarrow> string list \<Rightarrow> go_error + string list" where
  "validateEntry E kind entry seen =
     (if entry_name entry = [] then Inl (ErrorText ''name is required'')
      else if entry_identity kind entry \<in> set seen
      then Inl (ErrorText (''duplicate name/version '' @ ce_quote E (entry_name entry)))
      else case check_body E kind entry of
        Some e \<Rightarrow> Inl e
      | None \<Rightarrow> Inr (entry_identity kind entry # seen))"

section \<open>Catalogs\<close>

text \<open>A nil map has no fields.\<close>

abbreviation fields_of :: "jobject option \<Rightarrow> jobject" where
  "fields_of m \<equiv> (case m of None \<Rightarrow> [] | Some fs \<Rightarrow> fs)"

fun validate_entries ::
  "content_env \<Rightarrow> string \<Rightarrow> string \<Rightarrow> nat \<Rightarrow> string list \<Rightarrow> jobject option list \<Rightarrow> go_error option" where
  "validate_entries E sid key i seen [] = None"
| "validate_entries E sid key i seen (m # ms) =
     (case validateEntry E key (fields_of m) seen of
        Inl e \<Rightarrow> Some (Wrapped (''source '' @ sid @ '', '' @ key @ ''['' @ show_nat i @ '']'') e)
      | Inr seen' \<Rightarrow> validate_entries E sid key (Suc i) seen' ms)"

definition data_path :: "content_env \<Rightarrow> string \<Rightarrow> Source \<Rightarrow> string" where
  "data_path E path s = (if take 1 (src_path s) = ''/'' then src_path s else ce_sibling E path (src_path s))"

text \<open>The document of a source, decoded into \<^verbatim>\<open>map[string]json.RawMessage\<close>.\<close>

definition source_entries :: "content_env \<Rightarrow> string \<Rightarrow> string \<Rightarrow> Source \<Rightarrow> go_error + jobject option list" where
  "source_entries E path key s =
     (let dp = data_path E path s;
          fail = (\<lambda>e. Inl (Wrapped (''source '' @ src_id s) e));
          missing = Inl (ErrorText (''source '' @ src_id s @ '': missing '' @ key @ '' list''))
      in case readYAML E dp of
           Inl e \<Rightarrow> fail e
         | Inr doc \<Rightarrow>
             (case (case doc of JObject fs \<Rightarrow> Inr fs | JNull \<Rightarrow> Inr [] | _ \<Rightarrow> Inl (Wrapped dp (ce_typeError E doc))) of
                Inl e \<Rightarrow> fail e
              | Inr fs \<Rightarrow>
                  (case jfield fs key of
                     None \<Rightarrow> missing
                   | Some JNull \<Rightarrow> missing
                   | Some raw \<Rightarrow> (case unmarshal_maps E raw of Inl e \<Rightarrow> fail e | Inr ms \<Rightarrow> Inr ms))))"

definition validate_source :: "content_env \<Rightarrow> string \<Rightarrow> string \<times> Source \<Rightarrow> go_error option" where
  "validate_source E path ks =
     (let (key, s) = ks in
      if disabled s then None
      else case source_entries E path key s of
        Inl e \<Rightarrow> Some e
      | Inr ms \<Rightarrow> validate_entries E (src_id s) key 0 [] ms)"

definition validateCatalogs :: "content_env \<Rightarrow> string \<Rightarrow> go_error option" where
  "validateCatalogs E path =
     (case Sources E path of
        Inl e \<Rightarrow> Some e
      | Inr _ \<Rightarrow>
          (case readConfig E path of
             Inl e \<Rightarrow> Some e
           | Inr c \<Rightarrow> first_error (validate_source E path) (keyed c)))"

section \<open>Benchmarks\<close>

text \<open>
  \<^verbatim>\<open>bufio.Scanner\<close> over lines: the tokens before the first line that does not fit the buffer, and
  whether there is one. A trailing carriage return is dropped, and so is an empty last line.
\<close>

definition drop_cr :: "string \<Rightarrow> string" where
  "drop_cr l = (if l \<noteq> [] \<and> last l = CHR 0x0D then butlast l else l)"

definition raw_lines :: "string \<Rightarrow> string list" where
  "raw_lines data = (let ls = splitOn (CHR 0x0A) data in if last ls = [] then butlast ls else ls)"

definition fits :: "string \<Rightarrow> bool" where
  "fits l = (int (length l) < maxNDJSONRecordBytes)"

definition scan_lines :: "string \<Rightarrow> string list \<times> bool" where
  "scan_lines data = (let ls = raw_lines data in (map drop_cr (takeWhile fits ls), \<not> list_all fits ls))"

fun check_records :: "content_env \<Rightarrow> string \<Rightarrow> nat \<Rightarrow> string list \<Rightarrow> go_error option" where
  "check_records E path line [] = None"
| "check_records E path line (l # ls) =
     (if trimSpace l = [] then check_records E path (Suc line) ls
      else let at = path @ '':'' @ show_nat line in
        case ce_json E l of
          Inl e \<Rightarrow> Some (Wrapped at e)
        | Inr v \<Rightarrow>
            (case v of
               JObject _ \<Rightarrow> check_records E path (Suc line) ls
             | JNull \<Rightarrow> Some (ErrorText (at @ '': record must be a JSON object''))
             | _ \<Rightarrow> Some (Wrapped at (ce_typeError E v))))"

definition validateNDJSON :: "content_env \<Rightarrow> string \<Rightarrow> go_error option" where
  "validateNDJSON E path =
     (case ce_read E path of
        Inl e \<Rightarrow> Some e
      | Inr data \<Rightarrow>
          (case scan_lines data of
             (ls, tooLong) \<Rightarrow>
               (case check_records E path 1 ls of
                  Some e \<Rightarrow> Some e
                | None \<Rightarrow> if tooLong then Some (Wrapped path (ErrorText ''bufio.Scanner: token too long'')) else None)))"

definition record_files :: "string list" where
  "record_files = [''evaluations.ndjson'', ''performance.ndjson'', ''security-evaluations.ndjson'']"

text \<open>The callback of \<^verbatim>\<open>filepath.WalkDir\<close>; the first error it returns ends the walk.\<close>

definition visit :: "content_env \<Rightarrow> walk_entry \<Rightarrow> string list \<Rightarrow> go_error + string list" where
  "visit E en ids =
     (case we_error en of
        Some e \<Rightarrow> Inl e
      | None \<Rightarrow>
          if we_isDir en then Inr ids
          else if we_name en = ''metadata.json'' then
            (case readBoundedFile E (we_path en) maxYAMLBytes of
               Inl e \<Rightarrow> Inl e
             | Inr data \<Rightarrow>
                 (case ce_decodeId E data of
                    Inl e \<Rightarrow> Inl (Wrapped (we_path en) e)
                  | Inr i \<Rightarrow>
                      (let id' = ce_toLower E (trimSpace i) in
                       if id' = [] \<or> id' \<in> set ids
                       then Inl (ErrorText (we_path en @ '': empty or duplicate model id''))
                       else Inr (id' # ids))))
          else if we_name en \<in> set record_files then
            (case ce_isDir E (ce_sibling E (we_path en) ''metadata.json'') of
               Inl _ \<Rightarrow> Inl (ErrorText (we_path en @ '' requires metadata.json''))
             | Inr _ \<Rightarrow> (case validateNDJSON E (we_path en) of Some e \<Rightarrow> Inl e | None \<Rightarrow> Inr ids))
          else Inr ids)"

fun walk :: "content_env \<Rightarrow> walk_entry list \<Rightarrow> string list \<Rightarrow> go_error option" where
  "walk E [] ids = None"
| "walk E (en # ens) ids = (case visit E en ids of Inl e \<Rightarrow> Some e | Inr ids' \<Rightarrow> walk E ens ids')"

definition validateBenchmarks :: "content_env \<Rightarrow> string \<Rightarrow> go_error option" where
  "validateBenchmarks E root =
     (case ce_isDir E root of
        Inl e \<Rightarrow> Some e
      | Inr isDir \<Rightarrow> if \<not> isDir then Some (ErrorText ''benchmark path is not a directory'')
                     else walk E (ce_walk E root) [])"

definition Validate :: "content_env \<Rightarrow> string \<Rightarrow> string \<Rightarrow> Failure option" where
  "Validate E configPath benchmarkPath =
     (case validateCatalogs E configPath of
        Some e \<Rightarrow> Some \<lparr>f_stage = ''Loading'', f_reason = ''CatalogContentInvalid'', f_message = error_string e\<rparr>
      | None \<Rightarrow>
          (case validateBenchmarks E benchmarkPath of
             Some e \<Rightarrow> Some \<lparr>f_stage = ''Loading'', f_reason = ''BenchmarkContentInvalid'', f_message = error_string e\<rparr>
           | None \<Rightarrow> None))"

section \<open>The contract\<close>

text \<open>What the loops and maps of the validator amount to.\<close>

definition entries_ok :: "content_env \<Rightarrow> string \<Rightarrow> jobject option list \<Rightarrow> bool" where
  "entries_ok E key ms = (distinct (map (\<lambda>m. entry_identity key (fields_of m)) ms)
     \<and> (\<forall>m \<in> set ms. entry_name (fields_of m) \<noteq> [] \<and> check_body E key (fields_of m) = None))"

definition source_ok :: "content_env \<Rightarrow> string \<Rightarrow> string \<times> Source \<Rightarrow> bool" where
  "source_ok E path ks = (case ks of (key, s) \<Rightarrow> trimSpace (src_id s) \<noteq> []
     \<and> (\<not> disabled s \<longrightarrow> key \<noteq> ''skills'' \<and> src_type s = ''yaml'' \<and> src_path s \<noteq> []
          \<and> (\<exists>ms. source_entries E path key s = Inr ms \<and> entries_ok E key ms)))"

definition catalogs_ok :: "content_env \<Rightarrow> string \<Rightarrow> bool" where
  "catalogs_ok E path = (\<exists>c. readConfig E path = Inr c
     \<and> distinct (map (\<lambda>ks. src_id (snd ks)) (keyed c))
     \<and> (\<forall>ks \<in> set (keyed c). source_ok E path ks)
     \<and> (\<exists>ks \<in> set (keyed c). \<not> disabled (snd ks)))"

lemma first_error_None [simp]: "first_error f xs = None \<longleftrightarrow> (\<forall>x \<in> set xs. f x = None)"
  by (induction xs) (auto split: option.splits)

lemma validateEntry_ok:
  "validateEntry E key m seen = Inr seen' \<longleftrightarrow> entry_name m \<noteq> [] \<and> entry_identity key m \<notin> set seen
     \<and> check_body E key m = None \<and> seen' = entry_identity key m # seen"
  by (auto simp: validateEntry_def split: option.splits)

lemma validate_entries_None:
  "validate_entries E sid key i seen ms = None \<longleftrightarrow>
     entries_ok E key ms \<and> set seen \<inter> set (map (\<lambda>m. entry_identity key (fields_of m)) ms) = {}"
proof (induction ms arbitrary: i seen)
  case Nil
  then show ?case by (simp add: entries_ok_def)
next
  case (Cons m ms)
  show ?case
  proof (cases "validateEntry E key (fields_of m) seen")
    case (Inl e)
    then have "\<not> (entry_name (fields_of m) \<noteq> [] \<and> entry_identity key (fields_of m) \<notin> set seen
        \<and> check_body E key (fields_of m) = None)"
      using validateEntry_ok[of E key "fields_of m" seen "entry_identity key (fields_of m) # seen"] by auto
    then show ?thesis using Inl by (auto simp: entries_ok_def)
  next
    case (Inr seen')
    note ok = Inr[unfolded validateEntry_ok]
    have "validate_entries E sid key i seen (m # ms) = None \<longleftrightarrow> entries_ok E key ms
        \<and> set seen' \<inter> set (map (\<lambda>m. entry_identity key (fields_of m)) ms) = {}"
      using Inr Cons.IH by simp
    then show ?thesis using ok by (auto simp: entries_ok_def)
  qed
qed

lemma validate_source_None:
  "validate_source E path (key, s) = None \<longleftrightarrow>
     disabled s \<or> (\<exists>ms. source_entries E path key s = Inr ms \<and> entries_ok E key ms)"
  by (auto simp: validate_source_def validate_entries_None split: sum.splits)

definition source_declared :: "string \<times> Source \<Rightarrow> bool" where
  "source_declared ks = (case ks of (key, s) \<Rightarrow> trimSpace (src_id s) \<noteq> []
     \<and> (\<not> disabled s \<longrightarrow> key \<noteq> ''skills'' \<and> src_type s = ''yaml'' \<and> src_path s \<noteq> []))"

lemma collect_sources_Inr:
  "(\<exists>ss. collect_sources E ids kss = Inr ss) \<longleftrightarrow> distinct (map (\<lambda>ks. src_id (snd ks)) kss)
     \<and> set ids \<inter> set (map (\<lambda>ks. src_id (snd ks)) kss) = {} \<and> (\<forall>ks \<in> set kss. source_declared ks)"
proof (induction kss arbitrary: ids)
  case Nil
  then show ?case by simp
next
  case (Cons ks kss)
  obtain key s where ks: "ks = (key, s)" by (cases ks)
  show ?case
    using Cons.IH[of "src_id s # ids"]
    by (auto simp: ks source_declared_def split: sum.splits)
qed

lemma collect_sources_result:
  "collect_sources E ids kss = Inr ss \<Longrightarrow> ss = map snd (filter (\<lambda>ks. \<not> disabled (snd ks)) kss)"
  by (induction E ids kss arbitrary: ss rule: collect_sources.induct) (auto split: if_splits sum.splits)

lemma Sources_Inr:
  assumes "readConfig E path = Inr c"
  shows "(\<exists>ss. Sources E path = Inr ss) \<longleftrightarrow> (\<exists>ss. collect_sources E [] (keyed c) = Inr ss)
     \<and> (\<exists>ks \<in> set (keyed c). \<not> disabled (snd ks))"
proof (cases "collect_sources E [] (keyed c)")
  case (Inl e)
  then show ?thesis using assms by (simp add: Sources_def)
next
  case (Inr ss)
  have "ss \<noteq> [] \<longleftrightarrow> (\<exists>ks \<in> set (keyed c). \<not> disabled (snd ks))"
    by (simp add: collect_sources_result[OF Inr] filter_empty_conv)
  then show ?thesis using assms Inr by (cases ss) (simp_all add: Sources_def)
qed

lemma source_ok_iff: "source_ok E path ks \<longleftrightarrow> source_declared ks \<and> validate_source E path ks = None"
  by (cases ks) (auto simp only: source_ok_def source_declared_def validate_source_None prod.case)

lemma validateCatalogs_None: "validateCatalogs E path = None \<longleftrightarrow> catalogs_ok E path"
proof (cases "readConfig E path")
  case (Inl e)
  then show ?thesis by (simp add: validateCatalogs_def Sources_def catalogs_ok_def)
next
  case (Inr c)
  have "validateCatalogs E path = None \<longleftrightarrow> (\<exists>ss. Sources E path = Inr ss)
      \<and> (\<forall>ks \<in> set (keyed c). validate_source E path ks = None)"
    by (cases "Sources E path") (simp_all add: validateCatalogs_def Inr)
  moreover have "catalogs_ok E path \<longleftrightarrow> distinct (map (\<lambda>ks. src_id (snd ks)) (keyed c))
      \<and> (\<forall>ks \<in> set (keyed c). source_ok E path ks) \<and> (\<exists>ks \<in> set (keyed c). \<not> disabled (snd ks))"
    by (simp add: catalogs_ok_def Inr)
  ultimately show ?thesis
    by (simp only: Sources_Inr[OF Inr] collect_sources_Inr source_ok_iff set_simps Int_empty_left) blast
qed

text \<open>Benchmarks: the model id a directory entry declares, and what is asked of the entry itself.\<close>

definition is_metadata :: "walk_entry \<Rightarrow> bool" where
  "is_metadata en = (we_error en = None \<and> \<not> we_isDir en \<and> we_name en = ''metadata.json'')"

definition model_id :: "content_env \<Rightarrow> walk_entry \<Rightarrow> string option" where
  "model_id E en = (if is_metadata en then
     (case readBoundedFile E (we_path en) maxYAMLBytes of Inl e \<Rightarrow> None
      | Inr data \<Rightarrow> (case ce_decodeId E data of Inl e \<Rightarrow> None | Inr i \<Rightarrow> Some (ce_toLower E (trimSpace i)))) else None)"

definition entry_ok :: "content_env \<Rightarrow> walk_entry \<Rightarrow> bool" where
  "entry_ok E en = (we_error en = None
     \<and> (is_metadata en \<longrightarrow> (\<exists>i. model_id E en = Some i \<and> i \<noteq> []))
     \<and> (\<not> we_isDir en \<and> we_name en \<in> set record_files
        \<longrightarrow> (\<exists>d. ce_isDir E (ce_sibling E (we_path en) ''metadata.json'') = Inr d) \<and> validateNDJSON E (we_path en) = None))"

definition ids_of :: "content_env \<Rightarrow> walk_entry list \<Rightarrow> string list" where
  "ids_of E ens = List.map_filter (model_id E) ens"

definition benchmarks_ok :: "content_env \<Rightarrow> string \<Rightarrow> bool" where
  "benchmarks_ok E root = (ce_isDir E root = Inr True \<and> (\<forall>en \<in> set (ce_walk E root). entry_ok E en)
     \<and> distinct (ids_of E (ce_walk E root)))"

lemma metadata_is_no_record: "''metadata.json'' \<notin> set record_files"
  by (simp add: record_files_def)

lemma visit_metadata:
  assumes "is_metadata en"
  shows "visit E en ids = Inr ids' \<longleftrightarrow> (\<exists>i. model_id E en = Some i \<and> i \<noteq> [] \<and> i \<notin> set ids \<and> ids' = i # ids)"
  using assms by (auto simp: visit_def model_id_def is_metadata_def Let_def split: sum.split)

lemma visit_other:
  assumes "\<not> is_metadata en"
  shows "visit E en ids = Inr ids' \<longleftrightarrow> we_error en = None \<and> ids' = ids
    \<and> (\<not> we_isDir en \<and> we_name en \<in> set record_files
       \<longrightarrow> (\<exists>d. ce_isDir E (ce_sibling E (we_path en) ''metadata.json'') = Inr d) \<and> validateNDJSON E (we_path en) = None)"
  using assms by (auto simp: visit_def is_metadata_def split: sum.split option.split)

lemma visit_Inr:
  "visit E en ids = Inr ids' \<longleftrightarrow> entry_ok E en
     \<and> (case model_id E en of None \<Rightarrow> ids' = ids | Some i \<Rightarrow> i \<notin> set ids \<and> ids' = i # ids)"
proof (cases "is_metadata en")
  case True
  then have "entry_ok E en \<longleftrightarrow> (\<exists>i. model_id E en = Some i \<and> i \<noteq> [])"
    using metadata_is_no_record by (auto simp: entry_ok_def is_metadata_def)
  then show ?thesis unfolding visit_metadata[OF True] by (cases "model_id E en") auto
next
  case False
  then show ?thesis unfolding visit_other[OF False] by (auto simp: entry_ok_def model_id_def)
qed

lemma ids_of_Cons: "ids_of E (en # ens) = (case model_id E en of None \<Rightarrow> ids_of E ens | Some i \<Rightarrow> i # ids_of E ens)"
  by (simp add: ids_of_def List.map_filter_simps split: option.split)

lemma walk_None:
  "walk E ens ids = None \<longleftrightarrow> (\<forall>en \<in> set ens. entry_ok E en) \<and> distinct (ids_of E ens) \<and> set ids \<inter> set (ids_of E ens) = {}"
proof (induction ens arbitrary: ids)
  case Nil
  then show ?case by (simp add: ids_of_def List.map_filter_simps)
next
  case (Cons en ens)
  show ?case
  proof (cases "visit E en ids")
    case (Inl e)
    then have no: "\<not> (entry_ok E en \<and> (case model_id E en of None \<Rightarrow> ids' = ids | Some i \<Rightarrow> i \<notin> set ids \<and> ids' = i # ids))" for ids'
      using visit_Inr[of E en ids ids'] by simp
    show ?thesis
      using Inl no[of ids] no[of "the (model_id E en) # ids"] by (cases "model_id E en") (auto simp: ids_of_Cons)
  next
    case (Inr ids')
    then show ?thesis using Cons.IH[of ids'] Inr[unfolded visit_Inr]
      by (cases "model_id E en") (auto simp: ids_of_Cons)
  qed
qed

lemma validateBenchmarks_None: "validateBenchmarks E root = None \<longleftrightarrow> benchmarks_ok E root"
  by (auto simp: validateBenchmarks_def benchmarks_ok_def walk_None split: sum.splits if_splits)

section \<open>Properties\<close>


text \<open>
  A validation failure reveals nothing of the content. What is printed and what is
  written to the termination message depend on the stage and the reason only, for every
  failure the validator returns: two runs that fail for the same reason on different data
  cannot be told apart.
\<close>

theorem failure_reveals_no_content:
  assumes "Validate E c b = Some f" and "Validate E' c' b' = Some f'" and "f_reason f = f_reason f'"
  shows "failure_Error f = failure_Error f' \<and> bounded f = bounded f'"
proof -
  have "f_stage f = ''Loading''" "f_stage f' = ''Loading''"
    using assms(1,2) by (auto simp: Validate_def split: option.splits)
  then show ?thesis using assms(3) by (simp add: failure_Error_def bounded_def publicMessage_def)
qed

text \<open>Two environments that fail differently: the file is missing, or it is empty.\<close>

definition missing_content :: content_env where
  "missing_content = \<lparr>ce_read = (\<lambda>p. Inl (ErrorText (p @ '': no such file''))), ce_isDir = (\<lambda>_. Inr True),
     ce_walk = (\<lambda>_. []), ce_sibling = (\<lambda>_ n. n), ce_documents = (\<lambda>_. []), ce_yaml = (\<lambda>_. Inr JNull),
     ce_json = (\<lambda>_. Inr JNull), ce_decodeConfig = (\<lambda>_. Inl (ErrorText ''no configuration'')),
     ce_decodeId = (\<lambda>_. Inr []), ce_url = (\<lambda>_. Inr ([], [])), ce_yamlKeys = (\<lambda>_. Inr []),
     ce_typeError = (\<lambda>_. ErrorText ''wrong type''), ce_quote = id, ce_toLower = id\<rparr>"

definition empty_content :: content_env where
  "empty_content = missing_content\<lparr>ce_read := \<lambda>_. Inr []\<rparr>"

theorem failure_reveals_no_content_witness:
  "Validate missing_content ''a'' ''b'' \<noteq> Validate empty_content ''a'' ''b''
   \<and> failure_Error (the (Validate missing_content ''a'' ''b'')) = failure_Error (the (Validate empty_content ''a'' ''b''))
   \<and> bounded (the (Validate missing_content ''a'' ''b'')) = bounded (the (Validate empty_content ''a'' ''b''))"
proof -
  let ?f = "\<lparr>f_stage = ''Loading'', f_reason = ''CatalogContentInvalid'', f_message = ''a: no such file''\<rparr>"
  let ?g = "\<lparr>f_stage = ''Loading'', f_reason = ''CatalogContentInvalid'', f_message = ''a: EOF''\<rparr>"
  have f: "Validate missing_content ''a'' ''b'' = Some ?f" by code_simp
  have g: "Validate empty_content ''a'' ''b'' = Some ?g" by code_simp
  show ?thesis using failure_reveals_no_content[OF f g] by (simp add: f g)
qed

end
