(* ===== verification/Operands.thy ===== *)
theory Operands
  imports Resource_Manager Config
begin

text \<open>
  What both reconcilers share when they write the objects of an operand: the API client for
  any kind of object, the steps of a reconcile (each reports whether it changed something and
  stops the sequence when it fails), and the recreation of a Deployment whose immutable fields
  changed. The package-level settings of \<^verbatim>\<open>internal/controller/config\<close> live in the world, behind
  \<open>cl_globals\<close> and \<open>cl_setGlobals\<close>; executing a template is the argument \<open>render\<close> of the steps.
\<close>

record 'w cluster_api =
  cl_get :: "string \<Rightarrow> key \<Rightarrow> ('w, object) call"
  cl_create :: "object \<Rightarrow> 'w \<Rightarrow> go_error option \<times> 'w"
  cl_update :: "object \<Rightarrow> 'w \<Rightarrow> go_error option \<times> 'w"
  cl_delete :: "string \<Rightarrow> key \<Rightarrow> 'w \<Rightarrow> go_error option \<times> 'w"
  cl_annotate :: "object \<Rightarrow> go_error + object"
  cl_changed :: "object \<Rightarrow> object \<Rightarrow> go_error + bool"
  cl_original :: "object \<Rightarrow> go_error + string option" \<comment> \<open>the last applied configuration\<close>
  cl_random :: "('w, string) call" \<comment> \<open>\<^verbatim>\<open>utils.RandBytes(16)\<close>\<close>
  cl_getIngress :: "key \<Rightarrow> ('w, Ingress) call"
  cl_getProxy :: "key \<Rightarrow> ('w, ProxyObject) call"
  cl_globals :: "'w \<Rightarrow> config_globals"
  cl_setGlobals :: "config_globals \<Rightarrow> 'w \<Rightarrow> 'w"

definition kind_api :: "'w cluster_api \<Rightarrow> string \<Rightarrow> ('w, object) object_api" where
  "kind_api C k = \<lparr>ob_key = object_key, ob_version = o_version, ob_setVersion = (\<lambda>v x. x\<lparr>o_version := v\<rparr>),
     ob_annotate = cl_annotate C, ob_changed = cl_changed C, ob_get = cl_get C k, ob_create = cl_create C,
     ob_update = cl_update C, ob_delete = cl_delete C k\<rparr>"

definition default_domain :: "'w cluster_api \<Rightarrow> 'w \<Rightarrow> string \<times> 'w" where
  "default_domain C w = (case GetDefaultDomain (cl_getIngress C) (cl_globals C w) w of (d, g, w') \<Rightarrow> (d, cl_setGlobals C g w'))"

text \<open>\<^verbatim>\<open>ctrl.Result\<close>.\<close>

record ctrl_result =
  requeue :: bool
  requeueAfter :: time

definition no_requeue :: ctrl_result where "no_requeue = \<lparr>requeue = False, requeueAfter = 0\<rparr>"
definition second :: time where "second = 1000000000"
section \<open>Steps\<close>

type_synonym 'w step = "'w \<Rightarrow> 'w outcome"

definition merge_result :: "OperationResult \<Rightarrow> OperationResult \<Rightarrow> OperationResult" where
  "merge_result result result2 = (if result2 \<noteq> ResourceUnchanged then result2 else result)"

text \<open>
  The pattern of both reconcilers: run the steps in order, return at the first error, and
  remember the last result that was a change.
\<close>

fun run_steps :: "'w step list \<Rightarrow> OperationResult \<Rightarrow> 'w step" where
  "run_steps [] result w = (result, None, w)"
| "run_steps (s # ss) result w =
     (case s w of
        (result2, Some e, w1) \<Rightarrow> (result2, Some e, w1)
      | (result2, None, w1) \<Rightarrow> run_steps ss (merge_result result result2) w1)"

text \<open>A step whose error is wrapped, and one that only happens under a condition.\<close>

definition wrap_step :: "string \<Rightarrow> 'w step \<Rightarrow> 'w step" where
  "wrap_step m s w = (case s w of (r, Some e, w1) \<Rightarrow> (r, Some (Wrapped m e), w1) | (r, None, w1) \<Rightarrow> (r, None, w1))"

definition only_if :: "bool \<Rightarrow> 'w step list \<Rightarrow> 'w step list" where
  "only_if b ss = (if b then ss else [])"

section \<open>Deployments\<close>

text \<open>The errors that stand for a change of an immutable field.\<close>

definition immutable_conflict :: "go_error \<Rightarrow> bool" where
  "immutable_conflict e = (is_kind Forbidden e \<or> is_kind Invalid e \<and> contains (error_string e) ''field is immutable'')"

text \<open>
  Writing a Deployment; on such an error the existing one is deleted, to be created again by
  the next reconcile. \<open>other\<close> maps any other error.
\<close>

definition write_deployment :: "'w cluster_api \<Rightarrow> (go_error \<Rightarrow> go_error) \<Rightarrow> object \<Rightarrow> 'w step" where
  "write_deployment C other d w =
     (case CreateOrUpdate (kind_api C ''Deployment'') d w of
        (result, None, w1) \<Rightarrow> (result, None, w1)
      | (result, Some e, w1) \<Rightarrow>
          if immutable_conflict e then
            (case cl_get C ''Deployment'' (object_key d) w1 of
               (Inl getErr, w2) \<Rightarrow> (result, Some getErr, w2)
             | (Inr existing, w2) \<Rightarrow>
                 (case cl_delete C ''Deployment'' (object_key existing) w2 of
                    (Some deleteErr, w3) \<Rightarrow> (result, Some deleteErr, w3)
                  | (None, w3) \<Rightarrow> (ResourceUpdated, None, w3)))
          else (result, Some (other e), w1))"

section \<open>Lemmas\<close>

lemma merge_result_Unchanged [simp]:
  "merge_result r r2 = ResourceUnchanged \<longleftrightarrow> r = ResourceUnchanged \<and> r2 = ResourceUnchanged"
  by (auto simp: merge_result_def)

text \<open>A sequence succeeds when every step does, each from the world the last one left.\<close>

fun steps_ok :: "'w step list \<Rightarrow> 'w \<Rightarrow> 'w \<Rightarrow> bool" where
  "steps_ok [] w w' = (w' = w)"
| "steps_ok (s # ss) w w' = (case s w of (r, e, w1) \<Rightarrow> e = None \<and> steps_ok ss w1 w')"

fun results_of :: "'w step list \<Rightarrow> 'w \<Rightarrow> OperationResult list" where
  "results_of [] w = []"
| "results_of (s # ss) w = (case s w of (r, e, w1) \<Rightarrow> r # results_of ss w1)"

lemma run_steps_ok:
  "run_steps ss r w = (r', None, w') \<longleftrightarrow> steps_ok ss w w' \<and> r' = foldl merge_result r (results_of ss w)"
  by (induction ss arbitrary: r w) (auto split: prod.splits option.splits)

lemma foldl_merge_Unchanged:
  "foldl merge_result r rs = ResourceUnchanged \<longleftrightarrow> r = ResourceUnchanged \<and> (\<forall>x \<in> set rs. x = ResourceUnchanged)"
  by (induction rs arbitrary: r) auto

lemma steps_ok_append: "steps_ok (xs @ ys) w w' \<longleftrightarrow> (\<exists>v. steps_ok xs w v \<and> steps_ok ys v w')"
  by (induction xs arbitrary: w) (auto split: prod.splits)

lemma run_steps_append:
  "run_steps (xs @ ys) r w =
     (case run_steps xs r w of (r1, Some e, w1) \<Rightarrow> (r1, Some e, w1) | (r1, None, w1) \<Rightarrow> run_steps ys r1 w1)"
  by (induction xs arbitrary: r w) (auto split: prod.splits option.splits)

text \<open>The first step that fails ends the sequence: what comes after it does not run.\<close>

lemma run_steps_stops:
  assumes "steps_ok xs w v" and "s v = (r1, Some e, w1)"
  shows "run_steps (xs @ s # ys) r w = (r1, Some e, w1)"
  using assms by (induction xs arbitrary: r w) (auto split: prod.splits)

section \<open>A reference cluster\<close>

text \<open>
  A cluster in memory, for the applications of the theorems to concrete inputs: objects by kind
  and key, and a counter that numbers resource versions and random values. A creation fails
  when the object exists, an update when the object is missing or its version is stale, and a
  patch is needed when owners, data, rules or body differ.
\<close>

record cluster =
  cw_objects :: "string \<times> key \<rightharpoonup> object"
  cw_counter :: nat
  cw_globals :: config_globals

definition empty_object :: "string \<Rightarrow> key \<Rightarrow> object" where
  "empty_object k n = \<lparr>o_kind = k, o_namespace = fst n, o_name = snd n, o_version = [], o_labels = Map.empty,
     o_annotations = Map.empty, o_owners = [], o_controller = None, o_data = None, o_egress = [], o_ingress = [], o_body = []\<rparr>"

definition empty_cluster :: cluster where
  "empty_cluster = \<lparr>cw_objects = Map.empty, cw_counter = 1,
     cw_globals = \<lparr>defaultDomain = [], defaultRegistriesNamespace = [], defaultIsOpenShift = False\<rparr>\<rparr>"

definition put_object :: "object \<Rightarrow> cluster \<Rightarrow> cluster" where
  "put_object x w = w\<lparr>cw_objects := (cw_objects w)((o_kind x, object_key x) \<mapsto> x\<lparr>o_version := show_nat (cw_counter w)\<rparr>),
     cw_counter := Suc (cw_counter w)\<rparr>"

definition object_view :: "object \<Rightarrow> string list \<times> (string \<times> string) list option \<times> string list \<times> string list \<times> string" where
  "object_view x = (o_owners x, o_data x, o_egress x, o_ingress x, o_body x)"

definition missing :: go_error where "missing = ApiError NotFound ''not found''"

definition memory_cluster :: "cluster cluster_api" where
  "memory_cluster = \<lparr>
     cl_get = (\<lambda>k n w. (case cw_objects w (k, n) of None \<Rightarrow> Inl missing | Some x \<Rightarrow> Inr x, w)),
     cl_create = (\<lambda>x w. if cw_objects w (o_kind x, object_key x) = None then (None, put_object x w)
        else (Some (ApiError OtherError ''already exists''), w)),
     cl_update = (\<lambda>x w. case cw_objects w (o_kind x, object_key x) of None \<Rightarrow> (Some missing, w)
        | Some y \<Rightarrow> if o_version x = o_version y then (None, put_object x w) else (Some (ApiError Conflict ''stale''), w)),
     cl_delete = (\<lambda>k n w. if cw_objects w (k, n) = None then (Some missing, w)
        else (None, w\<lparr>cw_objects := (cw_objects w)((k, n) := None)\<rparr>)),
     cl_annotate = Inr, cl_changed = (\<lambda>x y. Inr (object_view x \<noteq> object_view y)), cl_original = (\<lambda>x. Inr None),
     cl_random = (\<lambda>w. (Inr (''r'' @ show_nat (cw_counter w)), w\<lparr>cw_counter := Suc (cw_counter w)\<rparr>)),
     cl_getIngress = (\<lambda>n w. (Inl missing, w)), cl_getProxy = (\<lambda>n w. (Inl missing, w)),
     cl_globals = cw_globals, cl_setGlobals = (\<lambda>g w. w\<lparr>cw_globals := g\<rparr>)\<rparr>"

end
