(* ===== verification/Registry_Types.thy ===== *)
theory Registry_Types
  imports Config
begin

text \<open>
  The ModelRegistry custom resource in its two API versions
  (\<^verbatim>\<open>api/v1beta1/modelregistry_types.go\<close>, \<^verbatim>\<open>api/v1alpha1/modelregistry_types.go\<close>). Structs that
  are the same in both versions are one record; where v1beta1 adds fields, its record extends
  the one of v1alpha1. Quantities of resource requirements are their texts.
\<close>

type_synonym resources = "string ResourceRequirements"

record KeyValue = \<comment> \<open>\<^verbatim>\<open>ConfigMapKeyValue\<close> and \<^verbatim>\<open>SecretKeyValue\<close>\<close>
  kv_name :: string
  kv_key :: string

record PostgresConfigAlpha =
  pg_host :: string
  pg_hostAddress :: string
  pg_port :: "int option"
  pg_username :: string
  pg_passwordSecret :: "KeyValue option"
  pg_database :: string
  pg_skipDBCreation :: bool
  pg_sslMode :: string
  pg_sslCertificateSecret :: "KeyValue option"
  pg_sslKeySecret :: "KeyValue option"
  pg_sslPasswordSecret :: "KeyValue option"
  pg_sslRootCertificateConfigMap :: "KeyValue option"
  pg_sslRootCertificateSecret :: "KeyValue option"

record PostgresConfig = PostgresConfigAlpha +
  pg_generateDeployment :: "bool option"
  pg_image :: string

record MySQLConfig =
  my_host :: string
  my_port :: "int option"
  my_username :: string
  my_passwordSecret :: "KeyValue option"
  my_database :: string
  my_skipDBCreation :: bool
  my_sslCertificateSecret :: "KeyValue option"
  my_sslKeySecret :: "KeyValue option"
  my_sslRootCertificateConfigMap :: "KeyValue option"
  my_sslRootCertificatesConfigMapName :: "string option"
  my_sslRootCertificateSecret :: "KeyValue option"
  my_sslRootCertificatesSecretName :: "string option"
  my_sslCipher :: "string option"
  my_verifyServerCert :: "bool option"

record RestSpec =
  rest_port :: "int option"
  rest_serviceRoute :: string
  rest_resources :: "resources option"
  rest_image :: string

record GrpcSpec =
  grpc_port :: "int option"
  grpc_resources :: "resources option"
  grpc_image :: string

record OAuthProxyConfig =
  oa_port :: "int option"
  oa_tlsCertificateSecret :: "KeyValue option"
  oa_tlsKeySecret :: "KeyValue option"
  oa_serviceRoute :: string
  oa_domain :: string
  oa_routePort :: "int option"
  oa_image :: string

record KubeRBACProxyConfig =
  kp_port :: "int option"
  kp_tlsCertificateSecret :: "KeyValue option"
  kp_tlsKeySecret :: "KeyValue option"
  kp_serviceRoute :: string
  kp_domain :: string
  kp_routePort :: "int option"
  kp_image :: string

record ModelRegistrySpec =
  s_rest :: RestSpec
  s_grpc :: GrpcSpec
  s_postgres :: "PostgresConfig option"
  s_mysql :: "MySQLConfig option"
  s_enableDatabaseUpgrade :: "bool option"
  s_downgradeDbSchemaVersion :: "int option"
  s_oauthProxy :: "OAuthProxyConfig option"
  s_kubeRBACProxy :: "KubeRBACProxyConfig option"

record ModelRegistryStatus =
  mr_hosts :: "string list"
  mr_hostsStr :: string
  mr_specDefaults :: string
  mr_conditions :: "condition list"

record ModelRegistry =
  r_name :: string
  r_namespace :: string
  r_uid :: string
  r_annotations :: labels
  r_finalizers :: "string list"
  r_deletion :: "time option"
  r_spec :: ModelRegistrySpec
  r_status :: ModelRegistryStatus

section \<open>v1alpha1\<close>

record ServerConfig =
  sv_port :: "int option"
  sv_tls :: "(string \<times> string option) option" \<comment> \<open>\<^verbatim>\<open>TLSServerSettings\<close>: mode, credential name\<close>
  sv_gatewayRoute :: string

record GatewayConfig =
  gw_domain :: string
  gw_istioIngress :: "string option"
  gw_controlPlane :: "string option"
  gw_rest :: ServerConfig
  gw_grpc :: ServerConfig

record IstioConfig =
  is_authProvider :: string
  is_authConfigLabels :: labels
  is_tlsMode :: string
  is_gateway :: "GatewayConfig option"
  is_audiences :: "string list"

record ModelRegistrySpecAlpha =
  a_rest :: RestSpec
  a_grpc :: GrpcSpec
  a_postgres :: "PostgresConfigAlpha option"
  a_mysql :: "MySQLConfig option"
  a_enableDatabaseUpgrade :: "bool option"
  a_downgradeDbSchemaVersion :: "int option"
  a_istio :: "IstioConfig option"
  a_oauthProxy :: "OAuthProxyConfig option"

record ModelRegistryAlpha =
  ra_name :: string
  ra_namespace :: string
  ra_uid :: string
  ra_annotations :: labels
  ra_finalizers :: "string list"
  ra_deletion :: "time option"
  ra_spec :: ModelRegistrySpecAlpha
  ra_status :: ModelRegistryStatus

section \<open>Conversion\<close>

text \<open>
  \<^verbatim>\<open>ReplaceIstioWithOAuthProxy\<close> of v1alpha1, for a spec whose \<^verbatim>\<open>Istio\<close> is set; its callers check.
\<close>

definition httpsPort :: int where "httpsPort = 8443"
definition httpsRoutePort :: int where "httpsRoutePort = 443"

definition istio_proxy :: "IstioConfig \<Rightarrow> OAuthProxyConfig" where
  "istio_proxy istio =
     (let p = \<lparr>oa_port = Some httpsPort, oa_tlsCertificateSecret = None, oa_tlsKeySecret = None,
               oa_serviceRoute = RouteEnabled, oa_domain = [], oa_routePort = Some httpsRoutePort, oa_image = []\<rparr>
      in case is_gateway istio of
           None \<Rightarrow> p\<lparr>oa_serviceRoute := RouteDisabled\<rparr>
         | Some gateway \<Rightarrow>
             (let p = (if sv_gatewayRoute (gw_rest gateway) = RouteDisabled
                       then p\<lparr>oa_serviceRoute := RouteDisabled\<rparr> else p);
                  p = (if gw_domain gateway \<noteq> [] then p\<lparr>oa_domain := gw_domain gateway\<rparr> else p)
              in if sv_tls (gw_rest gateway) \<noteq> None \<and> sv_port (gw_rest gateway) \<noteq> None
                 then p\<lparr>oa_routePort := sv_port (gw_rest gateway)\<rparr> else p))"

definition ReplaceIstioWithOAuthProxy :: "ModelRegistryAlpha \<Rightarrow> ModelRegistryAlpha" where
  "ReplaceIstioWithOAuthProxy r =
     (case a_istio (ra_spec r) of None \<Rightarrow> r
      | Some istio \<Rightarrow> r\<lparr>ra_spec := (ra_spec r)\<lparr>a_oauthProxy := Some (istio_proxy istio), a_istio := None\<rparr>\<rparr>)"

text \<open>
  Converting a spec goes through JSON with the same field names on both sides: known fields
  are copied, unknown ones dropped, missing ones are zero.
\<close>

definition postgres_to_beta :: "PostgresConfigAlpha \<Rightarrow> PostgresConfig" where
  "postgres_to_beta p = PostgresConfigAlpha.extend p (PostgresConfig.fields None [])"

definition postgres_to_alpha :: "PostgresConfig \<Rightarrow> PostgresConfigAlpha" where
  "postgres_to_alpha p = PostgresConfigAlpha.truncate p"

definition spec_to_beta :: "ModelRegistrySpecAlpha \<Rightarrow> ModelRegistrySpec" where
  "spec_to_beta s = \<lparr>s_rest = a_rest s, s_grpc = a_grpc s, s_postgres = map_option postgres_to_beta (a_postgres s),
     s_mysql = a_mysql s, s_enableDatabaseUpgrade = a_enableDatabaseUpgrade s,
     s_downgradeDbSchemaVersion = a_downgradeDbSchemaVersion s, s_oauthProxy = a_oauthProxy s,
     s_kubeRBACProxy = None\<rparr>"

definition spec_to_alpha :: "ModelRegistrySpec \<Rightarrow> ModelRegistrySpecAlpha" where
  "spec_to_alpha s = \<lparr>a_rest = s_rest s, a_grpc = s_grpc s, a_postgres = map_option postgres_to_alpha (s_postgres s),
     a_mysql = s_mysql s, a_enableDatabaseUpgrade = s_enableDatabaseUpgrade s,
     a_downgradeDbSchemaVersion = s_downgradeDbSchemaVersion s, a_istio = None,
     a_oauthProxy = s_oauthProxy s\<rparr>"

definition ConvertTo :: "ModelRegistryAlpha \<Rightarrow> ModelRegistry" where
  "ConvertTo src =
     (let src = ReplaceIstioWithOAuthProxy src
      in \<lparr>r_name = ra_name src, r_namespace = ra_namespace src, r_uid = ra_uid src, r_annotations = ra_annotations src,
          r_finalizers = ra_finalizers src, r_deletion = ra_deletion src, r_spec = spec_to_beta (ra_spec src),
          r_status = ra_status src\<rparr>)"

definition ConvertFrom :: "ModelRegistry \<Rightarrow> ModelRegistryAlpha" where
  "ConvertFrom src =
     \<lparr>ra_name = r_name src, ra_namespace = r_namespace src, ra_uid = r_uid src, ra_annotations = r_annotations src,
      ra_finalizers = r_finalizers src, ra_deletion = r_deletion src, ra_spec = spec_to_alpha (r_spec src),
      ra_status = r_status src\<rparr>"

section \<open>Properties\<close>

lemma postgres_round_trip [simp]: "postgres_to_alpha (postgres_to_beta p) = p"
  by (simp add: postgres_to_alpha_def postgres_to_beta_def PostgresConfigAlpha.defs PostgresConfig.defs)

lemma spec_round_trip: "a_istio s = None \<Longrightarrow> spec_to_alpha (spec_to_beta s) = s"
  by (simp add: spec_to_alpha_def spec_to_beta_def option.map_comp comp_def option.map_ident)

text \<open>What a v1alpha1 client loses of an object stored as v1beta1.\<close>

definition beta_only_free :: "ModelRegistrySpec \<Rightarrow> bool" where
  "beta_only_free s = (s_kubeRBACProxy s = None
     \<and> (case s_postgres s of None \<Rightarrow> True | Some p \<Rightarrow> pg_generateDeployment p = None \<and> pg_image p = []))"

lemma postgres_back:
  "pg_generateDeployment p = None \<Longrightarrow> pg_image p = [] \<Longrightarrow> postgres_to_beta (postgres_to_alpha p) = p"
  by (simp add: postgres_to_alpha_def postgres_to_beta_def PostgresConfigAlpha.defs PostgresConfig.defs)

lemma replace_istio_none: "a_istio (ra_spec (ReplaceIstioWithOAuthProxy r)) = None"
  by (simp add: ReplaceIstioWithOAuthProxy_def split: option.split)


end
