(* ===== verification/Catalog_Operands.thy ===== *)
theory Catalog_Operands
  imports Operands Catalog_Images Registry_Types
begin

text \<open>
  The objects of the catalog operand (\<^verbatim>\<open>internal/controller/catalog_controller.go\<close>): the template
  parameters, the operations that create, update and delete each object, the Postgres Secret,
  the user's source ConfigMaps, and the discovery of labelled sources and HuggingFace keys.
\<close>

definition catalogPostgresComponent :: string where "catalogPostgresComponent = ''model-catalog-postgres''"
definition catalogSourceLabel :: string where "catalogSourceLabel = ''opendatahub.io/catalog-source''"
definition sourcesFileName :: string where "sourcesFileName = ''sources.yaml''"
definition hfSourceLabel :: string where "hfSourceLabel = ''hub.kubeflow.org/hf-source''"
definition hfAPIKeySecretKey :: string where "hfAPIKeySecretKey = ''apiKey''"
definition hfAPIKeyEnvVarPrefix :: string where "hfAPIKeyEnvVarPrefix = ''HF_API_KEY_''"

definition CatalogPostgresUser :: string where "CatalogPostgresUser = ''CATALOG_POSTGRES_USER''"
definition CatalogPostgresDatabase :: string where "CatalogPostgresDatabase = ''CATALOG_POSTGRES_DATABASE''"
definition DefaultCatalogPostgresUser :: string where "DefaultCatalogPostgresUser = ''catalog_user''"
definition DefaultCatalogPostgresDatabase :: string where "DefaultCatalogPostgresDatabase = ''model_catalog''"

text \<open>The fields of \<^verbatim>\<open>CatalogReconciler\<close> that are settings; \<open>cr_hasTemplate\<close> is \<^verbatim>\<open>Template.Lookup\<close>.\<close>

record catalog_settings =
  cr_capabilities :: ClusterCapabilities
  cr_skipDB :: bool
  cr_gateway :: "string \<times> string \<times> string"
  cr_httpRouteNamespace :: string
  cr_applicationsNamespace :: string
  cr_hasTemplate :: "string \<Rightarrow> bool"
  cr_hasRecorder :: bool

text \<open>What a template is executed with: the parameters and what \<^verbatim>\<open>Apply\<close> adds to them.\<close>

record CatalogTemplate =
  tm_params :: CatalogParams
  tm_spec :: ModelRegistrySpec
  tm_operatorImage :: string
  tm_dataImageStreamTag :: string
  tm_postgresImage :: string
  tm_postgresUser :: string
  tm_postgresDatabase :: string

text \<open>The document of a sources ConfigMap: the entries of its two model lists by id, and the rest.\<close>

record SourcesDoc =
  sd_catalogs :: "(string \<times> string) list"
  sd_modelCatalogs :: "(string \<times> string) list"
  sd_rest :: string

text \<open>\<^verbatim>\<open>spec.adminGroups\<close> of the Auth object: of another type, absent, or a list.\<close>

datatype admin_groups = BadGroups go_error | NoGroups | Groups "string list"

text \<open>The environment; \<open>en_decodeSources\<close> and \<open>en_encodeSources\<close> are the YAML codec of the sources document.\<close>

record 'w catalog_env =
  en_cluster :: "'w cluster_api"
  en_getenv :: env
  en_settings :: catalog_settings
  en_render :: "CatalogTemplate \<Rightarrow> string \<Rightarrow> go_error + object"
  en_decodeSources :: "string \<Rightarrow> go_error + SourcesDoc"
  en_encodeSources :: "SourcesDoc \<Rightarrow> go_error + string"
  en_getAuth :: "('w, admin_groups) call"
  en_listConfigMaps :: "string \<Rightarrow> ('w, object list) call" \<comment> \<open>those labelled as catalog sources\<close>
  en_listSecrets :: "string \<Rightarrow> ('w, object list) call" \<comment> \<open>those labelled as HuggingFace sources\<close>
  en_hmac :: "string \<Rightarrow> string \<Rightarrow> string"

section \<open>Parameters\<close>

definition no_params :: CatalogParams where
  "no_params = \<lparr>cp_name = [], cp_namespace = [], cp_component = [], cp_catalogDataImage = [], cp_benchmarkDataImage = [],
     cp_activationBlocked = False, cp_allowLegacyRuntimeFile = False, cp_activationAttempt = [], cp_imageImportEvidence = [],
     cp_dataImageStreamName = [], cp_dataImageStreamSource = [], cp_adminGroups = [], cp_labeledSources = [], cp_hfSources = [],
     cp_hfSecretsHash = [], cp_postgresSecretHash = [], cp_proxyTLSArgs = [], cp_proxy = None, cp_postgresImage = [],
     cp_postgresResources = None, cp_catalogResources = None, cp_sizeLimit = None, cp_gateway = ([], [], []),
     cp_httpRouteNamespace = [], cp_applicationsNamespace = []\<rparr>"

definition createPostgresParams :: "env \<Rightarrow> Catalog \<Rightarrow> CatalogParams" where
  "createPostgresParams getenv catalog = no_params\<lparr>cp_name := catalogResourceName, cp_namespace := cat_namespace catalog,
     cp_component := catalogPostgresComponent,
     cp_postgresImage := GetStringConfigWithDefault getenv PostgresImage DefaultPostgresImage,
     cp_postgresResources := sp_postgresResources (cat_spec catalog), cp_sizeLimit := sp_sizeLimit (cat_spec catalog)\<rparr>"

definition catalogProxyOrDefault :: "'w cluster_api \<Rightarrow> ClusterProxy option \<Rightarrow> 'w \<Rightarrow> ClusterProxy option \<times> 'w" where
  "catalogProxyOrDefault C proxy w =
     (case proxy of Some p \<Rightarrow> (Some p, w) | None \<Rightarrow> GetClusterProxy (cl_getProxy C) (cl_globals C w) w)"

definition buildCatalogParams ::
  "'w catalog_env \<Rightarrow> Catalog \<Rightarrow> string list \<Rightarrow> LabeledSource list \<Rightarrow> HFSource list \<Rightarrow> string \<Rightarrow> 'w \<Rightarrow> CatalogParams \<times> 'w" where
  "buildCatalogParams E catalog adminGroups labeledSources hfSources hash w =
     (case catalogProxyOrDefault (en_cluster E) (sp_proxy (cat_spec catalog)) w of
        (proxy, w1) \<Rightarrow>
          (no_params\<lparr>cp_name := catalogResourceName, cp_namespace := cat_namespace catalog, cp_component := catalogResourceName,
             cp_catalogDataImage := GetStringConfigWithDefault (en_getenv E) CatalogDataImage DefaultCatalogDataImage,
             cp_allowLegacyRuntimeFile := (strval (sp_catalogDataImageStream (cat_spec catalog)) = []),
             cp_benchmarkDataImage := GetStringConfigWithDefault (en_getenv E) BenchmarkDataImage DefaultBenchmarkDataImage,
             cp_postgresResources := sp_postgresResources (cat_spec catalog), cp_sizeLimit := sp_sizeLimit (cat_spec catalog),
             cp_catalogResources := sp_catalogResources (cat_spec catalog), cp_adminGroups := adminGroups,
             cp_labeledSources := labeledSources, cp_hfSources := hfSources, cp_hfSecretsHash := hash,
             cp_gateway := cr_gateway (en_settings E), cp_httpRouteNamespace := cr_httpRouteNamespace (en_settings E),
             cp_applicationsNamespace := cr_applicationsNamespace (en_settings E), cp_proxy := proxy\<rparr>, w1))"

text \<open>The requests and limits of the catalog container unless the Catalog sets its own.\<close>

definition CatalogServiceResourceRequirements :: resources where
  "CatalogServiceResourceRequirements = createResourceRequirement (\<lambda>q. q = ''0m'') ''100m'' ''256Mi'' ''0m'' ''256Mi''"

definition catalog_template :: "env \<Rightarrow> string \<Rightarrow> CatalogParams \<Rightarrow> CatalogTemplate" where
  "catalog_template getenv domain params =
     (let images = params\<lparr>
            cp_catalogDataImage := (if cp_catalogDataImage params \<noteq> [] then cp_catalogDataImage params
               else GetStringConfigWithDefault getenv CatalogDataImage DefaultCatalogDataImage),
            cp_benchmarkDataImage := (if cp_benchmarkDataImage params \<noteq> [] then cp_benchmarkDataImage params
               else GetStringConfigWithDefault getenv BenchmarkDataImage DefaultBenchmarkDataImage),
            cp_dataImageStreamName := (if cp_dataImageStreamName params \<noteq> [] then cp_dataImageStreamName params
               else CatalogDataImageStreamName),
            cp_dataImageStreamSource := (if cp_dataImageStreamSource params \<noteq> [] then cp_dataImageStreamSource params
               else fst (catalogDataImageSources getenv))\<rparr>
      in \<lparr>tm_params = images,
          tm_spec = \<lparr>s_rest = \<lparr>rest_port = Some 8080, rest_serviceRoute = [],
                        rest_resources = (case cp_catalogResources params of Some r \<Rightarrow> Some r | None \<Rightarrow> Some CatalogServiceResourceRequirements),
                        rest_image = GetStringConfigWithDefault getenv RestImage DefaultRestImage\<rparr>,
                     s_grpc = \<lparr>grpc_port = None, grpc_resources = None, grpc_image = []\<rparr>, s_postgres = None, s_mysql = None,
                     s_enableDatabaseUpgrade = None, s_downgradeDbSchemaVersion = None, s_oauthProxy = None,
                     s_kubeRBACProxy = Some \<lparr>kp_port = Some 8443, kp_tlsCertificateSecret = None, kp_tlsKeySecret = None,
                        kp_serviceRoute = [], kp_domain = domain, kp_routePort = Some 443,
                        kp_image = GetStringConfigWithDefault getenv KubeRBACProxyImage DefaultKubeRBACProxyImage\<rparr>\<rparr>,
          tm_operatorImage = GetStringConfigWithDefault getenv ModelRegistryOperatorImage DefaultOperatorImage,
          tm_dataImageStreamTag = catalogDataImageStreamTag,
          tm_postgresImage = GetStringConfigWithDefault getenv PostgresImage DefaultPostgresImage,
          tm_postgresUser = GetStringConfigWithDefault getenv CatalogPostgresUser DefaultCatalogPostgresUser,
          tm_postgresDatabase = GetStringConfigWithDefault getenv CatalogPostgresDatabase DefaultCatalogPostgresDatabase\<rparr>)"

definition catalog_Apply :: "'w catalog_env \<Rightarrow> CatalogParams \<Rightarrow> string \<Rightarrow> ('w, object) call" where
  "catalog_Apply E params tmpl w =
     (case default_domain (en_cluster E) w of
        (domain, w1) \<Rightarrow> (en_render E (catalog_template (en_getenv E) domain params) tmpl, w1))"

section \<open>Writing objects\<close>

definition operand_labels :: "CatalogParams \<Rightarrow> (string \<times> string) list" where
  "operand_labels params = [(''app'', cp_name params), (''component'', cp_component params),
     (''app.kubernetes.io/name'', cp_name params), (''app.kubernetes.io/instance'', cp_name params),
     (''app.kubernetes.io/component'', cp_component params), (''app.kubernetes.io/created-by'', ''model-registry-operator''),
     (''app.kubernetes.io/part-of'', ''model-catalog''), (''app.kubernetes.io/managed-by'', ''model-registry-operator'')]"

definition applyLabels :: "CatalogParams \<Rightarrow> object \<Rightarrow> object" where
  "applyLabels params x = x\<lparr>o_labels := fold (\<lambda>(k, v) m. m(k \<mapsto> v)) (operand_labels params) (o_labels x)\<rparr>"

text \<open>\<^verbatim>\<open>reflect.DeepEqual\<close> of the labels before and after: some label was missing or different.\<close>

definition labels_changed :: "CatalogParams \<Rightarrow> object \<Rightarrow> bool" where
  "labels_changed params x = list_ex (\<lambda>(k, v). o_labels x k \<noteq> Some v) (operand_labels params)"

lemma fold_put_other: "k \<notin> fst ` set xs \<Longrightarrow> fold (\<lambda>(k, v) m. m(k \<mapsto> v)) xs m k = m k"
  by (induction xs arbitrary: m) auto

lemma fold_put_same:
  assumes "distinct (map fst xs)"
  shows "fold (\<lambda>(k, v) m. m(k \<mapsto> v)) xs m = m \<longleftrightarrow> (\<forall>(k, v) \<in> set xs. m k = Some v)"
proof -
  have put: "(k, v) \<in> set xs \<Longrightarrow> fold (\<lambda>(k, v) m. m(k \<mapsto> v)) xs m k = Some v" for k v
    using assms by (induction xs arbitrary: m) (force simp: fold_put_other)+
  show ?thesis
  proof
    assume "fold (\<lambda>(k, v) m. m(k \<mapsto> v)) xs m = m"
    then show "\<forall>(k, v) \<in> set xs. m k = Some v" using put by fastforce
  next
    assume m: "\<forall>(k, v) \<in> set xs. m k = Some v"
    show "fold (\<lambda>(k, v) m. m(k \<mapsto> v)) xs m = m"
    proof
      fix k show "fold (\<lambda>(k, v) m. m(k \<mapsto> v)) xs m k = m k"
        using put[of k] m fold_put_other[of k xs m] by (cases "k \<in> fst ` set xs") force+
    qed
  qed
qed

lemma labels_changed_iff: "labels_changed params x \<longleftrightarrow> applyLabels params x \<noteq> x"
proof -
  have "distinct (map fst (operand_labels params))" by (simp add: operand_labels_def)
  from fold_put_same[OF this, of "o_labels x"] show ?thesis
    by (cases x) (auto simp: labels_changed_def applyLabels_def list_ex_iff)
qed

definition applyOwnerReference :: "string option \<Rightarrow> object \<Rightarrow> object" where
  "applyOwnerReference owner x = (case owner of None \<Rightarrow> x | Some uid \<Rightarrow> x\<lparr>o_owners := [uid], o_controller := Some uid\<rparr>)"

text \<open>Rendering an object and giving it to the next operation; a failed rendering is returned.\<close>

definition with_object :: "'w catalog_env \<Rightarrow> CatalogParams \<Rightarrow> string \<Rightarrow> (object \<Rightarrow> 'w step) \<Rightarrow> 'w step" where
  "with_object E params tmpl f w =
     (case catalog_Apply E params tmpl w of
        (Inl e, w1) \<Rightarrow> (ResourceUnchanged, Some e, w1)
      | (Inr x, w1) \<Rightarrow> f x w1)"

text \<open>
  Rendering, labelling, owning and writing an object of a kind: the body shared by
  \<^verbatim>\<open>createOrUpdateService\<close>, \<^verbatim>\<open>createOrUpdateRoute\<close>, \<^verbatim>\<open>createOrUpdateConfigmap\<close>,
  \<^verbatim>\<open>createOrUpdateServiceAccount\<close>, \<^verbatim>\<open>createOrUpdateRole\<close>, \<^verbatim>\<open>createOrUpdateRoleBinding\<close> and
  \<^verbatim>\<open>createOrUpdateAdminRole\<close>.
\<close>

definition createOrUpdateOwned :: "'w catalog_env \<Rightarrow> string \<Rightarrow> CatalogParams \<Rightarrow> string \<Rightarrow> string option \<Rightarrow> 'w step" where
  "createOrUpdateOwned E k params tmpl owner =
     with_object E params tmpl (\<lambda>x. CreateOrUpdate (kind_api (en_cluster E) k) (applyOwnerReference owner (applyLabels params x)))"

definition createOrUpdateService :: "'w catalog_env \<Rightarrow> CatalogParams \<Rightarrow> string \<Rightarrow> string option \<Rightarrow> 'w step" where
  "createOrUpdateService E = createOrUpdateOwned E ''Service''"

definition createOrUpdateRoute :: "'w catalog_env \<Rightarrow> CatalogParams \<Rightarrow> string \<Rightarrow> string option \<Rightarrow> 'w step" where
  "createOrUpdateRoute E = createOrUpdateOwned E ''Route''"

definition createOrUpdateConfigmap :: "'w catalog_env \<Rightarrow> CatalogParams \<Rightarrow> string \<Rightarrow> string option \<Rightarrow> 'w step" where
  "createOrUpdateConfigmap E = createOrUpdateOwned E ''ConfigMap''"

definition createOrUpdateServiceAccount :: "'w catalog_env \<Rightarrow> CatalogParams \<Rightarrow> string \<Rightarrow> string option \<Rightarrow> 'w step" where
  "createOrUpdateServiceAccount E = createOrUpdateOwned E ''ServiceAccount''"

definition createOrUpdateRole :: "'w catalog_env \<Rightarrow> CatalogParams \<Rightarrow> string \<Rightarrow> string option \<Rightarrow> 'w step" where
  "createOrUpdateRole E = createOrUpdateOwned E ''Role''"

definition createOrUpdateRoleBinding :: "'w catalog_env \<Rightarrow> CatalogParams \<Rightarrow> string \<Rightarrow> string option \<Rightarrow> 'w step" where
  "createOrUpdateRoleBinding E = createOrUpdateOwned E ''RoleBinding''"

definition createOrUpdateAdminRole :: "'w catalog_env \<Rightarrow> CatalogParams \<Rightarrow> string option \<Rightarrow> 'w step" where
  "createOrUpdateAdminRole E params = createOrUpdateOwned E ''Role'' params ''catalog-admin-role.yaml.tmpl''"

definition catalog_createOrUpdateNetworkPolicy :: "'w catalog_env \<Rightarrow> CatalogParams \<Rightarrow> string \<Rightarrow> string option \<Rightarrow> 'w step" where
  "catalog_createOrUpdateNetworkPolicy E params tmpl owner =
     with_object E params tmpl (\<lambda>x. CreateOrUpdateNetworkPolicy (kind_api (en_cluster E) ''NetworkPolicy'')
       (applyOwnerReference owner (applyLabels params x)))"

definition catalog_createOrUpdateDeployment :: "'w catalog_env \<Rightarrow> CatalogParams \<Rightarrow> string \<Rightarrow> string option \<Rightarrow> 'w step" where
  "catalog_createOrUpdateDeployment E params tmpl owner =
     with_object E params tmpl (\<lambda>x. write_deployment (en_cluster E)
       (Wrapped (''failed to create/update deployment '' @ o_name x)) (applyOwnerReference owner (applyLabels params x)))"

definition ensureCatalogReferenceGrantExists :: "'w catalog_env \<Rightarrow> CatalogParams \<Rightarrow> 'w step" where
  "ensureCatalogReferenceGrantExists E params =
     with_object E params ''gateway-reference-grant.yaml.tmpl'' (CreateIfNotExists (kind_api (en_cluster E) ''ReferenceGrant''))"

definition createOrUpdateCatalogHTTPRoute :: "'w catalog_env \<Rightarrow> CatalogParams \<Rightarrow> 'w step" where
  "createOrUpdateCatalogHTTPRoute E params =
     with_object E params ''catalog-gateway-httproute.yaml.tmpl'' (CreateOrUpdate (kind_api (en_cluster E) ''HTTPRoute''))"

definition createOrUpdateClusterRoleBinding :: "'w catalog_env \<Rightarrow> CatalogParams \<Rightarrow> string \<Rightarrow> 'w step" where
  "createOrUpdateClusterRoleBinding E params tmpl =
     with_object E params tmpl (\<lambda>x. let x = applyLabels params x in
       CreateOrUpdate (kind_api (en_cluster E) ''ClusterRoleBinding'')
         (x\<lparr>o_labels := (o_labels x)(''modelregistry.opendatahub.io/namespace'' \<mapsto> cp_namespace params)\<rparr>))"

definition createOrUpdateAdminRoleBinding :: "'w catalog_env \<Rightarrow> CatalogParams \<Rightarrow> string option \<Rightarrow> 'w step" where
  "createOrUpdateAdminRoleBinding E params owner w =
     (if cp_adminGroups params = [] then
        (case cl_get (en_cluster E) ''RoleBinding'' (cp_namespace params, cp_name params @ ''-admin-binding'') w of
           (Inr existing, w1) \<Rightarrow>
             (case cl_delete (en_cluster E) ''RoleBinding'' (object_key existing) w1 of
                (Some e, w2) \<Rightarrow> (ResourceUnchanged, Some (Wrapped ''failed to delete admin RoleBinding'' e), w2)
              | (None, w2) \<Rightarrow> (ResourceUpdated, None, w2))
         | (Inl e, w1) \<Rightarrow>
             if \<not> isNotFound e then (ResourceUnchanged, Some (Wrapped ''failed to get admin RoleBinding'' e), w1)
             else (ResourceUnchanged, None, w1))
      else createOrUpdateRoleBinding E params ''catalog-admin-rolebinding.yaml.tmpl'' owner w)"

definition deleteFromTemplate :: "'w catalog_env \<Rightarrow> CatalogParams \<Rightarrow> string \<Rightarrow> string \<Rightarrow> 'w step" where
  "deleteFromTemplate E params tmpl k w =
     (if \<not> cr_hasTemplate (en_settings E) tmpl then (ResourceUnchanged, None, w)
      else with_object E params tmpl (\<lambda>x w1.
        (case cl_delete (en_cluster E) k (object_key x) w1 of
           (Some e, w2) \<Rightarrow> if isNotFound e \<or> isNoMatch e then (ResourceUnchanged, None, w2) else (ResourceUnchanged, Some e, w2)
         | (None, w2) \<Rightarrow> (ResourceUpdated, None, w2))) w)"

definition cleanupOAuthConfig :: "'w catalog_env \<Rightarrow> CatalogParams \<Rightarrow> 'w step" where
  "cleanupOAuthConfig E params = run_steps
     [deleteFromTemplate E params ''catalog-oauth-serviceaccount.yaml.tmpl'' ''ServiceAccount'',
      deleteFromTemplate E params ''catalog-oauth-configmap.yaml.tmpl'' ''ConfigMap'',
      deleteFromTemplate E params ''catalog-oauth-secret.yaml.tmpl'' ''Secret''] ResourceUnchanged"

definition catalog_createOrUpdateKubeRBACProxyConfig :: "'w catalog_env \<Rightarrow> CatalogParams \<Rightarrow> string option \<Rightarrow> 'w step" where
  "catalog_createOrUpdateKubeRBACProxyConfig E params owner = run_steps
     [createOrUpdateConfigmap E params ''catalog-kube-rbac-proxy-config.yaml.tmpl'' owner,
      createOrUpdateClusterRoleBinding E params ''catalog-kube-rbac-proxy-role-binding.yaml.tmpl''] ResourceUnchanged"

definition cleanupKubeRBACProxyConfig :: "'w catalog_env \<Rightarrow> CatalogParams \<Rightarrow> 'w step" where
  "cleanupKubeRBACProxyConfig E params = run_steps
     [deleteFromTemplate E params ''catalog-kube-rbac-proxy-config.yaml.tmpl'' ''ConfigMap'',
      deleteFromTemplate E params ''catalog-kube-rbac-proxy-role-binding.yaml.tmpl'' ''ClusterRoleBinding''] ResourceUnchanged"

section \<open>User sources\<close>

definition is_default_source :: "string \<times> string \<Rightarrow> bool" where
  "is_default_source c = (fst c = ''default_catalog'')"

text \<open>The document without the default source, or the empty text when there is nothing to remove.\<close>

definition removeDefaultSource :: "'w catalog_env \<Rightarrow> string \<Rightarrow> go_error + string" where
  "removeDefaultSource E doc =
     (case en_decodeSources E doc of
        Inl e \<Rightarrow> Inl e
      | Inr sources \<Rightarrow>
          (let catalogs = filter (\<lambda>c. \<not> is_default_source c) (sd_catalogs sources);
               modelCatalogs = filter (\<lambda>c. \<not> is_default_source c) (sd_modelCatalogs sources)
           in if length catalogs = length (sd_catalogs sources) \<and> length modelCatalogs = length (sd_modelCatalogs sources)
              then Inr []
              else en_encodeSources E (sources\<lparr>sd_catalogs := catalogs, sd_modelCatalogs := modelCatalogs\<rparr>)))"

text \<open>What is done to an existing ConfigMap; the flag says that no default source is left to look for.\<close>

definition strip_existing :: "'w catalog_env \<Rightarrow> object \<Rightarrow> 'w \<Rightarrow> OperationResult \<times> bool \<times> go_error option \<times> 'w" where
  "strip_existing E existing w =
     (case o_data existing of
        None \<Rightarrow> (ResourceUnchanged, False, None, w)
      | Some data \<Rightarrow>
          (case removeDefaultSource E (entry data sourcesFileName) of
             Inl e \<Rightarrow> (ResourceUnchanged, False, None, w)
           | Inr stripped \<Rightarrow>
               (let existing = existing\<lparr>o_data := Some (AList.update sourcesFileName stripped data)\<rparr>
                in if stripped = [] then (ResourceUnchanged, True, None, w)
                   else case cl_original (en_cluster E) existing of
                     Inl e \<Rightarrow> (ResourceUnchanged, False, Some e, w)
                   | Inr original \<Rightarrow>
                       (case (if original = None then cl_annotate (en_cluster E) existing else Inr existing) of
                          Inl e \<Rightarrow> (ResourceUnchanged, False, Some e, w)
                        | Inr existing \<Rightarrow>
                            (case CreateOrUpdate (kind_api (en_cluster E) ''ConfigMap'') existing w of
                               (result, e, w1) \<Rightarrow> (result, True, e, w1))))))"

definition manageUserSourcesConfigmap ::
  "'w catalog_env \<Rightarrow> CatalogParams \<Rightarrow> string \<Rightarrow> bool \<Rightarrow> 'w \<Rightarrow> OperationResult \<times> bool \<times> go_error option \<times> 'w" where
  "manageUserSourcesConfigmap E params tmpl noDefaultSource w =
     (case catalog_Apply E params tmpl w of
        (Inl e, w1) \<Rightarrow> (ResourceUnchanged, noDefaultSource, Some e, w1)
      | (Inr x, w1) \<Rightarrow>
          (let cm = applyLabels params x; K = kind_api (en_cluster E) ''ConfigMap''
           in case ob_get K (object_key cm) w1 of
                (Inl _, _) \<Rightarrow> (case CreateIfNotExists K cm w1 of (result, e, w2) \<Rightarrow> (result, noDefaultSource, e, w2))
              | (Inr existing, w2) \<Rightarrow>
                  if noDefaultSource then (ResourceUnchanged, noDefaultSource, None, w2) else strip_existing E existing w2))"

fun manage_all :: "'w catalog_env \<Rightarrow> CatalogParams \<Rightarrow> string list \<Rightarrow> bool \<Rightarrow> OperationResult \<Rightarrow> 'w step" where
  "manage_all E params [] noDefaultSource result w = (result, None, w)"
| "manage_all E params (tmpl # ts) noDefaultSource result w =
     (case manageUserSourcesConfigmap E params tmpl noDefaultSource w of
        (result2, done', Some e, w1) \<Rightarrow> (result2, Some e, w1)
      | (result2, done', None, w1) \<Rightarrow> manage_all E params ts done' (merge_result result result2) w1)"

definition user_source_templates :: "string list" where
  "user_source_templates = [''catalog-configmap.yaml.tmpl'', ''catalog-mcp-configmap.yaml.tmpl'',
     ''catalog-agent-configmap.yaml.tmpl'', ''catalog-serving-runtime-configmap.yaml.tmpl'']"

section \<open>The Postgres Secret\<close>

definition required_key :: "string \<Rightarrow> string \<Rightarrow> (string \<times> string) list \<Rightarrow> (string \<times> string) list" where
  "required_key k v data = (if entry data k = [] then AList.update k v data else data)"

text \<open>A missing random value is generated; \<open>what\<close> names it in the error.\<close>

definition random_key :: "'w cluster_api \<Rightarrow> string \<Rightarrow> string \<Rightarrow> (string \<times> string) list \<Rightarrow> ('w, (string \<times> string) list) call" where
  "random_key C what k data w =
     (if entry data k = [] then
        (case cl_random C w of
           (Inl e, w1) \<Rightarrow> (Inl (Wrapped (''failed to generate random '' @ what) e), w1)
         | (Inr v, w1) \<Rightarrow> (Inr (AList.update k v data), w1))
      else (Inr data, w))"

definition postgres_names :: "env \<Rightarrow> (string \<times> string) list \<Rightarrow> (string \<times> string) list" where
  "postgres_names getenv data =
     required_key ''database-user'' (GetStringConfigWithDefault getenv CatalogPostgresUser DefaultCatalogPostgresUser)
       (required_key ''database-name'' (GetStringConfigWithDefault getenv CatalogPostgresDatabase DefaultCatalogPostgresDatabase) data)"

text \<open>Completing the data of a Secret: the names, then a password, then a salt.\<close>

definition complete_secret :: "'w catalog_env \<Rightarrow> (string \<times> string) list \<Rightarrow> ('w, (string \<times> string) list) call" where
  "complete_secret E data w =
     (case random_key (en_cluster E) ''password'' ''database-password'' (postgres_names (en_getenv E) data) w of
        (Inl e, w1) \<Rightarrow> (Inl e, w1)
      | (Inr data, w1) \<Rightarrow> random_key (en_cluster E) ''salt'' ''database-salt'' data w1)"

definition secret_keys :: "string list" where
  "secret_keys = [''database-name'', ''database-user'', ''database-password'', ''database-salt'']"

definition reconcile_secret :: "'w catalog_env \<Rightarrow> CatalogParams \<Rightarrow> string \<Rightarrow> object \<Rightarrow> 'w \<Rightarrow> (go_error + OperationResult \<times> object) \<times> 'w" where
  "reconcile_secret E params owner existing w =
     (let data = (case o_data existing of None \<Rightarrow> [] | Some d \<Rightarrow> d)
      in case complete_secret E data w of
           (Inl e, w1) \<Rightarrow> (Inl e, w1)
         | (Inr data', w1) \<Rightarrow>
             (let secret = applyLabels params (existing\<lparr>o_data := Some data'\<rparr>);
                  owned = owner \<in> set (o_owners existing);
                  secret = (if owned then secret else applyOwnerReference (Some owner) secret)
              in if list_ex (\<lambda>k. entry data k = []) secret_keys \<or> labels_changed params existing \<or> \<not> owned
                 then (case cl_update (en_cluster E) secret w1 of
                   (Some e, w2) \<Rightarrow> (Inl e, w2)
                 | (None, w2) \<Rightarrow> (Inr (ResourceUpdated, secret), w2))
                 else (Inr (ResourceUnchanged, secret), w1)))"

definition new_secret :: "CatalogParams \<Rightarrow> (string \<times> string) list \<Rightarrow> object" where
  "new_secret params data = \<lparr>o_kind = ''Secret'', o_namespace = cp_namespace params, o_name = cp_name params @ ''-postgres'',
     o_version = [], o_labels = Map.empty, o_annotations = Map.empty, o_owners = [], o_controller = None, o_data = Some data, o_egress = [],
     o_ingress = [], o_body = []\<rparr>"

definition createOrUpdatePostgresSecret ::
  "'w catalog_env \<Rightarrow> CatalogParams \<Rightarrow> string \<Rightarrow> 'w \<Rightarrow> (go_error + OperationResult \<times> object) \<times> 'w" where
  "createOrUpdatePostgresSecret E params owner w =
     (case cl_get (en_cluster E) ''Secret'' (cp_namespace params, cp_name params @ ''-postgres'') w of
        (Inr existing, w1) \<Rightarrow> reconcile_secret E params owner existing w1
      | (Inl e, w1) \<Rightarrow>
          if \<not> isNotFound e then (Inl e, w1)
          else (case complete_secret E [] w1 of
            (Inl e, w2) \<Rightarrow> (Inl e, w2)
          | (Inr data, w2) \<Rightarrow>
              (let secret = applyOwnerReference (Some owner) (applyLabels params (new_secret params data))
               in case CreateOrUpdate (kind_api (en_cluster E) ''Secret'') secret w2 of
                    (res, Some e, w3) \<Rightarrow> (Inl e, w3)
                  | (res, None, w3) \<Rightarrow> (Inr (res, secret), w3))))"

section \<open>Discovery\<close>

definition fetchAuthConfig :: "'w catalog_env \<Rightarrow> ('w, string list) call" where
  "fetchAuthConfig E w =
     (case en_getAuth E w of
        (Inl e, w1) \<Rightarrow> if isNotFound e \<or> isNoMatch e then (Inr [], w1) else (Inl (Wrapped ''failed to get Auth CR'' e), w1)
      | (Inr (BadGroups e), w1) \<Rightarrow> (Inr [], w1)
      | (Inr NoGroups, w1) \<Rightarrow> (Inr [], w1)
      | (Inr (Groups gs), w1) \<Rightarrow> (Inr gs, w1))"

definition dns_char :: "char \<Rightarrow> bool" where
  "dns_char c = (c \<in> set ''abcdefghijklmnopqrstuvwxyz0123456789'')"

definition dnsLabelRegex :: "string \<Rightarrow> bool" where
  "dnsLabelRegex s = (s \<noteq> [] \<and> dns_char (hd s) \<and> dns_char (last s) \<and> list_all (\<lambda>c. dns_char c \<or> c = CHR ''-'') s)"

definition maxLabeledSourceNameLen :: nat where "maxLabeledSourceNameLen = 63 - length ''labeled-''"

definition labeled_source :: "object \<Rightarrow> bool" where
  "labeled_source cm = ((case o_data cm of None \<Rightarrow> False | Some d \<Rightarrow> map_of d sourcesFileName \<noteq> None)
     \<and> dnsLabelRegex (o_name cm) \<and> \<not> length (o_name cm) > maxLabeledSourceNameLen)"

definition discoverLabeledSources :: "'w catalog_env \<Rightarrow> string \<Rightarrow> ('w, LabeledSource list) call" where
  "discoverLabeledSources E namespace' w =
     (case en_listConfigMaps E namespace' w of
        (Inl e, w1) \<Rightarrow> (Inl (Wrapped (''failed to list configmaps with label '' @ catalogSourceLabel) e), w1)
      | (Inr cms, w1) \<Rightarrow> (Inr (sort_key ls_name (map (\<lambda>cm. \<lparr>ls_name = o_name cm\<rparr>) (filter labeled_source cms))), w1))"

definition hfSourceLabelValueRegex :: "string \<Rightarrow> bool" where
  "hfSourceLabelValueRegex s = (s \<noteq> [] \<and> list_all (\<lambda>c. alnum c \<or> c = CHR ''_'') s)"

definition hf_env_name :: "object \<Rightarrow> string" where
  "hf_env_name secret = hfAPIKeyEnvVarPrefix @ asciiUpper (mapget (o_labels secret) hfSourceLabel)"

text \<open>The loop over the Secrets: the sources found so far and their keys.\<close>

fun collect_hf :: "object list \<Rightarrow> HFSource list \<Rightarrow> (string \<times> string) list \<Rightarrow> HFSource list \<times> (string \<times> string) list" where
  "collect_hf [] sources apiKeys = (sources, apiKeys)"
| "collect_hf (secret # secrets) sources apiKeys =
     (case map_of (case o_data secret of None \<Rightarrow> [] | Some d \<Rightarrow> d) hfAPIKeySecretKey of
        None \<Rightarrow> collect_hf secrets sources apiKeys
      | Some k \<Rightarrow>
          if \<not> hfSourceLabelValueRegex (mapget (o_labels secret) hfSourceLabel)
             \<or> hf_env_name secret \<in> hf_envVarName ` set sources
          then collect_hf secrets sources apiKeys
          else collect_hf secrets (sources @ [\<lparr>hf_envVarName = hf_env_name secret, hf_secretName = o_name secret\<rparr>])
                 (AList.update (hf_env_name secret) k apiKeys))"

definition discoverHFSecrets :: "'w catalog_env \<Rightarrow> string \<Rightarrow> ('w, HFSource list \<times> string) call" where
  "discoverHFSecrets E namespace' w =
     (case en_listSecrets E namespace' w of
        (Inl e, w1) \<Rightarrow> (Inl (Wrapped (''failed to list secrets with label '' @ hfSourceLabel) e), w1)
      | (Inr secrets, w1) \<Rightarrow>
          (case collect_hf secrets [] [] of
             (sources, apiKeys) \<Rightarrow>
               (let sorted' = sort_key hf_envVarName sources in (Inr (sorted', hfSecretsHash (en_hmac E) sorted' apiKeys), w1))))"

section \<open>Watches\<close>

definition catalog_requests :: "go_error + Catalog list \<Rightarrow> key list" where
  "catalog_requests answer = (case answer of Inl e \<Rightarrow> [] | Inr cs \<Rightarrow> map (\<lambda>c. (cat_namespace c, cat_name c)) cs)"

text \<open>\<^verbatim>\<open>getCatalogsForConfigMap\<close> and \<^verbatim>\<open>hfSecretToCatalogRequests\<close>: every Catalog of the object's namespace.\<close>

definition getCatalogsForConfigMap :: "'w catalog_api \<Rightarrow> string \<Rightarrow> 'w \<Rightarrow> key list" where
  "getCatalogsForConfigMap K namespace' w = catalog_requests (fst (ca_listCatalogs K namespace' w))"

definition hfSecretToCatalogRequests :: "'w catalog_api \<Rightarrow> string \<Rightarrow> 'w \<Rightarrow> key list" where
  "hfSecretToCatalogRequests K namespace' w = catalog_requests (fst (ca_listCatalogs K namespace' w))"

definition GetCatalogForClusterRoleBinding :: "'w catalog_api \<Rightarrow> labels \<Rightarrow> 'w \<Rightarrow> key list" where
  "GetCatalogForClusterRoleBinding K ls w =
     (let namespace' = mapget ls ''modelregistry.opendatahub.io/namespace'' in
      if namespace' = [] then [] else catalog_requests (fst (ca_listCatalogs K namespace' w)))"

text \<open>Of a cluster-scoped object, every Catalog: \<^verbatim>\<open>getCatalogsForAuth\<close> and \<^verbatim>\<open>catalogsForTLSChange\<close>.\<close>

definition getCatalogsForAuth :: "('w, Catalog list) call \<Rightarrow> 'w \<Rightarrow> key list" where
  "getCatalogsForAuth listAll w = catalog_requests (fst (listAll w))"

definition catalogsForTLSChange :: "('w, Catalog list) call \<Rightarrow> 'w \<Rightarrow> key list" where
  "catalogsForTLSChange listAll w = catalog_requests (fst (listAll w))"

section \<open>Properties\<close>

lemma entry_update: "entry (AList.update k v data) k' = (if k' = k then v else entry data k')"
  by (simp add: entry_def update_conv')

lemma default_config_nonempty:
  "value \<noteq> [] \<Longrightarrow> GetStringConfigWithDefault getenv name value \<noteq> []"
  by (simp add: GetStringConfigWithDefault_def Let_def)

lemma required_key_entry:
  "entry (required_key k v data) k' = (if k' = k \<and> entry data k = [] then v else entry data k')"
  by (auto simp: required_key_def entry_update)

text \<open>What the Secret relies on of the random source: it never yields an empty value.\<close>

definition random_nonempty :: "'w cluster_api \<Rightarrow> bool" where
  "random_nonempty C = (\<forall>w v w1. cl_random C w = (Inr v, w1) \<longrightarrow> v \<noteq> [])"

lemma random_nonemptyD: "random_nonempty C \<Longrightarrow> cl_random C w = (Inr v, w1) \<Longrightarrow> v \<noteq> []"
  by (auto simp: random_nonempty_def)

lemma random_key_entry:
  assumes "random_key C what k data w = (Inr data', w')"
    and "random_nonempty C"
  shows "entry data' k \<noteq> []" and "entry data k' \<noteq> [] \<or> k' \<noteq> k \<Longrightarrow> entry data' k' = entry data k'"
  using assms by (auto simp: random_key_def entry_update split: if_splits prod.splits sum.splits dest: random_nonemptyD)

lemma secret_keys_cases:
  assumes "k \<in> set secret_keys"
  obtains "k = ''database-name''" | "k = ''database-user''" | "k = ''database-password''" | "k = ''database-salt''"
  using assms by (auto simp: secret_keys_def)

lemma postgres_names_entry:
  shows "k \<in> {''database-name'', ''database-user''} \<Longrightarrow> entry (postgres_names getenv data) k \<noteq> []"
    and "entry data k \<noteq> [] \<Longrightarrow> entry (postgres_names getenv data) k = entry data k"
  by (auto simp: postgres_names_def required_key_entry DefaultCatalogPostgresUser_def
      DefaultCatalogPostgresDatabase_def default_config_nonempty)

text \<open>A completed Secret has every value, and keeps the values that were there.\<close>

lemma complete_secret_entry:
  assumes "complete_secret E data w = (Inr data', w')"
    and random: "random_nonempty (en_cluster E)"
  shows "k \<in> set secret_keys \<Longrightarrow> entry data' k \<noteq> []"
    and "entry data k \<noteq> [] \<Longrightarrow> entry data' k = entry data k"
proof -
  obtain d w1 where p: "random_key (en_cluster E) ''password'' ''database-password'' (postgres_names (en_getenv E) data) w = (Inr d, w1)"
    and q: "random_key (en_cluster E) ''salt'' ''database-salt'' d w1 = (Inr data', w')"
    using assms(1) by (auto simp: complete_secret_def split: prod.splits sum.splits)
  note p' = random_key_entry[OF p random] and q' = random_key_entry[OF q random]
  show "entry data k \<noteq> [] \<Longrightarrow> entry data' k = entry data k"
    using postgres_names_entry(2)[of data k "en_getenv E"] p'(2)[where k'=k] q'(2)[where k'=k] by simp
  have names: "k \<in> {''database-name'', ''database-user''} \<Longrightarrow> entry data' k \<noteq> []" for k
    using postgres_names_entry(1)[of k "en_getenv E" data] p'(2)[where k'=k] q'(2)[where k'=k] by auto
  have pw: "entry data' ''database-password'' \<noteq> []" using p'(1) q'(2)[where k'="''database-password''"] by simp
  show "k \<in> set secret_keys \<Longrightarrow> entry data' k \<noteq> []"
    by (erule secret_keys_cases) (use names pw q'(1) in auto)
qed

text \<open>A complete Secret needs no random value and stays as it is.\<close>

lemma complete_secret_complete:
  assumes "\<forall>k \<in> set secret_keys. entry data k \<noteq> []"
  shows "complete_secret E data w = (Inr data, w)"
  using assms by (simp add: secret_keys_def complete_secret_def random_key_def postgres_names_def required_key_def)

definition secret_data :: "object \<Rightarrow> (string \<times> string) list" where
  "secret_data x = (case o_data x of None \<Rightarrow> [] | Some d \<Rightarrow> d)"

lemma applied_data [simp]:
  "o_data (applyLabels params x) = o_data x" "o_data (applyOwnerReference owner x) = o_data x"
  "o_owners (applyLabels params x) = o_owners x" "o_labels (applyOwnerReference owner x) = o_labels x"
  by (auto simp: applyLabels_def applyOwnerReference_def split: option.splits)

lemma reconcile_secret_data:
  assumes "reconcile_secret E params owner existing w = (Inr (res, secret), w')"
  shows "\<exists>w1. complete_secret E (secret_data existing) w = (Inr (secret_data secret), w1)"
  using assms unfolding reconcile_secret_def Let_def secret_data_def[symmetric]
  by (auto simp: secret_data_def split: prod.splits sum.splits option.splits if_splits)


text \<open>A secret that names a source and has a key, and the source it stands for.\<close>

definition hf_key :: "object \<Rightarrow> string option" where
  "hf_key secret = map_of (secret_data secret) hfAPIKeySecretKey"

definition hf_usable :: "object \<Rightarrow> bool" where
  "hf_usable secret = (hf_key secret \<noteq> None \<and> hfSourceLabelValueRegex (mapget (o_labels secret) hfSourceLabel))"

definition hf_source :: "object \<Rightarrow> HFSource" where
  "hf_source secret = \<lparr>hf_envVarName = hf_env_name secret, hf_secretName = o_name secret\<rparr>"

lemma hf_source_name [simp]: "hf_envVarName (hf_source x) = hf_env_name x"
  by (simp add: hf_source_def)

text \<open>The loop takes, of the usable Secrets, the first of each variable.\<close>

fun first_of_each :: "string set \<Rightarrow> object list \<Rightarrow> object list" where
  "first_of_each seen [] = []"
| "first_of_each seen (x # xs) =
     (if hf_usable x \<and> hf_env_name x \<notin> seen then x # first_of_each (insert (hf_env_name x) seen) xs
      else first_of_each seen xs)"

lemma first_of_each_names:
  "hf_env_name ` set (first_of_each seen xs) = hf_env_name ` {x \<in> set xs. hf_usable x} - seen"
  "distinct (map hf_env_name (first_of_each seen xs))"
  by (induction xs arbitrary: seen) auto

lemma first_of_each_usable: "x \<in> set (first_of_each seen xs) \<Longrightarrow> x \<in> set xs \<and> hf_usable x"
  by (induction xs arbitrary: seen) (auto split: if_splits)

lemma collect_hf_step:
  "collect_hf (x # xs) sources apiKeys =
     (if hf_usable x \<and> hf_env_name x \<notin> hf_envVarName ` set sources
      then collect_hf xs (sources @ [hf_source x]) (AList.update (hf_env_name x) (the (hf_key x)) apiKeys)
      else collect_hf xs sources apiKeys)"
  by (auto simp: hf_usable_def hf_key_def secret_data_def hf_source_def split: option.splits)

lemma collect_hf_eq:
  "collect_hf xs sources apiKeys =
     (let ys = first_of_each (hf_envVarName ` set sources) xs
      in (sources @ map hf_source ys, fold (\<lambda>y. AList.update (hf_env_name y) (the (hf_key y))) ys apiKeys))"
proof (induction xs arbitrary: sources apiKeys)
  case (Cons x xs)
  show ?case unfolding collect_hf_step using Cons.IH by (simp add: Let_def)
qed simp

lemma fold_update_entry:
  assumes "distinct (map f ys)" and "y \<in> set ys"
  shows "entry (fold (\<lambda>y. AList.update (f y) (g y)) ys m) (f y) = g y"
  using assms
proof (induction ys arbitrary: m)
  case (Cons z zs)
  have other: "entry (fold (\<lambda>y. AList.update (f y) (g y)) zs m) k = entry m k" if "k \<notin> f ` set zs" for m k
    using that by (induction zs arbitrary: m) (auto simp: entry_update)
  show ?case
  proof (cases "y = z")
    case True
    then show ?thesis using Cons.prems(1) by (simp add: other entry_update)
  next
    case False
    then show ?thesis using Cons by simp
  qed
qed simp

lemma distinct_map_sort: "distinct (map f (sort_key f xs)) = distinct (map f xs)"
  by (simp add: distinct_map)

definition env_var_char :: "char \<Rightarrow> bool" where
  "env_var_char c = (alnum c \<and> to_upper_char c = c \<or> c = CHR ''_'')"

lemma upper_env_char: "alnum c \<or> c = CHR ''_'' \<Longrightarrow> env_var_char (to_upper_char c)"
  by (auto simp: env_var_char_def alnum_def to_upper_char_def Let_def)

lemma hf_env_name_chars: "hf_usable x \<Longrightarrow> list_all env_var_char (hf_env_name x)"
  by (auto simp: hf_usable_def hfSourceLabelValueRegex_def hf_env_name_def asciiUpper_def list_all_iff
      hfAPIKeyEnvVarPrefix_def env_var_char_def alnum_def to_upper_char_def Let_def)

text \<open>
  The HuggingFace keys given to the catalog. The sources are in strictly increasing order
  of their environment variable, so no variable is set twice; every name is made of capital
  letters, digits and underscores; each source is a Secret of the namespace with a key and a
  well-formed label, every such Secret has its variable set, and the published hash is the
  hash of exactly these variables with the keys of the Secrets they refer to.
\<close>

theorem hf_sources_faithful:
  assumes "en_listSecrets E ns w = (Inr secrets, w1)"
    and "discoverHFSecrets E ns w = (Inr (sources, hash), w')"
  shows "sorted_wrt (<) (map hf_envVarName sources)
    \<and> (\<forall>s \<in> set sources. list_all env_var_char (hf_envVarName s))
    \<and> hf_envVarName ` set sources = hf_env_name ` {x \<in> set secrets. hf_usable x}
    \<and> (\<exists>apiKeys. hash = hfSecretsHash (en_hmac E) sources apiKeys
        \<and> (\<forall>s \<in> set sources. \<exists>x \<in> set secrets. hf_usable x \<and> s = hf_source x
             \<and> hf_key x = Some (entry apiKeys (hf_envVarName s))))"
proof -
  define ys where "ys = first_of_each {} secrets"
  define ks where "ks = fold (\<lambda>y. AList.update (hf_env_name y) (the (hf_key y))) ys []"
  have s: "sources = sort_key hf_envVarName (map hf_source ys)" and h: "hash = hfSecretsHash (en_hmac E) sources ks"
    using assms by (auto simp: discoverHFSecrets_def collect_hf_eq ys_def ks_def Let_def)
  note y = first_of_each_names[of "{}" secrets, folded ys_def]
    and u = first_of_each_usable[of _ "{}" secrets, folded ys_def]
  have set_s: "set sources = hf_source ` set ys" by (simp add: s)
  have names: "distinct (map hf_envVarName (map hf_source ys))" using y(2) by (simp add: comp_def)
  have "sorted (map hf_envVarName sources)" by (simp add: s)
  moreover have "distinct (map hf_envVarName sources)"
    unfolding s distinct_map_sort by (rule names)
  ultimately have "sorted_wrt (<) (map hf_envVarName sources)" by (simp add: strict_sorted_iff)
  moreover have "\<forall>s \<in> set sources. list_all env_var_char (hf_envVarName s)"
    using u by (auto simp: set_s hf_env_name_chars)
  moreover have "hf_envVarName ` set sources = hf_env_name ` {x \<in> set secrets. hf_usable x}"
    using y(1) by (simp add: set_s image_image)
  moreover have "\<forall>s \<in> set sources. \<exists>x \<in> set secrets. hf_usable x \<and> s = hf_source x
      \<and> hf_key x = Some (entry ks (hf_envVarName s))"
  proof
    fix s assume "s \<in> set sources"
    then obtain x where x: "x \<in> set ys" "s = hf_source x" by (auto simp: set_s)
    then have "entry ks (hf_env_name x) = the (hf_key x)"
      using fold_update_entry[OF y(2) x(1)] by (simp add: ks_def)
    then show "\<exists>x \<in> set secrets. hf_usable x \<and> s = hf_source x \<and> hf_key x = Some (entry ks (hf_envVarName s))"
      using x u[OF x(1)] by (intro bexI[of _ x]) (auto simp: hf_usable_def)
  qed
  ultimately show ?thesis using h by blast
qed

lemma dns_labeled: "dnsLabelRegex s \<Longrightarrow> dnsLabelRegex (''labeled-'' @ s)"
  by (auto simp: dnsLabelRegex_def dns_char_def)

text \<open>
  The labelled sources given to the catalog. They are sorted, and they are exactly the
  labelled ConfigMaps of the namespace that have a sources file and whose name, with the
  prefix that the Deployment puts before it, is a DNS label of at most 63 characters: every
  volume the Deployment declares for one is admitted by the API server.
\<close>

theorem labeled_sources_mountable:
  assumes "en_listConfigMaps E ns w = (Inr cms, w1)" and "discoverLabeledSources E ns w = (Inr sources, w')"
  shows "sorted (map ls_name sources)
    \<and> (\<forall>s \<in> set sources. dnsLabelRegex (''labeled-'' @ ls_name s) \<and> length (''labeled-'' @ ls_name s) \<le> 63)
    \<and> ls_name ` set sources = {n. \<exists>cm \<in> set cms. o_name cm = n \<and> map_of (secret_data cm) sourcesFileName \<noteq> None
        \<and> dnsLabelRegex n \<and> length (''labeled-'' @ n) \<le> 63}"
proof -
  have s: "sources = sort_key ls_name (map (\<lambda>cm. \<lparr>ls_name = o_name cm\<rparr>) (filter labeled_source cms))"
    using assms by (simp add: discoverLabeledSources_def)
  have l: "labeled_source cm \<longleftrightarrow> map_of (secret_data cm) sourcesFileName \<noteq> None \<and> dnsLabelRegex (o_name cm)
      \<and> length (''labeled-'' @ o_name cm) \<le> 63" for cm
    by (auto simp: labeled_source_def secret_data_def maxLabeledSourceNameLen_def split: option.splits)
  have "ls_name ` set sources = {n. \<exists>cm \<in> set cms. o_name cm = n \<and> map_of (secret_data cm) sourcesFileName \<noteq> None
      \<and> dnsLabelRegex n \<and> length (''labeled-'' @ n) \<le> 63}"
    by (auto simp: s l image_image)
  moreover from this have "dnsLabelRegex (''labeled-'' @ ls_name s) \<and> length (''labeled-'' @ ls_name s) \<le> 63"
    if "s \<in> set sources" for s
    using that dns_labeled by blast
  ultimately show ?thesis by (simp add: s)
qed

section \<open>Witnesses\<close>

definition small_settings :: catalog_settings where
  "small_settings = \<lparr>cr_capabilities = no_capabilities, cr_skipDB = False, cr_gateway = ([], [], []), cr_httpRouteNamespace = [],
     cr_applicationsNamespace = [], cr_hasTemplate = (\<lambda>_. True), cr_hasRecorder = True\<rparr>"

text \<open>A small environment: templates render to an empty object of their own name.\<close>

definition small_env :: "object list \<Rightarrow> object list \<Rightarrow> cluster catalog_env" where
  "small_env cms secrets = \<lparr>en_cluster = memory_cluster, en_getenv = (\<lambda>_. []), en_settings = small_settings,
     en_render = (\<lambda>t n. Inr (empty_object ''Any'' (cp_namespace (tm_params t), n))),
     en_decodeSources = (\<lambda>s. Inr \<lparr>sd_catalogs = [], sd_modelCatalogs = [], sd_rest = s\<rparr>),
     en_encodeSources = (\<lambda>d. Inr (sd_rest d)), en_getAuth = (\<lambda>w. (Inr NoGroups, w)),
     en_listConfigMaps = (\<lambda>_ w. (Inr cms, w)), en_listSecrets = (\<lambda>_ w. (Inr secrets, w)), en_hmac = (\<lambda>k m. k @ m)\<rparr>"

definition small_params :: CatalogParams where
  "small_params = no_params\<lparr>cp_name := catalogResourceName, cp_namespace := ''n'', cp_component := catalogPostgresComponent\<rparr>"

definition old_secret :: object where
  "old_secret = (empty_object ''Secret'' (''n'', ''model-catalog-postgres''))\<lparr>
     o_data := Some [(''database-password'', ''hunter2''), (''database-user'', [])]\<rparr>"

lemma memory_random: "random_nonempty memory_cluster"
  by (auto simp: random_nonempty_def memory_cluster_def)


definition hf_secret :: "string \<Rightarrow> string \<Rightarrow> object" where
  "hf_secret n v = (empty_object ''Secret'' (''n'', n))\<lparr>o_labels := [hfSourceLabel \<mapsto> v], o_data := Some [(hfAPIKeySecretKey, n)]\<rparr>"

theorem hf_sources_faithful_witness:
  "\<exists>sources hash. discoverHFSecrets (small_env [] [hf_secret ''b'' ''beta'', hf_secret ''a'' ''alpha'', hf_secret ''c'' ''ALPHA'']) ''n'' empty_cluster
       = (Inr (sources, hash), empty_cluster)
     \<and> hf_envVarName ` set sources = {''HF_API_KEY_BETA'', ''HF_API_KEY_ALPHA''} \<and> sorted_wrt (<) (map hf_envVarName sources)"
proof -
  let ?xs = "[hf_secret ''b'' ''beta'', hf_secret ''a'' ''alpha'', hf_secret ''c'' ''ALPHA'']"
  obtain sources hash where d: "discoverHFSecrets (small_env [] ?xs) ''n'' empty_cluster = (Inr (sources, hash), empty_cluster)"
    by (simp add: discoverHFSecrets_def small_env_def collect_hf_eq Let_def del: collect_hf.simps)
  have u: "hf_usable (hf_secret n v)" if "v \<in> {''alpha'', ''beta'', ''ALPHA''}" for n v
    using that by (auto simp: hf_usable_def hf_key_def secret_data_def hf_secret_def hfSourceLabelValueRegex_def alnum_def mapget_def)
  have e: "hf_env_name (hf_secret ''b'' ''beta'') = ''HF_API_KEY_BETA''" "hf_env_name (hf_secret ''a'' ''alpha'') = ''HF_API_KEY_ALPHA''"
      "hf_env_name (hf_secret ''c'' ''ALPHA'') = ''HF_API_KEY_ALPHA''"
    by code_simp+
  have "{x \<in> set ?xs. hf_usable x} = set ?xs" using u by auto
  then have "hf_env_name ` {x \<in> set ?xs. hf_usable x} = {''HF_API_KEY_BETA'', ''HF_API_KEY_ALPHA''}" by (simp add: e)
  moreover have "en_listSecrets (small_env [] ?xs) ''n'' empty_cluster = (Inr ?xs, empty_cluster)" by (simp add: small_env_def)
  ultimately show ?thesis using hf_sources_faithful[OF _ d, of ?xs empty_cluster] d by metis
qed

definition labeled_map :: "string \<Rightarrow> object" where
  "labeled_map n = (empty_object ''ConfigMap'' (''n'', n))\<lparr>o_data := Some [(sourcesFileName, ''catalogs: []'')]\<rparr>"

theorem labeled_sources_mountable_witness:
  "\<exists>sources. discoverLabeledSources (small_env [labeled_map ''team-b'', labeled_map ''Team'', labeled_map ''team-a''] []) ''n'' empty_cluster
       = (Inr sources, empty_cluster) \<and> sorted (map ls_name sources) \<and> ''team-a'' \<in> ls_name ` set sources"
proof -
  let ?cms = "[labeled_map ''team-b'', labeled_map ''Team'', labeled_map ''team-a'']"
  obtain sources where d: "discoverLabeledSources (small_env ?cms []) ''n'' empty_cluster = (Inr sources, empty_cluster)"
    by (simp add: discoverLabeledSources_def small_env_def)
  have "en_listConfigMaps (small_env ?cms []) ''n'' empty_cluster = (Inr ?cms, empty_cluster)" by (simp add: small_env_def)
  note p = labeled_sources_mountable[OF this d]
  have "o_name (labeled_map ''team-a'') = ''team-a''" "map_of (secret_data (labeled_map ''team-a'')) sourcesFileName \<noteq> None"
    by (simp_all add: labeled_map_def empty_object_def secret_data_def)
  moreover have "dnsLabelRegex ''team-a''" "length (''labeled-'' @ ''team-a'') \<le> 63" by (simp_all add: dnsLabelRegex_def dns_char_def)
  ultimately have "''team-a'' \<in> ls_name ` set sources" using p by fastforce
  then show ?thesis using d p by blast
qed

end
