(* ===== verification/Proxy_TLS.thy ===== *)
theory Proxy_TLS
  imports Kube "HOL-Library.Word"
begin

text \<open>
  \<^verbatim>\<open>internal/tls\<close>: the TLS flags of the kube-rbac-proxy and the TLS options of the operator's own
  servers, from the cluster's security profile. The platform library that resolves profiles
  (\<^verbatim>\<open>framework/tls\<close>, \<^verbatim>\<open>controller-runtime-common/pkg/tls\<close>) is the record \<open>tls_api\<close>; Go's list of
  implemented cipher suites is an argument. Cipher suite ids are 16-bit words.
\<close>

datatype tls_group = SecP256r1 | SecP384r1 | SecP521r1 | X25519 | X25519MLKEM768 | OtherGroup string

record TLSProfileSpec =
  tp_ciphers :: "string list"
  tp_minVersion :: string
  tp_groups :: "tls_group list"

record TLSSecurityProfile =
  sp_type :: string
  sp_custom :: "TLSProfileSpec option"

record APIServer =
  as_adherence :: string
  as_profile :: "TLSSecurityProfile option"

record tls_config =
  tc_minVersion :: "16 word"
  tc_cipherSuites :: "16 word list"
  tc_nextProtos :: "string list"

text \<open>
  \<open>ta_load\<close> is \<^verbatim>\<open>LoadWithAdherence\<close> as a function of what its read of the APIServer answered;
  \<open>ta_config\<close> is \<^verbatim>\<open>ConfigFromProfileWithError\<close>, without the list of unsupported ciphers, which is
  only logged.
\<close>

record tls_api =
  ta_fromProfileStrict :: "TLSSecurityProfile option \<Rightarrow> go_error + string \<times> string"
  ta_profileSpec :: "TLSSecurityProfile option \<Rightarrow> TLSProfileSpec"
  ta_shouldHonor :: "string \<Rightarrow> bool"
  ta_load :: "go_error + APIServer \<Rightarrow> go_error + TLSProfileSpec \<times> string"
  ta_getProfileSpec :: "TLSSecurityProfile option \<Rightarrow> go_error + TLSProfileSpec"
  ta_config :: "TLSProfileSpec \<Rightarrow> go_error + (tls_config \<Rightarrow> tls_config)"

definition VersionTLS10 :: string where "VersionTLS10 = ''VersionTLS10''"
definition VersionTLS11 :: string where "VersionTLS11 = ''VersionTLS11''"
definition VersionTLS12 :: string where "VersionTLS12 = ''VersionTLS12''"
definition VersionTLS13 :: string where "VersionTLS13 = ''VersionTLS13''"

section \<open>The proxy\<close>

definition proxyFIPSCipher :: "string \<Rightarrow> bool" where
  "proxyFIPSCipher cipher = (cipher \<in> set [''TLS_ECDHE_ECDSA_WITH_AES_128_GCM_SHA256'', ''TLS_ECDHE_RSA_WITH_AES_128_GCM_SHA256'',
     ''TLS_ECDHE_ECDSA_WITH_AES_256_GCM_SHA384'', ''TLS_ECDHE_RSA_WITH_AES_256_GCM_SHA384''])"

text \<open>The loop over the cipher suites, with those seen so far in order.\<close>

fun usable_ciphers :: "bool \<Rightarrow> string list \<Rightarrow> string list \<Rightarrow> string list" where
  "usable_ciphers fips seen [] = seen"
| "usable_ciphers fips seen (c # cs) =
     (if c = [] \<or> c \<in> set seen \<or> fips \<and> \<not> proxyFIPSCipher c then usable_ciphers fips seen cs
      else usable_ciphers fips (seen @ [c]) cs)"

definition curve_of :: "bool \<Rightarrow> tls_group \<Rightarrow> string" where
  "curve_of fips g =
     (case g of SecP256r1 \<Rightarrow> ''23'' | SecP384r1 \<Rightarrow> ''24'' | SecP521r1 \<Rightarrow> ''25''
      | X25519 \<Rightarrow> if \<not> fips then ''29'' else [] | X25519MLKEM768 \<Rightarrow> if \<not> fips then ''4588'' else []
      | OtherGroup _ \<Rightarrow> [])"

fun curves_of :: "bool \<Rightarrow> string list \<Rightarrow> tls_group list \<Rightarrow> string list" where
  "curves_of fips seen [] = seen"
| "curves_of fips seen (g # gs) =
     (let curve = curve_of fips g in
      if curve \<noteq> [] \<and> curve \<notin> set seen then curves_of fips (seen @ [curve]) gs else curves_of fips seen gs)"

definition http2_suite :: "string list \<Rightarrow> bool" where
  "http2_suite cs = (''TLS_ECDHE_RSA_WITH_AES_128_GCM_SHA256'' \<in> set cs \<or> ''TLS_ECDHE_ECDSA_WITH_AES_128_GCM_SHA256'' \<in> set cs)"

text \<open>
  The errors of \<^verbatim>\<open>proxyArgs\<close>: those that wrap \<^verbatim>\<open>errProxyTLSBelowMinimum\<close>, with the version, and the
  others. \<open>quote\<close> is the verb \<^verbatim>\<open>%q\<close>.
\<close>

datatype proxy_error = BelowMinimum string | ProxyError go_error

definition proxy_error_of :: "(string \<Rightarrow> string) \<Rightarrow> proxy_error \<Rightarrow> go_error" where
  "proxy_error_of quote e = (case e of
     BelowMinimum v \<Rightarrow> ErrorText (''proxy minimum TLS version is below TLS 1.2: minimum TLS version '' @ quote v
       @ '' is unsupported, require TLS 1.2 or TLS 1.3'')
   | ProxyError e \<Rightarrow> e)"

definition cipher_args :: "bool \<Rightarrow> string \<Rightarrow> string \<Rightarrow> go_error + string list" where
  "cipher_args fips version ciphers =
     (if version = VersionTLS12 then
        (let usable = usable_ciphers fips [] (splitOn (CHR '','') ciphers)
         in if usable = [] then Inl (ErrorText ''proxy TLS profile contains no cipher suites supported in the current crypto mode'')
            else if \<not> http2_suite usable
            then Inl (ErrorText ''proxy TLS 1.2 profile lacks an HTTP/2-required ECDHE RSA or ECDSA AES-128-GCM cipher suite'')
            else Inr [''--tls-cipher-suites='' @ joinWith '','' usable])
      else Inr [])"

definition curve_args :: "bool \<Rightarrow> tls_group list \<Rightarrow> go_error + string list" where
  "curve_args fips groups =
     (let curves = curves_of fips [] groups
      in if groups \<noteq> [] \<and> curves = []
         then Inl (ErrorText ''proxy TLS profile contains no TLS groups supported in the current crypto mode'')
         else Inr (if curves \<noteq> [] then [''--tls-curve-preferences='' @ joinWith '','' curves] else []))"

definition proxyArgs :: "tls_api \<Rightarrow> (string \<Rightarrow> string) \<Rightarrow> TLSSecurityProfile option \<Rightarrow> bool \<Rightarrow> proxy_error + string list" where
  "proxyArgs T quote profile fips =
     (case ta_fromProfileStrict T profile of
        Inl e \<Rightarrow> Inl (ProxyError (Wrapped ''resolve proxy TLS profile'' e))
      | Inr (version, ciphers) \<Rightarrow>
          if version \<noteq> VersionTLS12 \<and> version \<noteq> VersionTLS13 then
            (if version = VersionTLS10 \<or> version = VersionTLS11 then Inl (BelowMinimum version)
             else Inl (ProxyError (ErrorText (''proxy minimum TLS version '' @ quote version
                    @ '' is unsupported: require TLS 1.2 or TLS 1.3''))))
          else (case cipher_args fips version ciphers of
            Inl e \<Rightarrow> Inl (ProxyError e)
          | Inr cs \<Rightarrow>
              (case curve_args fips (tp_groups (ta_profileSpec T profile)) of
                 Inl e \<Rightarrow> Inl (ProxyError e)
               | Inr gs \<Rightarrow> Inr ([''--tls-min-version='' @ version] @ cs @ gs))))"

text \<open>The profile to honour: the answer of the APIServer read, when it counts.\<close>

definition honoured_profile :: "tls_api \<Rightarrow> bool \<Rightarrow> go_error + APIServer \<Rightarrow> go_error + TLSSecurityProfile option" where
  "honoured_profile T hasConfigAPI answer =
     (if \<not> hasConfigAPI then Inr None
      else case answer of
        Inl e \<Rightarrow> if \<not> isNotFound e \<and> \<not> isNoMatch e
                 then Inl (Wrapped ''read APIServer cluster for proxy TLS configuration'' e) else Inr None
      | Inr apiServer \<Rightarrow> Inr (if ta_shouldHonor T (as_adherence apiServer) then as_profile apiServer else None))"

definition resolveProxy ::
  "tls_api \<Rightarrow> (string \<Rightarrow> string) \<Rightarrow> bool \<Rightarrow> bool \<Rightarrow> go_error + APIServer \<Rightarrow> go_error + string list" where
  "resolveProxy T quote hasConfigAPI fips answer =
     (case honoured_profile T hasConfigAPI answer of
        Inl e \<Rightarrow> Inl e
      | Inr profile \<Rightarrow>
          (case (case proxyArgs T quote profile fips of
                   Inl (BelowMinimum v) \<Rightarrow>
                     if profile \<noteq> None \<and> sp_custom (the profile) = None then proxyArgs T quote None fips else Inl (BelowMinimum v)
                 | r \<Rightarrow> r) of
             Inl e \<Rightarrow> Inl (proxy_error_of quote e)
           | Inr args \<Rightarrow> Inr args))"

text \<open>\<open>goFIPS\<close> is \<^verbatim>\<open>fips140.Enabled()\<close>, \<open>kernelFIPS\<close> the content of the kernel's setting (empty if unreadable).\<close>

definition ResolveProxy ::
  "tls_api \<Rightarrow> (string \<Rightarrow> string) \<Rightarrow> bool \<Rightarrow> string \<Rightarrow> bool \<Rightarrow> go_error + APIServer \<Rightarrow> go_error + string list" where
  "ResolveProxy T quote goFIPS kernelFIPS hasConfigAPI answer =
     resolveProxy T quote hasConfigAPI (goFIPS \<or> trimSpace kernelFIPS = ''1'') answer"

section \<open>The operator's servers\<close>

definition minTLSVersion :: "(string \<Rightarrow> string) \<Rightarrow> string \<Rightarrow> go_error + 16 word" where
  "minTLSVersion quote version =
     (if version = [] then Inr 0x0303
      else if version = VersionTLS10 then Inr 0x0301
      else if version = VersionTLS11 then Inr 0x0302
      else if version = VersionTLS12 then Inr 0x0303
      else if version = VersionTLS13 then Inr 0x0304
      else Inl (ErrorText (''failed to resolve minimum TLS version '' @ quote version @ '': unsupported'')))"

text \<open>\<open>implemented\<close> lists the ids of \<^verbatim>\<open>tls.CipherSuites()\<close> and \<^verbatim>\<open>tls.InsecureCipherSuites()\<close>.\<close>

definition usableCipherSuites :: "16 word list \<Rightarrow> 16 word list \<Rightarrow> 16 word list" where
  "usableCipherSuites implemented mapped =
     filter (\<lambda>id. \<not> (id \<ge> 0x1300 \<and> id \<le> 0x13ff) \<and> id \<in> set implemented) mapped"

definition no_tls_config :: tls_config where
  "no_tls_config = \<lparr>tc_minVersion = 0, tc_cipherSuites = [], tc_nextProtos = []\<rparr>"

definition tlsOptionsFromProfile ::
  "tls_api \<Rightarrow> (string \<Rightarrow> string) \<Rightarrow> 16 word list \<Rightarrow> TLSProfileSpec \<Rightarrow> go_error + (tls_config \<Rightarrow> tls_config)" where
  "tlsOptionsFromProfile T quote implemented profile =
     (case minTLSVersion quote (tp_minVersion profile) of
        Inl e \<Rightarrow> Inl e
      | Inr minVersion \<Rightarrow>
          (case ta_config T profile of
             Inl e \<Rightarrow> Inl (Wrapped ''building TLS options from profile'' e)
           | Inr f \<Rightarrow>
               if minVersion = 0x0304 then Inr f
               else (let usable = usableCipherSuites implemented (tc_cipherSuites (f no_tls_config))
                     in if tp_ciphers profile \<noteq> [] \<and> usable = []
                        then Inl (ErrorText (''failed to find usable cipher suites for TLS <= 1.2: all ''
                               @ show_nat (length (tp_ciphers profile)) @ '' ciphers in TLS profile are TLS 1.3-only or unimplemented by Go''))
                        else Inr (\<lambda>c. if tp_ciphers profile \<noteq> [] then (f c)\<lparr>tc_cipherSuites := usable\<rparr> else f c))))"

definition isTransientAPIError :: "go_error \<Rightarrow> bool" where
  "isTransientAPIError e = (is_kind ServiceUnavailable e \<or> is_kind Timeout e \<or> is_kind ServerTimeout e
     \<or> is_kind TooManyRequests e \<or> is_kind DeadlineExceeded e)"

definition classifyAdherenceFetchError :: "go_error \<Rightarrow> bool \<times> string" where
  "classifyAdherenceFetchError e =
     (if isNotFound e \<or> isNoMatch e then (False, ''APIServer resource not found, continuing with default TLS adherence policy'')
      else if isTransientAPIError e
      then (False, ''transient API error reading APIServer TLS configuration, continuing with defaults; watcher will retry'')
      else if is_kind Forbidden e
      then (True, ''forbidden reading APIServer TLS configuration (check operator RBAC for the APIServer resource)'')
      else if is_kind Unauthorized e
      then (True, ''unauthorized reading APIServer TLS configuration (check operator credentials for the APIServer resource)'')
      else (True, ''unexpected error reading APIServer TLS configuration''))"

text \<open>The policy, whether it was fetched, and the error; the empty policy is \<^verbatim>\<open>NoOpinion\<close>.\<close>

definition resolveAdherencePolicy :: "string \<Rightarrow> go_error option \<Rightarrow> string \<times> bool \<times> go_error option" where
  "resolveAdherencePolicy policy err =
     (case err of
        None \<Rightarrow> (policy, True, None)
      | Some e \<Rightarrow>
          (case classifyAdherenceFetchError e of
             (failClosed, reason) \<Rightarrow> if failClosed then ([], False, Some (Wrapped reason e)) else ([], True, None)))"

record TLSConfig =
  tl_opts :: "(tls_config \<Rightarrow> tls_config) list"
  tl_profile :: TLSProfileSpec
  tl_adherence :: string
  tl_fetched :: bool

definition no_profile :: TLSProfileSpec where
  "no_profile = \<lparr>tp_ciphers = [], tp_minVersion = [], tp_groups = []\<rparr>"

definition no_TLSConfig :: TLSConfig where
  "no_TLSConfig = \<lparr>tl_opts = [], tl_profile = no_profile, tl_adherence = [], tl_fetched = False\<rparr>"

definition configureTLSFromClient ::
  "tls_api \<Rightarrow> (string \<Rightarrow> string) \<Rightarrow> 16 word list \<Rightarrow> go_error + APIServer \<Rightarrow> go_error + TLSConfig" where
  "configureTLSFromClient T quote implemented answer =
     (case ta_load T answer of
        Inl e \<Rightarrow>
          (case answer of
             Inl readErr \<Rightarrow> (case resolveAdherencePolicy [] (Some readErr) of (_, _, Some e') \<Rightarrow> Inl e' | (_, _, None) \<Rightarrow> Inr no_TLSConfig)
           | Inr _ \<Rightarrow> Inl e)
      | Inr (spec, policy) \<Rightarrow>
          (case (case answer of
                   Inr apiServer \<Rightarrow>
                     (case ta_getProfileSpec T (as_profile apiServer) of
                        Inl e \<Rightarrow> Inl (Wrapped (''unable to fetch TLS profile from APIServer '' @ quote ''cluster'') e)
                      | Inr p \<Rightarrow> Inr p)
                 | Inl _ \<Rightarrow> Inr spec) of
             Inl e \<Rightarrow> Inl e
           | Inr profile \<Rightarrow>
               (case tlsOptionsFromProfile T quote implemented profile of
                  Inl e \<Rightarrow> Inl e
                | Inr option \<Rightarrow> Inr \<lparr>tl_opts = [option], tl_profile = profile, tl_adherence = policy, tl_fetched = True\<rparr>)))"

text \<open>\<open>newClient\<close> is the error of creating the bootstrap client.\<close>

definition ConfigureTLS ::
  "tls_api \<Rightarrow> (string \<Rightarrow> string) \<Rightarrow> 16 word list \<Rightarrow> bool \<Rightarrow> go_error option \<Rightarrow> go_error + APIServer \<Rightarrow> go_error + TLSConfig" where
  "ConfigureTLS T quote implemented hasConfigAPI newClient answer =
     (case (if hasConfigAPI
            then (case newClient of Some e \<Rightarrow> Inl (Wrapped ''unable to create bootstrap client for TLS profile'' e)
                  | None \<Rightarrow> configureTLSFromClient T quote implemented answer)
            else Inr no_TLSConfig) of
        Inl e \<Rightarrow> Inl e
      | Inr result \<Rightarrow> Inr (result\<lparr>tl_opts := tl_opts result @ [\<lambda>c. c\<lparr>tc_nextProtos := [''h2'', ''http/1.1'']\<rparr>]\<rparr>))"

section \<open>Properties\<close>

lemma usable_ciphers_set:
  "set (usable_ciphers fips seen cs) = set seen \<union> {c \<in> set cs. c \<noteq> [] \<and> (fips \<longrightarrow> proxyFIPSCipher c)}"
  by (induction fips seen cs rule: usable_ciphers.induct) auto

lemma usable_ciphers_distinct: "distinct seen \<Longrightarrow> distinct (usable_ciphers fips seen cs)"
  by (induction fips seen cs rule: usable_ciphers.induct) auto

lemma curves_of_set: "set (curves_of fips seen gs) = set seen \<union> {c \<in> curve_of fips ` set gs. c \<noteq> []}"
  by (induction fips seen gs rule: curves_of.induct) (auto simp: Let_def)

lemma curves_of_distinct: "distinct seen \<Longrightarrow> distinct (curves_of fips seen gs)"
  by (induction fips seen gs rule: curves_of.induct) (auto simp: Let_def)

lemma curve_of_fips: "curve_of True g \<noteq> [] \<Longrightarrow> curve_of True g \<in> {''23'', ''24'', ''25''}"
  by (cases g) (simp_all add: curve_of_def)

text \<open>What the flags of the proxy are allowed to be, for a version and the ciphers and groups of its profile.\<close>

definition hardened_args :: "bool \<Rightarrow> string \<Rightarrow> string list \<Rightarrow> tls_group list \<Rightarrow> string list \<Rightarrow> bool" where
  "hardened_args fips version offered groups args =
     (version \<in> {VersionTLS12, VersionTLS13}
      \<and> (\<exists>cs gs. args = [''--tls-min-version='' @ version]
             @ (if version = VersionTLS12 then [''--tls-cipher-suites='' @ joinWith '','' cs] else [])
             @ (if groups \<noteq> [] then [''--tls-curve-preferences='' @ joinWith '','' gs] else [])
          \<and> (version = VersionTLS12 \<longrightarrow> distinct cs \<and> set cs \<subseteq> set offered - {[]} \<and> http2_suite cs \<and> (fips \<longrightarrow> list_all proxyFIPSCipher cs))
          \<and> (groups \<noteq> [] \<longrightarrow> gs \<noteq> [] \<and> distinct gs \<and> set gs \<subseteq> curve_of fips ` set groups \<and> (fips \<longrightarrow> set gs \<subseteq> {''23'', ''24'', ''25''}))))"

lemma cipher_args_Inr:
  assumes "cipher_args fips VersionTLS12 ciphers = Inr cs"
  shows "\<exists>us. cs = [''--tls-cipher-suites='' @ joinWith '','' us] \<and> distinct us \<and> set us \<subseteq> set (splitOn (CHR '','') ciphers) - {[]}
    \<and> http2_suite us \<and> (fips \<longrightarrow> list_all proxyFIPSCipher us)"
proof -
  let ?us = "usable_ciphers fips [] (splitOn (CHR '','') ciphers)"
  have "cs = [''--tls-cipher-suites='' @ joinWith '','' ?us]" "http2_suite ?us"
    using assms by (simp_all add: cipher_args_def Let_def split: if_splits)
  moreover have "distinct ?us" "set ?us \<subseteq> set (splitOn (CHR '','') ciphers) - {[]}" "fips \<longrightarrow> list_all proxyFIPSCipher ?us"
    by (simp add: usable_ciphers_distinct) (auto simp: usable_ciphers_set list_all_iff)
  ultimately show ?thesis by blast
qed

lemma curve_args_Inr:
  assumes "curve_args fips groups = Inr xs"
  shows "\<exists>gs. xs = (if groups \<noteq> [] then [''--tls-curve-preferences='' @ joinWith '','' gs] else [])
    \<and> (groups \<noteq> [] \<longrightarrow> gs \<noteq> [] \<and> distinct gs \<and> set gs \<subseteq> curve_of fips ` set groups \<and> (fips \<longrightarrow> set gs \<subseteq> {''23'', ''24'', ''25''}))"
proof -
  let ?gs = "curves_of fips [] groups"
  have "xs = (if groups \<noteq> [] then [''--tls-curve-preferences='' @ joinWith '','' ?gs] else [])" "groups \<noteq> [] \<longrightarrow> ?gs \<noteq> []"
    using assms by (auto simp: curve_args_def Let_def split: if_splits)
  moreover have "distinct ?gs" by (simp add: curves_of_distinct)
  moreover have "set ?gs \<subseteq> curve_of fips ` set groups" by (auto simp: curves_of_set)
  moreover have "set ?gs \<subseteq> {''23'', ''24'', ''25''}" if fips
    using that curve_of_fips by (auto simp only: curves_of_set set_simps(1) Un_empty_left)
  ultimately show ?thesis by blast
qed

lemma proxyArgs_Inr:
  assumes "proxyArgs T quote profile fips = Inr args"
  shows "\<exists>version ciphers. ta_fromProfileStrict T profile = Inr (version, ciphers)
    \<and> hardened_args fips version (splitOn (CHR '','') ciphers) (tp_groups (ta_profileSpec T profile)) args"
proof -
  obtain version ciphers where p: "ta_fromProfileStrict T profile = Inr (version, ciphers)"
    using assms by (cases "ta_fromProfileStrict T profile") (auto simp: proxyArgs_def)
  let ?groups = "tp_groups (ta_profileSpec T profile)"
  have v: "version \<in> {VersionTLS12, VersionTLS13}" using assms p by (auto simp: proxyArgs_def split: if_splits)
  obtain cs gs where c: "cipher_args fips version ciphers = Inr cs" and g: "curve_args fips ?groups = Inr gs"
    and a: "args = [''--tls-min-version='' @ version] @ cs @ gs"
    using assms p by (auto simp: proxyArgs_def split: if_splits sum.splits)
  obtain gs' where g': "gs = (if ?groups \<noteq> [] then [''--tls-curve-preferences='' @ joinWith '','' gs'] else [])"
    "?groups \<noteq> [] \<longrightarrow> gs' \<noteq> [] \<and> distinct gs' \<and> set gs' \<subseteq> curve_of fips ` set ?groups \<and> (fips \<longrightarrow> set gs' \<subseteq> {''23'', ''24'', ''25''})"
    using curve_args_Inr[OF g] by blast
  have "\<exists>us. cs = (if version = VersionTLS12 then [''--tls-cipher-suites='' @ joinWith '','' us] else [])
    \<and> (version = VersionTLS12 \<longrightarrow> distinct us \<and> set us \<subseteq> set (splitOn (CHR '','') ciphers) - {[]} \<and> http2_suite us \<and> (fips \<longrightarrow> list_all proxyFIPSCipher us))"
  proof (cases "version = VersionTLS12")
    case True
    then show ?thesis using cipher_args_Inr c by force
  next
    case False
    then show ?thesis using c by (simp add: cipher_args_def)
  qed
  then show ?thesis unfolding hardened_args_def p using v a g' by blast
qed

text \<open>
  C24: the proxy only ever gets hardened TLS flags. Whatever profile the cluster sets, the
  resolved minimum version is TLS 1.2 or 1.3; for TLS 1.2 the cipher suites are distinct, all
  offered by the profile, include one that HTTP/2 requires and in FIPS mode are all approved;
  a profile with groups gives at least one curve, in FIPS mode only NIST ones.
\<close>

theorem proxy_flags_hardened:
  assumes "resolveProxy T quote hasConfigAPI fips answer = Inr args"
  shows "\<exists>profile version ciphers. ta_fromProfileStrict T profile = Inr (version, ciphers)
    \<and> hardened_args fips version (splitOn (CHR '','') ciphers) (tp_groups (ta_profileSpec T profile)) args"
proof -
  obtain profile where "proxyArgs T quote profile fips = Inr args"
    using assms by (auto simp: resolveProxy_def split: sum.splits proxy_error.splits if_splits)
  from proxyArgs_Inr[OF this] show ?thesis by blast
qed

text \<open>
  C39: the proxy's TLS configuration fails closed. A failed read of the APIServer other than
  its absence is an error; a custom profile below TLS 1.2 is an error; and only a predefined
  profile below TLS 1.2 is replaced, by what an unset profile resolves to.
\<close>

theorem proxy_tls_fails_closed:
  "(\<not> isNotFound e \<and> \<not> isNoMatch e \<longrightarrow> isl (resolveProxy T quote True fips (Inl e)))
   \<and> (ta_shouldHonor T (as_adherence s) \<and> as_profile s = Some p
      \<and> ta_fromProfileStrict T (Some p) = Inr (version, ciphers) \<and> (version = VersionTLS10 \<or> version = VersionTLS11)
      \<longrightarrow> (if sp_custom p \<noteq> None then isl (resolveProxy T quote True fips (Inr s))
          else resolveProxy T quote True fips (Inr s) = resolveProxy T quote False fips (Inr s)))"
proof -
  have below: "proxyArgs T quote (Some p) fips = Inl (BelowMinimum version)"
    if "ta_fromProfileStrict T (Some p) = Inr (version, ciphers)" "version = VersionTLS10 \<or> version = VersionTLS11"
    using that by (auto simp: proxyArgs_def VersionTLS10_def VersionTLS11_def VersionTLS12_def VersionTLS13_def)
  show ?thesis
    using below by (auto simp: resolveProxy_def honoured_profile_def split: sum.splits proxy_error.splits)
qed

lemma tls13_range: "(0x1300 \<le> id \<and> id \<le> 0x13ff) \<longleftrightarrow> drop_bit 8 id = (0x13 :: 16 word)" for id :: "16 word"
proof -
  have "(0x1300 \<le> id \<and> id \<le> 0x13ff) \<longleftrightarrow> 0x1300 \<le> unat id \<and> unat id \<le> 0x13ff"
    by (simp add: word_le_nat_alt)
  also have "\<dots> \<longleftrightarrow> unat id div 256 = 19"
    using div_mult_mod_eq[of "unat id" 256] mod_less_divisor[of 256 "unat id"] by (auto intro: div_nat_eqI)
  also have "\<dots> \<longleftrightarrow> unat (drop_bit 8 id) = 19" by (simp only: unat_drop_bit_eq) (simp add: drop_bit_eq_div)
  also have "\<dots> \<longleftrightarrow> drop_bit 8 id = (0x13 :: 16 word)" by (simp add: word_unat_eq_iff)
  finally show ?thesis .
qed

text \<open>
  The operator's servers never start with an empty or useless cipher list. For a profile
  that names ciphers and allows TLS 1.2 or lower, the resulting configuration has at least one
  suite, and every suite comes from the profile, is implemented by Go and is not one of the
  TLS 1.3 range, whose ids have the high byte 0x13.
\<close>

theorem server_ciphers_usable:
  assumes "tlsOptionsFromProfile T quote implemented profile = Inr g" and "ta_config T profile = Inr f"
    and "tp_ciphers profile \<noteq> []" and "tp_minVersion profile \<noteq> VersionTLS13"
  shows "tc_cipherSuites (g c) \<noteq> [] \<and> (\<forall>id \<in> set (tc_cipherSuites (g c)).
    drop_bit 8 id \<noteq> 0x13 \<and> id \<in> set implemented \<and> id \<in> set (tc_cipherSuites (f no_tls_config)))"
proof -
  let ?usable = "usableCipherSuites implemented (tc_cipherSuites (f no_tls_config))"
  have "minTLSVersion quote (tp_minVersion profile) \<noteq> Inr 0x0304" using assms(4) by (simp add: minTLSVersion_def)
  then have "?usable \<noteq> [] \<and> g = (\<lambda>c. (f c)\<lparr>tc_cipherSuites := ?usable\<rparr>)"
    using assms(1-3) by (auto simp: tlsOptionsFromProfile_def Let_def split: sum.splits if_splits)
  moreover have "drop_bit 8 id \<noteq> 0x13 \<and> id \<in> set implemented \<and> id \<in> set (tc_cipherSuites (f no_tls_config))" if "id \<in> set ?usable" for id
    using that by (auto simp: usableCipherSuites_def tls13_range[symmetric])
  ultimately show ?thesis by simp
qed

subsection \<open>Witnesses\<close>

definition sample_tls :: tls_api where
  "sample_tls = \<lparr>ta_fromProfileStrict = (\<lambda>p. case p of None \<Rightarrow> Inr (VersionTLS12, ''TLS_ECDHE_RSA_WITH_AES_128_GCM_SHA256'')
       | Some q \<Rightarrow> Inr (VersionTLS10, ''TLS_RSA'')),
     ta_profileSpec = (\<lambda>_. no_profile\<lparr>tp_groups := [X25519, SecP256r1]\<rparr>), ta_shouldHonor = (\<lambda>_. True),
     ta_load = (\<lambda>_. Inr (no_profile, [])), ta_getProfileSpec = (\<lambda>_. Inr no_profile),
     ta_config = (\<lambda>_. Inr (\<lambda>c. c\<lparr>tc_minVersion := 0x0303, tc_cipherSuites := [0x1301, 0xc02f, 0xffff]\<rparr>))\<rparr>"

definition old_server :: APIServer where
  "old_server = \<lparr>as_adherence = [], as_profile = Some \<lparr>sp_type = ''Old'', sp_custom = None\<rparr>\<rparr>"

theorem proxy_flags_hardened_witness:
  "\<exists>version ciphers profile. hardened_args True version (splitOn (CHR '','') ciphers) (tp_groups (ta_profileSpec sample_tls profile))
     [''--tls-min-version=VersionTLS12'', ''--tls-cipher-suites=TLS_ECDHE_RSA_WITH_AES_128_GCM_SHA256'', ''--tls-curve-preferences=23'']"
proof -
  have "resolveProxy sample_tls id True True (Inr old_server) = Inr [''--tls-min-version=VersionTLS12'',
      ''--tls-cipher-suites=TLS_ECDHE_RSA_WITH_AES_128_GCM_SHA256'', ''--tls-curve-preferences=23'']" by code_simp
  from proxy_flags_hardened[OF this] show ?thesis by blast
qed

theorem proxy_tls_fails_closed_witness:
  "isl (resolveProxy sample_tls id True False (Inl (ApiError Forbidden ''no'')))
   \<and> isl (resolveProxy sample_tls id True False (Inr \<lparr>as_adherence = [], as_profile = Some \<lparr>sp_type = ''Custom'', sp_custom = Some no_profile\<rparr>\<rparr>))"
proof -
  let ?p = "\<lparr>sp_type = ''Custom'', sp_custom = Some no_profile\<rparr>"
  have "\<not> isNotFound (ApiError Forbidden ''no'') \<and> \<not> isNoMatch (ApiError Forbidden ''no'')" by (simp add: is_kind_def)
  moreover have "ta_shouldHonor sample_tls [] \<and> ta_fromProfileStrict sample_tls (Some ?p) = Inr (VersionTLS10, ''TLS_RSA'')"
    by (simp add: sample_tls_def)
  ultimately show ?thesis
    using proxy_tls_fails_closed[of "ApiError Forbidden ''no''" sample_tls id False "\<lparr>as_adherence = [], as_profile = Some ?p\<rparr>" ?p VersionTLS10 "''TLS_RSA''"]
    by simp
qed

theorem server_ciphers_usable_witness:
  "\<exists>g. tlsOptionsFromProfile sample_tls id [0xc02f, 0xc030] (no_profile\<lparr>tp_ciphers := [''a'', ''b'', ''c'']\<rparr>) = Inr g
     \<and> tc_cipherSuites (g no_tls_config) \<noteq> [] \<and> 0x1301 \<notin> set (tc_cipherSuites (g no_tls_config))"
proof -
  let ?profile = "no_profile\<lparr>tp_ciphers := [''a'', ''b'', ''c'']\<rparr>"
  let ?r = "tlsOptionsFromProfile sample_tls id [0xc02f, 0xc030] ?profile"
  have "\<not> isl ?r"
    by (simp add: tlsOptionsFromProfile_def minTLSVersion_def sample_tls_def no_profile_def usableCipherSuites_def Let_def)
  then obtain g where g: "?r = Inr g" by (cases ?r) auto
  obtain f where f: "ta_config sample_tls ?profile = Inr f" by (simp add: sample_tls_def)
  have v: "tp_minVersion ?profile \<noteq> VersionTLS13" "tp_ciphers ?profile \<noteq> []" by (simp_all add: no_profile_def VersionTLS13_def)
  have "drop_bit 8 (0x1301 :: 16 word) = 0x13" by simp
  then have "tc_cipherSuites (g no_tls_config) \<noteq> [] \<and> 0x1301 \<notin> set (tc_cipherSuites (g no_tls_config))"
    using server_ciphers_usable[OF g f v(2) v(1), of no_tls_config] by blast
  then show ?thesis using g by blast
qed

end
