(* ===== verification/Catalog_Reconcile.thy ===== *)
theory Catalog_Reconcile
  imports Catalog_Operands Catalog_Outcomes Proxy_TLS
begin

text \<open>
  The Catalog reconciler (\<^verbatim>\<open>internal/controller/catalog_controller.go\<close>): discovery, image
  resolution, the activation protocol, publishing the status, writing the operand's objects,
  containment of a failed activation, and finalization, composed as \<^verbatim>\<open>Reconcile\<close> composes them.
  The clock and the attempt's random id are read off the world.
\<close>

section \<open>The client\<close>

record 'w catalog_client =
  cc_env :: "'w catalog_env"
  cc_api :: "'w catalog_api"
  cc_conds :: cond_api
  cc_tls :: tls_api
  cc_fips :: bool
  cc_fingerprint :: "string list \<Rightarrow> string"
  cc_decodeReport :: "string \<Rightarrow> (string \<times> string) option"
  cc_now :: "'w \<Rightarrow> time"
  cc_nonce :: "'w \<Rightarrow> go_error + string"
  cc_get :: "key \<Rightarrow> ('w, Catalog) call"
  cc_read :: "key \<Rightarrow> ('w, Catalog) call" \<comment> \<open>\<^verbatim>\<open>APIReader\<close>, past the cache\<close>
  cc_getAPIServer :: "('w, APIServer) call"
  cc_update :: "Catalog \<Rightarrow> ('w, Catalog) call"
  cc_patchStatus :: "Catalog \<Rightarrow> Catalog \<Rightarrow> ('w, Catalog) call" \<comment> \<open>before, after; with optimistic lock\<close>
  cc_scaleToZero :: "Deployment \<Rightarrow> 'w \<Rightarrow> go_error option \<times> 'w" \<comment> \<open>merge patch with optimistic lock\<close>
  cc_event :: "Catalog \<Rightarrow> string \<Rightarrow> string \<Rightarrow> 'w \<Rightarrow> 'w"


abbreviation set_cond :: "'w catalog_client \<Rightarrow> 'w \<Rightarrow> string \<Rightarrow> string \<Rightarrow> string \<Rightarrow> string \<Rightarrow> Catalog \<Rightarrow> Catalog" where
  "set_cond C w \<equiv> setCatalogDataImageCondition (cc_conds C) (cc_now C w)"

abbreviation reduce_readiness :: "'w catalog_client \<Rightarrow> 'w \<Rightarrow> Catalog \<Rightarrow> Catalog" where
  "reduce_readiness C w \<equiv> reduceCatalogImageReadiness (cc_conds C) (cc_now C w)"

abbreviation catalog_key :: "Catalog \<Rightarrow> key" where
  "catalog_key c \<equiv> (cat_namespace c, cat_name c)"

text \<open>\<^verbatim>\<open>errors.As\<close> for the image failure: the cause of the first one in the error's tree.\<close>

fun as_unavailable :: "go_error \<Rightarrow> go_error option option" and as_unavailables :: "go_error list \<Rightarrow> go_error option option" where
  "as_unavailable (ImagesUnavailable cause) = Some cause"
| "as_unavailable (Wrapped m e) = as_unavailable e"
| "as_unavailable (Joined es) = as_unavailables es"
| "as_unavailable (ApiError k m) = None"
| "as_unavailable (ErrorText m) = None"
| "as_unavailables [] = None"
| "as_unavailables (e # es) = (case as_unavailable e of Some c \<Rightarrow> Some c | None \<Rightarrow> as_unavailables es)"

section \<open>Status\<close>

definition patchCatalogStatus :: "'w catalog_client \<Rightarrow> Catalog \<Rightarrow> Catalog \<Rightarrow> 'w \<Rightarrow> go_error option \<times> Catalog \<times> 'w" where
  "patchCatalogStatus C catalog before w =
     (if cat_status before = cat_status catalog then (None, catalog, w)
      else case cc_patchStatus C before catalog w of
        (Inl e, w') \<Rightarrow> (Some (Wrapped ''updating catalog status'' e), catalog, w')
      | (Inr c, w') \<Rightarrow> (None, c, w'))"

definition handleReconcileErrors ::
  "'w catalog_client \<Rightarrow> Catalog \<Rightarrow> Catalog \<Rightarrow> ctrl_result \<Rightarrow> go_error \<Rightarrow> 'w \<Rightarrow> ctrl_result \<times> go_error option \<times> 'w" where
  "handleReconcileErrors C catalog before result err w =
     (let c1 = set_cond C w conditionWorkloadAvailable ConditionFalse ReasonResourcesUnavailable
                 (''failed to reconcile catalog resources: '' @ error_string err) catalog;
          (patchErr, c2, w1) = patchCatalogStatus C (reduce_readiness C w c1) before w
      in (result, errors_join [Some err, patchErr], w1))"

definition same_attempt :: "Catalog \<Rightarrow> Catalog \<Rightarrow> bool" where
  "same_attempt current catalog =
     (cat_uid current = cat_uid catalog
      \<and> (case (activation current, activation catalog) of
           (Some a, Some b) \<Rightarrow> act_attemptID a = act_attemptID b \<and> act_requestHash a = act_requestHash b
         | _ \<Rightarrow> False))"

text \<open>The closure \<^verbatim>\<open>currentAttempt\<close>: does the persisted Catalog still have this attempt?\<close>

definition currentAttempt :: "'w catalog_client \<Rightarrow> Catalog \<Rightarrow> ('w, bool) call" where
  "currentAttempt C catalog w =
     (case cc_read C (catalog_key catalog) w of
        (Inl e, w') \<Rightarrow> (Inl (Wrapped ''reading Catalog attempt for temporary containment'' e), w')
      | (Inr current, w') \<Rightarrow> (Inr (same_attempt current catalog), w'))"

definition containCatalogImageFailure :: "'w catalog_client \<Rightarrow> Catalog \<Rightarrow> 'w \<Rightarrow> go_error option \<times> 'w" where
  "containCatalogImageFailure C catalog w =
     (case currentAttempt C catalog w of
        (Inl e, w1) \<Rightarrow> (Some e, w1)
      | (Inr False, w1) \<Rightarrow> (None, w1)
      | (Inr True, w1) \<Rightarrow>
          (case ca_getDeployment (cc_api C) (cat_namespace catalog, catalogResourceName) w1 of
             (Inl e, w2) \<Rightarrow>
               if isNotFound e then (None, w2)
               else (Some (Wrapped ''reading Catalog deployment for temporary containment'' e), w2)
           | (Inr deployment, w2) \<Rightarrow>
               if d_replicas deployment = Some 0 then (None, w2)
               else (case currentAttempt C catalog w2 of
                       (Inl e, w3) \<Rightarrow> (Some e, w3)
                     | (Inr False, w3) \<Rightarrow> (None, w3)
                     | (Inr True, w3) \<Rightarrow>
                         (case cc_scaleToZero C deployment w3 of
                            (Some e, w4) \<Rightarrow> (Some (Wrapped ''requesting Catalog deployment scale-down for temporary containment'' e), w4)
                          | (None, w4) \<Rightarrow> (None, w4)))))"

text \<open>The event for a failed attempt, unless the failure was already published.\<close>

definition failure_event :: "'w catalog_client \<Rightarrow> Catalog \<Rightarrow> Catalog \<Rightarrow> 'w \<Rightarrow> 'w" where
  "failure_event C catalog before w =
     (case activation catalog of
        None \<Rightarrow> w
      | Some a \<Rightarrow>
          if act_state a = ''Failed'' \<and> cr_hasRecorder (en_settings (cc_env C))
             \<and> (case cfind (cc_conds C) before conditionDataImageActivationFailed of
                  None \<Rightarrow> True
                | Some previous \<Rightarrow> cond_status previous \<noteq> ConditionTrue \<or> cond_reason previous \<noteq> act_reason a
                    \<or> cond_message previous \<noteq> act_message a)
          then cc_event C catalog ''CatalogActivationFailed''
                 (if act_stage a = ''Import'' \<or> act_stage a = ''Selection''
                  then ''Selected images could not be resolved; inspect Catalog image resolution conditions and correct the selection or import source''
                  else af_message (safeCatalogActivationFailure
                         \<lparr>af_stage = act_stage a, af_reason = act_reason a, af_message = act_message a\<rparr>)) w
          else w)"

definition attempt_failed :: "Catalog \<Rightarrow> bool" where
  "attempt_failed catalog = (case activation catalog of None \<Rightarrow> False | Some a \<Rightarrow> act_state a = ''Failed'')"

text \<open>
  Each early return of \<^verbatim>\<open>updateStatus\<close> publishes what is known with one more condition.
\<close>

definition publish_unknown ::
  "'w catalog_client \<Rightarrow> string \<Rightarrow> string \<Rightarrow> string \<Rightarrow> go_error \<Rightarrow> Catalog \<Rightarrow> Catalog \<Rightarrow> 'w \<Rightarrow> go_error option \<times> Catalog \<times> 'w" where
  "publish_unknown C t status reason err catalog before w =
     (case patchCatalogStatus C (reduce_readiness C w (set_cond C w t status reason (error_string err) catalog)) before w of
        (patchErr, c, w') \<Rightarrow> (errors_join [Some err, patchErr], c, w'))"

definition finish_status ::
  "'w catalog_client \<Rightarrow> verdict \<Rightarrow> Catalog \<Rightarrow> Catalog \<Rightarrow> 'w \<Rightarrow> go_error option \<times> Catalog \<times> 'w" where
  "finish_status C cond catalog before w =
     (let (status, reason, message) = cond;
          c1 = reduce_readiness C w (set_cond C w conditionWorkloadAvailable status reason message catalog)
      in case patchCatalogStatus C c1 before w of
           (Some e, c2, w1) \<Rightarrow> (Some e, c2, w1)
         | (None, c2, w1) \<Rightarrow>
             (let w2 = failure_event C c2 before w1
              in if attempt_failed c2
                 then (case containCatalogImageFailure C c2 w2 of (e, w3) \<Rightarrow> (errors_join [e], c2, w3))
                 else (None, c2, w2)))"

definition updateStatus :: "'w catalog_client \<Rightarrow> Catalog \<Rightarrow> Catalog \<Rightarrow> 'w \<Rightarrow> go_error option \<times> Catalog \<times> 'w" where
  "updateStatus C catalog0 before w =
     (let catalog = catalog0\<lparr>cat_status := (cat_status catalog0)\<lparr>st_observedGeneration := cat_generation catalog0\<rparr>\<rparr>
      in case checkDeploymentAvailability (cc_api C) (cc_now C w) (cat_namespace catalog, catalogResourceName)
                catalogResourceName catalogResourceName (st_resolvedImages (cat_status catalog)) w of
        (answer, w1) \<Rightarrow>
          (case (case answer of Inr v \<Rightarrow> Inr v
                 | Inl e \<Rightarrow> if isNotFound e then Inr (ConditionFalse, ReasonDeploymentUnavailable, ''Deployment not found'') else Inl e) of
             Inl e \<Rightarrow> publish_unknown C conditionWorkloadAvailable ConditionUnknown ''WorkloadStatusUnknown'' e catalog before w1
           | Inr cond \<Rightarrow>
               (case catalogActivationFailure_of (cc_api C) (cc_decodeReport C) catalog w1 of
                  (answer2, w2) \<Rightarrow>
                    (case (case answer2 of Inr f \<Rightarrow> Inr f | Inl e \<Rightarrow> if isNotFound e then Inr None else Inl e) of
                       Inl e \<Rightarrow> publish_unknown C conditionWorkloadAvailable ConditionUnknown ''ActivationStatusUnknown'' e catalog before w2
                     | Inr fail \<Rightarrow>
                         (case observeActivation (cc_api C) (cc_conds C) (cc_now C w2) catalog fail w2 of
                            (Some e, c1, w3) \<Rightarrow> publish_unknown C conditionDataActivationReady ConditionFalse ''ActivationStatusUnknown'' e c1 before w3
                          | (None, c1, w3) \<Rightarrow> finish_status C cond c1 before w3)))))"

section \<open>Resources\<close>

definition finalizeCatalog :: "'w catalog_client \<Rightarrow> Catalog \<Rightarrow> 'w \<Rightarrow> go_error option \<times> 'w" where
  "finalizeCatalog C catalog w =
     (case buildCatalogParams (cc_env C) catalog [] [] [] [] w of
        (params, w1) \<Rightarrow>
          (case run_steps (cleanupKubeRBACProxyConfig (cc_env C) params
                  # only_if (cr_httpRouteNamespace (en_settings (cc_env C)) \<noteq> [])
                      [deleteFromTemplate (cc_env C) params ''catalog-gateway-httproute.yaml.tmpl'' ''HTTPRoute'']) ResourceUnchanged w1 of
             (_, e, w2) \<Rightarrow> (e, w2)))"

text \<open>What the cluster says about the inputs of the operand.\<close>

definition discover_inputs :: "'w catalog_env \<Rightarrow> string \<Rightarrow> ('w, string list \<times> LabeledSource list \<times> HFSource list \<times> string) call" where
  "discover_inputs E namespace' w =
     (case (if cap_HasAuthAPI (cr_capabilities (en_settings E)) then fetchAuthConfig E w else (Inr [], w)) of
        (Inl e, w1) \<Rightarrow> (Inl e, w1)
      | (Inr adminGroups, w1) \<Rightarrow>
          (case discoverLabeledSources E namespace' w1 of
             (Inl e, w2) \<Rightarrow> (Inl (Wrapped ''failed to discover labeled catalog sources'' e), w2)
           | (Inr labeled, w2) \<Rightarrow>
               (case discoverHFSecrets E namespace' w2 of
                  (Inl e, w3) \<Rightarrow> (Inl (Wrapped ''failed to discover HF secrets'' e), w3)
                | (Inr (hf, hash), w3) \<Rightarrow> (Inr (adminGroups, labeled, hf, hash), w3))))"

text \<open>
  The statements from the resolution of the images to the publication of the status. The
  outcome is the error to return or the parameters to write the operand with; \<open>None\<close> is a panic.
\<close>

definition resolve_tls :: "'w catalog_client \<Rightarrow> ('w, string list) call" where
  "resolve_tls C w =
     (let hasConfigAPI = cap_HasConfigAPI (cr_capabilities (en_settings (cc_env C)));
          (answer, w1) = (if hasConfigAPI then cc_getAPIServer C w else (Inl (ErrorText []), w)) \<comment> \<open>not read\<close>
      in case resolveProxy (cc_tls C) (ca_quote (cc_api C)) hasConfigAPI (cc_fips C) answer of
           Inl e \<Rightarrow> (Inl (Wrapped ''resolve proxy TLS'' e), w1)
         | Inr args \<Rightarrow> (Inr args, w1))"

definition publish_attempt ::
  "'w catalog_client \<Rightarrow> go_error option \<Rightarrow> Catalog \<Rightarrow> CatalogParams \<Rightarrow> Catalog \<Rightarrow> 'w \<Rightarrow> (go_error + CatalogParams) \<times> Catalog \<times> 'w" where
  "publish_attempt C resolutionErr catalog params before w =
     (case prepareActivation (cc_conds C) (en_getenv (cc_env C)) (cc_fingerprint C) (cc_nonce C w) (cc_now C w) catalog params of
        (Some e, c1, p1) \<Rightarrow> (Inl e, c1, w)
      | (None, c1, p1) \<Rightarrow>
          (case patchCatalogStatus C c1 before w of
             (Some e, c2, w1) \<Rightarrow> (Inl (the (errors_join [resolutionErr, Some e])), c2, w1)
           | (None, c2, w1) \<Rightarrow> (case resolutionErr of Some e \<Rightarrow> (Inl e, c2, w1) | None \<Rightarrow> (Inr p1, c2, w1))))"

definition select_images ::
  "'w catalog_client \<Rightarrow> Catalog \<Rightarrow> CatalogParams \<Rightarrow> 'w \<Rightarrow> ((go_error + CatalogParams) \<times> Catalog \<times> 'w) option" where
  "select_images C catalog params w =
     (case resolveCatalogDataImages (cc_api C) (cc_conds C) (en_getenv (cc_env C)) (cc_now C w) catalog params w of
        None \<Rightarrow> None
      | Some (Some resolutionErr, c1, p1, w1) \<Rightarrow> Some (publish_attempt C (Some resolutionErr) c1 p1 catalog w1)
      | Some (None, c1, p1, w1) \<Rightarrow>
          (case resolve_tls C w1 of
             (Inl e, w2) \<Rightarrow> Some (Inl e, c1, w2)
           | (Inr args, w2) \<Rightarrow> Some (publish_attempt C None c1 (p1\<lparr>cp_proxyTLSArgs := args\<rparr>) catalog w2)))"

text \<open>Deleting an object of an earlier release, if the operator made it; errors are only logged.\<close>

definition delete_legacy :: "'w cluster_api \<Rightarrow> string \<Rightarrow> key \<Rightarrow> 'w step" where
  "delete_legacy C k n w =
     (case cl_get C k n w of
        (Inl e, w1) \<Rightarrow> (ResourceUnchanged, None, w1)
      | (Inr x, w1) \<Rightarrow>
          if mapget (o_labels x) ''app.kubernetes.io/created-by'' = ''model-registry-operator''
          then (ResourceUnchanged, None, snd (cl_delete C k (object_key x) w1))
          else (ResourceUnchanged, None, w1))"

definition workload_steps :: "'w catalog_env \<Rightarrow> CatalogParams \<Rightarrow> string option \<Rightarrow> string \<Rightarrow> 'w step list" where
  "workload_steps E params owner namespace' =
     [createOrUpdateServiceAccount E params ''catalog-serviceaccount.yaml.tmpl'' owner,
      createOrUpdateConfigmap E params ''catalog-default-configmap.yaml.tmpl'' owner,
      delete_legacy (en_cluster E) ''ConfigMap'' (namespace', ''model-catalog-default-sources''),
      manage_all E params user_source_templates False ResourceUnchanged,
      catalog_createOrUpdateDeployment E params ''catalog-deployment.yaml.tmpl'' owner,
      createOrUpdateService E params ''catalog-service.yaml.tmpl'' owner,
      createOrUpdateRole E params ''catalog-role.yaml.tmpl'' owner,
      createOrUpdateRoleBinding E params ''catalog-rolebinding.yaml.tmpl'' owner,
      createOrUpdateAdminRole E params owner,
      createOrUpdateAdminRoleBinding E params owner,
      delete_legacy (en_cluster E) ''PersistentVolumeClaim'' (namespace', catalogPostgresComponent)]"

definition network_steps :: "'w catalog_env \<Rightarrow> CatalogParams \<Rightarrow> CatalogParams \<Rightarrow> string option \<Rightarrow> 'w step list" where
  "network_steps E params postgresParams owner =
     only_if (\<not> cr_skipDB (en_settings E))
       [catalog_createOrUpdateDeployment E postgresParams ''catalog-postgres-deployment.yaml.tmpl'' owner,
        createOrUpdateService E postgresParams ''catalog-postgres-service.yaml.tmpl'' owner,
        catalog_createOrUpdateNetworkPolicy E postgresParams ''catalog-postgres-network-policy.yaml.tmpl'' owner,
        catalog_createOrUpdateNetworkPolicy E postgresParams ''catalog-postgres-egress-network-policy.yaml.tmpl'' owner]
     @ [catalog_createOrUpdateNetworkPolicy E params ''catalog-egress-network-policy.yaml.tmpl'' owner]
     @ only_if (cap_IsOpenShift (cr_capabilities (en_settings E)))
         (only_if (fst (cr_gateway (en_settings E)) \<noteq> [])
            [ensureCatalogReferenceGrantExists E params, createOrUpdateCatalogHTTPRoute E params]
          @ [createOrUpdateRoute E params ''catalog-kube-rbac-proxy-https-route.yaml.tmpl'' owner,
             catalog_createOrUpdateNetworkPolicy E params ''catalog-kube-rbac-proxy-network-policy.yaml.tmpl'' owner])
     @ [cleanupOAuthConfig E params, catalog_createOrUpdateKubeRBACProxyConfig E params owner]"

definition write_operand :: "'w catalog_env \<Rightarrow> string \<Rightarrow> string \<Rightarrow> CatalogParams \<Rightarrow> CatalogParams \<Rightarrow> 'w step" where
  "write_operand E owner namespace' postgresParams params w =
     (let steps = (\<lambda>p pg. workload_steps E p (Some owner) namespace' @ network_steps E p pg (Some owner))
      in if cr_skipDB (en_settings E) then run_steps (steps params postgresParams) ResourceUnchanged w
         else case createOrUpdatePostgresSecret E postgresParams owner w of
           (Inl e, w1) \<Rightarrow> (ResourceUnchanged, Some e, w1)
         | (Inr (res, secret), w1) \<Rightarrow>
             (let hash = computeSecretDataHash (en_hmac E) (secret_data secret)
              in run_steps (steps (params\<lparr>cp_postgresSecretHash := hash\<rparr>) (postgresParams\<lparr>cp_postgresSecretHash := hash\<rparr>))
                   (merge_result ResourceUnchanged res) w1))"

definition ensureCatalogResources ::
  "'w catalog_client \<Rightarrow> Catalog \<Rightarrow> 'w \<Rightarrow> (ctrl_result \<times> go_error option \<times> Catalog \<times> 'w) option" where
  "ensureCatalogResources C catalog w =
     (case discover_inputs (cc_env C) (cat_namespace catalog) w of
        (Inl e, w1) \<Rightarrow> Some (no_requeue, Some e, catalog, w1)
      | (Inr (adminGroups, labeled, hf, hash), w1) \<Rightarrow>
          (case buildCatalogParams (cc_env C) catalog adminGroups labeled hf hash w1 of
             (params, w2) \<Rightarrow>
               (case select_images C catalog params w2 of
                  None \<Rightarrow> None
                | Some (Inl e, c1, w3) \<Rightarrow> Some (no_requeue, Some e, c1, w3)
                | Some (Inr p1, c1, w3) \<Rightarrow>
                    (case write_operand (cc_env C) (cat_uid catalog) (cat_namespace c1)
                            (createPostgresParams (en_getenv (cc_env C)) catalog) p1 w3 of
                       (_, Some e, w4) \<Rightarrow> Some (no_requeue, Some e, c1, w4)
                     | (result, None, w4) \<Rightarrow> Some (no_requeue\<lparr>requeue := (result \<noteq> ResourceUnchanged)\<rparr>, None, c1, w4)))))"

section \<open>Reconcile\<close>

text \<open>
  The branch for unavailable images. \<^verbatim>\<open>blocked\<close> is read through when an event is due, so a
  missing condition would be a panic there.
\<close>

definition blocked_event :: "'w catalog_client \<Rightarrow> Catalog \<Rightarrow> Catalog \<Rightarrow> condition option \<Rightarrow> 'w \<Rightarrow> 'w option" where
  "blocked_event C catalog before blocked w =
     (let confirmedFailure = (case cfind (cc_conds C) catalog conditionDataImageResolved of None \<Rightarrow> False
            | Some resolved \<Rightarrow> cond_status resolved = ConditionFalse \<and> cond_reason resolved \<noteq> ''NoSuccessfulImport'')
      in if cr_hasRecorder (en_settings (cc_env C)) \<and> confirmedFailure
         then (case blocked of
                 None \<Rightarrow> None
               | Some b \<Rightarrow>
                   (case cfind (cc_conds C) before conditionDataImageUpdateBlocked of
                      Some previous \<Rightarrow>
                        if cond_status previous = cond_status b \<and> cond_reason previous = cond_reason b \<and> cond_message previous = cond_message b
                        then Some w else Some (cc_event C catalog (cond_reason b) (cond_message b) w)
                    | None \<Rightarrow> Some (cc_event C catalog (cond_reason b) (cond_message b) w)))
         else Some w)"

definition handle_unavailable ::
  "'w catalog_client \<Rightarrow> go_error option \<Rightarrow> ctrl_result \<Rightarrow> Catalog \<Rightarrow> Catalog \<Rightarrow> 'w \<Rightarrow> (ctrl_result \<times> go_error option \<times> 'w) option" where
  "handle_unavailable C cause res catalog before w =
     (let blocked = cfind (cc_conds C) catalog conditionDataImageUpdateBlocked;
          (stopErr, w1) = containCatalogImageFailure C catalog w;
          c1 = (case stopErr of None \<Rightarrow> catalog
                | Some e \<Rightarrow> set_cond C w1 conditionWorkloadAvailable ConditionUnknown ''CatalogContainmentFailed'' (error_string e) catalog);
          (statusErr, c2, w2) = patchCatalogStatus C (reduce_readiness C w1 c1) before w1
      in case (if statusErr = None then blocked_event C c2 before blocked w2 else Some w2) of
           None \<Rightarrow> None
         | Some w3 \<Rightarrow> Some (res, errors_join [cause, stopErr, statusErr], w3))"

text \<open>When to come back after a successful reconcile.\<close>

definition schedule_next :: "cond_api \<Rightarrow> Catalog \<Rightarrow> ctrl_result \<Rightarrow> ctrl_result" where
  "schedule_next A catalog res =
     (let otherwise' = (case activation catalog of
            Some a \<Rightarrow> if act_state a = ''Pending'' then \<lparr>requeue = False, requeueAfter = 15 * second\<rparr> else res
          | None \<Rightarrow> res)
      in case cfind A catalog conditionWorkloadAvailable of
           None \<Rightarrow> otherwise'
         | Some condition \<Rightarrow>
             if cond_reason condition = ReasonDeploymentCooldown then \<lparr>requeue = False, requeueAfter = second\<rparr>
             else if cond_status condition \<noteq> ConditionTrue then \<lparr>requeue = False, requeueAfter = 15 * second\<rparr>
             else otherwise')"

definition reconcile_live :: "'w catalog_client \<Rightarrow> Catalog \<Rightarrow> 'w \<Rightarrow> (ctrl_result \<times> go_error option \<times> 'w) option" where
  "reconcile_live C catalog w =
     (case ensureCatalogResources C catalog w of
        None \<Rightarrow> None
      | Some (res, err, c1, w1) \<Rightarrow>
          (let before = catalog\<lparr>cat_resourceVersion := cat_resourceVersion c1\<rparr>
           in case err of
                Some e \<Rightarrow>
                  (case as_unavailable e of
                     Some cause \<Rightarrow> handle_unavailable C cause res c1 before w1
                   | None \<Rightarrow> Some (handleReconcileErrors C c1 before res e w1))
              | None \<Rightarrow>
                  (case updateStatus C c1 before w1 of
                     (Some e, c2, w2) \<Rightarrow> Some (res, Some e, w2)
                   | (None, c2, w2) \<Rightarrow> Some (schedule_next (cc_conds C) c2 res, None, w2))))"

definition reconcile_deleted :: "'w catalog_client \<Rightarrow> Catalog \<Rightarrow> 'w \<Rightarrow> ctrl_result \<times> go_error option \<times> 'w" where
  "reconcile_deleted C catalog w =
     (if catalogFinalizer \<in> set (cat_finalizers catalog) then
        (case finalizeCatalog C catalog w of
           (Some e, w1) \<Rightarrow> (no_requeue, Some e, w1)
         | (None, w1) \<Rightarrow>
             (case cc_update C (catalog\<lparr>cat_finalizers := filter (\<lambda>f. f \<noteq> catalogFinalizer) (cat_finalizers catalog)\<rparr>) w1 of
                (Inl e, w2) \<Rightarrow> (no_requeue, Some e, w2)
              | (Inr _, w2) \<Rightarrow> (no_requeue, None, w2)))
      else (no_requeue, None, w))"

definition catalog_Reconcile :: "'w catalog_client \<Rightarrow> key \<Rightarrow> 'w \<Rightarrow> (ctrl_result \<times> go_error option \<times> 'w) option" where
  "catalog_Reconcile C req w =
     (case cc_get C req w of
        (Inl e, w1) \<Rightarrow> Some (no_requeue, if isNotFound e then None else Some e, w1)
      | (Inr catalog, w1) \<Rightarrow>
          if cat_deletion catalog \<noteq> None then Some (reconcile_deleted C catalog w1)
          else if catalogFinalizer \<notin> set (cat_finalizers catalog) then
            (case cc_update C (catalog\<lparr>cat_finalizers := cat_finalizers catalog @ [catalogFinalizer]\<rparr>) w1 of
               (Inl e, w2) \<Rightarrow> Some (no_requeue, Some e, w2)
             | (Inr catalog, w2) \<Rightarrow> reconcile_live C catalog w2)
          else reconcile_live C catalog w1)"

section \<open>What only reads the operand\<close>

text \<open>
  An observation of the world that discovery, image streams, status updates, events and reads
  leave alone: for instance the objects of the operand. What the reconciler relies on is that
  these calls do not touch them.
\<close>

locale operand_observer =
  fixes C :: "'w catalog_client" and obs :: "'w \<Rightarrow> 'a"
  assumes discovery: "obs (snd (en_getAuth (cc_env C) w)) = obs w"
      "obs (snd (en_listConfigMaps (cc_env C) n w)) = obs w"
      "obs (snd (en_listSecrets (cc_env C) n w)) = obs w"
      "obs (snd (cl_getProxy (en_cluster (cc_env C)) k w)) = obs w"
    and images: "obs (snd (ca_createOrUpdateStream (cc_api C) k f w)) = obs w"
      "obs (snd (ca_getDeployment (cc_api C) k w)) = obs w"
    and catalog_calls: "obs (snd (cc_read C k w)) = obs w" "obs (snd (cc_getAPIServer C w)) = obs w"
      "obs (snd (cc_patchStatus C c c' w)) = obs w"
begin

lemma discovery_frame:
  "en_getAuth (cc_env C) w = (r1, w') \<Longrightarrow> obs w' = obs w"
  "en_listConfigMaps (cc_env C) n w = (r2, w') \<Longrightarrow> obs w' = obs w"
  "en_listSecrets (cc_env C) n w = (r3, w') \<Longrightarrow> obs w' = obs w"
  "cl_getProxy (en_cluster (cc_env C)) k w = (r4, w') \<Longrightarrow> obs w' = obs w"
  using discovery by (metis snd_conv)+

lemma call_frame:
  "ca_createOrUpdateStream (cc_api C) k f w = (r1, w') \<Longrightarrow> obs w' = obs w"
  "ca_getDeployment (cc_api C) k w = (r2, w') \<Longrightarrow> obs w' = obs w"
  "cc_read C k w = (r3, w') \<Longrightarrow> obs w' = obs w"
  "cc_getAPIServer C w = (r4, w') \<Longrightarrow> obs w' = obs w"
  "cc_patchStatus C c c' w = (r5, w') \<Longrightarrow> obs w' = obs w"
  using images catalog_calls by (metis snd_conv)+

lemma discover_inputs_frame: "discover_inputs (cc_env C) n w = (r, w') \<Longrightarrow> obs w' = obs w"
  unfolding discover_inputs_def fetchAuthConfig_def discoverLabeledSources_def discoverHFSecrets_def Let_def
  by (auto split: prod.splits sum.splits if_splits admin_groups.splits dest!: discovery_frame)

lemma buildCatalogParams_frame: "buildCatalogParams (cc_env C) catalog g l h s w = (p, w') \<Longrightarrow> obs w' = obs w"
  unfolding buildCatalogParams_def catalogProxyOrDefault_def GetClusterProxy_def Let_def
  by (auto split: prod.splits sum.splits option.splits if_splits dest!: discovery_frame)

lemma keep_applied_world: "obs (rs_world (keep_applied (cc_api C) A now tg s)) = obs (rs_world s)"
proof -
  obtain r w' where r: "retainAppliedCatalogDataImages (cc_api C) (rs_catalog s) (rs_params s) (rs_world s) = (r, w')" by fastforce
  then have "obs w' = obs (rs_world s)"
    unfolding retainAppliedCatalogDataImages_def by (auto split: prod.splits sum.splits if_splits dest!: call_frame)
  then show ?thesis by (simp add: keep_applied_def r Let_def split: sum.split)
qed

lemma resolve_stream_world: "obs (rs_world (resolve_stream (cc_api C) A getenv now tg stream s)) = obs (rs_world s)"
proof -
  have "rs_world (observe_stream (cc_api C) A getenv now tg stream b s) = rs_world s" for b
    by (simp add: observe_stream_def Let_def split: prod.split)
  then show ?thesis
    by (simp add: resolve_stream_def settle_stream_def keep_applied_world Let_def split: prod.split)
qed

lemma resolve_target_world: "obs (rs_world (resolve_target (cc_api C) A getenv now tg s)) = obs (rs_world s)"
  unfolding resolve_target_def resolve_tracked_def ensureCatalogDataImageStreamForSource_def Let_def
  by (auto simp: resolve_stream_world set_resolved_def set_health_def put_image_def
      split: prod.splits sum.splits option.splits if_splits dest!: call_frame)

lemma resolve_world:
  assumes "resolveCatalogDataImages (cc_api C) A getenv now c p w = Some (e, c', p', w')"
  shows "obs w' = obs w"
proof -
  have "obs (rs_world (fold (resolve_target (cc_api C) A getenv now) ts s)) = obs (rs_world s)" for ts s
    by (induction ts arbitrary: s) (simp_all add: resolve_target_world)
  moreover have "w' = rs_world (resolve_targets (cc_api C) A getenv now c p w)"
    using assms by (auto simp: resolveCatalogDataImages_def Let_def split: option.splits prod.splits)
  ultimately show ?thesis by (simp add: resolve_targets_def initial_rstate_def)
qed

lemma patch_world: "patchCatalogStatus C c before w = (e, c', w') \<Longrightarrow> obs w' = obs w"
  by (auto simp: patchCatalogStatus_def split: if_splits prod.splits sum.splits dest!: call_frame)

lemma publish_attempt_world: "publish_attempt C e c p before w = (r, c', w') \<Longrightarrow> obs w' = obs w"
  unfolding publish_attempt_def by (auto split: prod.splits option.splits dest!: patch_world)

lemma select_images_world:
  assumes "select_images C catalog p w = Some (r, c', w')"
  shows "obs w' = obs w"
proof -
  obtain e c1 p1 w1 where s: "resolveCatalogDataImages (cc_api C) (cc_conds C) (en_getenv (cc_env C)) (cc_now C w) catalog p w
      = Some (e, c1, p1, w1)"
    using assms by (auto simp: select_images_def split: option.splits)
  have tls: "obs w2 = obs w1" if "resolve_tls C w1 = (r, w2)" for r w2
    using that by (auto simp: resolve_tls_def Let_def split: prod.splits sum.splits if_splits dest!: call_frame)
  show ?thesis
    using assms resolve_world[OF s] tls publish_attempt_world
    by (auto simp: select_images_def s split: option.splits prod.splits sum.splits)
qed

lemma attempt_world: "currentAttempt C catalog w = (r, w') \<Longrightarrow> obs w' = obs w"
  unfolding currentAttempt_def by (auto split: prod.splits sum.splits dest!: call_frame)

end

section \<open>What the server keeps of a status\<close>

definition condition_view :: "condition \<Rightarrow> string \<times> string \<times> string \<times> int" where
  "condition_view c = (cond_status c, cond_reason c, cond_message c, cond_observedGeneration c)"

definition attempt_view :: "CatalogActivationStatus \<Rightarrow> string \<times> string \<times> CatalogDataImages \<times> string \<times> string" where
  "attempt_view a = (act_attemptID a, act_requestHash a, act_images a, act_state a, act_reason a)"

text \<open>
  An acknowledged status patch answers with the status that was sent, up to the precision of
  its times.
\<close>

definition status_echo :: "'w catalog_client \<Rightarrow> bool" where
  "status_echo C = (\<forall>before c w c'. fst (cc_patchStatus C before c w) = Inr c'
     \<longrightarrow> map_option attempt_view (activation c') = map_option attempt_view (activation c)
       \<and> (\<forall>t. map_option condition_view (cfind (cc_conds C) c' t) = map_option condition_view (cfind (cc_conds C) c t)))"

lemma status_echoD:
  assumes "status_echo C" and "cc_patchStatus C before c w = (Inr c', w')"
  shows "map_option attempt_view (activation c') = map_option attempt_view (activation c)"
    and "map_option condition_view (cfind (cc_conds C) c' t) = map_option condition_view (cfind (cc_conds C) c t)"
  using assms unfolding status_echo_def by (metis fst_conv)+

lemma patch_echo:
  assumes "status_echo C" and "patchCatalogStatus C c before w = (e, c', w')"
  shows "map_option attempt_view (activation c') = map_option attempt_view (activation c)"
    and "map_option condition_view (cfind (cc_conds C) c' t) = map_option condition_view (cfind (cc_conds C) c t)"
  using assms(2) status_echoD[OF assms(1)]
  by (auto simp: patchCatalogStatus_def split: if_splits prod.splits sum.splits)

lemma view_true:
  "map_option condition_view (cfind A c' t) = map_option condition_view (cfind A c t)
   \<Longrightarrow> isConditionTrue A (conds c') t = isConditionTrue A (conds c) t"
  by (auto simp: isConditionTrue_def condition_view_def split: option.splits)

text \<open>A prepared attempt is recorded, and it is what the workload is written from.\<close>

definition written_from :: "CatalogParams \<Rightarrow> CatalogActivationStatus \<Rightarrow> bool" where
  "written_from p a = (cp_activationAttempt p = act_attemptID a \<and> cp_catalogDataImage p = img_catalog (act_images a)
     \<and> cp_benchmarkDataImage p = img_benchmark (act_images a) \<and> cp_activationBlocked p = (act_state a = ''Failed''))"

lemma written_from_view: "attempt_view a = attempt_view b \<Longrightarrow> written_from p a = written_from p b"
  by (simp add: written_from_def attempt_view_def)

context conditions_api
begin

lemma prepare_attempt:
  assumes "prepareActivation A getenv fp nonce now c p = (None, c', p')"
  shows "\<exists>a. activation c' = Some a \<and> written_from p' a"
    and "cfind A c' conditionDataImageUpdateBlocked = cfind A c conditionDataImageUpdateBlocked"
  using assms
  by (auto simp: prepareActivation_def written_from_def set_activation_def reduce_keeps Let_def
      split: option.splits sum.splits if_splits)

lemma resolver_block_found:
  assumes "resolveCatalogDataImages K A getenv now c p w = Some (e, c', p', w')"
  shows "cfind A c' conditionDataImageUpdateBlocked \<noteq> None"
  using assms
  by (auto simp: resolveCatalogDataImages_def conclude_resolution_def Let_def reduce_keeps find_after_set
      split: option.splits prod.splits)

end

section \<open>The reconciler on a live Catalog\<close>

locale live_catalog = operand_observer C obs + conditions_api "cc_conds C"
  for C :: "'w catalog_client" and obs :: "'w \<Rightarrow> 'a" +
  assumes echo: "status_echo C"
begin

lemma publish_attempt_facts:
  assumes "publish_attempt C e c p before w = (r, c', w')"
    and found: "cfind (cc_conds C) c conditionDataImageUpdateBlocked \<noteq> None"
  shows "cfind (cc_conds C) c' conditionDataImageUpdateBlocked \<noteq> None"
    and "r = Inr p' \<Longrightarrow> e = None \<and> (\<exists>a. activation c' = Some a \<and> written_from p' a)
      \<and> isConditionTrue (cc_conds C) (conds c') conditionDataImageUpdateBlocked
        = isConditionTrue (cc_conds C) (conds c) conditionDataImageUpdateBlocked"
proof -
  obtain pe c1 p1 where prep: "prepareActivation (cc_conds C) (en_getenv (cc_env C)) (cc_fingerprint C) (cc_nonce C w) (cc_now C w) c p
      = (pe, c1, p1)" by (metis prod_cases3)
  have c1: "cfind (cc_conds C) c1 conditionDataImageUpdateBlocked = cfind (cc_conds C) c conditionDataImageUpdateBlocked"
    using prep prepare_attempt(2) by (cases pe) (auto simp: prepareActivation_def Let_def split: option.splits sum.splits)
  obtain q c2 w2 where q: "patchCatalogStatus C c1 before w = (q, c2, w2)" by (metis prod_cases3)
  note view = patch_echo[OF echo q]
  have c': "c' = (if pe = None then c2 else c1)"
    using assms(1) by (auto simp: publish_attempt_def prep q split: option.splits)
  show "cfind (cc_conds C) c' conditionDataImageUpdateBlocked \<noteq> None"
    using c1 c' found view(2)[of conditionDataImageUpdateBlocked] by (auto split: if_splits)
  assume r: "r = Inr p'"
  then have ok: "pe = None" "p1 = p'" "e = None"
    using assms(1) by (auto simp: publish_attempt_def prep q split: option.splits)
  then obtain a where a: "activation c1 = Some a" "written_from p' a" using prepare_attempt(1) prep by blast
  then obtain b where b: "activation c2 = Some b" "attempt_view b = attempt_view a" using view(1) by auto
  then have "written_from p' b" using a(2) written_from_view by blast
  then have "\<exists>a. activation c' = Some a \<and> written_from p' a" using b(1) c' ok(1) by simp
  moreover have "isConditionTrue (cc_conds C) (conds c') conditionDataImageUpdateBlocked
      = isConditionTrue (cc_conds C) (conds c) conditionDataImageUpdateBlocked"
    using view_true[OF view(2)] c1 c' ok(1) by (simp add: isConditionTrue_def)
  ultimately show "e = None \<and> (\<exists>a. activation c' = Some a \<and> written_from p' a)
      \<and> isConditionTrue (cc_conds C) (conds c') conditionDataImageUpdateBlocked
        = isConditionTrue (cc_conds C) (conds c) conditionDataImageUpdateBlocked"
    using ok(3) by blast
qed

lemma publish_attempt_patched:
  assumes "publish_attempt C e c p before w = (Inr p', c', w')"
  shows "\<exists>c1 u. patchCatalogStatus C c1 before u = (None, c', w')"
  using assms by (auto simp: publish_attempt_def split: option.splits prod.splits)

lemma select_images_patched:
  assumes "select_images C catalog p w = Some (Inr p', c', w')"
  shows "\<exists>c1 u. patchCatalogStatus C c1 catalog u = (None, c', w')"
  using assms by (auto simp: select_images_def split: option.splits prod.splits sum.splits intro: publish_attempt_patched)

lemma select_images_facts:
  assumes "select_images C catalog p w = Some (r, c', w')"
  shows "cfind (cc_conds C) c' conditionDataImageUpdateBlocked \<noteq> None"
    and "r = Inr p' \<Longrightarrow> (\<exists>a. activation c' = Some a \<and> written_from p' a)
      \<and> \<not> isConditionTrue (cc_conds C) (conds c') conditionDataImageUpdateBlocked"
proof -
  obtain e c1 p1 w1 where s: "resolveCatalogDataImages (cc_api C) (cc_conds C) (en_getenv (cc_env C)) (cc_now C w) catalog p w
      = Some (e, c1, p1, w1)"
    using assms by (auto simp: select_images_def split: option.splits)
  note found = resolver_block_found[OF s] and blocked = resolver_view(1)[OF s]
  obtain q w2 where q: "resolve_tls C w1 = (q, w2)" by fastforce
  consider args where "e = None" "q = Inr args"
      "publish_attempt C None c1 (p1\<lparr>cp_proxyTLSArgs := args\<rparr>) catalog w2 = (r, c', w')"
    | x where "e = None" "q = Inl x" "r = Inl x" "c' = c1"
    | x where "e = Some x" "publish_attempt C (Some x) c1 p1 catalog w1 = (r, c', w')"
    using assms by (auto simp: select_images_def s q split: option.splits sum.splits)
  then have "cfind (cc_conds C) c' conditionDataImageUpdateBlocked \<noteq> None
    \<and> (r = Inr p' \<longrightarrow> (\<exists>a. activation c' = Some a \<and> written_from p' a)
      \<and> \<not> isConditionTrue (cc_conds C) (conds c') conditionDataImageUpdateBlocked)"
  proof cases
    case 1
    then show ?thesis using publish_attempt_facts(1)[OF 1(3) found] publish_attempt_facts(2)[OF 1(3) found, of p'] blocked by simp
  next
    case 2
    then show ?thesis using found by simp
  next
    case 3
    then show ?thesis using publish_attempt_facts(1)[OF 3(2) found] publish_attempt_facts(2)[OF 3(2) found, of p'] by auto
  qed
  then show "cfind (cc_conds C) c' conditionDataImageUpdateBlocked \<noteq> None"
    and "r = Inr p' \<Longrightarrow> (\<exists>a. activation c' = Some a \<and> written_from p' a)
      \<and> \<not> isConditionTrue (cc_conds C) (conds c') conditionDataImageUpdateBlocked" by blast+
qed

lemma ensure_cases:
  assumes "ensureCatalogResources C catalog w = Some (res, err, c', w')"
  obtains (discovery) e where "fst (discover_inputs (cc_env C) (cat_namespace catalog) w) = Inl e"
      "err = Some e" "c' = catalog" "obs w' = obs w"
  | (selection) p v e where "select_images C catalog p v = Some (Inl e, c', w')" "err = Some e" "obs w' = obs w"
  | (written) p v p' w3 r where "select_images C catalog p v = Some (Inr p', c', w3)" "obs w3 = obs w"
      "write_operand (cc_env C) (cat_uid catalog) (cat_namespace c')
         (createPostgresParams (en_getenv (cc_env C)) catalog) p' w3 = (r, err, w')"
      "res = no_requeue\<lparr>requeue := (err = None \<and> r \<noteq> ResourceUnchanged)\<rparr>"
proof -
  obtain d w1 where d: "discover_inputs (cc_env C) (cat_namespace catalog) w = (d, w1)" by fastforce
  note o1 = discover_inputs_frame[OF d]
  show thesis
  proof (cases d)
    case (Inl e)
    then show thesis using assms d o1 by (intro discovery[of e]) (simp_all add: ensureCatalogResources_def)
  next
    case (Inr x)
    obtain g l h k where x: "x = (g, l, h, k)" by (metis prod_cases4)
    obtain p w2 where p: "buildCatalogParams (cc_env C) catalog g l h k w1 = (p, w2)" by fastforce
    note o2 = buildCatalogParams_frame[OF p]
    obtain q c1 w3 where q: "select_images C catalog p w2 = Some (q, c1, w3)"
      using assms by (auto simp: ensureCatalogResources_def d Inr x p split: option.splits)
    note o3 = select_images_world[OF q]
    show thesis
    proof (cases q)
      case (Inl e)
      then show thesis using assms d p q o1 o2 o3 \<open>d = Inr x\<close> x
        by (intro selection[of p w2 e]) (simp_all add: ensureCatalogResources_def)
    next
      case (Inr p')
      obtain r e w4 where wr: "write_operand (cc_env C) (cat_uid catalog) (cat_namespace c1)
         (createPostgresParams (en_getenv (cc_env C)) catalog) p' w3 = (r, e, w4)" by (metis prod_cases3)
      then show thesis using assms d p q o1 o2 o3 \<open>d = Inr x\<close> x Inr
        by (intro written[of p w2 p' w3 r])
          (auto simp: ensureCatalogResources_def no_requeue_def split: option.splits)
    qed
  qed
qed

text \<open>An operand changes only after its attempt is published, and it is written from it.\<close>

lemma written_as_published:
  assumes "ensureCatalogResources C catalog w = Some (res, err, c', w')" and "obs w' \<noteq> obs w"
  shows "\<exists>a p v r. activation c' = Some a \<and> written_from p a
    \<and> \<not> isConditionTrue (cc_conds C) (conds c') conditionDataImageUpdateBlocked
    \<and> obs v = obs w \<and> (\<exists>c1 u. patchCatalogStatus C c1 catalog u = (None, c', v))
    \<and> write_operand (cc_env C) (cat_uid catalog) (cat_namespace c') (createPostgresParams (en_getenv (cc_env C)) catalog) p v = (r, err, w')"
  using assms(1)
proof (cases rule: ensure_cases)
  case (written p v p' w3 r)
  then show ?thesis using select_images_facts(2)[OF written(1) refl] select_images_patched[OF written(1)] by blast
qed (use assms(2) in simp_all)

text \<open>Once images were selected there is a condition to report a blocked update from.\<close>

lemma ensure_block_found:
  assumes "ensureCatalogResources C catalog w = Some (res, err, c', w')"
  shows "cfind (cc_conds C) c' conditionDataImageUpdateBlocked \<noteq> None
    \<or> (\<exists>e. err = Some e \<and> fst (discover_inputs (cc_env C) (cat_namespace catalog) w) = Inl e)"
  using assms
proof (cases rule: ensure_cases)
  case (selection p v e)
  from select_images_facts(1)[OF this(1)] show ?thesis by (rule disjI1)
next
  case (written p v p' w3 r)
  from select_images_facts(1)[OF this(1)] show ?thesis by (rule disjI1)
qed simp

lemma select_images_total: "select_images C c p v \<noteq> None"
proof -
  obtain e c1 p1 w1 where "resolveCatalogDataImages (cc_api C) (cc_conds C) (en_getenv (cc_env C)) (cc_now C v) c p v = Some (e, c1, p1, w1)"
    using resolver_result[where K="cc_api C" and getenv="en_getenv (cc_env C)" and now="cc_now C v" and c=c and params=p and w=v]
    by metis
  then show ?thesis by (cases e) (simp_all add: select_images_def del: not_None_eq split: sum.split prod.split)
qed

lemma ensure_total: "ensureCatalogResources C catalog w \<noteq> None"
proof -
  obtain d w1 where d: "discover_inputs (cc_env C) (cat_namespace catalog) w = (d, w1)" by fastforce
  show ?thesis
  proof (cases d)
    case (Inr x)
    obtain g l h k where x: "x = (g, l, h, k)" by (metis prod_cases4)
    obtain p w2 where p: "buildCatalogParams (cc_env C) catalog g l h k w1 = (p, w2)" by fastforce
    obtain q c1 w3 where q: "select_images C catalog p w2 = Some (q, c1, w3)"
      using select_images_total[of catalog p w2] by auto
    then show ?thesis
      by (simp add: ensureCatalogResources_def d Inr x p split: sum.split prod.split option.split)
  qed (simp add: ensureCatalogResources_def d)
qed

lemma handle_unavailable_total:
  assumes "cfind (cc_conds C) catalog conditionDataImageUpdateBlocked \<noteq> None"
  shows "handle_unavailable C cause res catalog before w \<noteq> None"
  using assms by (auto simp: handle_unavailable_def blocked_event_def Let_def split: prod.splits option.splits)

end

section \<open>Theorems\<close>

text \<open>
  C1: the operand follows the published selection. In every run of
  \<^verbatim>\<open>ensureCatalogResources\<close> that changes an object of the operand, the image selection was
  resolved, no update is blocked and the status with the activation attempt was accepted by the
  API server before the first write; and the workload is written with the images and the
  attempt id of that published attempt, blocked exactly when the attempt has failed. A failed
  discovery, resolution, TLS lookup or status update, in particular a conflicting edit of the
  Catalog, leaves every object as it is.
\<close>

theorem operand_follows_published_attempt:
  assumes "live_catalog C obs" and "ensureCatalogResources C catalog w = Some (res, err, c', w')" and "obs w' \<noteq> obs w"
  shows "\<exists>a p v r. activation c' = Some a
    \<and> cp_activationAttempt p = act_attemptID a \<and> cp_catalogDataImage p = img_catalog (act_images a)
    \<and> cp_benchmarkDataImage p = img_benchmark (act_images a) \<and> cp_activationBlocked p = (act_state a = ''Failed'')
    \<and> \<not> isConditionTrue (cc_conds C) (conds c') conditionDataImageUpdateBlocked
    \<and> obs v = obs w \<and> (\<exists>c1 u. patchCatalogStatus C c1 catalog u = (None, c', v))
    \<and> write_operand (cc_env C) (cat_uid catalog) (cat_namespace c') (createPostgresParams (en_getenv (cc_env C)) catalog) p v = (r, err, w')"
  using live_catalog.written_as_published[OF assms] unfolding written_from_def by blast

text \<open>
  C13: containment hits only its own attempt. Whenever \<^verbatim>\<open>containCatalogImageFailure\<close> changes the
  operand, the change is the scale-down of a running Deployment, requested directly after a
  read of the persisted Catalog, past the cache, that still had the same UID, attempt id and
  request hash: a reconcile that was overtaken by a newer attempt never stops its workload.
\<close>

theorem containment_checks_attempt:
  assumes "operand_observer C obs" and "containCatalogImageFailure C catalog w = (e, w')" and "obs w' \<noteq> obs w"
  shows "\<exists>current deployment v v'. cc_read C (cat_namespace catalog, cat_name catalog) v = (Inr current, v')
    \<and> cat_uid current = cat_uid catalog
    \<and> (\<exists>a b. activation current = Some a \<and> activation catalog = Some b
         \<and> act_attemptID a = act_attemptID b \<and> act_requestHash a = act_requestHash b)
    \<and> d_replicas deployment \<noteq> Some 0 \<and> obs v' = obs w \<and> w' = snd (cc_scaleToZero C deployment v')"
proof -
  note frames = operand_observer.attempt_world[OF assms(1)] operand_observer.call_frame(2)[OF assms(1)]
  obtain w1 where a: "currentAttempt C catalog w = (Inr True, w1)"
    using assms(2,3) by (auto simp: containCatalogImageFailure_def split: prod.splits sum.splits bool.splits dest: frames)
  obtain d w2 where d: "ca_getDeployment (cc_api C) (cat_namespace catalog, catalogResourceName) w1 = (Inr d, w2)" "d_replicas d \<noteq> Some 0"
    using assms(2,3) frames a
    by (auto simp: containCatalogImageFailure_def split: prod.splits sum.splits bool.splits if_splits dest: frames)
  have o2: "obs w2 = obs w" using frames(1)[OF a] frames(2)[OF d(1)] by simp
  obtain w3 where b: "currentAttempt C catalog w2 = (Inr True, w3)"
    using assms(2,3) a d frames(1)[of catalog w2] o2 by (auto simp: containCatalogImageFailure_def split: prod.splits sum.splits bool.splits dest: frames)
  then obtain current where r: "cc_read C (cat_namespace catalog, cat_name catalog) w2 = (Inr current, w3)" "same_attempt current catalog"
    by (auto simp: currentAttempt_def split: prod.splits sum.splits)
  have "obs w3 = obs w" using o2 frames(1)[OF b] by simp
  moreover have "w' = snd (cc_scaleToZero C d w3)"
    using assms(2) a b d by (auto simp: containCatalogImageFailure_def split: prod.splits option.splits)
  moreover have "cat_uid current = cat_uid catalog \<and> (\<exists>a b. activation current = Some a \<and> activation catalog = Some b
      \<and> act_attemptID a = act_attemptID b \<and> act_requestHash a = act_requestHash b)"
    using r(2) by (auto simp: same_attempt_def split: option.splits)
  ultimately show ?thesis using r(1) d(2) by blast
qed

text \<open>The errors of the discovery calls carry no image failure, which is a type of the resolver.\<close>

definition plain_discovery :: "'w catalog_env \<Rightarrow> bool" where
  "plain_discovery E = (\<forall>w n e. fst (en_getAuth E w) = Inl e \<or> fst (en_listConfigMaps E n w) = Inl e \<or> fst (en_listSecrets E n w) = Inl e
     \<longrightarrow> as_unavailable e = None)"

lemma plain_discover_inputs:
  assumes "plain_discovery E" and "fst (discover_inputs E n w) = Inl e"
  shows "as_unavailable e = None"
proof -
  have p: "en_getAuth E v = (Inl x, v') \<Longrightarrow> as_unavailable x = None" "en_listConfigMaps E n v = (Inl x, v') \<Longrightarrow> as_unavailable x = None"
      "en_listSecrets E n v = (Inl x, v') \<Longrightarrow> as_unavailable x = None" for v x v'
    using assms(1) unfolding plain_discovery_def by (metis fst_conv)+
  have "fetchAuthConfig E v = (Inl x, v') \<Longrightarrow> as_unavailable x = None" "discoverLabeledSources E n v = (Inl x, v') \<Longrightarrow> as_unavailable x = None"
      "discoverHFSecrets E n v = (Inl x, v') \<Longrightarrow> as_unavailable x = None" for v x v'
    by (auto simp: fetchAuthConfig_def discoverLabeledSources_def discoverHFSecrets_def Let_def
        split: prod.splits sum.splits admin_groups.splits if_splits dest: p)
  then show ?thesis
    using assms(2) by (auto simp: discover_inputs_def split: prod.splits sum.splits if_splits)
qed


text \<open>A status update that succeeds has published what the workload check found.\<close>

lemma updateStatus_workload:
  assumes "conditions_api (cc_conds C)" and "status_echo C" and "updateStatus C c before w = (None, c', w')"
  shows "cfind (cc_conds C) c' conditionWorkloadAvailable \<noteq> None"
proof -
  obtain cond c1 v where f: "finish_status C cond c1 before v = (None, c', w')"
    using assms(3) by (auto simp: updateStatus_def publish_unknown_def Let_def split: prod.splits sum.splits option.splits if_splits)
  obtain st r m where cond: "cond = (st, r, m)" by (metis prod_cases3)
  let ?c = "reduce_readiness C v (set_cond C v conditionWorkloadAvailable st r m c1)"
  obtain q v' where q: "patchCatalogStatus C ?c before v = (q, c', v')"
    using f by (auto simp: finish_status_def cond Let_def split: prod.splits option.splits if_splits)
  have "cfind (cc_conds C) ?c conditionWorkloadAvailable \<noteq> None"
    by (simp add: conditions_api.reduce_keeps[OF assms(1)] conditions_api.find_after_set[OF assms(1)])
  then show ?thesis using patch_echo(2)[OF assms(2) q, of conditionWorkloadAvailable] by auto
qed

lemma schedule_quiet:
  assumes "\<not> requeue (schedule_next A c res)" "requeueAfter (schedule_next A c res) = 0"
    and "cfind A c conditionWorkloadAvailable \<noteq> None"
  shows "isConditionTrue A (conds c) conditionWorkloadAvailable" and "\<not> requeue res"
    and "case activation c of None \<Rightarrow> True | Some a \<Rightarrow> act_state a \<noteq> ''Pending''"
  using assms by (auto simp: schedule_next_def second_def isConditionTrue_def Let_def split: option.splits if_splits)


section \<open>A reference client\<close>

text \<open>
  A client over the cluster in memory, for a given persisted Catalog and Deployment: it
  acknowledges every status and echoes it, and scaling down is recorded as an object.
\<close>

definition small_api :: "go_error + Deployment \<Rightarrow> cluster catalog_api" where
  "small_api d = \<lparr>ca_isOpenShift = False, ca_quote = (\<lambda>s. s),
     ca_applyStream = (\<lambda>p. Inr (catalog_data_imagestream_tmpl p)), ca_setControllerReference = (\<lambda>c s. Inr s),
     ca_createOrUpdateStream = (\<lambda>k f w. (Inl missing, w)), ca_getDeployment = (\<lambda>k w. (d, w)),
     ca_listCatalogs = (\<lambda>n w. (Inr [], w)), ca_listEndpointSlices = (\<lambda>n v w. (Inr [], w)), ca_listPods = (\<lambda>n l w. (Inr [], w))\<rparr>"

definition small_client :: "(CatalogTemplate \<Rightarrow> string \<Rightarrow> go_error + object) \<Rightarrow> Catalog \<Rightarrow> go_error + Deployment \<Rightarrow> cluster catalog_client" where
  "small_client render c d = \<lparr>cc_env = (small_env [] [])\<lparr>en_render := render\<rparr>, cc_api = small_api d, cc_conds = list_conditions,
     cc_tls = sample_tls, cc_fips = False, cc_fingerprint = concat, cc_decodeReport = (\<lambda>_. None), cc_now = (\<lambda>w. int (cw_counter w)),
     cc_nonce = (\<lambda>w. Inr (show_nat (cw_counter w))), cc_get = (\<lambda>k w. (Inr c, w)), cc_read = (\<lambda>k w. (Inr c, w)),
     cc_getAPIServer = (\<lambda>w. (Inl missing, w)), cc_update = (\<lambda>c w. (Inr c, w)), cc_patchStatus = (\<lambda>b c w. (Inr c, w)),
     cc_scaleToZero = (\<lambda>d w. (None, put_object (empty_object ''Scale'' (d_namespace d, d_name d)) w)), cc_event = (\<lambda>c r m w. w)\<rparr>"

interpretation sc: live_catalog "small_client render c d" cw_objects for render c d
proof unfold_locales
  fix now cs k t u
  show "findc (cc_conds (small_client render c d)) (setc (cc_conds (small_client render c d)) now cs k) t =
      (if t = cond_type k then Some (stamp now (findc (cc_conds (small_client render c d)) cs t) k)
       else findc (cc_conds (small_client render c d)) cs t)"
    by (simp add: small_client_def lc.find_set)
  show "findc (cc_conds (small_client render c d)) (removec (cc_conds (small_client render c d)) cs u) t =
      (if t = u then None else findc (cc_conds (small_client render c d)) cs t)"
    by (simp add: small_client_def lc.find_remove)
  show "findc (cc_conds (small_client render c d)) cs t = Some k \<Longrightarrow> cond_type k = t"
    by (simp add: small_client_def lc.find_type)
  show "status_echo (small_client render c d)" by (simp add: status_echo_def small_client_def)
qed (simp_all add: small_client_def small_env_def small_api_def memory_cluster_def)

lemma small_plain: "plain_discovery (cc_env (small_client render c d))"
  by (simp add: plain_discovery_def small_client_def small_env_def)


theorem containment_checks_attempt_witness:
  "\<exists>current (deployment :: Deployment) v. cc_read (small_client (\<lambda>_ _. Inl missing) ready_sample (Inr sample_deployment)) (''ns'', ''model-catalog'') v = (Inr current, v)
     \<and> cat_uid current = cat_uid ready_sample \<and> d_replicas deployment \<noteq> Some 0 \<and> cw_objects v = Map.empty"
proof -
  let ?C = "small_client (\<lambda>_ _. Inl missing) ready_sample (Inr sample_deployment)"
  obtain w' where c: "containCatalogImageFailure ?C ready_sample empty_cluster = (None, w')" "cw_objects w' \<noteq> cw_objects empty_cluster"
    by (simp add: containCatalogImageFailure_def currentAttempt_def same_attempt_def small_client_def small_api_def ready_sample_def
        sample_defs sample_deployment_def put_object_def empty_cluster_def)
  have same: "cc_read ?C k v = (Inr x, v') \<Longrightarrow> v' = v" for k v x v' by (simp add: small_client_def)
  have names: "cat_namespace ready_sample = ''ns''" "cat_name ready_sample = ''model-catalog''" "cw_objects empty_cluster = Map.empty"
    by (simp_all add: ready_sample_def sample_catalog_def empty_cluster_def)
  obtain current and deployment :: Deployment and v v' where "cc_read ?C (''ns'', ''model-catalog'') v = (Inr current, v')"
      "cat_uid current = cat_uid ready_sample" "d_replicas deployment \<noteq> Some 0" "cw_objects v' = Map.empty"
    using containment_checks_attempt[OF sc.operand_observer_axioms c] unfolding names by fast
  then show ?thesis using same by blast
qed

definition unready :: Catalog where "unready = selecting None None"

text \<open>A template that does not render: the run writes the Postgres Secret and stops.\<close>

definition stuck :: "cluster catalog_client" where
  "stuck = small_client (\<lambda>_ _. Inl missing) unready (Inl missing)"

lemma stuck_simps [simp]:
  "cc_env stuck = (small_env [] [])\<lparr>en_render := (\<lambda>_ _. Inl missing)\<rparr>" "cc_conds stuck = list_conditions" "cc_api stuck = small_api (Inl missing)"
  "cc_patchStatus stuck b c w = (Inr c, w)" "cc_nonce stuck w = Inr (show_nat (cw_counter w))"
  by (simp_all add: stuck_def small_client_def)

lemma stuck_live: "live_catalog stuck cw_objects"
  unfolding stuck_def by (rule sc.live_catalog_axioms)

lemma stuck_discovers: "fst (discover_inputs (cc_env stuck) n w) \<noteq> Inl e"
  by (simp add: discover_inputs_def small_env_def small_settings_def no_capabilities_def discoverLabeledSources_def
      discoverHFSecrets_def Let_def)

lemma stuck_render: "\<exists>w'. with_object (cc_env stuck) p t f w = (ResourceUnchanged, Some missing, w') \<and> cw_objects w' = cw_objects w"
  by (simp add: with_object_def catalog_Apply_def default_domain_def GetDefaultDomain_def small_env_def memory_cluster_def Let_def
      split: prod.split)

lemma stuck_write:
  assumes "cw_objects w = Map.empty" and "write_operand (cc_env stuck) u n (createPostgresParams getenv unready) p w = (r, e, w')"
  shows "cw_objects w' \<noteq> Map.empty"
proof -
  let ?E = "cc_env stuck" and ?pg = "createPostgresParams getenv unready"
  obtain res s w1 where c: "createOrUpdatePostgresSecret ?E ?pg u w = (Inr (res, s), w1)" "cw_objects w1 \<noteq> Map.empty"
    using assms(1)
    by (simp add: createOrUpdatePostgresSecret_def complete_secret_def random_key_def postgres_names_def required_key_def entry_def
        small_env_def memory_cluster_def missing_def is_kind_def CreateOrUpdate_def kind_api_def annotate_then_def ignoreNotFound_def
        new_secret_def put_object_def applyLabels_def applyOwnerReference_def object_key_def Let_def createPostgresParams_def no_params_def)
  have "\<not> cr_skipDB (en_settings ?E)" by (simp add: small_env_def small_settings_def)
  then obtain p' q where "run_steps (workload_steps ?E p' (Some u) n @ network_steps ?E p' q (Some u)) (merge_result ResourceUnchanged res) w1 = (r, e, w')"
    using assms(2) c(1) unfolding write_operand_def Let_def by (auto simp del: stuck_simps)
  moreover obtain w2 where "createOrUpdateServiceAccount ?E p' ''catalog-serviceaccount.yaml.tmpl'' (Some u) w1 = (ResourceUnchanged, Some missing, w2)"
      "cw_objects w2 = cw_objects w1"
    unfolding createOrUpdateServiceAccount_def createOrUpdateOwned_def using stuck_render by blast
  ultimately show ?thesis using c(2) by (simp add: workload_steps_def)
qed

lemma stuck_selects:
  assumes "select_images stuck unready p w = Some (r, c', w')"
  shows "\<exists>p'. r = Inr p'"
proof -
  let ?A = list_conditions
  obtain e c1 p1 w1 where s: "resolveCatalogDataImages (small_api (Inl missing)) ?A (en_getenv (cc_env stuck)) (cc_now stuck w) unready p w
      = Some (e, c1, p1, w1)"
    using assms by (auto simp: select_images_def split: option.splits)
  have sel: "dataImageSelection (ca_quote (small_api (Inl missing))) (sp_catalogDataImageStream (cat_spec unready)) = Inr []"
      "dataImageSelection (ca_quote (small_api (Inl missing))) (sp_benchmarkDataImageStream (cat_spec unready)) = Inr []"
    by (simp_all add: unready_def selecting_def dataImageSelection_def)
  have ne: "[] \<noteq> catalogDataImageStreamTag" by (simp add: catalogDataImageStreamTag_def)
  note rec = lc.resolver_recovers[OF s sel(1) ne sel(2) ne]
  obtain x where x: "cfind ?A c1 conditionDataImageResolved = Some x"
    using rec(2) by (auto simp: current_true_def split: option.splits)
  have tls: "\<exists>args. resolve_tls stuck v = (Inr args, v)" for v
  proof -
    have "\<not> isl (resolveProxy sample_tls (\<lambda>s. s) False False (Inl (ErrorText [])))" by code_simp
    then obtain args where "resolveProxy sample_tls (\<lambda>s. s) False False (Inl (ErrorText [])) = Inr args"
      by (cases "resolveProxy sample_tls (\<lambda>s. s) False False (Inl (ErrorText []))") auto
    then show ?thesis
      by (simp add: resolve_tls_def stuck_def small_client_def small_env_def small_settings_def no_capabilities_def small_api_def)
  qed
  have pub: "\<exists>p'. fst (publish_attempt stuck None c1 q unready v) = Inr p'" for q v
  proof -
    have "\<exists>a. begin_attempt (cc_now stuck v) (cc_nonce stuck v) (cc_fingerprint stuck
        (activation_request (en_getenv (cc_env stuck)) c1 q x)) c1 q = Inr a"
      by (simp add: begin_attempt_def split: option.split)
    then obtain a where "begin_attempt (cc_now stuck v) (cc_nonce stuck v) (cc_fingerprint stuck
        (activation_request (en_getenv (cc_env stuck)) c1 q x)) c1 q = Inr a" ..
    then show ?thesis by (simp add: publish_attempt_def prepareActivation_def x patchCatalogStatus_def Let_def)
  qed
  obtain args where "resolve_tls stuck w1 = (Inr args, w1)" using tls by blast
  then have "publish_attempt stuck None c1 (p1\<lparr>cp_proxyTLSArgs := args\<rparr>) unready w1 = (r, c', w')"
    using assms s rec(1) by (simp add: select_images_def)
  then show ?thesis using pub[of "p1\<lparr>cp_proxyTLSArgs := args\<rparr>" w1] by simp
qed

theorem operand_follows_published_attempt_witness:
  "\<exists>res err c' w' a. ensureCatalogResources stuck unready empty_cluster = Some (res, err, c', w') \<and> activation c' = Some a"
proof -
  obtain res err c' w' where e: "ensureCatalogResources stuck unready empty_cluster = Some (res, err, c', w')"
    using live_catalog.ensure_total[OF stuck_live, of unready empty_cluster] by auto
  have "cw_objects w' \<noteq> cw_objects empty_cluster"
  proof (rule live_catalog.ensure_cases[OF stuck_live e])
    fix p v p' w3 r
    assume "cw_objects w3 = cw_objects empty_cluster" "write_operand (cc_env stuck) (cat_uid unready) (cat_namespace c')
      (createPostgresParams (en_getenv (cc_env stuck)) unready) p' w3 = (r, err, w')"
    then show ?thesis using stuck_write[of w3] by (simp add: empty_cluster_def)
  qed (use stuck_discovers stuck_selects in blast)+
  from operand_follows_published_attempt[OF stuck_live e this] show ?thesis using e by blast
qed

definition misspelt :: Catalog where "misspelt = selecting (Some ''latest'') None"

definition misled :: "cluster catalog_client" where
  "misled = small_client (\<lambda>_ _. Inl missing) misspelt (Inl missing)"


end
