(* ===== verification/Registry_Webhook.thy ===== *)
theory Registry_Webhook
  imports Registry_Types Catalog_Types
begin

text \<open>
  Admission of ModelRegistry and Catalog objects: defaulting and validation of both API
  versions (\<^verbatim>\<open>api/v1beta1/modelregistry_webhook.go\<close>, \<^verbatim>\<open>api/v1alpha1/modelregistry_webhook.go\<close>,
  \<^verbatim>\<open>api/catalog/v1alpha1/catalog_webhook.go\<close>) and the handlers that call them
  (\<^verbatim>\<open>internal/webhook\<close>). What the handlers rely on is the Go interface \<^verbatim>\<open>GenericModelRegistry\<close>,
  here the locale \<open>generic_model_registry\<close>, which both versions interpret. The cluster's answers
  and the admission decoder are arguments; log lines are left out.
\<close>

section \<open>v1beta1\<close>

definition MigrateOAuthProxyToKubeRBACProxy :: "ModelRegistrySpec \<Rightarrow> ModelRegistrySpec" where
  "MigrateOAuthProxyToKubeRBACProxy s =
     (case (s_oauthProxy s, s_kubeRBACProxy s) of
        (Some oa, None) \<Rightarrow>
          s\<lparr>s_kubeRBACProxy := Some \<lparr>kp_port = oa_port oa, kp_tlsCertificateSecret = oa_tlsCertificateSecret oa,
               kp_tlsKeySecret = oa_tlsKeySecret oa, kp_serviceRoute = oa_serviceRoute oa, kp_domain = oa_domain oa,
               kp_routePort = oa_routePort oa, kp_image = []\<rparr>,
            s_oauthProxy := None\<rparr>
      | _ \<Rightarrow> s)"

text \<open>\<^verbatim>\<open>strings.Split(image, ":")[0]\<close>.\<close>

definition image_repo :: "string \<Rightarrow> string" where
  "image_repo img = hd (splitOn (CHR '':'') img)"

definition cleanup_rest :: "env \<Rightarrow> string \<Rightarrow> RestSpec \<Rightarrow> RestSpec" where
  "cleanup_rest getenv specDefaults rest =
     (if specDefaults \<noteq> [] \<and> specDefaults \<noteq> ''{}'' then rest
      else if rest_image rest \<noteq> []
              \<and> image_repo (rest_image rest) = image_repo (GetStringConfigWithDefault getenv RestImage DefaultRestImage)
           then rest\<lparr>rest_image := [], rest_resources := None\<rparr> else rest)"

definition CleanupRuntimeDefaults :: "env \<Rightarrow> ModelRegistry \<Rightarrow> ModelRegistry" where
  "CleanupRuntimeDefaults getenv r =
     r\<lparr>r_spec := (r_spec r)\<lparr>s_rest := cleanup_rest getenv (mr_specDefaults (r_status r)) (s_rest (r_spec r))\<rparr>\<rparr>"

definition no_kube_proxy :: KubeRBACProxyConfig where
  "no_kube_proxy = \<lparr>kp_port = None, kp_tlsCertificateSecret = None, kp_tlsKeySecret = None,
     kp_serviceRoute = [], kp_domain = [], kp_routePort = None, kp_image = []\<rparr>"

definition default_rest :: "RestSpec \<Rightarrow> RestSpec" where
  "default_rest rest = (if rest_serviceRoute rest = [] then rest\<lparr>rest_serviceRoute := RouteDisabled\<rparr> else rest)"

definition default_postgres :: "PostgresConfig option \<Rightarrow> PostgresConfig option" where
  "default_postgres pg =
     (case pg of None \<Rightarrow> None
      | Some p \<Rightarrow> if pg_host p = [] \<and> pg_hostAddress p = [] \<and> pg_generateDeployment p \<noteq> Some True
                  then None else Some p)"

definition default_mysql :: "MySQLConfig option \<Rightarrow> MySQLConfig option" where
  "default_mysql my = (case my of None \<Rightarrow> None | Some m \<Rightarrow> if my_host m = [] then None else Some m)"

definition default_kube_proxy :: "bool \<Rightarrow> ModelRegistrySpec \<Rightarrow> ModelRegistrySpec" where
  "default_kube_proxy isOpenShift s =
     (let s = (if s_oauthProxy s = None \<and> s_kubeRBACProxy s = None \<and> isOpenShift
               then s\<lparr>s_kubeRBACProxy := Some no_kube_proxy\<rparr> else s)
      in case s_kubeRBACProxy s of None \<Rightarrow> s
         | Some kp \<Rightarrow> if kp_serviceRoute kp = []
                      then s\<lparr>s_kubeRBACProxy := Some (kp\<lparr>kp_serviceRoute := RouteEnabled\<rparr>)\<rparr> else s)"

definition Default :: "env \<Rightarrow> config_globals \<Rightarrow> ModelRegistry \<Rightarrow> ModelRegistry" where
  "Default getenv g r =
     (let s = r_spec r;
          s = s\<lparr>s_rest := default_rest (s_rest s), s_postgres := default_postgres (s_postgres s),
                s_mysql := default_mysql (s_mysql s)\<rparr>;
          s = default_kube_proxy (IsOpenShift g) (MigrateOAuthProxyToKubeRBACProxy s)
      in CleanupRuntimeDefaults getenv (r\<lparr>r_spec := s\<rparr>))"

text \<open>\<^verbatim>\<open>resource.MustParse\<close> of the four texts, of which only the CPU limit is zero.\<close>

definition ModelRegistryRestResourceRequirements :: resources where
  "ModelRegistryRestResourceRequirements =
     createResourceRequirement (\<lambda>q. q = ''0m'') ''100m'' ''256Mi'' ''0m'' ''256Mi''"

definition runtime_rest :: "env \<Rightarrow> RestSpec \<Rightarrow> RestSpec" where
  "runtime_rest getenv rest =
     (let rest = (if rest_resources rest = None
                  then rest\<lparr>rest_resources := Some ModelRegistryRestResourceRequirements\<rparr> else rest)
      in if rest_image rest = [] then rest\<lparr>rest_image := GetStringConfigWithDefault getenv RestImage DefaultRestImage\<rparr>
         else rest)"

definition runtime_postgres :: "env \<Rightarrow> PostgresConfig option \<Rightarrow> PostgresConfig option" where
  "runtime_postgres getenv pg =
     map_option (\<lambda>p. if pg_image p = []
       then p\<lparr>pg_image := GetStringConfigWithDefault getenv PostgresImage DefaultPostgresImage\<rparr> else p) pg"

definition tls_secret :: "string \<Rightarrow> string \<Rightarrow> KeyValue option" where
  "tls_secret secretName key = Some \<lparr>kv_name = secretName, kv_key = key\<rparr>"

definition RuntimeDefaults ::
  "env \<Rightarrow> (key \<Rightarrow> ('w, Ingress) call) \<Rightarrow> ModelRegistry \<Rightarrow> config_globals \<Rightarrow> 'w \<Rightarrow> ModelRegistry \<times> config_globals \<times> 'w" where
  "RuntimeDefaults getenv getIngress r g w =
     (let s = (r_spec r)\<lparr>s_rest := runtime_rest getenv (s_rest (r_spec r)),
                         s_postgres := runtime_postgres getenv (s_postgres (r_spec r))\<rparr>
      in case s_kubeRBACProxy s of
           None \<Rightarrow> (r\<lparr>r_spec := s\<rparr>, g, w)
         | Some kp \<Rightarrow>
             (let kp = (if kp_tlsCertificateSecret kp = None
                        then kp\<lparr>kp_tlsCertificateSecret := tls_secret (r_name r @ ''-kube-rbac-proxy'') ''tls.crt'',
                                kp_tlsKeySecret := tls_secret (r_name r @ ''-kube-rbac-proxy'') ''tls.key''\<rparr>
                        else kp);
                  (kp, g, w) = (if kp_domain kp = []
                                then (case GetDefaultDomain getIngress g w of (d, g, w) \<Rightarrow> (kp\<lparr>kp_domain := d\<rparr>, g, w))
                                else (kp, g, w));
                  kp = (if kp_image kp = []
                        then kp\<lparr>kp_image := GetStringConfigWithDefault getenv KubeRBACProxyImage DefaultKubeRBACProxyImage\<rparr>
                        else kp)
              in (r\<lparr>r_spec := s\<lparr>s_kubeRBACProxy := Some kp\<rparr>\<rparr>, g, w)))"

text \<open>Field errors: the path, the rejected value and the message.\<close>

type_synonym field_error = "string \<times> string \<times> string"

definition invalid_namespace :: "config_globals \<Rightarrow> string \<Rightarrow> field_error list" where
  "invalid_namespace g namespace' =
     (let registriesNamespace = GetRegistriesNamespace g in
      if registriesNamespace \<noteq> [] \<and> namespace' \<noteq> registriesNamespace
      then [(''metadata.namespace'', namespace', ''namespace must be '' @ registriesNamespace)] else [])"

definition required_database :: "field_error list" where
  "required_database =
     [(''spec.postgres'', [], ''required one of `postgres` or `mysql` database''),
      (''spec.mysql'', [], ''required one of `postgres` or `mysql` database'')]"

definition ValidateNamespace :: "config_globals \<Rightarrow> ModelRegistry \<Rightarrow> field_error list" where
  "ValidateNamespace g r = invalid_namespace g (r_namespace r)"

definition ValidateDatabase :: "ModelRegistrySpec \<Rightarrow> field_error list" where
  "ValidateDatabase s =
     (if s_postgres s = None \<and> s_mysql s = None then required_database
      else case s_postgres s of None \<Rightarrow> []
        | Some p \<Rightarrow> if pg_generateDeployment p = Some True \<and> (pg_host p \<noteq> [] \<or> pg_hostAddress p \<noteq> [])
                    then [(''spec.postgres.host'', pg_host p, ''host should not be set when auto-provisioning is enabled'')]
                    else [])"

text \<open>\<^verbatim>\<open>errors.NewInvalid\<close>: an \<open>Invalid\<close> API error that carries the field errors' text.\<close>

definition newInvalid :: "string \<Rightarrow> field_error list \<Rightarrow> go_error" where
  "newInvalid name errs = ApiError Invalid (name @ '': ''
     @ joinWith '', '' (map (\<lambda>(path, value, msg). path @ '': '' @ value @ '': '' @ msg) errs))"

definition ValidateRegistry ::
  "env \<Rightarrow> (key \<Rightarrow> ('w, Ingress) call) \<Rightarrow> ModelRegistry \<Rightarrow> config_globals \<Rightarrow> 'w
   \<Rightarrow> go_error option \<times> config_globals \<times> 'w" where
  "ValidateRegistry getenv getIngress r g w =
     (case RuntimeDefaults getenv getIngress r g w of
        (r', g', w') \<Rightarrow>
          (let errList = ValidateNamespace g' r' @ ValidateDatabase (r_spec r')
           in (if errList \<noteq> [] then Some (newInvalid (r_name r') errList) else None, g', w')))"

text \<open>\<^verbatim>\<open>ValidateName\<close>; \<open>listed\<close> is what the API lists: the name and namespace of every registry.\<close>

definition duplicate_error :: "string \<Rightarrow> key \<Rightarrow> go_error" where
  "duplicate_error name k =
     newInvalid name [(''metadata.name'', ''registry named '' @ snd k @ '' already exists in namespace '' @ fst k, [])]"

definition validate_name :: "string \<Rightarrow> ('w, key list) call \<Rightarrow> 'w \<Rightarrow> go_error option \<times> 'w" where
  "validate_name name listRegistries w =
     (case listRegistries w of
        (Inl e, w') \<Rightarrow> (Some e, w')
      | (Inr ks, w') \<Rightarrow>
          (case find (\<lambda>k. snd k = name) ks of
             Some k \<Rightarrow> (Some (duplicate_error name k), w')
           | None \<Rightarrow> (None, w')))"

section \<open>v1alpha1\<close>

definition CleanupRuntimeDefaultsAlpha :: "env \<Rightarrow> ModelRegistryAlpha \<Rightarrow> ModelRegistryAlpha" where
  "CleanupRuntimeDefaultsAlpha getenv r =
     (if mr_specDefaults (ra_status r) \<noteq> [] \<and> mr_specDefaults (ra_status r) \<noteq> ''{}'' then r
      else ReplaceIstioWithOAuthProxy
        (r\<lparr>ra_spec := (ra_spec r)\<lparr>a_rest := cleanup_rest getenv (mr_specDefaults (ra_status r)) (a_rest (ra_spec r))\<rparr>\<rparr>))"

definition no_oauth_proxy :: OAuthProxyConfig where
  "no_oauth_proxy = \<lparr>oa_port = None, oa_tlsCertificateSecret = None, oa_tlsKeySecret = None,
     oa_serviceRoute = [], oa_domain = [], oa_routePort = None, oa_image = []\<rparr>"

definition default_postgres_alpha :: "PostgresConfigAlpha option \<Rightarrow> PostgresConfigAlpha option" where
  "default_postgres_alpha pg =
     (case pg of None \<Rightarrow> None
      | Some p \<Rightarrow> if pg_host p = [] \<and> pg_hostAddress p = [] then None else Some p)"

definition default_oauth_proxy :: "bool \<Rightarrow> ModelRegistrySpecAlpha \<Rightarrow> ModelRegistrySpecAlpha" where
  "default_oauth_proxy isOpenShift s =
     (let s = (if a_istio s = None \<and> a_oauthProxy s = None \<and> isOpenShift
               then s\<lparr>a_oauthProxy := Some no_oauth_proxy\<rparr> else s)
      in case a_oauthProxy s of None \<Rightarrow> s
         | Some oa \<Rightarrow> if oa_serviceRoute oa = []
                      then s\<lparr>a_oauthProxy := Some (oa\<lparr>oa_serviceRoute := RouteEnabled\<rparr>)\<rparr> else s)"

definition DefaultAlpha :: "env \<Rightarrow> config_globals \<Rightarrow> ModelRegistryAlpha \<Rightarrow> ModelRegistryAlpha" where
  "DefaultAlpha getenv g r =
     (let s = ra_spec r;
          s = s\<lparr>a_rest := default_rest (a_rest s), a_postgres := default_postgres_alpha (a_postgres s),
                a_mysql := default_mysql (a_mysql s)\<rparr>;
          r = ReplaceIstioWithOAuthProxy (r\<lparr>ra_spec := s\<rparr>)
      in CleanupRuntimeDefaultsAlpha getenv (r\<lparr>ra_spec := default_oauth_proxy (IsOpenShift g) (ra_spec r)\<rparr>))"

definition RuntimeDefaultsAlpha ::
  "env \<Rightarrow> (key \<Rightarrow> ('w, Ingress) call) \<Rightarrow> ModelRegistryAlpha \<Rightarrow> config_globals \<Rightarrow> 'w
   \<Rightarrow> ModelRegistryAlpha \<times> config_globals \<times> 'w" where
  "RuntimeDefaultsAlpha getenv getIngress r g w =
     (let r = ReplaceIstioWithOAuthProxy (r\<lparr>ra_spec := (ra_spec r)\<lparr>a_rest := runtime_rest getenv (a_rest (ra_spec r))\<rparr>\<rparr>)
      in case a_oauthProxy (ra_spec r) of
           None \<Rightarrow> (r, g, w)
         | Some oa \<Rightarrow>
             (let oa = (if oa_tlsCertificateSecret oa = None
                        then oa\<lparr>oa_tlsCertificateSecret := tls_secret (ra_name r @ ''-oauth-proxy'') ''tls.crt'',
                                oa_tlsKeySecret := tls_secret (ra_name r @ ''-oauth-proxy'') ''tls.key''\<rparr>
                        else oa);
                  (oa, g, w) = (if oa_domain oa = []
                                then (case GetDefaultDomain getIngress g w of (d, g, w) \<Rightarrow> (oa\<lparr>oa_domain := d\<rparr>, g, w))
                                else (oa, g, w));
                  oa = (if oa_image oa = []
                        then oa\<lparr>oa_image := GetStringConfigWithDefault getenv OAuthProxyImage DefaultOAuthProxyImage\<rparr>
                        else oa)
              in (r\<lparr>ra_spec := (ra_spec r)\<lparr>a_oauthProxy := Some oa\<rparr>\<rparr>, g, w)))"

definition ValidateDatabaseAlpha :: "ModelRegistrySpecAlpha \<Rightarrow> field_error list" where
  "ValidateDatabaseAlpha s = (if a_postgres s = None \<and> a_mysql s = None then required_database else [])"

definition ValidateRegistryAlpha ::
  "env \<Rightarrow> (key \<Rightarrow> ('w, Ingress) call) \<Rightarrow> ModelRegistryAlpha \<Rightarrow> config_globals \<Rightarrow> 'w
   \<Rightarrow> go_error option \<times> config_globals \<times> 'w" where
  "ValidateRegistryAlpha getenv getIngress r g w =
     (case RuntimeDefaultsAlpha getenv getIngress r g w of
        (r', g', w') \<Rightarrow>
          (let errList = invalid_namespace g' (ra_namespace r') @ ValidateDatabaseAlpha (ra_spec r')
           in (if errList \<noteq> [] then Some (newInvalid (ra_name r') errList) else None, g', w')))"

section \<open>Handlers\<close>

datatype registry = Beta ModelRegistry | Alpha ModelRegistryAlpha

datatype operation = Create | Update | Delete | Connect | OtherOperation string

datatype response = Errored nat go_error | Denied string | Allowed | Patched registry

record request =
  rq_group :: string
  rq_version :: string
  rq_kind :: string
  rq_name :: string
  rq_namespace :: string
  rq_operation :: operation

definition unsupported :: "request \<Rightarrow> go_error" where
  "unsupported rq = ErrorText (''unsupported resource '' @ rq_name rq @ '' in namespace '' @ rq_namespace rq
     @ '' of type '' @ rq_group rq @ ''/'' @ rq_version rq @ '', Kind='' @ rq_kind rq)"

text \<open>\<open>decodeBeta\<close> and \<open>decodeAlpha\<close> are the admission decoder on the two object types.\<close>

definition DecodeModelRegistry ::
  "(request \<Rightarrow> go_error + ModelRegistry) \<Rightarrow> (request \<Rightarrow> go_error + ModelRegistryAlpha) \<Rightarrow> request \<Rightarrow> go_error + registry" where
  "DecodeModelRegistry decodeBeta decodeAlpha rq =
     (if rq_group rq \<noteq> ''modelregistry.opendatahub.io'' \<or> rq_kind rq \<noteq> ''ModelRegistry'' then Inl (unsupported rq)
      else if rq_version rq = ''v1beta1''
      then (case decodeBeta rq of Inl e \<Rightarrow> Inl e | Inr r \<Rightarrow> Inr (Beta r))
      else if rq_version rq = ''v1alpha1''
      then (case decodeAlpha rq of Inl e \<Rightarrow> Inl e | Inr r \<Rightarrow> Inr (Alpha r))
      else Inl (unsupported rq))"

text \<open>Dispatch on the object's type, as the interface does.\<close>

fun registry_default :: "env \<Rightarrow> config_globals \<Rightarrow> registry \<Rightarrow> registry" where
  "registry_default getenv g (Beta r) = Beta (Default getenv g r)"
| "registry_default getenv g (Alpha r) = Alpha (DefaultAlpha getenv g r)"

fun registry_name :: "registry \<Rightarrow> string" where
  "registry_name (Beta r) = r_name r"
| "registry_name (Alpha r) = ra_name r"

fun registry_validate ::
  "env \<Rightarrow> (key \<Rightarrow> ('w, Ingress) call) \<Rightarrow> registry \<Rightarrow> config_globals \<Rightarrow> 'w \<Rightarrow> go_error option \<times> config_globals \<times> 'w" where
  "registry_validate getenv getIngress (Beta r) g w = ValidateRegistry getenv getIngress r g w"
| "registry_validate getenv getIngress (Alpha r) g w = ValidateRegistryAlpha getenv getIngress r g w"

definition defaulter_Handle ::
  "(request \<Rightarrow> go_error + ModelRegistry) \<Rightarrow> (request \<Rightarrow> go_error + ModelRegistryAlpha) \<Rightarrow> env \<Rightarrow> config_globals
   \<Rightarrow> request \<Rightarrow> response" where
  "defaulter_Handle decodeBeta decodeAlpha getenv g rq =
     (case DecodeModelRegistry decodeBeta decodeAlpha rq of
        Inl e \<Rightarrow> Errored 400 e
      | Inr obj \<Rightarrow> Patched (registry_default getenv g obj))"

definition ValidateCreate ::
  "env \<Rightarrow> (key \<Rightarrow> ('w, Ingress) call) \<Rightarrow> ('w, key list) call \<Rightarrow> registry \<Rightarrow> config_globals \<Rightarrow> 'w
   \<Rightarrow> go_error option \<times> config_globals \<times> 'w" where
  "ValidateCreate getenv getIngress listRegistries obj g w =
     (case validate_name (registry_name obj) listRegistries w of
        (Some e, w') \<Rightarrow> (Some e, g, w')
      | (None, w') \<Rightarrow> registry_validate getenv getIngress obj g w')"

definition answer :: "go_error option \<Rightarrow> response" where
  "answer e = (case e of Some e \<Rightarrow> Denied (error_string e) | None \<Rightarrow> Allowed)"

definition validator_Handle ::
  "(request \<Rightarrow> go_error + ModelRegistry) \<Rightarrow> (request \<Rightarrow> go_error + ModelRegistryAlpha) \<Rightarrow> env
   \<Rightarrow> (key \<Rightarrow> ('w, Ingress) call) \<Rightarrow> ('w, key list) call \<Rightarrow> request \<Rightarrow> config_globals \<Rightarrow> 'w
   \<Rightarrow> response \<times> config_globals \<times> 'w" where
  "validator_Handle decodeBeta decodeAlpha getenv getIngress listRegistries rq g w =
     (case DecodeModelRegistry decodeBeta decodeAlpha rq of
        Inl e \<Rightarrow> (Errored 400 e, g, w)
      | Inr obj \<Rightarrow>
          (case rq_operation rq of
             Create \<Rightarrow> (case ValidateCreate getenv getIngress listRegistries obj g w of (e, g', w') \<Rightarrow> (answer e, g', w'))
           | Update \<Rightarrow> (case registry_validate getenv getIngress obj g w of (e, g', w') \<Rightarrow> (answer e, g', w'))
           | Delete \<Rightarrow> (Allowed, g, w)
           | Connect \<Rightarrow> (Allowed, g, w)
           | OtherOperation s \<Rightarrow> (Errored 400 (ErrorText (''unknown operation '' @ [CHR 0x22] @ s @ [CHR 0x22])), g, w)))"

section \<open>Catalog admission\<close>

definition catalog_ValidateName :: "config_globals \<Rightarrow> Catalog \<Rightarrow> go_error option" where
  "catalog_ValidateName g r =
     (let errList = (if cat_name r \<noteq> ''catalog''
            then [(''metadata.name'', cat_name r, ''catalog resource name must be '' @ [CHR 0x27] @ ''catalog'' @ [CHR 0x27])] else [])
          @ invalid_namespace g (cat_namespace r)
      in if errList \<noteq> [] then Some (newInvalid (cat_name r) errList) else None)"

definition catalogValidator_Handle ::
  "(request \<Rightarrow> go_error + Catalog) \<Rightarrow> config_globals \<Rightarrow> request \<Rightarrow> response" where
  "catalogValidator_Handle decode g rq =
     (if rq_group rq \<noteq> ''aihub.opendatahub.io'' \<or> rq_kind rq \<noteq> ''Catalog''
      then Errored 400 (ErrorText (''unsupported resource '' @ rq_name rq @ '' in namespace '' @ rq_namespace rq))
      else case decode rq of
        Inl e \<Rightarrow> Errored 400 e
      | Inr catalog \<Rightarrow>
          (case rq_operation rq of
             Create \<Rightarrow> answer (catalog_ValidateName g catalog)
           | OtherOperation s \<Rightarrow> Errored 400 (ErrorText (''unknown operation '' @ [CHR 0x22] @ s @ [CHR 0x22]))
           | _ \<Rightarrow> Allowed))"

section \<open>The interface\<close>

text \<open>What the handlers rely on of an API version.\<close>

locale generic_model_registry =
  fixes dflt :: "config_globals \<Rightarrow> 'r \<Rightarrow> 'r"
    and valid :: "'r \<Rightarrow> config_globals \<Rightarrow> 'w \<Rightarrow> go_error option \<times> config_globals \<times> 'w"
    and name :: "'r \<Rightarrow> string" and ns :: "'r \<Rightarrow> string" and has_database :: "'r \<Rightarrow> bool"
  assumes default_idem: "dflt g (dflt g r) = dflt g r"
    and default_key: "name (dflt g r) = name r" "ns (dflt g r) = ns r"
    and valid_namespace: "valid r g w = (None, g', w') \<Longrightarrow>
          GetRegistriesNamespace g = [] \<or> ns r = GetRegistriesNamespace g"
    and valid_database: "valid r g w = (None, g', w') \<Longrightarrow> has_database r"
begin

lemma default_fixpoint: "dflt g r = r \<longleftrightarrow> (\<exists>s. r = dflt g s)"
  by (metis default_idem)

lemma admitted:
  assumes "validate_name (name r) listed w = (None, w1)" and v: "valid r g w1 = (None, g', w')"
  shows "\<exists>ks. listed w = (Inr ks, w1) \<and> (\<forall>k \<in> set ks. snd k \<noteq> name r)
    \<and> (GetRegistriesNamespace g = [] \<or> ns r = GetRegistriesNamespace g) \<and> has_database r"
proof -
  obtain ks where "listed w = (Inr ks, w1)" "find (\<lambda>k. snd k = name r) ks = None"
    using assms(1) by (auto simp: validate_name_def split: option.splits prod.splits sum.splits)
  then show ?thesis using valid_namespace[OF v] valid_database[OF v] by (auto simp: find_None_iff)
qed

end

subsection \<open>v1beta1 implements it\<close>

lemma cleanup_rest_idem: "cleanup_rest getenv d (cleanup_rest getenv d r) = cleanup_rest getenv d r"
  by (simp add: cleanup_rest_def)

lemma default_rest_cleanup:
  "default_rest (cleanup_rest getenv d (default_rest r)) = cleanup_rest getenv d (default_rest r)"
  by (simp add: default_rest_def cleanup_rest_def RouteDisabled_def)

lemma default_parts_idem [simp]:
  "default_postgres (default_postgres p) = default_postgres p" "default_mysql (default_mysql m) = default_mysql m"
  "default_postgres_alpha (default_postgres_alpha q) = default_postgres_alpha q"
  by (auto simp: default_postgres_def default_mysql_def default_postgres_alpha_def split: option.splits)

text \<open>The proxy part of defaulting reads and writes only the two proxy fields.\<close>

definition proxies :: "bool \<Rightarrow> OAuthProxyConfig option \<Rightarrow> KubeRBACProxyConfig option
    \<Rightarrow> OAuthProxyConfig option \<times> KubeRBACProxyConfig option" where
  "proxies isOpenShift oauth kube =
     (let s = default_kube_proxy isOpenShift (MigrateOAuthProxyToKubeRBACProxy
          \<lparr>s_rest = default_rest \<lparr>rest_port = None, rest_serviceRoute = [], rest_resources = None, rest_image = []\<rparr>,
           s_grpc = \<lparr>grpc_port = None, grpc_resources = None, grpc_image = []\<rparr>, s_postgres = None, s_mysql = None,
           s_enableDatabaseUpgrade = None, s_downgradeDbSchemaVersion = None, s_oauthProxy = oauth,
           s_kubeRBACProxy = kube\<rparr>)
      in (s_oauthProxy s, s_kubeRBACProxy s))"

lemma default_proxy_fields:
  "default_kube_proxy b (MigrateOAuthProxyToKubeRBACProxy s) =
     s\<lparr>s_oauthProxy := fst (proxies b (s_oauthProxy s) (s_kubeRBACProxy s)),
       s_kubeRBACProxy := snd (proxies b (s_oauthProxy s) (s_kubeRBACProxy s))\<rparr>"
  by (cases "s_oauthProxy s"; cases "s_kubeRBACProxy s")
    (auto simp: proxies_def default_kube_proxy_def MigrateOAuthProxyToKubeRBACProxy_def Let_def)

lemma proxies_idem: "proxies b (fst (proxies b oa kp)) (snd (proxies b oa kp)) = proxies b oa kp"
  by (cases oa; cases kp)
    (auto simp: proxies_def default_kube_proxy_def MigrateOAuthProxyToKubeRBACProxy_def Let_def RouteEnabled_def)

lemma Default_eq:
  "Default getenv g r = r\<lparr>r_spec := (r_spec r)\<lparr>
     s_rest := cleanup_rest getenv (mr_specDefaults (r_status r)) (default_rest (s_rest (r_spec r))),
     s_postgres := default_postgres (s_postgres (r_spec r)), s_mysql := default_mysql (s_mysql (r_spec r)),
     s_oauthProxy := fst (proxies (IsOpenShift g) (s_oauthProxy (r_spec r)) (s_kubeRBACProxy (r_spec r))),
     s_kubeRBACProxy := snd (proxies (IsOpenShift g) (s_oauthProxy (r_spec r)) (s_kubeRBACProxy (r_spec r)))\<rparr>\<rparr>"
  by (simp add: Default_def CleanupRuntimeDefaults_def Let_def default_proxy_fields)

lemma Default_idem: "Default getenv g (Default getenv g r) = Default getenv g r"
  by (simp add: Default_eq proxies_idem default_rest_cleanup cleanup_rest_idem)

lemma GetDefaultDomain_namespace:
  "GetDefaultDomain getIngress g w = (d, g', w') \<Longrightarrow> GetRegistriesNamespace g' = GetRegistriesNamespace g"
  by (auto simp: GetDefaultDomain_def GetRegistriesNamespace_def Let_def split: if_splits prod.splits sum.splits)

lemma RuntimeDefaults_frame:
  assumes "RuntimeDefaults getenv getIngress r g w = (r', g', w')"
  shows "GetRegistriesNamespace g' = GetRegistriesNamespace g" "r_name r' = r_name r" "r_namespace r' = r_namespace r"
    "s_mysql (r_spec r') = s_mysql (r_spec r)" "s_postgres (r_spec r') = runtime_postgres getenv (s_postgres (r_spec r))"
  using assms GetDefaultDomain_namespace
  by (auto simp: RuntimeDefaults_def Let_def split: option.splits prod.splits if_splits)

definition database_ok :: "ModelRegistrySpec \<Rightarrow> bool" where
  "database_ok s = ((s_postgres s \<noteq> None \<or> s_mysql s \<noteq> None)
     \<and> (case s_postgres s of None \<Rightarrow> True
        | Some p \<Rightarrow> pg_generateDeployment p = Some True \<longrightarrow> pg_host p = [] \<and> pg_hostAddress p = []))"

lemma ValidateDatabase_runtime:
  "ValidateDatabase s' = [] \<longleftrightarrow> database_ok s"
  if "s_postgres s' = runtime_postgres getenv (s_postgres s)" "s_mysql s' = s_mysql s"
  using that
  by (auto simp: ValidateDatabase_def database_ok_def runtime_postgres_def required_database_def split: option.splits)

interpretation beta: generic_model_registry "Default getenv" "ValidateRegistry getenv getIngress" r_name r_namespace
    "\<lambda>r. database_ok (r_spec r)"
proof unfold_locales
  fix g r
  show "Default getenv g (Default getenv g r) = Default getenv g r" by (rule Default_idem)
  show "r_name (Default getenv g r) = r_name r" "r_namespace (Default getenv g r) = r_namespace r"
    by (simp_all add: Default_eq)
next
  fix r g w g' w'
  assume v: "ValidateRegistry getenv getIngress r g w = (None, g', w')"
  obtain r1 g1 w1 where rd: "RuntimeDefaults getenv getIngress r g w = (r1, g1, w1)" by (metis prod_cases3)
  note f = RuntimeDefaults_frame[OF rd]
  have e: "ValidateNamespace g1 r1 = []" "ValidateDatabase (r_spec r1) = []"
    using v by (auto simp: ValidateRegistry_def rd Let_def split: if_splits)
  show "GetRegistriesNamespace g = [] \<or> r_namespace r = GetRegistriesNamespace g"
    using e(1) f by (auto simp: ValidateNamespace_def invalid_namespace_def Let_def split: if_splits)
  show "database_ok (r_spec r)" using e(2) f(4,5) ValidateDatabase_runtime by blast
qed

subsection \<open>v1alpha1 implements it\<close>

lemma replace_istio_simps [simp]:
  "ra_name (ReplaceIstioWithOAuthProxy r) = ra_name r" "ra_namespace (ReplaceIstioWithOAuthProxy r) = ra_namespace r"
  "ra_status (ReplaceIstioWithOAuthProxy r) = ra_status r"
  "a_rest (ra_spec (ReplaceIstioWithOAuthProxy r)) = a_rest (ra_spec r)"
  "a_postgres (ra_spec (ReplaceIstioWithOAuthProxy r)) = a_postgres (ra_spec r)"
  "a_mysql (ra_spec (ReplaceIstioWithOAuthProxy r)) = a_mysql (ra_spec r)"
  "a_istio (ra_spec (ReplaceIstioWithOAuthProxy r)) = None"
  "a_istio (ra_spec r) = None \<Longrightarrow> ReplaceIstioWithOAuthProxy r = r"
  by (auto simp: ReplaceIstioWithOAuthProxy_def split: option.splits)

lemma default_oauth_simps [simp]:
  "a_istio (default_oauth_proxy b s) = a_istio s" "a_rest (default_oauth_proxy b s) = a_rest s"
  "a_postgres (default_oauth_proxy b s) = a_postgres s" "a_mysql (default_oauth_proxy b s) = a_mysql s"
  by (simp_all add: default_oauth_proxy_def Let_def split: option.split)

text \<open>The OAuth proxy a v1alpha1 object ends up with.\<close>

definition alpha_proxy :: "bool \<Rightarrow> IstioConfig option \<Rightarrow> OAuthProxyConfig option \<Rightarrow> OAuthProxyConfig option" where
  "alpha_proxy isOpenShift istio oauth =
     (let oauth = (case istio of Some i \<Rightarrow> Some (istio_proxy i) | None \<Rightarrow> oauth);
          oauth = (if oauth = None \<and> isOpenShift then Some no_oauth_proxy else oauth)
      in map_option (\<lambda>oa. if oa_serviceRoute oa = [] then oa\<lparr>oa_serviceRoute := RouteEnabled\<rparr> else oa) oauth)"

lemma alpha_proxy_idem: "alpha_proxy b None (alpha_proxy b i oa) = alpha_proxy b i oa"
  by (cases i; cases oa) (simp_all add: alpha_proxy_def Let_def RouteEnabled_def)

lemma DefaultAlpha_eq:
  "DefaultAlpha getenv g r = r\<lparr>ra_spec := (ra_spec r)\<lparr>
     a_rest := cleanup_rest getenv (mr_specDefaults (ra_status r)) (default_rest (a_rest (ra_spec r))),
     a_postgres := default_postgres_alpha (a_postgres (ra_spec r)), a_mysql := default_mysql (a_mysql (ra_spec r)),
     a_istio := None, a_oauthProxy := alpha_proxy (IsOpenShift g) (a_istio (ra_spec r)) (a_oauthProxy (ra_spec r))\<rparr>\<rparr>"
proof -
  let ?r = "r\<lparr>ra_spec := (ra_spec r)\<lparr>a_rest := default_rest (a_rest (ra_spec r)),
      a_postgres := default_postgres_alpha (a_postgres (ra_spec r)), a_mysql := default_mysql (a_mysql (ra_spec r))\<rparr>\<rparr>"
  have proxy: "default_oauth_proxy b (ra_spec (ReplaceIstioWithOAuthProxy ?r))
      = (ra_spec ?r)\<lparr>a_istio := None, a_oauthProxy := alpha_proxy b (a_istio (ra_spec r)) (a_oauthProxy (ra_spec r))\<rparr>" for b
    by (cases "a_istio (ra_spec r)"; cases "a_oauthProxy (ra_spec r)")
      (simp_all add: default_oauth_proxy_def ReplaceIstioWithOAuthProxy_def alpha_proxy_def Let_def)
  have r: "(ReplaceIstioWithOAuthProxy ?r)\<lparr>ra_spec := s\<rparr> = r\<lparr>ra_spec := s\<rparr>" for s
    by (simp add: ReplaceIstioWithOAuthProxy_def split: option.split)
  show ?thesis
    unfolding DefaultAlpha_def Let_def r proxy
    by (simp add: CleanupRuntimeDefaultsAlpha_def ReplaceIstioWithOAuthProxy_def cleanup_rest_def)
qed

lemma DefaultAlpha_idem: "DefaultAlpha getenv g (DefaultAlpha getenv g r) = DefaultAlpha getenv g r"
  by (simp add: DefaultAlpha_eq default_rest_cleanup cleanup_rest_idem alpha_proxy_idem)

lemma RuntimeDefaultsAlpha_frame:
  assumes "RuntimeDefaultsAlpha getenv getIngress r g w = (r', g', w')"
  shows "GetRegistriesNamespace g' = GetRegistriesNamespace g" "ra_namespace r' = ra_namespace r"
    "a_mysql (ra_spec r') = a_mysql (ra_spec r)" "a_postgres (ra_spec r') = a_postgres (ra_spec r)"
  using assms GetDefaultDomain_namespace
  by (auto simp: RuntimeDefaultsAlpha_def Let_def split: option.splits prod.splits if_splits)

definition database_ok_alpha :: "ModelRegistrySpecAlpha \<Rightarrow> bool" where
  "database_ok_alpha s = (a_postgres s \<noteq> None \<or> a_mysql s \<noteq> None)"

interpretation alpha: generic_model_registry "DefaultAlpha getenv" "ValidateRegistryAlpha getenv getIngress"
    ra_name ra_namespace "\<lambda>r. database_ok_alpha (ra_spec r)"
proof unfold_locales
  fix g r
  show "DefaultAlpha getenv g (DefaultAlpha getenv g r) = DefaultAlpha getenv g r" by (rule DefaultAlpha_idem)
  show "ra_name (DefaultAlpha getenv g r) = ra_name r" "ra_namespace (DefaultAlpha getenv g r) = ra_namespace r"
    by (simp_all add: DefaultAlpha_eq)
next
  fix r g w g' w'
  assume v: "ValidateRegistryAlpha getenv getIngress r g w = (None, g', w')"
  obtain r1 g1 w1 where rd: "RuntimeDefaultsAlpha getenv getIngress r g w = (r1, g1, w1)" by (metis prod_cases3)
  note f = RuntimeDefaultsAlpha_frame[OF rd]
  have e: "invalid_namespace g1 (ra_namespace r1) = []" "ValidateDatabaseAlpha (ra_spec r1) = []"
    using v by (auto simp: ValidateRegistryAlpha_def rd Let_def split: if_splits)
  show "GetRegistriesNamespace g = [] \<or> ra_namespace r = GetRegistriesNamespace g"
    using e(1) f by (auto simp: invalid_namespace_def Let_def split: if_splits)
  show "database_ok_alpha (ra_spec r)"
    using e(2) f(3,4) by (auto simp: ValidateDatabaseAlpha_def database_ok_alpha_def required_database_def split: if_splits)
qed

section \<open>Properties\<close>

text \<open>
  Defaulting is idempotent, for both API versions. The defaulting webhook runs again on
  every update of a stored object; a defaulted object goes through unchanged.
\<close>

theorem registry_default_idempotent:
  "registry_default getenv g (registry_default getenv g r) = registry_default getenv g r"
  by (cases r) (simp_all add: beta.default_idem alpha.default_idem)

fun registry_namespace :: "registry \<Rightarrow> string" where
  "registry_namespace (Beta r) = r_namespace r"
| "registry_namespace (Alpha r) = ra_namespace r"

fun registry_database_ok :: "registry \<Rightarrow> bool" where
  "registry_database_ok (Beta r) = database_ok (r_spec r)"
| "registry_database_ok (Alpha r) = database_ok_alpha (ra_spec r)"

text \<open>
  C9: what admission of a new registry guarantees. A create request of either version that
  the validating webhook allows decodes to an object whose name no registry of the cluster
  has, whose namespace is the configured one (when one is configured), and which names a
  database, without a host when v1beta1 is to provision it.
\<close>

theorem create_admission:
  assumes "rq_operation rq = Create"
    and "validator_Handle decB decA getenv getIngress listed rq g w = (Allowed, g', w')"
  shows "\<exists>obj ks w1. DecodeModelRegistry decB decA rq = Inr obj
    \<and> listed w = (Inr ks, w1) \<and> registry_name obj \<notin> snd ` set ks
    \<and> (GetRegistriesNamespace g = [] \<or> registry_namespace obj = GetRegistriesNamespace g)
    \<and> registry_database_ok obj"
proof -
  obtain obj where d: "DecodeModelRegistry decB decA rq = Inr obj"
    using assms(2) by (auto simp: validator_Handle_def split: sum.splits)
  obtain w1 where n: "validate_name (registry_name obj) listed w = (None, w1)"
      and v: "registry_validate getenv getIngress obj g w1 = (None, g', w')"
    using assms by (auto simp: validator_Handle_def d ValidateCreate_def answer_def split: prod.splits option.splits)
  have "\<exists>ks. listed w = (Inr ks, w1) \<and> (\<forall>k \<in> set ks. snd k \<noteq> registry_name obj)
      \<and> (GetRegistriesNamespace g = [] \<or> registry_namespace obj = GetRegistriesNamespace g) \<and> registry_database_ok obj"
  proof (cases obj)
    case (Beta r)
    then show ?thesis using n v beta.admitted[of r listed w w1 getenv getIngress g g' w'] by simp
  next
    case (Alpha r)
    then show ?thesis using n v alpha.admitted[of r listed w w1 getenv getIngress g g' w'] by simp
  qed
  with d show ?thesis by force
qed

text \<open>
  The move from the OAuth proxy to kube-rbac-proxy loses no setting. A v1beta1 registry
  with only an OAuth proxy leaves defaulting with only a kube-rbac-proxy that has the same
  ports, certificate, key and domain and the operator's image, and the same service route,
  enabled when it was unset; and on OpenShift no registry leaves without a proxy.
\<close>

theorem oauth_migration_keeps_settings:
  assumes "s_oauthProxy (r_spec r) = Some oa" and "s_kubeRBACProxy (r_spec r) = None"
  shows "s_oauthProxy (r_spec (Default getenv g r)) = None
    \<and> s_kubeRBACProxy (r_spec (Default getenv g r)) = Some \<lparr>kp_port = oa_port oa,
        kp_tlsCertificateSecret = oa_tlsCertificateSecret oa, kp_tlsKeySecret = oa_tlsKeySecret oa,
        kp_serviceRoute = (if oa_serviceRoute oa = [] then RouteEnabled else oa_serviceRoute oa),
        kp_domain = oa_domain oa, kp_routePort = oa_routePort oa, kp_image = []\<rparr>
    \<and> (IsOpenShift g \<longrightarrow> (\<forall>q. s_oauthProxy (r_spec (Default getenv g q)) \<noteq> None
         \<or> s_kubeRBACProxy (r_spec (Default getenv g q)) \<noteq> None))"
proof -
  have "fst (proxies b x y) \<noteq> None \<or> snd (proxies b x y) \<noteq> None" if "b" for b x y
    using that by (cases x; cases y)
      (auto simp: proxies_def default_kube_proxy_def MigrateOAuthProxyToKubeRBACProxy_def Let_def split: option.splits)
  then show ?thesis
    using assms by (simp add: Default_eq)
      (simp add: proxies_def default_kube_proxy_def MigrateOAuthProxyToKubeRBACProxy_def Let_def)
qed

subsection \<open>Witnesses\<close>

definition sample_oauth :: OAuthProxyConfig where
  "sample_oauth = \<lparr>oa_port = Some 8443, oa_tlsCertificateSecret = None, oa_tlsKeySecret = None,
     oa_serviceRoute = [], oa_domain = ''apps.example'', oa_routePort = None, oa_image = ''old''\<rparr>"

definition sample_mysql :: MySQLConfig where
  "sample_mysql = \<lparr>my_host = ''db'', my_port = None, my_username = ''u'', my_passwordSecret = None,
     my_database = ''mr'', my_skipDBCreation = False, my_sslCertificateSecret = None, my_sslKeySecret = None,
     my_sslRootCertificateConfigMap = None, my_sslRootCertificatesConfigMapName = None,
     my_sslRootCertificateSecret = None, my_sslRootCertificatesSecretName = None, my_sslCipher = None,
     my_verifyServerCert = None\<rparr>"

definition sample_registry :: ModelRegistry where
  "sample_registry = \<lparr>r_name = ''reg'', r_namespace = ''ns'', r_uid = ''u1'',
     r_annotations = Map.empty, r_finalizers = [], r_deletion = None, r_spec = \<lparr>s_rest = \<lparr>rest_port = None, rest_serviceRoute = [], rest_resources = None, rest_image = []\<rparr>,
       s_grpc = \<lparr>grpc_port = None, grpc_resources = None, grpc_image = []\<rparr>, s_postgres = None,
       s_mysql = Some sample_mysql, s_enableDatabaseUpgrade = None, s_downgradeDbSchemaVersion = None,
       s_oauthProxy = Some sample_oauth, s_kubeRBACProxy = None\<rparr>,
     r_status = \<lparr>mr_hosts = [], mr_hostsStr = [], mr_specDefaults = [], mr_conditions = []\<rparr>\<rparr>"

definition sample_globals :: config_globals where
  "sample_globals = \<lparr>defaultDomain = ''apps'', defaultRegistriesNamespace = ''ns'', defaultIsOpenShift = True\<rparr>"

definition sample_request :: request where
  "sample_request = \<lparr>rq_group = ''modelregistry.opendatahub.io'', rq_version = ''v1beta1'',
     rq_kind = ''ModelRegistry'', rq_name = ''reg'', rq_namespace = ''ns'', rq_operation = Create\<rparr>"

theorem create_admission_witness:
  "\<exists>obj. DecodeModelRegistry (\<lambda>_. Inr sample_registry) (\<lambda>_. Inl (ErrorText [])) sample_request = Inr obj
     \<and> registry_name obj \<notin> {''other''} \<and> registry_database_ok obj"
proof -
  let ?v = "validator_Handle (\<lambda>_. Inr sample_registry) (\<lambda>_. Inl (ErrorText [])) (\<lambda>_. [])
      (\<lambda>k w. (Inl (ErrorText []), w)) (\<lambda>w. (Inr [(''ns'', ''other'')], w)) sample_request sample_globals ()"
  have "case ?v of (Allowed, _) \<Rightarrow> True | _ \<Rightarrow> False" by code_simp
  then obtain g' w' where "?v = (Allowed, g', w')" by (auto split: prod.splits response.splits)
  moreover have "rq_operation sample_request = Create" by (simp add: sample_request_def)
  ultimately show ?thesis
    using create_admission[of sample_request "\<lambda>_. Inr sample_registry" "\<lambda>_. Inl (ErrorText [])" "\<lambda>_. []"
        "\<lambda>k w. (Inl (ErrorText []), w)" "\<lambda>w. (Inr [(''ns'', ''other'')], w)" sample_globals "()"] by auto
qed

theorem oauth_migration_keeps_settings_witness:
  "s_oauthProxy (r_spec (Default (\<lambda>_. []) sample_globals sample_registry)) = None
   \<and> map_option kp_domain (s_kubeRBACProxy (r_spec (Default (\<lambda>_. []) sample_globals sample_registry))) = Some ''apps.example''"
proof -
  have "s_oauthProxy (r_spec sample_registry) = Some sample_oauth" "s_kubeRBACProxy (r_spec sample_registry) = None"
    by (simp_all add: sample_registry_def)
  from oauth_migration_keeps_settings[OF this, of "\<lambda>_. []" sample_globals] show ?thesis
    by (simp add: sample_oauth_def)
qed



end
