(* ===== verification/Registry_Status.thy ===== *)
theory Registry_Status
  imports Registry_Webhook Deployment_Status Resource_Manager
begin

text \<open>
  \<^verbatim>\<open>internal/controller/modelregistry_controller_status.go\<close>: what the registry controller
  publishes. The API client and the pod logs are the arguments in \<open>registry_api\<close>, the clock is
  \<open>now\<close>. A nil pointer dereference is the result \<open>None\<close>.
\<close>

record RouteCondition =
  rc_type :: string
  rc_status :: string
  rc_reason :: string
  rc_message :: string

record RouteIngress =
  ri_host :: string
  ri_conditions :: "RouteCondition list"

record Route =
  rt_name :: string
  rt_ingress :: "RouteIngress list"

text \<open>
  An update of the object returns the object the server answers with. The answer to a log
  request is the lines before the stream ends and the error it ends with, if any; of the
  Endpoints the addresses of each subset matter.
\<close>

record 'w registry_api =
  ka_getRegistry :: "key \<Rightarrow> ('w, ModelRegistry) call"
  ka_updateRegistry :: "ModelRegistry \<Rightarrow> ('w, ModelRegistry) call"
  ka_updateStatus :: "ModelRegistry \<Rightarrow> ('w, ModelRegistry) call"
  ka_getDeployment :: "key \<Rightarrow> ('w, Deployment) call"
  ka_getEndpoints :: "key \<Rightarrow> ('w, string list list) call"
  ka_listPods :: "(string \<times> string) list \<Rightarrow> string \<Rightarrow> ('w, Pod list) call"
  ka_podLog :: "key \<Rightarrow> string \<Rightarrow> ('w, string list \<times> go_error option) call"
  ka_listRoutes :: "(string \<times> string) list \<Rightarrow> string \<Rightarrow> ('w, Route list) call"

section \<open>Pod errors\<close>

text \<open>
  \<^verbatim>\<open>errRegexp\<close>: \<^verbatim>\<open>Check failed: absl::OkStatus() == status (OK vs. ([^)]+)) (.*)\<close>, where the dot
  is any character, here one byte. The leftmost match gives the two groups.
\<close>

definition err_prefix :: string where "err_prefix = ''Check failed: absl::OkStatus() == status (OK vs''"

definition err_here :: "string \<Rightarrow> (string \<times> string) option" where
  "err_here s =
     (let body = drop (length err_prefix + 2) s;
          group1 = takeWhile (\<lambda>c. c \<noteq> CHR '')'') body;
          rest = dropWhile (\<lambda>c. c \<noteq> CHR '')'') body
      in if take (length err_prefix) s = err_prefix \<and> length s \<ge> length err_prefix + 2
            \<and> s ! (length err_prefix + 1) = CHR '' '' \<and> group1 \<noteq> [] \<and> take 2 rest = '') ''
         then Some (group1, drop 2 rest) else None)"

fun errRegexp :: "string \<Rightarrow> (string \<times> string) option" where
  "errRegexp [] = None"
| "errRegexp (c # s) = (case err_here (c # s) of Some m \<Rightarrow> Some m | None \<Rightarrow> errRegexp s)"

fun scan_log :: "string list \<Rightarrow> string option" where
  "scan_log [] = None"
| "scan_log (line # ls) =
     (if contains line ''{{ALERT}}'' then Some line
      else case errRegexp line of
        Some (status, text) \<Rightarrow> Some (text @ '': '' @ status)
      | None \<Rightarrow> scan_log ls)"

text \<open>The database error found, if any; an API error is logged by the caller and counts as none.\<close>

definition getContainerDBerror :: "'w registry_api \<Rightarrow> Pod \<Rightarrow> string \<Rightarrow> 'w \<Rightarrow> string option \<times> 'w" where
  "getContainerDBerror K p container w =
     (case ka_podLog K (p_namespace p, p_name p) container w of
        (Inl e, w1) \<Rightarrow> (None, w1)
      | (Inr (ls, err), w1) \<Rightarrow> (scan_log ls, w1))"

definition container_error :: "ContainerStatus \<Rightarrow> string option" where
  "container_error s =
     (case (cs_waiting s, cs_terminated s) of
        (Some x, _) \<Rightarrow> Some (''{waiting: {reason: '' @ w_reason x @ '', message: '' @ w_message x @ ''}}'')
      | (None, Some x) \<Rightarrow> Some (''{terminated: {reason: '' @ t_reason x @ '', message: '' @ t_message x @ ''}}'')
      | (None, None) \<Rightarrow> None)"

definition needs_log :: "ContainerStatus \<Rightarrow> bool" where
  "needs_log s = (cs_name s = restContainerName
     \<and> (case cs_waiting s of None \<Rightarrow> False | Some x \<Rightarrow> w_reason x \<noteq> containerCreatingReason))"

definition db_verdict :: "string \<Rightarrow> condition \<Rightarrow> condition" where
  "db_verdict dbError c =
     (if contains dbError ''{{ALERT}}''
      then c\<lparr>cond_reason := ReasonResourcesAlert, cond_message := ''rest container alert: '' @ dbError\<rparr>
      else c\<lparr>cond_reason := ReasonConfigurationError, cond_message := ''database configuration error: '' @ dbError\<rparr>)"

text \<open>The loop over the container statuses: a database error ends the check, other errors are collected by name.\<close>

fun failed_containers ::
  "'w registry_api \<Rightarrow> Pod \<Rightarrow> ContainerStatus list \<Rightarrow> (string \<times> string) list \<Rightarrow> 'w \<Rightarrow> (string + (string \<times> string) list) \<times> 'w" where
  "failed_containers K p [] acc w = (Inr acc, w)"
| "failed_containers K p (s # ss) acc w =
     (if cs_ready s then failed_containers K p ss acc w
      else (case (if needs_log s then getContainerDBerror K p restContainerName w else (None, w)) of
        (Some e, w1) \<Rightarrow> (Inl e, w1)
      | (None, w1) \<Rightarrow>
          failed_containers K p ss
            (case container_error s of None \<Rightarrow> acc | Some e \<Rightarrow> AList.update (cs_name s) e acc) w1))"

definition show_failures :: "(string \<times> string) list \<Rightarrow> string" where
  "show_failures fs = ''['' @ joinWith '', '' (map (\<lambda>(c, e). c @ '': '' @ e) fs) @ '']''"

definition not_ready_message :: "Pod \<Rightarrow> string option" where
  "not_ready_message p = map_option (\<lambda>c. ''Deployment is unavailable: pod '' @ p_name p @ '' containers not ready: {reason: ''
       @ pc_reason c @ '', message: '' @ pc_message c @ ''}'')
     (find (\<lambda>c. pc_type c = ''Ready'' \<and> pc_status c = ConditionFalse) (p_conditions p))"

text \<open>\<open>order\<close> is the order in which Go ranges over the map of failed containers.\<close>

fun check_pods ::
  "'w registry_api \<Rightarrow> ((string \<times> string) list \<Rightarrow> (string \<times> string) list) \<Rightarrow> int \<Rightarrow> condition \<Rightarrow> Pod list \<Rightarrow> 'w \<Rightarrow> condition \<times> 'w" where
  "check_pods K order n c [] w =
     (c\<lparr>cond_message := ''Deployment is unavailable: '' @ show_int n @ '' containers unavailable''\<rparr>, w)"
| "check_pods K order n c (p # ps) w =
     (case failed_containers K p (p_statuses p) [] w of
        (Inl dbError, w1) \<Rightarrow> (db_verdict dbError c, w1)
      | (Inr fs, w1) \<Rightarrow>
          if fs \<noteq> []
          then (c\<lparr>cond_message := ''Deployment is unavailable: pod '' @ p_name p @ '' has unready containers '' @ show_failures (order fs)\<rparr>, w1)
          else (case not_ready_message p of
            Some m \<Rightarrow> (c\<lparr>cond_message := m\<rparr>, w1)
          | None \<Rightarrow> check_pods K order n c ps w1))"

definition registry_checkPodStatus ::
  "'w registry_api \<Rightarrow> ((string \<times> string) list \<Rightarrow> (string \<times> string) list) \<Rightarrow> string \<Rightarrow> string \<Rightarrow> string \<Rightarrow> condition \<Rightarrow> int \<Rightarrow> 'w \<Rightarrow> condition \<times> 'w" where
  "registry_checkPodStatus K order app component namespace' c n w =
     (let c = c\<lparr>cond_status := ConditionFalse, cond_reason := ReasonDeploymentUnavailable\<rparr>
      in case ka_listPods K [(''app'', app), (''component'', component)] namespace' w of
           (Inl e, w1) \<Rightarrow> check_pods K order n c [] w1
         | (Inr ps, w1) \<Rightarrow> check_pods K order n c ps w1)"

section \<open>Availability\<close>

definition available_condition :: condition where
  "available_condition = \<lparr>cond_type = ConditionTypeAvailable, cond_status = [], cond_reason = [], cond_message = [],
     cond_observedGeneration = 0, cond_lastTransition = 0\<rparr>"

definition verdict :: "string \<Rightarrow> string \<Rightarrow> string \<Rightarrow> condition \<Rightarrow> condition" where
  "verdict s r m c = c\<lparr>cond_status := s, cond_reason := r, cond_message := m\<rparr>"

definition registry_check_endpoints ::
  "'w registry_api \<Rightarrow> time \<Rightarrow> key \<Rightarrow> time \<Rightarrow> condition \<Rightarrow> 'w \<Rightarrow> condition \<times> 'w" where
  "registry_check_endpoints K now k since c w =
     (case ka_getEndpoints K k w of
        (Inl e, w1) \<Rightarrow> (verdict ConditionFalse ReasonDeploymentUnavailable (''Service endpoints not found: '' @ error_string e) c, w1)
      | (Inr subsets, w1) \<Rightarrow>
          if \<not> list_ex (\<lambda>addresses. addresses \<noteq> []) subsets
          then (verdict ConditionFalse ReasonDeploymentUnavailable ''Service endpoints not ready - no ready addresses available'' c, w1)
          else if now - since < deploymentDelay
          then (verdict ConditionFalse ReasonDeploymentCooldown ''Deployment only recently available'' c, w1)
          else (verdict ConditionTrue ReasonDeploymentAvailable ''Deployment is available'' c, w1))"

text \<open>The condition from the Deployment and its pods, before the endpoints are looked at.\<close>

definition pod_verdict ::
  "'w registry_api \<Rightarrow> ((string \<times> string) list \<Rightarrow> (string \<times> string) list) \<Rightarrow> key \<Rightarrow> string \<Rightarrow> string \<Rightarrow> Deployment \<Rightarrow> 'w \<Rightarrow> condition \<times> 'w" where
  "pod_verdict K order k app cp d w =
     (let parsed = parseDeploymentConditions d;
          c = (if \<not> available parsed
               then available_condition\<lparr>cond_reason := ReasonDeploymentUnavailable,
                      cond_message := ''Deployment is unavailable: '' @ dc_text parsed\<rparr>
               else available_condition)
      in if d_unavailableReplicas d \<noteq> 0
         then registry_checkPodStatus K order app cp (fst k) c (d_unavailableReplicas d) w else (c, w))"

definition registry_checkDeploymentAvailability ::
  "'w registry_api \<Rightarrow> ((string \<times> string) list \<Rightarrow> (string \<times> string) list) \<Rightarrow> time \<Rightarrow> key \<Rightarrow> string \<Rightarrow> string \<Rightarrow> ('w, condition) call" where
  "registry_checkDeploymentAvailability K order now k app podComponent w =
     (case ka_getDeployment K k w of
        (Inl e, w1) \<Rightarrow> (Inl e, w1)
      | (Inr d, w1) \<Rightarrow>
          (case pod_verdict K order k app podComponent d w1 of
             (c, w2) \<Rightarrow>
               if available (parseDeploymentConditions d)
               then (case registry_check_endpoints K now k (availableSince (parseDeploymentConditions d)) c w2 of
                 (c, w3) \<Rightarrow> (Inr c, w3))
               else (Inr (c\<lparr>cond_status := ConditionFalse\<rparr>), w2)))"

section \<open>The proxy\<close>

definition checkPodReadiness :: "Pod \<Rightarrow> string \<Rightarrow> string option" where
  "checkPodReadiness p proxyType =
     (if length (p_containers p) \<noteq> 2 then Some (proxyType @ '' proxy unavailable in Pod '' @ p_name p)
      else if length (p_statuses p) \<noteq> length (p_containers p)
      then Some (''container status not yet available in Pod '' @ p_name p)
      else map_option (\<lambda>cs. ''container '' @ cs_name cs @ '' not ready in Pod '' @ p_name p)
             (find (\<lambda>cs. \<not> cs_ready cs) (p_statuses p)))"

text \<open>The last unready message, or \<open>None\<close> at the first ready pod.\<close>

fun all_unready :: "string \<Rightarrow> string \<Rightarrow> Pod list \<Rightarrow> string option" where
  "all_unready proxyType m [] = Some m"
| "all_unready proxyType m (p # ps) =
     (case checkPodReadiness p proxyType of Some m' \<Rightarrow> all_unready proxyType m' ps | None \<Rightarrow> None)"

type_synonym triple = "string \<times> string \<times> string" \<comment> \<open>message, reason, status\<close>

definition CheckDeploymentPods :: "'w registry_api \<Rightarrow> key \<Rightarrow> string \<Rightarrow> triple \<Rightarrow> 'w \<Rightarrow> triple \<times> 'w" where
  "CheckDeploymentPods K k proxyType ok w =
     (let unavailable = (\<lambda>m. (m, ReasonResourcesUnavailable, ConditionFalse))
      in case ka_listPods K [(''app'', snd k), (''component'', ''model-registry''), (''app.kubernetes.io/name'', snd k)] (fst k) w of
           (Inl e, w1) \<Rightarrow> (unavailable (''Failed to find Pods: '' @ error_string e), w1)
         | (Inr ps, w1) \<Rightarrow>
             (let activePods = filter (\<lambda>p. p_deletion p = None) ps
              in if ps = [] then (unavailable (''No Pods found for Deployment '' @ snd k), w1)
                 else if activePods = [] then (unavailable (''No active Pods found for Deployment '' @ snd k), w1)
                 else (case all_unready proxyType [] activePods of
                   Some m \<Rightarrow> (unavailable m, w1)
                 | None \<Rightarrow> (ok, w1))))"

text \<open>The route's availability and message by route type, the name's part after its last dash.\<close>

definition route_type :: "string \<Rightarrow> string" where
  "route_type n = drop (nat (lastIndexByte n (CHR ''-'') + 1)) n"

definition note_ingress ::
  "string \<Rightarrow> RouteIngress \<Rightarrow> bool \<times> (string \<rightharpoonup> bool) \<times> labels \<Rightarrow> bool \<times> (string \<rightharpoonup> bool) \<times> labels" where
  "note_ingress routeName i st =
     (case find (\<lambda>c. rc_type c = ''Admitted'') (ri_conditions i) of
        None \<Rightarrow> st
      | Some c \<Rightarrow>
          (let (avail, routeAvailable, routeMessage) = st;
               admitted = (rc_status c = ConditionTrue);
               t = route_type routeName
           in (avail \<and> admitted, routeAvailable(t \<mapsto> admitted),
               if admitted then routeMessage
               else routeMessage(t \<mapsto> ''Host '' @ ri_host i @ '' in Route '' @ routeName @ '' is unavailable: {reason: ''
                      @ rc_reason c @ '', message: '' @ rc_message c @ ''}''))))"

definition CheckRouteIngressConditions ::
  "Route list \<Rightarrow> bool \<times> (string \<rightharpoonup> bool) \<times> labels \<Rightarrow> bool \<times> (string \<rightharpoonup> bool) \<times> labels" where
  "CheckRouteIngressConditions routes st = fold (\<lambda>r. fold (note_ingress (rt_name r)) (rt_ingress r)) routes st"

text \<open>The part of \<^verbatim>\<open>SetKubeRBACProxyCondition\<close> that looks at the Route.\<close>

definition check_route :: "'w registry_api \<Rightarrow> key \<Rightarrow> string \<Rightarrow> triple \<Rightarrow> 'w \<Rightarrow> triple \<times> 'w" where
  "check_route K k registryName ok w =
     (case ka_listRoutes K [(''app'', snd k), (''component'', ''model-registry'')] (fst k) w of
        (ans, w1) \<Rightarrow>
          (case CheckRouteIngressConditions (case ans of Inl e \<Rightarrow> [] | Inr rs \<Rightarrow> rs) (True, Map.empty, Map.empty) of
             (_, routeAvailable, routeMessage) \<Rightarrow>
               if routeAvailable ''https'' \<noteq> Some True
               then ((''KubeRBACProxy Route '' @ registryName @ ''-https is unavailable: '' @ mapget routeMessage ''https'',
                      ReasonResourcesUnavailable, ConditionFalse), w1)
               else (ok, w1)))"

definition proxy_condition :: "string \<Rightarrow> string \<Rightarrow> string \<Rightarrow> condition" where
  "proxy_condition s r m = \<lparr>cond_type = ConditionTypeKubeRBACProxy, cond_status = s, cond_reason = r, cond_message = m,
     cond_observedGeneration = 0, cond_lastTransition = 0\<rparr>"

definition set_registry_condition :: "cond_api \<Rightarrow> time \<Rightarrow> condition \<Rightarrow> ModelRegistry \<Rightarrow> ModelRegistry" where
  "set_registry_condition A now c r =
     r\<lparr>r_status := (r_status r)\<lparr>mr_conditions := setc A now (mr_conditions (r_status r)) c\<rparr>\<rparr>"

text \<open>The proxy's verdict, before it is written.\<close>

definition proxy_verdict :: "'w registry_api \<Rightarrow> bool \<Rightarrow> key \<Rightarrow> string \<Rightarrow> KubeRBACProxyConfig \<Rightarrow> string \<Rightarrow> 'w \<Rightarrow> triple \<times> 'w" where
  "proxy_verdict K isOpenShift k n kp s w =
     (case CheckDeploymentPods K k ''kube-rbac-proxy'' (''kube-rbac-proxy was successfully created'', ReasonResourcesCreated, s) w of
        ((m2, r2, s2), w1) \<Rightarrow>
          (if s2 = ConditionTrue
           then (if kp_serviceRoute kp = RouteEnabled \<and> isOpenShift
                 then check_route K k n (m2, ReasonResourcesAvailable, s2) w1
                 else ((m2, ReasonResourcesAvailable, s2), w1))
           else ((m2, r2, s2), w1)))"

definition SetKubeRBACProxyCondition ::
  "'w registry_api \<Rightarrow> cond_api \<Rightarrow> time \<Rightarrow> bool \<Rightarrow> key \<Rightarrow> ModelRegistry \<Rightarrow> condition \<Rightarrow> 'w \<Rightarrow> condition \<times> ModelRegistry \<times> 'w" where
  "SetKubeRBACProxyCondition K A now isOpenShift k registry c w =
     (case s_kubeRBACProxy (r_spec registry) of
        None \<Rightarrow> (c, registry, w)
      | Some kp \<Rightarrow>
          (case proxy_verdict K isOpenShift k (r_name registry) kp (cond_status c) w of
             ((m2, r2, s2), w2) \<Rightarrow>
               ((if s2 \<noteq> ConditionTrue then verdict s2 r2 m2 c else c),
                set_registry_condition A now (proxy_condition s2 r2 m2) registry, w2)))"

section \<open>The status\<close>

definition setRegistryStatusHosts :: "string \<Rightarrow> key \<Rightarrow> ModelRegistrySpec \<Rightarrow> ModelRegistry \<Rightarrow> ModelRegistry option" where
  "setRegistryStatusHosts gatewayDomain k params registry =
     (let name = snd k; namespace' = fst k;
          gateway = (if gatewayDomain \<noteq> [] then [gatewayDomain @ ''/model-registry/'' @ name] else []);
          routed = (case s_kubeRBACProxy (r_spec registry) of None \<Rightarrow> False | Some kp \<Rightarrow> kp_serviceRoute kp = RouteEnabled)
      in if routed \<and> s_kubeRBACProxy params = None then None
         else let hosts = gateway
                @ (if routed then [name @ ''-rest.'' @ kp_domain (the (s_kubeRBACProxy params))] else [])
                @ [name @ ''.'' @ namespace' @ ''.svc.cluster.local'', name @ ''.'' @ namespace', name]
              in Some (registry\<lparr>r_status := (r_status registry)\<lparr>mr_hosts := hosts, mr_hostsStr := joinWith '','' hosts\<rparr>\<rparr>))"

text \<open>\<open>mergePatch\<close> is \<^verbatim>\<open>jsonpatch.CreateMergePatch\<close> on the JSON of two specs.\<close>

definition setRegistryStatusSpecDefaults ::
  "(ModelRegistrySpec \<Rightarrow> ModelRegistrySpec \<Rightarrow> go_error + string) \<Rightarrow> ModelRegistry \<Rightarrow> ModelRegistrySpec \<Rightarrow> ModelRegistry" where
  "setRegistryStatusSpecDefaults mergePatch registry spec =
     (case mergePatch (r_spec registry) spec of
        Inl e \<Rightarrow> registry
      | Inr p \<Rightarrow> registry\<lparr>r_status := (r_status registry)\<lparr>mr_specDefaults := p\<rparr>\<rparr>)"

definition progressing_condition :: "OperationResult \<Rightarrow> condition" where
  "progressing_condition result =
     (case result of
        ResourceCreated \<Rightarrow> \<lparr>cond_type = ConditionTypeProgressing, cond_status = ConditionTrue, cond_reason = ReasonDeploymentCreating,
          cond_message = ''Creating deployment'', cond_observedGeneration = 0, cond_lastTransition = 0\<rparr>
      | ResourceUpdated \<Rightarrow> \<lparr>cond_type = ConditionTypeProgressing, cond_status = ConditionTrue, cond_reason = ReasonDeploymentUpdating,
          cond_message = ''Updating deployment'', cond_observedGeneration = 0, cond_lastTransition = 0\<rparr>
      | ResourceUnchanged \<Rightarrow> \<lparr>cond_type = ConditionTypeProgressing, cond_status = ConditionFalse, cond_reason = ReasonDeploymentCreated,
          cond_message = ''Deployment was successfully created'', cond_observedGeneration = 0, cond_lastTransition = 0\<rparr>)"

text \<open>From the re-fetched registry to the one before its conditions are set.\<close>

definition refresh_defaults ::
  "'w registry_api \<Rightarrow> env \<Rightarrow> (ModelRegistrySpec \<Rightarrow> ModelRegistrySpec \<Rightarrow> go_error + string) \<Rightarrow> string \<Rightarrow> key \<Rightarrow> ModelRegistrySpec
   \<Rightarrow> ModelRegistry \<Rightarrow> 'w \<Rightarrow> (go_error + ModelRegistry) option \<times> 'w" where
  "refresh_defaults K getenv mergePatch gatewayDomain k params registry w =
     (case setRegistryStatusHosts gatewayDomain k params registry of
        None \<Rightarrow> (None, w)
      | Some registry \<Rightarrow>
          (let registry = setRegistryStatusSpecDefaults mergePatch registry params
           in if mr_specDefaults (r_status registry) = ''{}''
              then (case ka_updateRegistry K (CleanupRuntimeDefaults getenv registry) w of
                (Inl e, w1) \<Rightarrow> (Some (Inl e), w1)
              | (Inr registry', w1) \<Rightarrow> (Some (Inr registry'), w1))
              else (Some (Inr registry), w)))"

text \<open>The conditions that are written, and the Available one that is returned.\<close>

definition publish_availability ::
  "'w registry_api \<Rightarrow> cond_api \<Rightarrow> time \<Rightarrow> bool \<Rightarrow> key \<Rightarrow> condition \<Rightarrow> ModelRegistry \<Rightarrow> 'w \<Rightarrow> condition \<times> ModelRegistry \<times> 'w" where
  "publish_availability K A now isOpenShift k c registry w =
     (let registry = registry\<lparr>r_status := (r_status registry)\<lparr>mr_conditions :=
            removec A (mr_conditions (r_status registry)) ConditionTypeOAuthProxy\<rparr>\<rparr>;
          (c, registry, w) =
            (if cond_status c = ConditionTrue then SetKubeRBACProxyCondition K A now isOpenShift k registry c w
             else if s_kubeRBACProxy (r_spec registry) \<noteq> None
             then (c, set_registry_condition A now
                    (proxy_condition ConditionFalse ReasonResourcesUnavailable (cond_message c)) registry, w)
             else (c, registry, w))
      in (c, set_registry_condition A now c registry, w))"

definition setRegistryStatus ::
  "'w registry_api \<Rightarrow> cond_api \<Rightarrow> env \<Rightarrow> (ModelRegistrySpec \<Rightarrow> ModelRegistrySpec \<Rightarrow> go_error + string)
   \<Rightarrow> ((string \<times> string) list \<Rightarrow> (string \<times> string) list) \<Rightarrow> time \<Rightarrow> bool \<Rightarrow> string \<Rightarrow> key \<Rightarrow> ModelRegistrySpec \<Rightarrow> OperationResult
   \<Rightarrow> 'w \<Rightarrow> (go_error + condition) option \<times> 'w" where
  "setRegistryStatus K A getenv mergePatch order now isOpenShift gatewayDomain k params result w =
     (case ka_getRegistry K k w of
        (Inl e, w1) \<Rightarrow> (Some (Inl e), w1)
      | (Inr fetched, w1) \<Rightarrow>
          (case refresh_defaults K getenv mergePatch gatewayDomain k params fetched w1 of
             (None, w2) \<Rightarrow> (None, w2)
           | (Some (Inl e), w2) \<Rightarrow> (Some (Inl e), w2)
           | (Some (Inr registry), w2) \<Rightarrow>
               (let registry = set_registry_condition A now (progressing_condition result) registry
                in case registry_checkDeploymentAvailability K order now k (snd k) ''model-registry'' w2 of
                     (Inl e, w3) \<Rightarrow> (Some (Inl e), w3)
                   | (Inr c, w3) \<Rightarrow>
                       (case publish_availability K A now isOpenShift k c registry w3 of
                          (c, registry, w4) \<Rightarrow>
                            (case ka_updateStatus K registry w4 of
                               (Inl e, w5) \<Rightarrow> (Some (Inl e), w5)
                             | (Inr _, w5) \<Rightarrow> (Some (Inr c), w5))))))"

section \<open>Properties\<close>

lemma verdict_fields [simp]:
  "cond_status (verdict s r m c) = s" "cond_reason (verdict s r m c) = r" "cond_message (verdict s r m c) = m"
  "cond_type (verdict s r m c) = cond_type c" "cond_lastTransition (verdict s r m c) = cond_lastTransition c"
  by (simp_all add: verdict_def)

lemma check_pods_type:
  "cond_type (fst (check_pods K order n c ps w)) = cond_type c"
  by (induction K order n c ps w rule: check_pods.induct)
    (auto simp: db_verdict_def split: prod.splits sum.splits option.splits)

lemma registry_checkPodStatus_type:
  "cond_type (fst (registry_checkPodStatus K order app cp ns c n w)) = cond_type c"
  by (simp add: registry_checkPodStatus_def Let_def check_pods_type del: check_pods.simps split: prod.split sum.split)

lemma registry_check_endpoints_type:
  "cond_type (fst (registry_check_endpoints K now k s c w)) = cond_type c"
  by (simp add: registry_check_endpoints_def split: prod.split sum.split)

lemma pod_verdict_type: "cond_type (fst (pod_verdict K order k app cp d w)) = ConditionTypeAvailable"
  by (simp add: pod_verdict_def Let_def registry_checkPodStatus_type available_condition_def)

lemma registry_checkDeploymentAvailability_eq:
  assumes "ka_getDeployment K k w = (Inr d, w1)" and "pod_verdict K order k app cp d w1 = (c, w2)"
  shows "registry_checkDeploymentAvailability K order now k app cp w =
    (if available (parseDeploymentConditions d)
     then (case registry_check_endpoints K now k (availableSince (parseDeploymentConditions d)) c w2 of (c, w3) \<Rightarrow> (Inr c, w3))
     else (Inr (c\<lparr>cond_status := ConditionFalse\<rparr>), w2))"
  using assms by (simp add: registry_checkDeploymentAvailability_def)

lemma registry_checkDeploymentAvailability_type:
  assumes "registry_checkDeploymentAvailability K order now k app cp w = (Inr c, w')"
  shows "cond_type c = ConditionTypeAvailable"
proof -
  obtain a w1 where g: "ka_getDeployment K k w = (a, w1)" by fastforce
  show ?thesis
  proof (cases a)
    case (Inl e)
    then show ?thesis using assms g by (simp add: registry_checkDeploymentAvailability_def)
  next
    case (Inr d)
    obtain c1 w2 where p: "pod_verdict K order k app cp d w1 = (c1, w2)" by fastforce
    have "cond_type c1 = ConditionTypeAvailable" using pod_verdict_type[of K order k app cp d w1] p by simp
    then show ?thesis
      using assms registry_check_endpoints_type[of K now k "availableSince (parseDeploymentConditions d)" c1 w2]
      unfolding registry_checkDeploymentAvailability_eq[OF g[unfolded Inr] p]
      by (auto split: if_splits prod.splits)
  qed
qed

lemma registry_checkDeploymentAvailability_status:
  assumes "registry_checkDeploymentAvailability K order now k app cp w = (Inr c, w')"
    and "fst (ka_getDeployment K k w) = Inr d" and "\<And>w. fst (ka_getEndpoints K k w) = Inr eps"
  shows "cond_status c = ConditionTrue \<longleftrightarrow> available (parseDeploymentConditions d) \<and> list_ex (\<lambda>as. as \<noteq> []) eps
     \<and> now - availableSince (parseDeploymentConditions d) \<ge> deploymentDelay"
proof -
  obtain w1 where g: "ka_getDeployment K k w = (Inr d, w1)" using assms(2) by (metis prod.collapse)
  obtain c1 w2 where p: "pod_verdict K order k app cp d w1 = (c1, w2)" by fastforce
  obtain w3 where e: "ka_getEndpoints K k w2 = (Inr eps, w3)" using assms(3)[of w2] by (metis prod.collapse)
  show ?thesis
    using assms(1) e unfolding registry_checkDeploymentAvailability_eq[OF g p] registry_check_endpoints_def
    by (auto split: if_splits)
qed

text \<open>When one active pod is ready, and when the https Route counts as admitted.\<close>

definition pod_serves :: "Pod \<Rightarrow> bool" where
  "pod_serves p = (p_deletion p = None \<and> length (p_containers p) = 2 \<and> length (p_statuses p) = 2 \<and> list_all cs_ready (p_statuses p))"

definition admission :: "RouteIngress \<Rightarrow> bool option" where
  "admission i = map_option (\<lambda>c. rc_status c = ConditionTrue) (find (\<lambda>c. rc_type c = ''Admitted'') (ri_conditions i))"

definition admissions :: "string \<Rightarrow> Route list \<Rightarrow> bool list" where
  "admissions t routes = concat (map (\<lambda>r. if route_type (rt_name r) = t
     then List.map_filter admission (rt_ingress r)
     else []) routes)"

definition proxy_serves :: "bool \<Rightarrow> KubeRBACProxyConfig option \<Rightarrow> Pod list \<Rightarrow> Route list \<Rightarrow> bool" where
  "proxy_serves isOpenShift kp pods routes =
     (case kp of None \<Rightarrow> True
      | Some kp \<Rightarrow> list_ex pod_serves pods
          \<and> (kp_serviceRoute kp = RouteEnabled \<and> isOpenShift \<longrightarrow> admissions ''https'' routes \<noteq> [] \<and> last (admissions ''https'' routes)))"

lemma checkPodReadiness_None:
  "p_deletion p = None \<Longrightarrow> checkPodReadiness p t = None \<longleftrightarrow> pod_serves p"
  by (auto simp: checkPodReadiness_def pod_serves_def find_None_iff list_all_iff)

lemma all_unready_None: "all_unready t m ps = None \<longleftrightarrow> (\<exists>p \<in> set ps. checkPodReadiness p t = None)"
  by (induction ps arbitrary: m) (auto split: option.splits)

lemma active_ready:
  "(\<exists>p \<in> set (filter (\<lambda>p. p_deletion p = None) ps). checkPodReadiness p t = None) \<longleftrightarrow> list_ex pod_serves ps"
  by (auto simp: list_ex_iff checkPodReadiness_None) (metis checkPodReadiness_None pod_serves_def)

lemma CheckDeploymentPods_status:
  assumes "fst (ka_listPods K [(''app'', snd k), (''component'', ''model-registry''), (''app.kubernetes.io/name'', snd k)] (fst k) w) = Inr pods"
    and "CheckDeploymentPods K k t (m, r, ConditionTrue) w = ((m2, r2, s2), w')"
  shows "s2 = ConditionTrue \<longleftrightarrow> list_ex pod_serves pods"
proof -
  obtain w1 where l: "ka_listPods K [(''app'', snd k), (''component'', ''model-registry''), (''app.kubernetes.io/name'', snd k)] (fst k) w
      = (Inr pods, w1)" using assms(1) by (metis prod.collapse)
  let ?active = "filter (\<lambda>p. p_deletion p = None) pods"
  have "s2 = ConditionTrue \<longleftrightarrow> pods \<noteq> [] \<and> ?active \<noteq> [] \<and> all_unready t [] ?active = None"
    using assms(2) l by (auto simp: CheckDeploymentPods_def Let_def split: if_splits option.splits)
  also have "\<dots> \<longleftrightarrow> list_ex pod_serves pods"
    unfolding all_unready_None active_ready by (auto simp: list_ex_iff pod_serves_def filter_empty_conv)
  finally show ?thesis .
qed

lemma note_ingress_available:
  "fst (snd (note_ingress n i st)) t =
     (case admission i of None \<Rightarrow> fst (snd st) t | Some b \<Rightarrow> if route_type n = t then Some b else fst (snd st) t)"
  by (simp add: note_ingress_def admission_def Let_def split: option.split prod.split)

lemma note_ingresses:
  "fst (snd (fold (note_ingress n) is st)) t =
     (if List.map_filter admission is = [] \<or> route_type n \<noteq> t then fst (snd st) t
      else Some (last (List.map_filter admission is)))"
proof (induction "is" arbitrary: st)
  case Nil
  then show ?case by (simp add: List.map_filter_simps)
next
  case (Cons i "is")
  show ?case
    by (cases "admission i") (simp_all add: Cons.IH List.map_filter_simps note_ingress_available)
qed

lemma CheckRouteIngressConditions_available:
  "fst (snd (CheckRouteIngressConditions routes st)) t =
     (if admissions t routes = [] then fst (snd st) t else Some (last (admissions t routes)))"
proof (induction routes arbitrary: st)
  case Nil
  then show ?case by (simp add: CheckRouteIngressConditions_def admissions_def)
next
  case (Cons r routes)
  have "admissions t (r # routes) = admissions t [r] @ admissions t routes" by (simp add: admissions_def)
  moreover have "fst (snd (fold (note_ingress (rt_name r)) (rt_ingress r) st)) t
      = (if admissions t [r] = [] then fst (snd st) t else Some (last (admissions t [r])))"
    by (simp add: note_ingresses admissions_def)
  moreover have "CheckRouteIngressConditions (r # routes) st
      = CheckRouteIngressConditions routes (fold (note_ingress (rt_name r)) (rt_ingress r) st)"
    by (simp add: CheckRouteIngressConditions_def)
  ultimately show ?case using Cons.IH by simp
qed

lemma check_route_status:
  assumes "fst (ka_listRoutes K [(''app'', snd k), (''component'', ''model-registry'')] (fst k) w) = Inr routes"
    and "check_route K k n (m, r, ConditionTrue) w = ((m2, r2, s2), w')"
  shows "s2 = ConditionTrue \<longleftrightarrow> admissions ''https'' routes \<noteq> [] \<and> last (admissions ''https'' routes)"
proof -
  obtain w1 where l: "ka_listRoutes K [(''app'', snd k), (''component'', ''model-registry'')] (fst k) w = (Inr routes, w1)"
    using assms(1) by (metis prod.collapse)
  obtain b ra rm where c: "CheckRouteIngressConditions routes (True, Map.empty, Map.empty) = (b, ra, rm)" by (metis prod_cases3)
  have "ra ''https'' = Some True \<longleftrightarrow> admissions ''https'' routes \<noteq> [] \<and> last (admissions ''https'' routes)"
    using CheckRouteIngressConditions_available[of routes "(True, Map.empty, Map.empty)" "''https''"] c by simp
  then show ?thesis using assms(2) l c by (auto simp: check_route_def split: if_splits)
qed

lemma SetKubeRBACProxyCondition_eq:
  assumes "s_kubeRBACProxy (r_spec r) = Some kp" and "proxy_verdict K os k (r_name r) kp (cond_status c) w = ((m2, r2, s2), w2)"
  shows "SetKubeRBACProxyCondition K A now os k r c w =
    (if s2 \<noteq> ConditionTrue then verdict s2 r2 m2 c else c, set_registry_condition A now (proxy_condition s2 r2 m2) r, w2)"
  using assms by (simp add: SetKubeRBACProxyCondition_def)

lemma proxy_verdict_status:
  assumes "\<And>ls ns w. fst (ka_listPods K ls ns w) = Inr pods" and "\<And>ls ns w. fst (ka_listRoutes K ls ns w) = Inr routes"
    and "proxy_verdict K os k n kp ConditionTrue w = ((m2, r2, s2), w2)"
  shows "s2 = ConditionTrue \<longleftrightarrow> proxy_serves os (Some kp) pods routes"
proof -
  obtain m1 r1 s1 w1 where c: "CheckDeploymentPods K k ''kube-rbac-proxy'' (''kube-rbac-proxy was successfully created'',
      ReasonResourcesCreated, ConditionTrue) w = ((m1, r1, s1), w1)" by (metis prod_cases3 prod.collapse)
  note s1 = CheckDeploymentPods_status[OF assms(1) c]
  show ?thesis
  proof (cases "s1 = ConditionTrue \<and> kp_serviceRoute kp = RouteEnabled \<and> os")
    case True
    then have "check_route K k n (m1, ReasonResourcesAvailable, ConditionTrue) w1 = ((m2, r2, s2), w2)"
      using assms(3) c by (simp add: proxy_verdict_def)
    from check_route_status[OF assms(2) this] show ?thesis using True s1 by (simp add: proxy_serves_def)
  next
    case False
    then have "s2 = s1" using assms(3) c by (auto simp: proxy_verdict_def split: if_splits)
    then show ?thesis using False s1 by (auto simp: proxy_serves_def)
  qed
qed

lemma publish_availability_cases:
  assumes "publish_availability K A now os k c r w = (c', r', w')"
  defines "r0 \<equiv> r\<lparr>r_status := (r_status r)\<lparr>mr_conditions := removec A (mr_conditions (r_status r)) ConditionTypeOAuthProxy\<rparr>\<rparr>"
  obtains (plain) "s_kubeRBACProxy (r_spec r) = None" "c' = c" "r' = set_registry_condition A now c r0"
  | (down) kp where "s_kubeRBACProxy (r_spec r) = Some kp" "cond_status c \<noteq> ConditionTrue" "c' = c"
      "r' = set_registry_condition A now c (set_registry_condition A now
         (proxy_condition ConditionFalse ReasonResourcesUnavailable (cond_message c)) r0)"
  | (checked) kp m2 r2 s2 w2 where "s_kubeRBACProxy (r_spec r) = Some kp" "cond_status c = ConditionTrue"
      "proxy_verdict K os k (r_name r) kp ConditionTrue w = ((m2, r2, s2), w2)"
      "c' = (if s2 \<noteq> ConditionTrue then verdict s2 r2 m2 c else c)"
      "r' = set_registry_condition A now c' (set_registry_condition A now (proxy_condition s2 r2 m2) r0)"
proof (cases "s_kubeRBACProxy (r_spec r)")
  case None
  then show ?thesis using assms(1) plain
    by (auto simp: publish_availability_def SetKubeRBACProxyCondition_def r0_def Let_def split: if_splits)
next
  case (Some kp)
  then have kp0: "s_kubeRBACProxy (r_spec r0) = Some kp" "r_name r0 = r_name r" by (simp_all add: r0_def)
  obtain m2 r2 s2 w2 where v: "proxy_verdict K os k (r_name r) kp (cond_status c) w = ((m2, r2, s2), w2)"
    by (metis prod_cases3 prod.collapse)
  show ?thesis
  proof (cases "cond_status c = ConditionTrue")
    case True
    have "c' = (if s2 \<noteq> ConditionTrue then verdict s2 r2 m2 c else c)
        \<and> r' = set_registry_condition A now c' (set_registry_condition A now (proxy_condition s2 r2 m2) r0)"
      using assms(1) SetKubeRBACProxyCondition_eq[OF kp0(1) v[folded kp0(2)], where A=A and now=now] True
      by (auto simp: publish_availability_def r0_def[symmetric] Let_def)
    then show ?thesis using checked[OF Some True] v True by simp
  next
    case False
    have "c' = c \<and> r' = set_registry_condition A now c (set_registry_condition A now
         (proxy_condition ConditionFalse ReasonResourcesUnavailable (cond_message c)) r0)"
      using assms(1) kp0 False by (auto simp: publish_availability_def r0_def[symmetric] Let_def)
    then show ?thesis using down[OF Some False] by simp
  qed
qed

lemma publish_availability_status:
  assumes "publish_availability K A now os k c r w = (c', r', w')"
    and "\<And>ls ns w. fst (ka_listPods K ls ns w) = Inr pods" and "\<And>ls ns w. fst (ka_listRoutes K ls ns w) = Inr routes"
  shows "cond_status c' = ConditionTrue \<longleftrightarrow> cond_status c = ConditionTrue \<and> proxy_serves os (s_kubeRBACProxy (r_spec r)) pods routes"
  using assms(1)
proof (cases rule: publish_availability_cases)
  case plain
  then show ?thesis by (simp add: proxy_serves_def)
next
  case down
  then show ?thesis by simp
next
  case (checked kp m2 r2 s2 w2)
  then show ?thesis using proxy_verdict_status[OF assms(2,3) checked(3)] by auto
qed

lemma refresh_defaults_proxy:
  assumes "refresh_defaults K getenv mp gd k params r w = (Some (Inr r'), w')"
    and "\<And>x w y. fst (ka_updateRegistry K x w) = Inr y \<Longrightarrow> s_kubeRBACProxy (r_spec y) = s_kubeRBACProxy (r_spec x)"
  shows "s_kubeRBACProxy (r_spec r') = s_kubeRBACProxy (r_spec r)"
proof -
  obtain h where h: "setRegistryStatusHosts gd k params r = Some h"
    using assms(1) by (cases "setRegistryStatusHosts gd k params r") (auto simp: refresh_defaults_def)
  then have "r_spec h = r_spec r" by (auto simp: setRegistryStatusHosts_def Let_def split: if_splits)
  moreover have "r_spec (setRegistryStatusSpecDefaults mp h params) = r_spec h"
    by (simp add: setRegistryStatusSpecDefaults_def split: sum.split)
  moreover have "s_kubeRBACProxy (r_spec (CleanupRuntimeDefaults getenv x)) = s_kubeRBACProxy (r_spec x)" for x
    by (simp add: CleanupRuntimeDefaults_def)
  ultimately show ?thesis
    using assms(1) assms(2)[of "CleanupRuntimeDefaults getenv (setRegistryStatusSpecDefaults mp h params)" w r'] h
    by (auto simp: refresh_defaults_def Let_def split: if_splits prod.splits sum.splits)
qed

text \<open>The steps of a run that returns a condition.\<close>

lemma setRegistryStatus_run:
  assumes "setRegistryStatus K A getenv mp order now os gd k params result w = (Some (Inr c'), w')"
  obtains fetched w1 r w2 c w3 r' w4 where "ka_getRegistry K k w = (Inr fetched, w1)"
    and "refresh_defaults K getenv mp gd k params fetched w1 = (Some (Inr r), w2)"
    and "registry_checkDeploymentAvailability K order now k (snd k) ''model-registry'' w2 = (Inr c, w3)"
    and "publish_availability K A now os k c (set_registry_condition A now (progressing_condition result) r) w3 = (c', r', w4)"
proof -
  obtain a w1 where g: "ka_getRegistry K k w = (a, w1)" by fastforce
  obtain fetched where a: "a = Inr fetched" using assms g by (cases a) (auto simp: setRegistryStatus_def)
  obtain b w2 where d: "refresh_defaults K getenv mp gd k params fetched w1 = (b, w2)" by fastforce
  obtain r where b: "b = Some (Inr r)"
    using assms g a d by (auto simp: setRegistryStatus_def split: option.splits sum.splits)
  obtain cc w3 where e: "registry_checkDeploymentAvailability K order now k (snd k) ''model-registry'' w2 = (cc, w3)" by fastforce
  obtain c where cc: "cc = Inr c" using assms g a d b e by (cases cc) (auto simp: setRegistryStatus_def Let_def)
  obtain c2 r' w4 where f: "publish_availability K A now os k c (set_registry_condition A now (progressing_condition result) r) w3
      = (c2, r', w4)" by (metis prod_cases3)
  have "c2 = c'" using assms g a d b e cc f by (auto simp: setRegistryStatus_def Let_def split: prod.splits sum.splits)
  then show ?thesis using that g a d b e cc f by blast
qed

text \<open>
  C4: when a registry is Available. On a cluster that answers the reads, the reported
  condition is true exactly when the Deployment counts as available, its Service has a ready
  address, the cooldown is over and, if the proxy is configured, an active pod runs both of
  its containers ready and, on OpenShift with the route enabled, the https Route is admitted.
\<close>

theorem registry_available_iff:
  assumes "\<And>w. fst (ka_getDeployment K k w) = Inr d" and "\<And>w. fst (ka_getEndpoints K k w) = Inr eps"
    and "\<And>ls ns w. fst (ka_listPods K ls ns w) = Inr pods" and "\<And>ls ns w. fst (ka_listRoutes K ls ns w) = Inr routes"
    and "\<And>w. fst (ka_getRegistry K k w) = Inr reg"
    and "\<And>x w y. fst (ka_updateRegistry K x w) = Inr y \<Longrightarrow> s_kubeRBACProxy (r_spec y) = s_kubeRBACProxy (r_spec x)"
    and "setRegistryStatus K A getenv mp order now os gd k params result w = (Some (Inr c'), w')"
  shows "cond_status c' = ConditionTrue \<longleftrightarrow>
      available (parseDeploymentConditions d) \<and> list_ex (\<lambda>addresses. addresses \<noteq> []) eps
    \<and> now - availableSince (parseDeploymentConditions d) \<ge> deploymentDelay
    \<and> proxy_serves os (s_kubeRBACProxy (r_spec reg)) pods routes"
proof -
  from assms(7) obtain fetched w1 r w2 c w3 r' w4 where
    g: "ka_getRegistry K k w = (Inr fetched, w1)" and d: "refresh_defaults K getenv mp gd k params fetched w1 = (Some (Inr r), w2)"
    and e: "registry_checkDeploymentAvailability K order now k (snd k) ''model-registry'' w2 = (Inr c, w3)"
    and f: "publish_availability K A now os k c (set_registry_condition A now (progressing_condition result) r) w3 = (c', r', w4)"
    by (rule setRegistryStatus_run)
  have "fetched = reg" using g assms(5)[of w] by simp
  then have "s_kubeRBACProxy (r_spec (set_registry_condition A now (progressing_condition result) r)) = s_kubeRBACProxy (r_spec reg)"
    using refresh_defaults_proxy[OF d assms(6)] by (simp add: set_registry_condition_def)
  then show ?thesis
    using publish_availability_status[OF f assms(3,4)] registry_checkDeploymentAvailability_status[OF e assms(1,2)] by simp
qed

text \<open>
  The published conditions agree. With the proxy configured, the proxy's condition is
  true exactly when Available is, so no stale success survives an outage; the condition of the
  old OAuth proxy is gone, and Available carries the returned verdict.
\<close>

theorem published_conditions_agree:
  assumes "conditions_api A" and "cond_type c = ConditionTypeAvailable"
    and "publish_availability K A now os k c r w = (c', r', w')"
  shows "(isConditionTrue A (mr_conditions (r_status r')) ConditionTypeAvailable \<longleftrightarrow> cond_status c' = ConditionTrue)
   \<and> findc A (mr_conditions (r_status r')) ConditionTypeOAuthProxy = None
   \<and> (s_kubeRBACProxy (r_spec r) \<noteq> None \<longrightarrow>
        (isConditionTrue A (mr_conditions (r_status r')) ConditionTypeKubeRBACProxy \<longleftrightarrow> cond_status c' = ConditionTrue))"
proof -
  note types = ConditionTypeAvailable_def ConditionTypeOAuthProxy_def ConditionTypeKubeRBACProxy_def
  note laws = conditions_api.find_set[OF assms(1)] conditions_api.find_remove[OF assms(1)]
    conditions_api.true_after_set[OF assms(1)]
  note sets = set_registry_condition_def proxy_condition_def
  show ?thesis
    using assms(3)
  proof (cases rule: publish_availability_cases)
    case plain
    then show ?thesis using assms(2) by (simp add: sets laws types)
  next
    case (down kp)
    then show ?thesis using assms(2) by (simp add: sets laws types)
  next
    case (checked kp m2 r2 s2 w2)
    then show ?thesis using assms(2) by (simp add: sets laws types)
  qed
qed


subsection \<open>Witnesses\<close>

definition sample_kube_proxy :: KubeRBACProxyConfig where
  "sample_kube_proxy = no_kube_proxy\<lparr>kp_serviceRoute := RouteEnabled\<rparr>"

definition proxied_registry :: ModelRegistry where
  "proxied_registry = sample_registry\<lparr>r_spec := (r_spec sample_registry)\<lparr>s_oauthProxy := None, s_kubeRBACProxy := Some sample_kube_proxy\<rparr>\<rparr>"

definition sample_deployment :: Deployment where
  "sample_deployment = \<lparr>d_name = ''reg'', d_namespace = ''ns'', d_generation = 1, d_deletion = None, d_replicas = Some 1,
     d_selector = Map.empty, d_templateAnnotations = Map.empty, d_initContainers = [], d_containers = [],
     d_conditions = [\<lparr>dc_type = ''Available'', dc_status = ConditionTrue, dc_message = [], dc_lastTransition = 0\<rparr>],
     d_observedGeneration = 1, d_statusReplicas = 1, d_updatedReplicas = 1, d_readyReplicas = 1, d_availableReplicas = 1,
     d_unavailableReplicas = 0\<rparr>"

definition sample_status :: "string \<Rightarrow> ContainerStatus" where
  "sample_status n = \<lparr>cs_name = n, cs_ready = True, cs_waiting = None, cs_terminated = None, cs_lastTerminated = None\<rparr>"

definition sample_pod :: Pod where
  "sample_pod = \<lparr>p_name = ''reg-1'', p_namespace = ''ns'', p_annotations = Map.empty, p_labels = Map.empty, p_deletion = None,
     p_initContainers = [], p_containers = [\<lparr>c_name = ''a'', c_image = []\<rparr>, \<lparr>c_name = ''b'', c_image = []\<rparr>], p_phase = ''Running'',
     p_initStatuses = [], p_statuses = [sample_status ''a'', sample_status ''b''], p_conditions = []\<rparr>"

definition sample_route :: Route where
  "sample_route = \<lparr>rt_name = ''reg-https'', rt_ingress = [\<lparr>ri_host = ''h'',
     ri_conditions = [\<lparr>rc_type = ''Admitted'', rc_status = ConditionTrue, rc_reason = [], rc_message = []\<rparr>]\<rparr>]\<rparr>"

definition quiet_registry_api :: "unit registry_api" where
  "quiet_registry_api = \<lparr>ka_getRegistry = \<lambda>_ w. (Inr proxied_registry, w), ka_updateRegistry = \<lambda>r w. (Inr r, w),
     ka_updateStatus = \<lambda>r w. (Inr r, w), ka_getDeployment = \<lambda>_ w. (Inr sample_deployment, w),
     ka_getEndpoints = \<lambda>_ w. (Inr [[''10.0.0.1'']], w), ka_listPods = \<lambda>_ _ w. (Inr [sample_pod], w),
     ka_podLog = \<lambda>_ _ w. (Inr ([], None), w), ka_listRoutes = \<lambda>_ _ w. (Inr [sample_route], w)\<rparr>"

definition sample_run :: "(go_error + condition) option \<times> unit" where
  "sample_run = setRegistryStatus quiet_registry_api list_conditions (\<lambda>_. []) (\<lambda>_ _. Inr ''{1}'') id (6 * 1000000000) True []
     (''ns'', ''reg'') (r_spec proxied_registry) ResourceUnchanged ()"

theorem registry_available_iff_witness:
  "case fst sample_run of Some (Inr c) \<Rightarrow> cond_status c = ConditionTrue | _ \<Rightarrow> False"
proof -
  have "case fst sample_run of Some (Inr c) \<Rightarrow> True | _ \<Rightarrow> False" by code_simp
  then obtain c where "fst sample_run = Some (Inr c)" by (auto split: option.splits sum.splits)
  then have c: "sample_run = (Some (Inr c), ())" by (simp add: prod_eq_iff)
  have "available (parseDeploymentConditions sample_deployment) \<and> list_ex (\<lambda>addresses. addresses \<noteq> []) [[''10.0.0.1'']]
      \<and> 6 * 1000000000 - availableSince (parseDeploymentConditions sample_deployment) \<ge> deploymentDelay
      \<and> proxy_serves True (s_kubeRBACProxy (r_spec proxied_registry)) [sample_pod] [sample_route]" by code_simp
  then have "cond_status c = ConditionTrue"
    using registry_available_iff[OF _ _ _ _ _ _ c[unfolded sample_run_def], of sample_deployment "[[''10.0.0.1'']]" "[sample_pod]"
        "[sample_route]" proxied_registry]
    by (auto simp: quiet_registry_api_def)
  then show ?thesis by (simp add: c)
qed

definition sample_publication :: "condition \<times> ModelRegistry \<times> unit" where
  "sample_publication = publish_availability quiet_registry_api list_conditions 0 True (''ns'', ''reg'')
     (available_condition\<lparr>cond_status := ConditionTrue\<rparr>) proxied_registry ()"

theorem published_conditions_agree_witness:
  "isConditionTrue list_conditions (mr_conditions (r_status (fst (snd sample_publication)))) ConditionTypeKubeRBACProxy"
proof -
  obtain c' r' w' where p: "sample_publication = (c', r', w')" by (metis prod_cases3)
  have "cond_status (fst sample_publication) = ConditionTrue" by code_simp
  then have "cond_status c' = ConditionTrue" by (simp add: p)
  moreover have "s_kubeRBACProxy (r_spec proxied_registry) \<noteq> None" by (simp add: proxied_registry_def)
  moreover have "cond_type (available_condition\<lparr>cond_status := ConditionTrue\<rparr>) = ConditionTypeAvailable"
    by (simp add: available_condition_def)
  ultimately show ?thesis
    using published_conditions_agree[OF lc.conditions_api_axioms _ p[unfolded sample_publication_def]] by (simp add: p)
qed


end
