(* ===== verification/Registry_Reconcile.thy ===== *)
theory Registry_Reconcile
  imports Operands Registry_Status Proxy_TLS
begin

text \<open>
  The registry reconciler (\<^verbatim>\<open>internal/controller/modelregistry_controller.go\<close>,
  \<^verbatim>\<open>modelregistry_oauth.go\<close>, \<^verbatim>\<open>modelregistry_gateway.go\<close>, \<^verbatim>\<open>proxy_tls.go\<close>): the operations that write
  the objects of a registry, the provisioned database, the finalizer, the clean-up of an earlier
  release, and \<^verbatim>\<open>Reconcile\<close>.
\<close>

section \<open>The client\<close>

record registry_settings =
  rr_capabilities :: ClusterCapabilities
  rr_enableWebhooks :: bool
  rr_gateway :: "string \<times> string \<times> string" \<comment> \<open>domain, name, namespace\<close>
  rr_httpRouteNamespace :: string

text \<open>\<^verbatim>\<open>params.Spec\<close> is a pointer to the spec of the registry at hand, so it is that spec here.\<close>

record ModelRegistryParams =
  mp_name :: string
  mp_namespace :: string
  mp_spec :: ModelRegistrySpec
  mp_originalSpec :: ModelRegistrySpec
  mp_proxyTLSArgs :: "string list"
  mp_gateway :: "string \<times> string \<times> string"
  mp_httpRouteNamespace :: string

record 'w registry_client =
  rc_cluster :: "'w cluster_api"
  rc_api :: "'w registry_api"
  rc_settings :: registry_settings
  rc_getenv :: env
  rc_conds :: cond_api
  rc_tls :: tls_api
  rc_fips :: bool
  rc_quote :: "string \<Rightarrow> string"
  rc_now :: "'w \<Rightarrow> time"
  rc_render :: "ModelRegistryParams \<Rightarrow> string \<Rightarrow> go_error + object"
  rc_setController :: "ModelRegistry \<Rightarrow> object \<Rightarrow> go_error + object"
  rc_getAPIServer :: "('w, APIServer) call"
  rc_mergePatch :: "ModelRegistrySpec \<Rightarrow> ModelRegistrySpec \<Rightarrow> go_error + string"
  rc_order :: "(string \<times> string) list \<Rightarrow> (string \<times> string) list"
  rc_event :: "ModelRegistry \<Rightarrow> string \<Rightarrow> string \<Rightarrow> 'w \<Rightarrow> 'w"

definition modelRegistryFinalizer :: string where "modelRegistryFinalizer = ''modelregistry.opendatahub.io/finalizer''"
definition DisplayNameAnnotation :: string where "DisplayNameAnnotation = ''openshift.io/display-name''"
definition DescriptionAnnotation :: string where "DescriptionAnnotation = ''openshift.io/description''"

abbreviation is_openshift :: "'w registry_client \<Rightarrow> bool" where
  "is_openshift R \<equiv> cap_IsOpenShift (rr_capabilities (rc_settings R))"

definition IgnoreDeletingErrors :: "go_error \<Rightarrow> go_error option" where
  "IgnoreDeletingErrors e = (if isNotFound e \<or> is_kind Conflict e then None else Some e)"

section \<open>Writing objects\<close>

text \<open>Rendering a template, with and without the registry as the controller.\<close>

definition registry_object :: "'w registry_client \<Rightarrow> ModelRegistryParams \<Rightarrow> string \<Rightarrow> (object \<Rightarrow> 'w step) \<Rightarrow> 'w step" where
  "registry_object R params tmpl f w =
     (case rc_render R params tmpl of Inl e \<Rightarrow> (ResourceUnchanged, Some e, w) | Inr x \<Rightarrow> f x w)"

definition controlled_object ::
  "'w registry_client \<Rightarrow> ModelRegistryParams \<Rightarrow> ModelRegistry \<Rightarrow> string \<Rightarrow> (object \<Rightarrow> 'w step) \<Rightarrow> 'w step" where
  "controlled_object R params registry tmpl f =
     registry_object R params tmpl (\<lambda>x w.
       (case rc_setController R registry x of Inl e \<Rightarrow> (ResourceUnchanged, Some e, w) | Inr x \<Rightarrow> f x w))"

definition registry_createOrUpdate :: "'w registry_client \<Rightarrow> string \<Rightarrow> object \<Rightarrow> 'w step" where
  "registry_createOrUpdate R k = CreateOrUpdate (kind_api (rc_cluster R) k)"

text \<open>
  \<^verbatim>\<open>createOrUpdateServiceAccount\<close>, \<^verbatim>\<open>createOrUpdateRole\<close>, \<^verbatim>\<open>createOrUpdateRoleBinding\<close>: the same
  three statements for different kinds.
\<close>

definition write_controlled :: "'w registry_client \<Rightarrow> string \<Rightarrow> ModelRegistryParams \<Rightarrow> ModelRegistry \<Rightarrow> string \<Rightarrow> 'w step" where
  "write_controlled R k params registry tmpl = controlled_object R params registry tmpl (registry_createOrUpdate R k)"

definition registry_createOrUpdateServiceAccount :: "'w registry_client \<Rightarrow> ModelRegistryParams \<Rightarrow> ModelRegistry \<Rightarrow> string \<Rightarrow> 'w step" where
  "registry_createOrUpdateServiceAccount R = write_controlled R ''ServiceAccount''"

definition registry_createOrUpdateRole :: "'w registry_client \<Rightarrow> ModelRegistryParams \<Rightarrow> ModelRegistry \<Rightarrow> string \<Rightarrow> 'w step" where
  "registry_createOrUpdateRole R = write_controlled R ''Role''"

definition registry_createOrUpdateRoleBinding :: "'w registry_client \<Rightarrow> ModelRegistryParams \<Rightarrow> ModelRegistry \<Rightarrow> string \<Rightarrow> 'w step" where
  "registry_createOrUpdateRoleBinding R = write_controlled R ''RoleBinding''"

definition registry_createOrUpdateClusterRoleBinding :: "'w registry_client \<Rightarrow> ModelRegistryParams \<Rightarrow> string \<Rightarrow> 'w step" where
  "registry_createOrUpdateClusterRoleBinding R params tmpl =
     registry_object R params tmpl (registry_createOrUpdate R ''ClusterRoleBinding'')"

definition createOrUpdateGroup :: "'w registry_client \<Rightarrow> ModelRegistryParams \<Rightarrow> string \<Rightarrow> 'w step" where
  "createOrUpdateGroup R params tmpl = registry_object R params tmpl (registry_createOrUpdate R ''Group'')"

definition registry_createOrUpdateNetworkPolicy :: "'w registry_client \<Rightarrow> ModelRegistryParams \<Rightarrow> ModelRegistry \<Rightarrow> string \<Rightarrow> 'w step" where
  "registry_createOrUpdateNetworkPolicy R params registry tmpl =
     controlled_object R params registry tmpl (CreateOrUpdateNetworkPolicy (kind_api (rc_cluster R) ''NetworkPolicy''))"

definition registry_createOrUpdateDeployment :: "'w registry_client \<Rightarrow> ModelRegistryParams \<Rightarrow> ModelRegistry \<Rightarrow> string \<Rightarrow> 'w step" where
  "registry_createOrUpdateDeployment R params registry tmpl =
     controlled_object R params registry tmpl (write_deployment (rc_cluster R) (\<lambda>e. e))"

definition copy_annotation :: "string \<Rightarrow> ModelRegistry \<Rightarrow> object \<Rightarrow> object" where
  "copy_annotation a registry x =
     (case r_annotations registry a of None \<Rightarrow> x | Some v \<Rightarrow> x\<lparr>o_annotations := (o_annotations x)(a \<mapsto> v)\<rparr>)"

definition registry_createOrUpdateService :: "'w registry_client \<Rightarrow> ModelRegistryParams \<Rightarrow> ModelRegistry \<Rightarrow> string \<Rightarrow> 'w step" where
  "registry_createOrUpdateService R params registry tmpl =
     controlled_object R params registry tmpl (\<lambda>x. registry_createOrUpdate R ''Service''
       (copy_annotation DescriptionAnnotation registry (copy_annotation DisplayNameAnnotation registry x)))"

definition registry_createOrUpdateRoute ::
  "'w registry_client \<Rightarrow> ModelRegistryParams \<Rightarrow> ModelRegistry \<Rightarrow> string \<Rightarrow> string \<Rightarrow> 'w step" where
  "registry_createOrUpdateRoute R params registry tmpl serviceRoute =
     controlled_object R params registry tmpl (\<lambda>x w.
       if serviceRoute = RouteEnabled then registry_createOrUpdate R ''Route'' x w
       else (case cl_delete (rc_cluster R) ''Route'' (object_key x) w of
               (None, w1) \<Rightarrow> (ResourceUnchanged, None, w1)
             | (Some e, w1) \<Rightarrow> if ignoreNotFound e \<noteq> None then (ResourceUpdated, Some e, w1) else (ResourceUnchanged, None, w1)))"

definition ensureConfigMapExists :: "'w registry_client \<Rightarrow> ModelRegistryParams \<Rightarrow> ModelRegistry option \<Rightarrow> string \<Rightarrow> 'w step" where
  "ensureConfigMapExists R params owner tmpl =
     (let write = CreateIfNotExists (kind_api (rc_cluster R) ''ConfigMap'')
      in case owner of None \<Rightarrow> registry_object R params tmpl write | Some r \<Rightarrow> controlled_object R params r tmpl write)"

section \<open>Gateway and proxy (\<^verbatim>\<open>modelregistry_gateway.go\<close>, \<^verbatim>\<open>modelregistry_oauth.go\<close>)\<close>

definition ensureReferenceGrantExists :: "'w registry_client \<Rightarrow> ModelRegistryParams \<Rightarrow> 'w step" where
  "ensureReferenceGrantExists R params =
     registry_object R params ''gateway-reference-grant.yaml.tmpl'' (CreateIfNotExists (kind_api (rc_cluster R) ''ReferenceGrant''))"

definition createOrUpdateHTTPRoute :: "'w registry_client \<Rightarrow> ModelRegistryParams \<Rightarrow> 'w step" where
  "createOrUpdateHTTPRoute R params =
     registry_object R params ''gateway-httproute.yaml.tmpl'' (registry_createOrUpdate R ''HTTPRoute'')"

definition createOrUpdateGatewayResources :: "'w registry_client \<Rightarrow> ModelRegistryParams \<Rightarrow> 'w step" where
  "createOrUpdateGatewayResources R params =
     run_steps [ensureReferenceGrantExists R params, createOrUpdateHTTPRoute R params] ResourceUnchanged"

text \<open>Deleting an object that may be gone already.\<close>

definition delete_if_present :: "'w cluster_api \<Rightarrow> string \<Rightarrow> key \<Rightarrow> 'w \<Rightarrow> go_error option \<times> 'w" where
  "delete_if_present C k n w =
     (case cl_delete C k n w of (None, w1) \<Rightarrow> (None, w1) | (Some e, w1) \<Rightarrow> (ignoreNotFound e, w1))"

definition deleteGatewayResources :: "'w registry_client \<Rightarrow> string \<Rightarrow> string \<Rightarrow> 'w \<Rightarrow> go_error option \<times> 'w" where
  "deleteGatewayResources R httpRouteNamespace name w =
     (if httpRouteNamespace = [] then (None, w)
      else delete_if_present (rc_cluster R) ''HTTPRoute'' (httpRouteNamespace, ''model-registry-'' @ name) w)"

definition deleteProxyClusterRoleBinding :: "'w registry_client \<Rightarrow> ModelRegistryParams \<Rightarrow> 'w \<Rightarrow> go_error option \<times> 'w" where
  "deleteProxyClusterRoleBinding R params =
     delete_if_present (rc_cluster R) ''ClusterRoleBinding'' ([], mp_name params @ ''-auth-delegator'')"

definition deleteProxyRoute :: "'w registry_client \<Rightarrow> ModelRegistryParams \<Rightarrow> 'w \<Rightarrow> go_error option \<times> 'w" where
  "deleteProxyRoute R params = delete_if_present (rc_cluster R) ''Route'' (mp_namespace params, mp_name params @ ''-https'')"

definition deleteKubeRBACProxyConfig :: "'w registry_client \<Rightarrow> ModelRegistryParams \<Rightarrow> 'w \<Rightarrow> go_error option \<times> 'w" where
  "deleteKubeRBACProxyConfig R params =
     delete_if_present (rc_cluster R) ''ConfigMap'' (mp_namespace params, mp_name params @ ''-kube-rbac-proxy-config'')"

definition deletion :: "('w \<Rightarrow> go_error option \<times> 'w) \<Rightarrow> 'w step" where
  "deletion d w = (case d w of (e, w1) \<Rightarrow> (ResourceUnchanged, e, w1))"

definition registry_createOrUpdateKubeRBACProxyConfig :: "'w registry_client \<Rightarrow> ModelRegistryParams \<Rightarrow> ModelRegistry \<Rightarrow> 'w step" where
  "registry_createOrUpdateKubeRBACProxyConfig R params registry =
     (case s_kubeRBACProxy (r_spec registry) of
        Some kp \<Rightarrow> run_steps ([ensureConfigMapExists R params (Some registry) ''kube-rbac-proxy-config.yaml.tmpl'',
            registry_createOrUpdateClusterRoleBinding R params ''kube-rbac-proxy-role-binding.yaml.tmpl'']
          @ only_if (is_openshift R)
              [registry_createOrUpdateRoute R params registry ''kube-rbac-proxy-https-route.yaml.tmpl'' (kp_serviceRoute kp)]) ResourceUnchanged
      | None \<Rightarrow> run_steps ([deletion (deleteKubeRBACProxyConfig R params), deletion (deleteProxyClusterRoleBinding R params)]
          @ only_if (is_openshift R) [deletion (deleteProxyRoute R params)]) ResourceUnchanged)"

section \<open>The provisioned database\<close>

definition credentials_name :: "ModelRegistryParams \<Rightarrow> string" where
  "credentials_name params = mp_name params @ ''-postgres-credentials''"

definition credentials :: "ModelRegistryParams \<Rightarrow> string \<Rightarrow> object" where
  "credentials params password = (empty_object ''Secret'' (mp_namespace params, credentials_name params))\<lparr>
     o_data := Some [(''username'', ''modelregistry''), (''password'', password)]\<rparr>"

text \<open>The Secret is created once; an existing one is left alone.\<close>

definition ensure_credentials :: "'w registry_client \<Rightarrow> ModelRegistryParams \<Rightarrow> ModelRegistry \<Rightarrow> 'w step" where
  "ensure_credentials R params registry w =
     (case cl_get (rc_cluster R) ''Secret'' (mp_namespace params, credentials_name params) w of
        (Inr secret, w1) \<Rightarrow> (ResourceUnchanged, None, w1)
      | (Inl e, w1) \<Rightarrow>
          if \<not> isNotFound e then (ResourceUnchanged, Some e, w1)
          else (case cl_random (rc_cluster R) w1 of
            (Inl e, w2) \<Rightarrow> (ResourceUnchanged, Some (Wrapped ''failed to generate random password'' e), w2)
          | (Inr password, w2) \<Rightarrow>
              (case rc_setController R registry (credentials params password) of
                 Inl e \<Rightarrow> (ResourceUnchanged, Some e, w2)
               | Inr secret \<Rightarrow> registry_createOrUpdate R ''Secret'' secret w2)))"

text \<open>Steps whose errors are returned with the result so far; \<open>True\<close> marks those whose own result counts.\<close>

fun run_counted :: "(bool \<times> 'w step) list \<Rightarrow> OperationResult \<Rightarrow> 'w step" where
  "run_counted [] result w = (result, None, w)"
| "run_counted ((counts, s) # ss) result w =
     (case s w of
        (result2, Some e, w1) \<Rightarrow> (result, Some e, w1)
      | (result2, None, w1) \<Rightarrow> run_counted ss (if counts then merge_result result result2 else result) w1)"

definition generated_postgres :: "ModelRegistryParams \<Rightarrow> PostgresConfig" where
  "generated_postgres params = \<lparr>pg_host = mp_name params @ ''-postgres'', pg_hostAddress = [], pg_port = Some 5432,
     pg_username = ''modelregistry'', pg_passwordSecret = Some \<lparr>kv_name = credentials_name params, kv_key = ''password''\<rparr>,
     pg_database = ''model_registry'', pg_skipDBCreation = False, pg_sslMode = [], pg_sslCertificateSecret = None,
     pg_sslKeySecret = None, pg_sslPasswordSecret = None, pg_sslRootCertificateConfigMap = None,
     pg_sslRootCertificateSecret = None, pg_generateDeployment = None, pg_image = []\<rparr>"

text \<open>
  The Deployment of the database: \<open>Inl\<close> is a return of the caller, either an error or the
  deletion of a Deployment whose immutable fields changed.
\<close>

definition write_postgres_deployment ::
  "'w registry_client \<Rightarrow> ModelRegistryParams \<Rightarrow> ModelRegistry \<Rightarrow> OperationResult \<Rightarrow> 'w \<Rightarrow> (OperationResult \<times> go_error option + unit) \<times> 'w" where
  "write_postgres_deployment R params registry result w =
     (case rc_render R params ''postgres-deployment.yaml.tmpl'' of
        Inl e \<Rightarrow> (Inl (result, Some e), w)
      | Inr x \<Rightarrow>
          (case rc_setController R registry x of
             Inl e \<Rightarrow> (Inl (result, Some e), w)
           | Inr d \<Rightarrow>
               (case registry_createOrUpdate R ''Deployment'' d w of
                  (_, None, w1) \<Rightarrow> (Inr (), w1)
                | (_, Some e, w1) \<Rightarrow>
                    if immutable_conflict e then
                      (case cl_get (rc_cluster R) ''Deployment'' (object_key d) w1 of
                         (Inl getErr, w2) \<Rightarrow> (Inl (result, Some getErr), w2)
                       | (Inr existing, w2) \<Rightarrow>
                           (case cl_delete (rc_cluster R) ''Deployment'' (object_key existing) w2 of
                              (Some deleteErr, w3) \<Rightarrow> (Inl (result, Some deleteErr), w3)
                            | (None, w3) \<Rightarrow> (Inl (ResourceUpdated, None), w3)))
                    else (Inl (result, Some e), w1))))"

definition registry_createOrUpdatePostgres ::
  "'w registry_client \<Rightarrow> ModelRegistryParams \<Rightarrow> ModelRegistry \<Rightarrow> 'w \<Rightarrow> OperationResult \<times> go_error option \<times> ModelRegistry \<times> 'w" where
  "registry_createOrUpdatePostgres R params registry w =
     (case ensure_credentials R params registry w of
        (result, Some e, w1) \<Rightarrow> (result, Some e, registry, w1)
      | (result, None, w1) \<Rightarrow>
          (case run_counted [(False, write_controlled R ''PersistentVolumeClaim'' params registry ''postgres-pvc.yaml.tmpl'')] result w1 of
             (result, Some e, w2) \<Rightarrow> (result, Some e, registry, w2)
           | (result, None, w2) \<Rightarrow>
               (case write_postgres_deployment R params registry result w2 of
                  (Inl (result, e), w3) \<Rightarrow> (result, e, registry, w3)
                | (Inr _, w3) \<Rightarrow>
                    (case run_counted
                            [(False, write_controlled R ''Service'' params registry ''postgres-service.yaml.tmpl''),
                             (True, registry_createOrUpdateNetworkPolicy R params registry ''postgres-network-policy.yaml.tmpl''),
                             (True, registry_createOrUpdateNetworkPolicy R params registry ''postgres-egress-network-policy.yaml.tmpl'')]
                            result w3 of
                       (result, Some e, w4) \<Rightarrow> (result, Some e, registry, w4)
                     | (result, None, w4) \<Rightarrow>
                         (result, None, registry\<lparr>r_spec := (r_spec registry)\<lparr>s_postgres := Some (generated_postgres params)\<rparr>\<rparr>, w4)))))"

section \<open>Resources\<close>

text \<open>The deletion of an object of an earlier release, if this registry still controls it; errors are logged.\<close>

definition delete_controlled :: "'w registry_client \<Rightarrow> ModelRegistry \<Rightarrow> string \<Rightarrow> key \<Rightarrow> 'w \<Rightarrow> 'w" where
  "delete_controlled R registry k n w =
     (case cl_get (rc_cluster R) k n w of
        (Inl e, w1) \<Rightarrow> w1
      | (Inr x, w1) \<Rightarrow> if o_controller x = Some (r_uid registry) then snd (cl_delete (rc_cluster R) k n w1) else w1)"

definition deleteOldCatalogResources :: "'w registry_client \<Rightarrow> ModelRegistryParams \<Rightarrow> ModelRegistry \<Rightarrow> 'w \<Rightarrow> 'w" where
  "deleteOldCatalogResources R params registry w =
     fold (\<lambda>(k, n). delete_controlled R registry k (mp_namespace params, n))
       ([(''Deployment'', mp_name params @ ''-catalog''), (''Service'', mp_name params @ ''-catalog'')]
        @ (if is_openshift R then [(''Route'', mp_name params @ ''-catalog-https''),
             (''NetworkPolicy'', mp_name params @ ''-catalog-https-route'')] else [])) w"

definition registry_steps :: "'w registry_client \<Rightarrow> ModelRegistryParams \<Rightarrow> ModelRegistry \<Rightarrow> 'w step list" where
  "registry_steps R params registry =
     [registry_createOrUpdateServiceAccount R params registry ''serviceaccount.yaml.tmpl'',
      registry_createOrUpdateService R params registry ''service.yaml.tmpl'',
      registry_createOrUpdateDeployment R params registry ''deployment.yaml.tmpl'',
      registry_createOrUpdateRole R params registry ''role.yaml.tmpl'',
      registry_createOrUpdateNetworkPolicy R params registry ''egress-network-policy.yaml.tmpl'']
     @ only_if (is_openshift R)
         (only_if (cap_HasUserAPI (rr_capabilities (rc_settings R)))
            [wrap_step ''failed to create OpenShift Group'' (createOrUpdateGroup R params ''group.yaml.tmpl'')]
          @ [wrap_step ''failed to create RoleBinding'' (registry_createOrUpdateRoleBinding R params registry ''role-binding.yaml.tmpl''),
             registry_createOrUpdateNetworkPolicy R params registry ''ingress-network-policy.yaml.tmpl'']
          @ only_if (fst (rr_gateway (rc_settings R)) \<noteq> []) [createOrUpdateGatewayResources R params]
          @ [registry_createOrUpdateRoute R params registry ''http-route.yaml.tmpl'' (rest_serviceRoute (s_rest (r_spec registry)))])
     @ [registry_createOrUpdateKubeRBACProxyConfig R params registry]"

definition updateRegistryResources ::
  "'w registry_client \<Rightarrow> ModelRegistryParams \<Rightarrow> ModelRegistry \<Rightarrow> 'w \<Rightarrow> OperationResult \<times> go_error option \<times> ModelRegistry \<times> 'w" where
  "updateRegistryResources R params registry w =
     (case (if (case s_postgres (r_spec registry) of Some p \<Rightarrow> pg_generateDeployment p = Some True | None \<Rightarrow> False)
            then registry_createOrUpdatePostgres R params registry w else (ResourceUnchanged, None, registry, w)) of
        (result, Some e, registry, w1) \<Rightarrow> (result, Some e, registry, w1)
      | (_, None, registry, w1) \<Rightarrow>
          (let params = params\<lparr>mp_spec := r_spec registry\<rparr>
           in case run_steps (registry_steps R params registry) ResourceUnchanged w1 of
                (result, Some e, w2) \<Rightarrow> (result, Some e, registry, w2)
              | (result, None, w2) \<Rightarrow> (result, None, registry, deleteOldCatalogResources R params registry w2)))"

section \<open>Finalization and errors\<close>

definition doFinalizerOperationsForModelRegistry :: "'w registry_client \<Rightarrow> ModelRegistry \<Rightarrow> 'w \<Rightarrow> go_error option \<times> 'w" where
  "doFinalizerOperationsForModelRegistry R registry w =
     (let groupName = r_name registry @ ''-users'';
          (groupErr, w1) = (if is_openshift R \<and> cap_HasUserAPI (rr_capabilities (rc_settings R))
             then delete_if_present (rc_cluster R) ''Group'' ([], groupName) w else (None, w))
      in case groupErr of
           Some e \<Rightarrow> (Some (Wrapped (''failed to delete OpenShift Group '' @ groupName) e), w1)
         | None \<Rightarrow>
             (case deleteGatewayResources R (rr_httpRouteNamespace (rc_settings R)) (r_name registry) w1 of
                (Some e, w2) \<Rightarrow> (Some (Wrapped ''failed to delete gateway resources'' e), w2)
              | (None, w2) \<Rightarrow> (None, rc_event R registry ''Deleting''
                  (''Custom Resource '' @ r_name registry @ '' is being deleted from the namespace '' @ r_namespace registry) w2)))"

definition logResultAsEvent :: "'w registry_client \<Rightarrow> ModelRegistry \<Rightarrow> OperationResult \<Rightarrow> 'w \<Rightarrow> 'w" where
  "logResultAsEvent R registry result w =
     (let text = '' service for custom resource '' @ r_name registry @ '' in namespace '' @ r_namespace registry
      in case result of
           ResourceCreated \<Rightarrow> rc_event R registry ''ServiceCreated'' (''Created'' @ text) w
         | ResourceUpdated \<Rightarrow> rc_event R registry ''ServiceUpdated'' (''Updated'' @ text) w
         | ResourceUnchanged \<Rightarrow> w)"

definition registry_condition :: "string \<Rightarrow> string \<Rightarrow> string \<Rightarrow> string \<Rightarrow> condition" where
  "registry_condition t s r m = \<lparr>cond_type = t, cond_status = s, cond_reason = r, cond_message = m, cond_observedGeneration = 0,
     cond_lastTransition = 0\<rparr>"

text \<open>The original error is returned whether or not the status could be written.\<close>

definition registry_handleReconcileErrors ::
  "'w registry_client \<Rightarrow> ModelRegistry \<Rightarrow> ctrl_result \<Rightarrow> go_error \<Rightarrow> 'w \<Rightarrow> ctrl_result \<times> go_error option \<times> 'w" where
  "registry_handleReconcileErrors R registry result err w =
     (case ka_updateStatus (rc_api R) (set_registry_condition (rc_conds R) (rc_now R w)
             (registry_condition ConditionTypeAvailable ConditionFalse ReasonDeploymentUnavailable
                (''unexpected reconcile error: '' @ error_string err)) registry) w of
        (_, w1) \<Rightarrow> (result, Some err, w1))"

definition finalizing :: "'w registry_client \<Rightarrow> string \<Rightarrow> string \<Rightarrow> ModelRegistry \<Rightarrow> 'w \<Rightarrow> go_error option \<times> ModelRegistry \<times> 'w" where
  "finalizing R status message registry w =
     (let registry = set_registry_condition (rc_conds R) (rc_now R w)
            (registry_condition ConditionTypeDegraded status ''Finalizing'' message) registry
      in case ka_updateStatus (rc_api R) registry w of
           (Inl e, w1) \<Rightarrow> (IgnoreDeletingErrors e, registry, w1)
         | (Inr registry', w1) \<Rightarrow> (None, registry', w1))"

definition finish_finalizer :: "'w registry_client \<Rightarrow> ModelRegistry \<Rightarrow> 'w \<Rightarrow> ctrl_result \<times> go_error option \<times> 'w" where
  "finish_finalizer R registry w =
     (case finalizing R ConditionTrue (''Finalizer operations for custom resource '' @ r_name registry @ '' were successfully accomplished'') registry w of
        (Some e, _, w1) \<Rightarrow> (no_requeue, Some e, w1)
      | (None, registry, w1) \<Rightarrow>
          if modelRegistryFinalizer \<notin> set (r_finalizers registry) then (no_requeue\<lparr>requeue := True\<rparr>, None, w1)
          else (case ka_updateRegistry (rc_api R)
                       (registry\<lparr>r_finalizers := filter (\<lambda>f. f \<noteq> modelRegistryFinalizer) (r_finalizers registry)\<rparr>) w1 of
                  (Inl e, w2) \<Rightarrow> (no_requeue, IgnoreDeletingErrors e, w2)
                | (Inr _, w2) \<Rightarrow> (no_requeue, None, w2)))"

definition registry_finalize :: "'w registry_client \<Rightarrow> key \<Rightarrow> ModelRegistry \<Rightarrow> 'w \<Rightarrow> ctrl_result \<times> go_error option \<times> 'w" where
  "registry_finalize R req registry w =
     (if modelRegistryFinalizer \<notin> set (r_finalizers registry) then (no_requeue, None, w)
      else case finalizing R ConditionUnknown (''Performing finalizer operations for the custom resource: '' @ r_name registry @ '' '') registry w of
        (Some e, _, w1) \<Rightarrow> (no_requeue, Some e, w1)
      | (None, registry, w1) \<Rightarrow>
          (case doFinalizerOperationsForModelRegistry R registry w1 of
             (Some e, w2) \<Rightarrow> (no_requeue\<lparr>requeue := True\<rparr>, None, w2)
           | (None, w2) \<Rightarrow>
               (case ka_getRegistry (rc_api R) req w2 of
                  (Inr registry, w3) \<Rightarrow> finish_finalizer R registry w3
                | (Inl e, w3) \<Rightarrow>
                    (case IgnoreDeletingErrors e of
                       Some e \<Rightarrow> (no_requeue, Some e, w3)
                     | None \<Rightarrow> finish_finalizer R registry w3))))"

section \<open>Reconcile\<close>

definition registry_params :: "'w registry_client \<Rightarrow> key \<Rightarrow> ModelRegistrySpec \<Rightarrow> ModelRegistry \<Rightarrow> string list \<Rightarrow> ModelRegistryParams" where
  "registry_params R req originalSpec registry args =
     (let gateway = rr_gateway (rc_settings R)
      in \<lparr>mp_name = snd req, mp_namespace = fst req, mp_spec = r_spec registry, mp_originalSpec = originalSpec, mp_proxyTLSArgs = args,
          mp_gateway = (if fst gateway \<noteq> [] then gateway else ([], [], [])),
          mp_httpRouteNamespace = (if fst gateway \<noteq> [] then rr_httpRouteNamespace (rc_settings R) else [])\<rparr>)"

text \<open>The defaults set in memory, and without webhooks also the admission checks, whose own runtime
  defaults stay in the registry; \<open>Inl\<close> is the rejection.\<close>

definition prepare_registry :: "'w registry_client \<Rightarrow> ModelRegistry \<Rightarrow> ('w, ModelRegistry) call" where
  "prepare_registry R registry w =
     (let C = rc_cluster R;
          defaults = (\<lambda>r w. case RuntimeDefaults (rc_getenv R) (cl_getIngress C) r (cl_globals C w) w of
             (r, g, w) \<Rightarrow> (r, cl_setGlobals C g w));
          (r1, w1) = defaults registry w
      in if rr_enableWebhooks (rc_settings R) then (Inr r1, w1)
         else let r2 = Default (rc_getenv R) (cl_globals C w1) r1; (r3, w2) = defaults r2 w1;
                  (err, _, _) = ValidateRegistry (rc_getenv R) (cl_getIngress C) r2 (cl_globals C w1) w1
              in (case err of Some e \<Rightarrow> Inl e | None \<Rightarrow> Inr r3, w2))"

definition registry_tls :: "'w registry_client \<Rightarrow> ModelRegistry \<Rightarrow> ('w, string list) call" where
  "registry_tls R registry w =
     (if s_kubeRBACProxy (r_spec registry) = None then (Inr [], w)
      else let hasConfigAPI = cap_HasConfigAPI (rr_capabilities (rc_settings R));
               (answer, w1) = (if hasConfigAPI then rc_getAPIServer R w else (Inl (ErrorText []), w)) \<comment> \<open>not read\<close>
           in case resolveProxy (rc_tls R) (rc_quote R) hasConfigAPI (rc_fips R) answer of
                Inl e \<Rightarrow> (Inl (Wrapped ''resolve proxy TLS'' e), w1)
              | Inr args \<Rightarrow> (Inr args, w1))"

definition registry_next :: "condition \<Rightarrow> OperationResult \<Rightarrow> ctrl_result" where
  "registry_next condition result =
     (if cond_reason condition = ReasonDeploymentCooldown then \<lparr>requeue = False, requeueAfter = second\<rparr>
      else \<lparr>requeue = (result \<noteq> ResourceUnchanged \<or> cond_status condition \<noteq> ConditionTrue), requeueAfter = 0\<rparr>)"

definition reconcile_resources ::
  "'w registry_client \<Rightarrow> key \<Rightarrow> ModelRegistryParams \<Rightarrow> ModelRegistry \<Rightarrow> 'w \<Rightarrow> (ctrl_result \<times> go_error option \<times> 'w) option" where
  "reconcile_resources R req params registry w =
     (case updateRegistryResources R params registry w of
        (_, Some e, registry, w1) \<Rightarrow> Some (registry_handleReconcileErrors R registry no_requeue e w1)
      | (result, None, registry, w1) \<Rightarrow>
          (let w2 = logResultAsEvent R registry result w1
           in case setRegistryStatus (rc_api R) (rc_conds R) (rc_getenv R) (rc_mergePatch R) (rc_order R) (rc_now R w2)
                     (is_openshift R) (fst (rr_gateway (rc_settings R))) req (r_spec registry) result w2 of
                (None, w3) \<Rightarrow> None
              | (Some (Inl e), w3) \<Rightarrow> Some (registry_handleReconcileErrors R registry (no_requeue\<lparr>requeue := True\<rparr>) e w3)
              | (Some (Inr condition), w3) \<Rightarrow> Some (registry_next condition result, None, w3)))"

definition reconcile_registry :: "'w registry_client \<Rightarrow> key \<Rightarrow> ModelRegistry \<Rightarrow> 'w \<Rightarrow> (ctrl_result \<times> go_error option \<times> 'w) option" where
  "reconcile_registry R req registry w =
     (let migrated = (\<lambda>r. case ka_updateRegistry (rc_api R) r w of
            (Inl e, w1) \<Rightarrow> Some (no_requeue, Some e, w1)
          | (Inr _, w1) \<Rightarrow> Some (no_requeue\<lparr>requeue := True\<rparr>, None, w1))
      in if s_oauthProxy (r_spec registry) \<noteq> None then migrated (registry\<lparr>r_spec := MigrateOAuthProxyToKubeRBACProxy (r_spec registry)\<rparr>)
         else if s_kubeRBACProxy (r_spec registry) = None \<and> is_openshift R
         then migrated (registry\<lparr>r_spec := (r_spec registry)\<lparr>s_kubeRBACProxy := Some no_kube_proxy\<rparr>\<rparr>)
         else case prepare_registry R registry w of
           (Inl e, w1) \<Rightarrow> Some (no_requeue, Some e, w1)
         | (Inr r1, w1) \<Rightarrow>
             (case registry_tls R r1 w1 of
                (Inl e, w2) \<Rightarrow> Some (registry_handleReconcileErrors R r1 no_requeue e w2)
              | (Inr args, w2) \<Rightarrow> reconcile_resources R req (registry_params R req (r_spec registry) r1 args) r1 w2))"

definition registry_Reconcile :: "'w registry_client \<Rightarrow> key \<Rightarrow> 'w \<Rightarrow> (ctrl_result \<times> go_error option \<times> 'w) option" where
  "registry_Reconcile R req w =
     (let continue = (\<lambda>registry w. if r_deletion registry \<noteq> None then Some (registry_finalize R req registry w)
            else reconcile_registry R req registry w)
      in case ka_getRegistry (rc_api R) req w of
        (Inl e, w1) \<Rightarrow> Some (no_requeue, if isNotFound e then None else Some e, w1)
      | (Inr registry, w1) \<Rightarrow>
          if modelRegistryFinalizer \<notin> set (r_finalizers registry) then
            (case ka_updateRegistry (rc_api R) (registry\<lparr>r_finalizers := r_finalizers registry @ [modelRegistryFinalizer]\<rparr>) w1 of
               (Inl e, w2) \<Rightarrow> Some (no_requeue, Some e, w2)
             | (Inr registry, w2) \<Rightarrow> continue registry w2)
          else continue registry w1)"

section \<open>Watches\<close>

definition GetRegistryForRoute :: "labels \<Rightarrow> string \<Rightarrow> key list" where
  "GetRegistryForRoute ls namespace' =
     (let name = mapget ls ''app''; gateway = mapget ls ''maistra.io/gateway-namespace''
      in if name = [] then [] else [(if gateway = [] then namespace' else gateway, name)])"

definition GetRegistryForClusterRoleBinding :: "labels \<Rightarrow> key list" where
  "GetRegistryForClusterRoleBinding ls =
     (let name = mapget ls ''app''; namespace' = mapget ls ''modelregistry.opendatahub.io/namespace''
      in if name = [] \<or> namespace' = [] then [] else [(namespace', name)])"

definition registriesForTLSChange :: "('w, ModelRegistry list) call \<Rightarrow> 'w \<Rightarrow> key list" where
  "registriesForTLSChange listAll w =
     (case fst (listAll w) of Inl e \<Rightarrow> [] | Inr rs \<Rightarrow> map (\<lambda>r. (r_namespace r, r_name r)) rs)"

text \<open>The events on APIServer objects; an object is its name and its TLS settings, \<open>None\<close> when it has another type.\<close>

datatype tls_event = CreateEvent "string option" | DeleteEvent "string option" | GenericEvent
  | UpdateEvent "(string \<times> APIServer) option" "(string \<times> APIServer) option"

fun proxyTLSChangedPredicate :: "tls_event \<Rightarrow> bool" where
  "proxyTLSChangedPredicate (CreateEvent x) = (x = Some ''cluster'')"
| "proxyTLSChangedPredicate (DeleteEvent x) = (x = Some ''cluster'')"
| "proxyTLSChangedPredicate GenericEvent = False"
| "proxyTLSChangedPredicate (UpdateEvent before after) =
     (case (before, after) of
        (Some (_, b), Some (name, a)) \<Rightarrow> name = ''cluster'' \<and> (as_adherence b \<noteq> as_adherence a \<or> as_profile b \<noteq> as_profile a)
      | _ \<Rightarrow> False)"

section \<open>What is deleted\<close>

text \<open>What a deletion relies on of the cluster: reads are faithful, and a deletion affects its own object only.\<close>

locale deleting_store =
  fixes C :: "'w cluster_api" and stored :: "'w \<Rightarrow> string \<Rightarrow> key \<Rightarrow> object option"
  assumes get_stored: "cl_get C k n w = (Inr x, w') \<Longrightarrow> stored w k n = Some x"
    and get_frame: "cl_get C k n w = (r, w') \<Longrightarrow> stored w' = stored w"
    and delete_frame: "(k', n') \<noteq> (k, n) \<Longrightarrow> stored (snd (cl_delete C k n w)) k' n' = stored w k' n'"
begin

lemma delete_controlled_keeps:
  assumes "rc_cluster R = C" and "stored w k n = Some x" and "o_controller x \<noteq> Some (r_uid registry)"
  shows "stored (delete_controlled R registry k' n' w) k n = Some x"
proof -
  obtain r w1 where g: "cl_get C k' n' w = (r, w1)" by fastforce
  have "r = Inr y \<Longrightarrow> o_controller y = Some (r_uid registry) \<Longrightarrow> (k, n) \<noteq> (k', n')" for y
    using get_stored[of k' n' w y w1] g assms(2,3) by auto
  then show ?thesis
    using assms(1,2) g get_frame[OF g] delete_frame[of k n k' n' w1]
    by (auto simp: delete_controlled_def split: sum.splits)
qed

lemma fold_delete_controlled_keeps:
  assumes "rc_cluster R = C" and "stored w k n = Some x" and "o_controller x \<noteq> Some (r_uid registry)"
  shows "stored (fold (\<lambda>(k', n'). delete_controlled R registry k' (ns, n')) xs w) k n = Some x"
  using assms(2)
proof (induction xs arbitrary: w)
  case (Cons y xs)
  then show ?case using delete_controlled_keeps[OF assms(1) Cons.prems assms(3)] by (cases y) simp
qed simp

end

interpretation mem: deleting_store memory_cluster "\<lambda>w k n. cw_objects w (k, n)"
proof unfold_locales
  fix k n w x w' r and k' :: string and n' :: key
  show "cl_get memory_cluster k n w = (Inr x, w') \<Longrightarrow> cw_objects w (k, n) = Some x"
    by (auto simp: memory_cluster_def split: option.splits)
  show "cl_get memory_cluster k n w = (r, w') \<Longrightarrow> (\<lambda>k n. cw_objects w' (k, n)) = (\<lambda>k n. cw_objects w (k, n))"
    by (auto simp: memory_cluster_def)
  show "(k', n') \<noteq> (k, n) \<Longrightarrow> cw_objects (snd (cl_delete memory_cluster k n w)) (k', n') = cw_objects w (k', n')"
    by (auto simp: memory_cluster_def)
qed

text \<open>
  The clean-up of an earlier release spares what others own. Whatever the registry is
  called, \<^verbatim>\<open>deleteOldCatalogResources\<close> leaves every object that this registry does not control
  as it is; in particular a registry named \<^verbatim>\<open>model\<close> never deletes the \<^verbatim>\<open>model-catalog\<close> objects of
  the standalone Catalog.
\<close>

theorem old_catalog_cleanup_spares_others:
  assumes "deleting_store (rc_cluster R) stored" and "stored w k n = Some x" and "o_controller x \<noteq> Some (r_uid registry)"
  shows "stored (deleteOldCatalogResources R params registry w) k n = Some x"
  unfolding deleteOldCatalogResources_def
  by (rule deleting_store.fold_delete_controlled_keeps[OF assms(1) refl assms(2,3)])

section \<open>What is served\<close>

text \<open>An observation of the world that reads and writes of the registry itself leave alone.\<close>

locale registry_observer =
  fixes R :: "'w registry_client" and obs :: "'w \<Rightarrow> 'a"
  assumes registry_calls: "obs (snd (ka_updateRegistry (rc_api R) r w)) = obs w" "obs (snd (ka_updateStatus (rc_api R) r w)) = obs w"
      "obs (snd (rc_getAPIServer R w)) = obs w" "obs (snd (cl_getIngress (rc_cluster R) k w)) = obs w"
    and globals: "obs (cl_setGlobals (rc_cluster R) g w) = obs w"
begin

lemma runtime_defaults_frame:
  "RuntimeDefaults getenv (cl_getIngress (rc_cluster R)) r g w = (r', g', w') \<Longrightarrow> obs w' = obs w"
  unfolding RuntimeDefaults_def GetDefaultDomain_def Let_def using registry_calls(4)
  by (auto split: option.splits prod.splits sum.splits if_splits) (metis snd_conv)+

lemma prepare_frame: "prepare_registry R registry w = (r, w') \<Longrightarrow> obs w' = obs w"
  unfolding prepare_registry_def ValidateRegistry_def Let_def
  by (auto split: prod.splits if_splits dest!: runtime_defaults_frame simp: globals)

lemma tls_frame: "registry_tls R r w = (x, w') \<Longrightarrow> obs w' = obs w"
  unfolding registry_tls_def Let_def using registry_calls(3)
  by (auto split: prod.splits sum.splits if_splits) (metis snd_conv)+

lemma errors_frame: "registry_handleReconcileErrors R r res e w = (x, y, w') \<Longrightarrow> obs w' = obs w"
  unfolding registry_handleReconcileErrors_def using registry_calls(2) by (auto split: prod.splits) (metis snd_conv)

lemma reconcile_writes:
  assumes "reconcile_registry R req registry w = Some (res, err, w')" and "obs w' \<noteq> obs w"
  shows "\<exists>r1 args v v1. s_oauthProxy (r_spec registry) = None
    \<and> \<not> (s_kubeRBACProxy (r_spec registry) = None \<and> is_openshift R)
    \<and> prepare_registry R registry w = (Inr r1, v) \<and> registry_tls R r1 v = (Inr args, v1) \<and> obs v1 = obs w
    \<and> reconcile_resources R req (registry_params R req (r_spec registry) r1 args) r1 v1 = Some (res, err, w')"
proof -
  have no: "\<not> (ka_updateRegistry (rc_api R) r w = (x, w'))" for r x using assms(2) registry_calls(1)[of r w] by auto
  obtain p v where p: "prepare_registry R registry w = (p, v)" by fastforce
  note o1 = prepare_frame[OF p]
  have go: "s_oauthProxy (r_spec registry) = None" "\<not> (s_kubeRBACProxy (r_spec registry) = None \<and> is_openshift R)"
    using assms(1) no by (auto simp: reconcile_registry_def Let_def split: if_splits prod.splits sum.splits)
  obtain r1 where r1: "p = Inr r1"
    using assms(1,2) o1 go by (cases p) (auto simp: reconcile_registry_def Let_def p split: if_splits)
  obtain t v1 where t: "registry_tls R r1 v = (t, v1)" by fastforce
  note o2 = tls_frame[OF t]
  obtain args where args: "t = Inr args"
  proof (cases t)
    case (Inl e)
    then have "registry_handleReconcileErrors R r1 no_requeue e v1 = (res, err, w')"
      using assms(1) go r1 t by (auto simp: reconcile_registry_def Let_def p split: if_splits)
    from errors_frame[OF this] show thesis using assms(2) o1 o2 by simp
  qed
  then show ?thesis
    using assms(1) go r1 p t o1 o2 by (auto simp: reconcile_registry_def Let_def split: if_splits)
qed

end

lemma RuntimeDefaults_proxy:
  "RuntimeDefaults getenv f r g w = (r', g', w') \<Longrightarrow> s_kubeRBACProxy (r_spec r') = None \<longleftrightarrow> s_kubeRBACProxy (r_spec r) = None"
  by (auto simp: RuntimeDefaults_def Let_def split: option.splits prod.splits if_splits)

lemma Default_proxy: "s_kubeRBACProxy (r_spec r) \<noteq> None \<Longrightarrow> s_kubeRBACProxy (r_spec (Default getenv g r)) \<noteq> None"
  by (auto simp: Default_def default_kube_proxy_def MigrateOAuthProxyToKubeRBACProxy_def CleanupRuntimeDefaults_def Let_def
      split: option.splits if_splits)

lemma prepare_proxy:
  assumes "prepare_registry R registry w = (Inr r1, v)" and "s_kubeRBACProxy (r_spec registry) \<noteq> None"
  shows "s_kubeRBACProxy (r_spec r1) \<noteq> None"
proof -
  obtain r2 g2 w2 where r2: "RuntimeDefaults (rc_getenv R) (cl_getIngress (rc_cluster R)) registry (cl_globals (rc_cluster R) w) w = (r2, g2, w2)"
    by (metis prod_cases3)
  let ?g = "cl_globals (rc_cluster R) (cl_setGlobals (rc_cluster R) g2 w2)" and ?w = "cl_setGlobals (rc_cluster R) g2 w2"
  obtain r3 g3 w3 where r3: "RuntimeDefaults (rc_getenv R) (cl_getIngress (rc_cluster R)) (Default (rc_getenv R) ?g r2) ?g ?w = (r3, g3, w3)"
    by (metis prod_cases3)
  have "s_kubeRBACProxy (r_spec r2) \<noteq> None" using RuntimeDefaults_proxy[OF r2] assms(2) by simp
  moreover have "s_kubeRBACProxy (r_spec r3) \<noteq> None"
    using RuntimeDefaults_proxy[OF r3] Default_proxy[OF calculation] by simp
  moreover have "r1 = (if rr_enableWebhooks (rc_settings R) then r2 else r3)"
    using assms(1) r2 r3 by (auto simp: prepare_registry_def Let_def split: option.splits prod.splits if_splits)
  ultimately show ?thesis by simp
qed

text \<open>
  C10: on OpenShift no registry is served without authentication. When a reconcile changes any
  object of the operand, the stored spec has the kube-rbac-proxy and no OAuth proxy, so a
  registry that lacks it, or still has the old proxy, is first rewritten and left alone in that
  reconcile; the objects are then rendered from a spec with the proxy and with TLS flags that
  were resolved without an error.
\<close>

theorem operand_requires_auth_proxy:
  assumes "registry_observer R obs" and "is_openshift R"
    and "reconcile_registry R req registry w = Some (res, err, w')" and "obs w' \<noteq> obs w"
  shows "s_oauthProxy (r_spec registry) = None \<and> s_kubeRBACProxy (r_spec registry) \<noteq> None
    \<and> (\<exists>r1 args v v1. registry_tls R r1 v = (Inr args, v1) \<and> s_kubeRBACProxy (r_spec r1) \<noteq> None \<and> obs v1 = obs w
        \<and> reconcile_resources R req (registry_params R req (r_spec registry) r1 args) r1 v1 = Some (res, err, w'))"
proof -
  obtain r1 args v v1 where f: "s_oauthProxy (r_spec registry) = None" "\<not> (s_kubeRBACProxy (r_spec registry) = None \<and> is_openshift R)"
      "prepare_registry R registry w = (Inr r1, v)" "registry_tls R r1 v = (Inr args, v1)" "obs v1 = obs w"
      "reconcile_resources R req (registry_params R req (r_spec registry) r1 args) r1 v1 = Some (res, err, w')"
    using registry_observer.reconcile_writes[OF assms(1,3,4)] by auto
  have "s_kubeRBACProxy (r_spec registry) \<noteq> None" using f(2) assms(2) by simp
  note proxy = this prepare_proxy[OF f(3) this]
  have "\<exists>r1 args v v1. registry_tls R r1 v = (Inr args, v1) \<and> s_kubeRBACProxy (r_spec r1) \<noteq> None \<and> obs v1 = obs w
        \<and> reconcile_resources R req (registry_params R req (r_spec registry) r1 args) r1 v1 = Some (res, err, w')"
    by (intro exI conjI) (fact f(4) proxy(2) f(5,6))+
  then show ?thesis using f(1) proxy(1) by simp
qed


text \<open>
  The result of provisioning the database is overwritten by that of the next step, so a change
  to the database alone is not reported.
\<close>

lemma database_change_unreported:
  assumes "s_postgres (r_spec registry) = Some p" "pg_generateDeployment p = Some True"
    and "registry_createOrUpdatePostgres R params registry w = (ResourceCreated, None, r', w1)"
    and "run_steps (registry_steps R (params\<lparr>mp_spec := r_spec r'\<rparr>) r') ResourceUnchanged w1 = (ResourceUnchanged, None, w2)"
  shows "\<exists>w3. updateRegistryResources R params registry w = (ResourceUnchanged, None, r', w3)"
  using assms by (simp add: updateRegistryResources_def)

section \<open>Witnesses\<close>

text \<open>
  A client for a given cluster and API: every template renders to an empty object of the kind
  \<^verbatim>\<open>Any\<close> named after it, unless it is among the \<open>broken\<close> ones.
\<close>

definition small_registry_settings :: registry_settings where
  "small_registry_settings = \<lparr>rr_capabilities = no_capabilities\<lparr>cap_IsOpenShift := True\<rparr>, rr_enableWebhooks = True,
     rr_gateway = ([], [], []), rr_httpRouteNamespace = []\<rparr>"

definition small_registry_client :: "'w cluster_api \<Rightarrow> 'w registry_api \<Rightarrow> (string \<Rightarrow> bool) \<Rightarrow> 'w registry_client" where
  "small_registry_client C K broken = \<lparr>rc_cluster = C, rc_api = K, rc_settings = small_registry_settings, rc_getenv = (\<lambda>_. []),
     rc_conds = list_conditions, rc_tls = sample_tls, rc_fips = False, rc_quote = id, rc_now = (\<lambda>w. 6 * 1000000000),
     rc_render = (\<lambda>p t. if broken t then Inl missing else Inr (empty_object ''Any'' (mp_namespace p, t))),
     rc_setController = (\<lambda>r x. Inr (x\<lparr>o_owners := [r_uid r], o_controller := Some (r_uid r)\<rparr>)),
     rc_getAPIServer = (\<lambda>w. (Inl missing, w)), rc_mergePatch = (\<lambda>_ _. Inr ''{1}''), rc_order = id, rc_event = (\<lambda>r a m w. w)\<rparr>"

definition memory_registry_api :: "cluster registry_api" where
  "memory_registry_api = \<lparr>ka_getRegistry = \<lambda>_ w. (Inr proxied_registry, w), ka_updateRegistry = \<lambda>r w. (Inr r, w),
     ka_updateStatus = \<lambda>r w. (Inr r, w), ka_getDeployment = \<lambda>_ w. (Inl missing, w), ka_getEndpoints = \<lambda>_ w. (Inl missing, w),
     ka_listPods = \<lambda>_ _ w. (Inr [], w), ka_podLog = \<lambda>_ _ w. (Inr ([], None), w), ka_listRoutes = \<lambda>_ _ w. (Inr [], w)\<rparr>"

interpretation reg: registry_observer "small_registry_client memory_cluster memory_registry_api broken" cw_objects for broken
  by unfold_locales (simp_all add: small_registry_client_def memory_cluster_def memory_registry_api_def)

definition foreign :: object where
  "foreign = (empty_object ''Deployment'' (''ns'', ''model-catalog''))\<lparr>o_controller := Some ''catalog-uid''\<rparr>"

theorem old_catalog_cleanup_spares_others_witness:
  "\<exists>x. cw_objects (deleteOldCatalogResources (small_registry_client memory_cluster memory_registry_api (\<lambda>_. False))
        (registry_params (small_registry_client memory_cluster memory_registry_api (\<lambda>_. False)) (''ns'', ''model'') (r_spec proxied_registry) proxied_registry [])
        proxied_registry (put_object foreign empty_cluster)) (''Deployment'', ''ns'', ''model-catalog'') = Some x \<and> o_controller x = Some ''catalog-uid''"
proof -
  let ?R = "small_registry_client memory_cluster memory_registry_api (\<lambda>_. False)" and ?w = "put_object foreign empty_cluster"
  have store: "deleting_store (rc_cluster ?R) (\<lambda>w k n. cw_objects w (k, n))"
    using mem.deleting_store_axioms by (simp add: small_registry_client_def)
  obtain x where x: "cw_objects ?w (''Deployment'', ''ns'', ''model-catalog'') = Some x" "o_controller x = Some ''catalog-uid''"
    by (simp add: put_object_def foreign_def empty_object_def object_key_def)
  have "o_controller x \<noteq> Some (r_uid proxied_registry)" using x(2) by (simp add: proxied_registry_def sample_registry_def)
  then have "cw_objects (deleteOldCatalogResources ?R (registry_params ?R (''ns'', ''model'') (r_spec proxied_registry) proxied_registry [])
      proxied_registry ?w) (''Deployment'', ''ns'', ''model-catalog'') = Some x"
    using old_catalog_cleanup_spares_others[OF store, where w="?w" and k="''Deployment''" and n="(''ns'', ''model-catalog'')" and x=x
        and registry=proxied_registry] x(1) by simp
  then show ?thesis using x(2) by blast
qed

definition half_client :: "cluster registry_client" where
  "half_client = small_registry_client memory_cluster memory_registry_api (\<lambda>t. t = ''service.yaml.tmpl'')"

theorem operand_requires_auth_proxy_witness:
  "\<exists>res err w'. reconcile_registry half_client (''ns'', ''reg'') proxied_registry empty_cluster = Some (res, err, w')
     \<and> cw_objects w' \<noteq> cw_objects empty_cluster \<and> s_kubeRBACProxy (r_spec proxied_registry) \<noteq> None"
proof -
  have "case reconcile_registry half_client (''ns'', ''reg'') proxied_registry empty_cluster of
      Some (res, err, w') \<Rightarrow> cw_objects w' (''Any'', ''ns'', ''serviceaccount.yaml.tmpl'') \<noteq> None | None \<Rightarrow> False"
    by code_simp
  then obtain res err w' where r: "reconcile_registry half_client (''ns'', ''reg'') proxied_registry empty_cluster = Some (res, err, w')"
      "cw_objects w' (''Any'', ''ns'', ''serviceaccount.yaml.tmpl'') \<noteq> None"
    by (auto split: option.splits prod.splits)
  then have c: "cw_objects w' \<noteq> cw_objects empty_cluster" by (auto simp: empty_cluster_def)
  have o: "registry_observer half_client cw_objects" unfolding half_client_def by (rule reg.registry_observer_axioms)
  have "is_openshift half_client" by (simp add: half_client_def small_registry_client_def small_registry_settings_def)
  from operand_requires_auth_proxy[OF o this r(1) c] show ?thesis using r(1) c by blast
qed

text \<open>A cluster in which every object is as wanted.\<close>

definition settled_cluster :: "unit cluster_api" where
  "settled_cluster = \<lparr>cl_get = (\<lambda>k n w. (Inr (empty_object k n), w)), cl_create = (\<lambda>x w. (None, w)), cl_update = (\<lambda>x w. (None, w)),
     cl_delete = (\<lambda>k n w. (None, w)), cl_annotate = Inr, cl_changed = (\<lambda>x y. Inr False), cl_original = (\<lambda>x. Inr None),
     cl_random = (\<lambda>w. (Inr ''r'', w)), cl_getIngress = (\<lambda>n w. (Inl missing, w)), cl_getProxy = (\<lambda>n w. (Inl missing, w)),
     cl_globals = (\<lambda>w. sample_globals), cl_setGlobals = (\<lambda>g w. w)\<rparr>"

definition settled_client :: "unit registry_client" where
  "settled_client = small_registry_client settled_cluster quiet_registry_api (\<lambda>_. False)"


end
