(* ===== verification/AIHub.thy ===== *)
theory AIHub
  imports Operands Catalog_Types
begin

text \<open>
  The parts of the AIHub controller (\<^verbatim>\<open>internal/controller/aihub_controller.go\<close>, \<^verbatim>\<open>aihub_images.go\<close>,
  \<^verbatim>\<open>aihub_releases.go\<close>, \<^verbatim>\<open>api/aihub/v1alpha1/aihub_types.go\<close>) below \<^verbatim>\<open>Reconcile\<close>: the images and
  variables stamped into the child operators, the published releases, the recreation of
  Deployments with another selector, the one-time move of the Catalog to ImageStreams, the
  Catalog's readiness, and the teardown. \<open>AIHub_Reconcile\<close> composes them.
\<close>

section \<open>The resource\<close>

record ComponentRelease =
  rl_name :: string
  rl_version :: string
  rl_repoURL :: string

text \<open>\<^verbatim>\<open>common.Condition\<close> of the platform utilities, as far as the controller sees it.\<close>

datatype severity = DefaultSeverity | SeverityError | SeverityInfo

record module_condition =
  mc_type :: string
  mc_status :: string
  mc_severity :: severity
  mc_reason :: string
  mc_message :: string

record AIHubSpec =
  hs_applicationNamespace :: string
  hs_instancesNamespace :: string
  hs_gateway :: "string option" \<comment> \<open>\<^verbatim>\<open>GatewaySpec\<close>: its domain\<close>

datatype phase = PhaseReady | PhaseNotReady

record AIHubStatus =
  hs_phase :: phase
  hs_conditions :: "module_condition list"
  hs_observedGeneration :: int
  hs_releases :: "ComponentRelease list"

record AIHub =
  hub_name :: string
  hub_uid :: string
  hub_generation :: int
  hub_finalizers :: "string list"
  hub_deletion :: "time option"
  hub_spec :: AIHubSpec
  hub_status :: AIHubStatus

definition aihubFinalizer :: string where "aihubFinalizer = ''aihub.opendatahub.io/finalizer''"
definition aihubCRName :: string where "aihubCRName = ''default-aihub''"
definition catalogCRName :: string where "catalogCRName = ''catalog''"
definition childDeploymentName :: string where "childDeploymentName = ''model-registry-operator-controller-manager''"
definition catalogDeploymentName :: string where "catalogDeploymentName = ''catalog-controller-manager''"
definition childManagerContainer :: string where "childManagerContainer = ''manager''"
definition asyncUploadTemplateName :: string where "asyncUploadTemplateName = ''jobs-async-upload-s3-to-oci-template''"
definition catalogImageStreamsMigratedAnnotation :: string where
  "catalogImageStreamsMigratedAnnotation = ''aihub.opendatahub.io/data-image-streams-migrated''"
definition ConditionModelRegistryReady :: string where "ConditionModelRegistryReady = ''ModelRegistryReady''"
definition ConditionCatalogReady :: string where "ConditionCatalogReady = ''CatalogReady''"
definition ConditionCatalogDataReady :: string where "ConditionCatalogDataReady = ''CatalogDataReady''"
definition platformVersionConfigMap :: string where "platformVersionConfigMap = ''odh-modelregistry-config''"
definition platformVersionConfigMapKey :: string where "platformVersionConfigMapKey = ''platformVersion''"

section \<open>Images of the children (\<^verbatim>\<open>aihub_images.go\<close>)\<close>

record EnvVar =
  ev_name :: string
  ev_value :: string
  ev_valueFrom :: "string option"

definition env_var :: "string \<Rightarrow> string \<Rightarrow> EnvVar" where
  "env_var n v = \<lparr>ev_name = n, ev_value = v, ev_valueFrom = None\<rparr>"

record ChildImages =
  ci_operatorImage :: string
  ci_operandEnv :: "EnvVar list"
  ci_asyncUploadImage :: string

definition operandImageEnvNames :: "string list" where
  "operandImageEnvNames = [RestImage, PostgresImage, KubeRBACProxyImage, CatalogDataImage, BenchmarkDataImage,
     CatalogDataImageStreamSource, BenchmarkDataImageStreamSource]"

definition ResolveChildImages :: "env \<Rightarrow> ChildImages" where
  "ResolveChildImages getenv =
     \<lparr>ci_operatorImage = getenv ModelRegistryOperatorImage,
      ci_operandEnv = map (\<lambda>n. env_var n (getenv n)) (filter (\<lambda>n. getenv n \<noteq> []) operandImageEnvNames),
      ci_asyncUploadImage = getenv AsyncUploadImage\<rparr>"

section \<open>Stamping the rendered manifests\<close>

record HubContainer =
  hc_name :: string
  hc_image :: string
  hc_env :: "EnvVar list"

text \<open>The parameters of an OpenShift Template: maps from names to values, or anything else.\<close>

datatype field = Text string | Opaque string
datatype parameter = Fields "(string \<times> field) list" | NotFields string

text \<open>
  A rendered object (\<^verbatim>\<open>unstructured.Unstructured\<close>), with the nested values that are read from it:
  \<^verbatim>\<open>spec.selector.matchLabels\<close> and \<^verbatim>\<open>parameters\<close>, each with an error when it has another type.
\<close>

record unstructured =
  u_kind :: string
  u_namespace :: string
  u_name :: string
  u_matchLabels :: "go_error + (string \<times> string) list option"
  u_parameters :: "go_error + parameter list option"
  u_body :: string

definition clusterScopedKinds :: "string list" where
  "clusterScopedKinds = [''CustomResourceDefinition'', ''ClusterRole'', ''ClusterRoleBinding'',
     ''ValidatingWebhookConfiguration'', ''MutatingWebhookConfiguration'', ''Namespace'']"

fun upsert :: "EnvVar \<Rightarrow> EnvVar list \<Rightarrow> EnvVar list" where
  "upsert env [] = [env]"
| "upsert env (x # xs) = (if ev_name x = ev_name env then env # xs else x # upsert env xs)"

definition upsertEnv :: "EnvVar \<Rightarrow> HubContainer \<Rightarrow> HubContainer" where
  "upsertEnv env c = c\<lparr>hc_env := upsert env (hc_env c)\<rparr>"

text \<open>The variables set on the manager container, in order; \<open>img\<close> is the image it ends up with.\<close>

definition stamped_env :: "ChildImages \<Rightarrow> string \<Rightarrow> string \<Rightarrow> string \<Rightarrow> string \<Rightarrow> EnvVar list" where
  "stamped_env images registriesNs httpRouteNamespace gatewayDomain img =
     [env_var ModelRegistryOperatorImage img] @ ci_operandEnv images
     @ [env_var RegistriesNamespace registriesNs, env_var HTTPRouteNamespaceEnv httpRouteNamespace]
     @ (if gatewayDomain \<noteq> [] then [env_var GatewayDomainEnv gatewayDomain] else [])"

definition stamp_manager :: "ChildImages \<Rightarrow> string \<Rightarrow> string \<Rightarrow> string \<Rightarrow> HubContainer \<Rightarrow> HubContainer" where
  "stamp_manager images registriesNs httpRouteNamespace gatewayDomain c =
     (let c = (if ci_operatorImage images \<noteq> [] then c\<lparr>hc_image := ci_operatorImage images\<rparr> else c)
      in fold upsertEnv (stamped_env images registriesNs httpRouteNamespace gatewayDomain (hc_image c)) c)"

text \<open>The first container of that name is changed; \<open>None\<close> when there is none.\<close>

fun stamp_first :: "(HubContainer \<Rightarrow> HubContainer) \<Rightarrow> HubContainer list \<Rightarrow> HubContainer list option" where
  "stamp_first f [] = None"
| "stamp_first f (c # cs) =
     (if hc_name c = childManagerContainer then Some (f c # cs) else map_option (Cons c) (stamp_first f cs))"

text \<open>
  \<^verbatim>\<open>runtime.DefaultUnstructuredConverter\<close>: the containers of the typed Deployment, and the object
  with them written back.
\<close>

record converter =
  cv_from :: "unstructured \<Rightarrow> go_error + HubContainer list"
  cv_to :: "unstructured \<Rightarrow> HubContainer list \<Rightarrow> go_error + unstructured"

definition stampChildOperatorDeployment ::
  "converter \<Rightarrow> ChildImages \<Rightarrow> string \<Rightarrow> string \<Rightarrow> string \<Rightarrow> unstructured \<Rightarrow> go_error + unstructured" where
  "stampChildOperatorDeployment V images registriesNs httpRouteNamespace gatewayDomain u =
     (case cv_from V u of
        Inl e \<Rightarrow> Inl (Wrapped ''converting unstructured to Deployment'' e)
      | Inr containers \<Rightarrow>
          (case stamp_first (stamp_manager images registriesNs httpRouteNamespace gatewayDomain) containers of
             None \<Rightarrow> Inl (ErrorText (''container \"manager\" not found in Deployment '' @ u_name u))
           | Some containers \<Rightarrow>
               (case cv_to V u containers of
                  Inl e \<Rightarrow> Inl (Wrapped ''converting Deployment back to unstructured'' e)
                | Inr u' \<Rightarrow> Inr u')))"

text \<open>The first parameter named \<^verbatim>\<open>JOB_IMAGE\<close> gets the image.\<close>

fun stamp_parameters :: "string \<Rightarrow> parameter list \<Rightarrow> parameter list option" where
  "stamp_parameters img [] = None"
| "stamp_parameters img (p # ps) =
     (case p of
        Fields m \<Rightarrow>
          if map_of m ''name'' = Some (Text ''JOB_IMAGE'') then Some (Fields (AList.update ''value'' (Text img) m) # ps)
          else map_option (Cons p) (stamp_parameters img ps)
      | NotFields _ \<Rightarrow> map_option (Cons p) (stamp_parameters img ps))"

definition stampAsyncUploadTemplate :: "string \<Rightarrow> unstructured \<Rightarrow> go_error + unstructured" where
  "stampAsyncUploadTemplate img u =
     (case u_parameters u of
        Inl e \<Rightarrow> Inl e
      | Inr None \<Rightarrow> Inr u
      | Inr (Some ps) \<Rightarrow>
          (case stamp_parameters img ps of None \<Rightarrow> Inr u | Some ps \<Rightarrow> Inr (u\<lparr>u_parameters := Inr (Some ps)\<rparr>)))"

text \<open>One round of the loop over the rendered objects.\<close>

definition stamp_resource ::
  "converter \<Rightarrow> ChildImages \<Rightarrow> AIHubSpec \<Rightarrow> string \<Rightarrow> unstructured \<Rightarrow> go_error + unstructured" where
  "stamp_resource V images spec gatewayDomain u0 =
     (let u = (if u_kind u0 \<in> set clusterScopedKinds then u0\<lparr>u_namespace := []\<rparr> else u0)
      in if u_kind u = ''Deployment'' \<and> (u_name u = childDeploymentName \<or> u_name u = catalogDeploymentName)
         then (case stampChildOperatorDeployment V images (hs_instancesNamespace spec) (hs_applicationNamespace spec) gatewayDomain u of
                 Inl e \<Rightarrow> Inl (Wrapped (''stamping child operator deployment '' @ u_name u) e)
               | Inr u \<Rightarrow> Inr u)
         else if u_kind u = ''Template'' \<and> u_name u = asyncUploadTemplateName \<and> ci_asyncUploadImage images \<noteq> []
         then (case stampAsyncUploadTemplate (ci_asyncUploadImage images) u of
                 Inl e \<Rightarrow> Inl (Wrapped ''stamping async-upload template JOB_IMAGE'' e)
               | Inr u \<Rightarrow> Inr u)
         else Inr u)"

fun stamp_resources ::
  "converter \<Rightarrow> ChildImages \<Rightarrow> AIHubSpec \<Rightarrow> string \<Rightarrow> unstructured list \<Rightarrow> go_error + unstructured list" where
  "stamp_resources V images spec gatewayDomain [] = Inr []"
| "stamp_resources V images spec gatewayDomain (u # us) =
     (case stamp_resource V images spec gatewayDomain u of
        Inl e \<Rightarrow> Inl e
      | Inr u \<Rightarrow> (case stamp_resources V images spec gatewayDomain us of Inl e \<Rightarrow> Inl e | Inr us \<Rightarrow> Inr (u # us)))"

section \<open>Releases (\<^verbatim>\<open>aihub_releases.go\<close>)\<close>

datatype file_answer = NoFile | FileError go_error | FileContent string

text \<open>Files are read by the elements of their path (\<^verbatim>\<open>filepath.Join\<close>, of clean elements); \<open>unmarshal\<close> decodes the YAML of a metadata file.\<close>

record release_source =
  rf_read :: "string list \<Rightarrow> file_answer"
  rf_unmarshal :: "string \<Rightarrow> go_error + ComponentRelease list"

definition fallbackReleases :: "ComponentRelease list" where
  "fallbackReleases = [\<lparr>rl_name = ''model-registry-operator'', rl_version = ''unknown'',
     rl_repoURL = ''https://github.com/opendatahub-io/model-registry-operator''\<rparr>]"

definition note_release :: "ComponentRelease \<Rightarrow> string list \<times> ComponentRelease list \<Rightarrow> string list \<times> ComponentRelease list" where
  "note_release r st =
     (case st of (seen, all) \<Rightarrow>
        if rl_name r = [] \<or> rl_name r \<in> set seen then (seen, all)
        else (rl_name r # seen, all @ [if rl_version r = [] then r\<lparr>rl_version := ''unknown''\<rparr> else r]))"

fun load_dirs ::
  "release_source \<Rightarrow> string \<Rightarrow> string list \<Rightarrow> string list \<times> ComponentRelease list \<Rightarrow> go_error + ComponentRelease list" where
  "load_dirs F manifestsPath [] st = Inr (snd st)"
| "load_dirs F manifestsPath (dir # dirs) st =
     (case rf_read F [manifestsPath, dir, ''component_metadata.yaml''] of
        NoFile \<Rightarrow> load_dirs F manifestsPath dirs st
      | FileError e \<Rightarrow> Inl (Wrapped (''reading '' @ joinWith ''/'' [manifestsPath, dir, ''component_metadata.yaml'']) e)
      | FileContent data \<Rightarrow>
          (case rf_unmarshal F data of
             Inl e \<Rightarrow> Inl (Wrapped (''parsing '' @ joinWith ''/'' [manifestsPath, dir, ''component_metadata.yaml'']) e)
           | Inr releases \<Rightarrow> load_dirs F manifestsPath dirs (fold note_release releases st)))"

definition loadComponentReleases :: "release_source \<Rightarrow> string \<Rightarrow> string list \<Rightarrow> go_error + ComponentRelease list" where
  "loadComponentReleases F manifestsPath dirs =
     (case load_dirs F manifestsPath dirs ([], []) of
        Inl e \<Rightarrow> Inl e
      | Inr all \<Rightarrow> Inr (if all = [] then fallbackReleases else all))"

section \<open>The stamped variables\<close>

lemma upsert_find:
  "find (\<lambda>y. ev_name y = n) (upsert x xs) = (if ev_name x = n then Some x else find (\<lambda>y. ev_name y = n) xs)"
  by (induction xs) auto

lemma upsert_others: "\<not> P x \<Longrightarrow> (\<And>y. ev_name y = ev_name x \<Longrightarrow> \<not> P y) \<Longrightarrow> filter P (upsert x xs) = filter P xs"
  by (induction xs) auto

lemma upsert_names: "ev_name ` set (upsert x xs) = insert (ev_name x) (ev_name ` set xs)"
  by (induction xs) auto

lemma upsert_distinct: "distinct (map ev_name xs) \<Longrightarrow> distinct (map ev_name (upsert x xs))"
  using upsert_names by (induction xs) auto

lemma upsertEnv_simps [simp]:
  "hc_name (upsertEnv x c) = hc_name c" "hc_image (upsertEnv x c) = hc_image c" "hc_env (upsertEnv x c) = upsert x (hc_env c)"
  by (simp_all add: upsertEnv_def)

lemma fold_upsertEnv [simp]:
  "hc_name (fold upsertEnv xs c) = hc_name c" "hc_image (fold upsertEnv xs c) = hc_image c"
  "hc_env (fold upsertEnv xs c) = fold upsert xs (hc_env c)"
  by (induction xs arbitrary: c) simp_all

lemma fold_upsert_absent:
  "n \<notin> ev_name ` set xs \<Longrightarrow> find (\<lambda>y. ev_name y = n) (fold upsert xs env) = find (\<lambda>y. ev_name y = n) env"
  by (induction xs arbitrary: env) (auto simp: upsert_find)

lemma fold_upsert_find:
  "distinct (map ev_name xs) \<Longrightarrow> x \<in> set xs \<Longrightarrow> find (\<lambda>y. ev_name y = ev_name x) (fold upsert xs env) = Some x"
proof (induction xs arbitrary: env)
  case (Cons y ys)
  then show ?case by (cases "x = y") (auto simp: fold_upsert_absent upsert_find)
qed simp

lemma fold_upsert_others:
  "filter (\<lambda>y. ev_name y \<notin> ev_name ` set xs) (fold upsert ys env) = filter (\<lambda>y. ev_name y \<notin> ev_name ` set xs) env"
  if "set ys \<subseteq> set xs" using that by (induction ys arbitrary: env) (auto simp: upsert_others)

lemma fold_upsert_distinct: "distinct (map ev_name env) \<Longrightarrow> distinct (map ev_name (fold upsert xs env))"
  by (induction xs arbitrary: env) (auto simp: upsert_distinct)

lemma stamp_first_split:
  "stamp_first f cs = Some cs' \<Longrightarrow>
     \<exists>pre c post. cs = pre @ c # post \<and> cs' = pre @ f c # post \<and> hc_name c = childManagerContainer
       \<and> (\<forall>x \<in> set pre. hc_name x \<noteq> childManagerContainer)"
proof (induction cs arbitrary: cs')
  case (Cons d ds)
  show ?case
  proof (cases "hc_name d = childManagerContainer")
    case True
    then show ?thesis using Cons.prems by (intro exI[of _ "[]"]) simp
  next
    case False
    then obtain ds' where ds': "stamp_first f ds = Some ds'" "cs' = d # ds'" using Cons.prems by auto
    then obtain pre c post where "ds = pre @ c # post" "ds' = pre @ f c # post" "hc_name c = childManagerContainer"
        "\<forall>x \<in> set pre. hc_name x \<noteq> childManagerContainer"
      using Cons.IH by blast
    then show ?thesis using ds'(2) False by (intro exI[of _ "d # pre"] exI[of _ c] exI[of _ post]) simp
  qed
qed simp

lemma env_var_name [simp]: "ev_name (env_var n v) = n"
  by (simp add: env_var_def)

lemma stamped_env_distinct:
  "distinct (map ev_name (stamped_env (ResolveChildImages getenv) a b g i))"
proof -
  have m: "map ev_name (map (\<lambda>n. env_var n (getenv n)) ns) = ns" for ns by (induction ns) simp_all
  have d: "distinct (ModelRegistryOperatorImage # operandImageEnvNames @ [RegistriesNamespace, HTTPRouteNamespaceEnv, GatewayDomainEnv])"
    by (simp add: operandImageEnvNames_def ModelRegistryOperatorImage_def RestImage_def PostgresImage_def KubeRBACProxyImage_def
        CatalogDataImage_def BenchmarkDataImage_def CatalogDataImageStreamSource_def BenchmarkDataImageStreamSource_def
        RegistriesNamespace_def HTTPRouteNamespaceEnv_def GatewayDomainEnv_def)
  have "map ev_name (stamped_env (ResolveChildImages getenv) a b g i)
      = ModelRegistryOperatorImage # filter (\<lambda>n. getenv n \<noteq> []) operandImageEnvNames
        @ [RegistriesNamespace, HTTPRouteNamespaceEnv] @ (if g \<noteq> [] then [GatewayDomainEnv] else [])"
    using m by (simp add: stamped_env_def ResolveChildImages_def)
  then show ?thesis using d by auto
qed

text \<open>
  What a child operator is started with. Stamping a rendered Deployment changes its first
  manager container only: it gets the platform's operator image, if there is one, and every
  variable of the platform is then set exactly once to its value, the self-image variable to
  the very image of the container; every other variable keeps its place and value, and no
  variable is ever defined twice that was not before.
\<close>

theorem child_operator_env:
  assumes "stampChildOperatorDeployment V (ResolveChildImages getenv) registriesNs httpRouteNs gateway u = Inr u'"
  shows "\<exists>pre c c' post wanted. cv_from V u = Inr (pre @ c # post) \<and> cv_to V u (pre @ c' # post) = Inr u'
    \<and> hc_name c = childManagerContainer \<and> (\<forall>x \<in> set pre. hc_name x \<noteq> childManagerContainer)
    \<and> hc_name c' = hc_name c
    \<and> hc_image c' = (if getenv ModelRegistryOperatorImage \<noteq> [] then getenv ModelRegistryOperatorImage else hc_image c)
    \<and> wanted = stamped_env (ResolveChildImages getenv) registriesNs httpRouteNs gateway (hc_image c')
    \<and> (\<forall>x \<in> set wanted. find (\<lambda>y. ev_name y = ev_name x) (hc_env c') = Some x)
    \<and> filter (\<lambda>y. ev_name y \<notin> ev_name ` set wanted) (hc_env c') = filter (\<lambda>y. ev_name y \<notin> ev_name ` set wanted) (hc_env c)
    \<and> (distinct (map ev_name (hc_env c)) \<longrightarrow> distinct (map ev_name (hc_env c')))"
proof -
  let ?f = "stamp_manager (ResolveChildImages getenv) registriesNs httpRouteNs gateway"
  obtain cs cs' where cs: "cv_from V u = Inr cs" "stamp_first ?f cs = Some cs'" "cv_to V u cs' = Inr u'"
    using assms by (auto simp: stampChildOperatorDeployment_def split: sum.splits option.splits)
  obtain pre c post where c: "cs = pre @ c # post" "cs' = pre @ ?f c # post" "hc_name c = childManagerContainer"
      "\<forall>x \<in> set pre. hc_name x \<noteq> childManagerContainer"
    using stamp_first_split[OF cs(2)] by blast
  let ?i = "if getenv ModelRegistryOperatorImage \<noteq> [] then getenv ModelRegistryOperatorImage else hc_image c"
  let ?w = "stamped_env (ResolveChildImages getenv) registriesNs httpRouteNs gateway ?i"
  have f: "hc_name (?f c) = hc_name c" "hc_image (?f c) = ?i" "hc_env (?f c) = fold upsert ?w (hc_env c)"
    by (simp_all add: stamp_manager_def Let_def ResolveChildImages_def)
  note parts = fold_upsert_find[OF stamped_env_distinct] fold_upsert_others[OF subset_refl] fold_upsert_distinct
  show ?thesis
    by (rule exI[of _ pre], rule exI[of _ c], rule exI[of _ "?f c"], rule exI[of _ post], rule exI[of _ ?w])
      (use cs(1,3) c f parts in \<open>simp del: fold_simps\<close>)
qed

section \<open>The published releases\<close>

text \<open>The releases found so far: names are distinct, present and recorded, versions present.\<close>

definition releases_ok :: "string list \<times> ComponentRelease list \<Rightarrow> bool" where
  "releases_ok st = (case st of (seen, all) \<Rightarrow> set seen = rl_name ` set all \<and> distinct (map rl_name all)
     \<and> (\<forall>r \<in> set all. rl_name r \<noteq> [] \<and> rl_version r \<noteq> []))"

lemma note_release_ok: "releases_ok st \<Longrightarrow> releases_ok (note_release r st)"
  by (cases st) (auto simp: releases_ok_def note_release_def)

lemma note_release_names:
  "rl_name ` set (snd (note_release r st)) = rl_name ` set (snd st) \<union> ({rl_name r} - {[]})" if "releases_ok st"
  using that by (cases st) (auto simp: releases_ok_def note_release_def)

lemma fold_note_release:
  "releases_ok st \<Longrightarrow> releases_ok (fold note_release rs st)
     \<and> rl_name ` set (snd (fold note_release rs st)) = rl_name ` set (snd st) \<union> (rl_name ` set rs - {[]})"
  by (induction rs arbitrary: st) (auto simp: note_release_ok note_release_names)

definition named_in :: "release_source \<Rightarrow> string \<Rightarrow> string list \<Rightarrow> string set" where
  "named_in F path dirs = {n. n \<noteq> [] \<and> (\<exists>dir \<in> set dirs. \<exists>data rs.
     rf_read F [path, dir, ''component_metadata.yaml''] = FileContent data \<and> rf_unmarshal F data = Inr rs \<and> n \<in> rl_name ` set rs)}"

lemma named_in_Cons:
  "named_in F path (dir # dirs) = {n. n \<noteq> [] \<and> (\<exists>data rs. rf_read F [path, dir, ''component_metadata.yaml''] = FileContent data
     \<and> rf_unmarshal F data = Inr rs \<and> n \<in> rl_name ` set rs)} \<union> named_in F path dirs"
  unfolding named_in_def list.set by blast

lemma load_dirs_ok:
  "releases_ok st \<Longrightarrow> load_dirs F path dirs st = Inr all \<Longrightarrow>
     distinct (map rl_name all) \<and> (\<forall>r \<in> set all. rl_name r \<noteq> [] \<and> rl_version r \<noteq> [])
     \<and> rl_name ` set all = rl_name ` set (snd st) \<union> named_in F path dirs"
proof (induction dirs arbitrary: st)
  case Nil
  then show ?case by (cases st) (auto simp: releases_ok_def named_in_def)
next
  case (Cons dir dirs)
  show ?case
  proof (cases "rf_read F [path, dir, ''component_metadata.yaml'']")
    case NoFile
    then show ?thesis using Cons by (auto simp: named_in_Cons)
  next
    case (FileError e)
    then show ?thesis using Cons by simp
  next
    case (FileContent data)
    then obtain rs where rs: "rf_unmarshal F data = Inr rs" "load_dirs F path dirs (fold note_release rs st) = Inr all"
      using Cons.prems by (auto split: sum.splits)
    have "named_in F path (dir # dirs) = (rl_name ` set rs - {[]}) \<union> named_in F path dirs"
      using FileContent rs(1) by (auto simp: named_in_Cons)
    then show ?thesis using Cons.IH[OF _ rs(2)] fold_note_release[OF Cons.prems(1)] by (auto simp: Un_assoc)
  qed
qed

text \<open>
  The published releases. When the metadata files can be read, the list is never empty, no
  component is listed twice, and every entry has a name and a version; its components are
  exactly those that the files name, or the fallback when they name none.
\<close>

theorem releases_complete:
  assumes "loadComponentReleases F path dirs = Inr all"
  shows "all \<noteq> [] \<and> distinct (map rl_name all) \<and> (\<forall>r \<in> set all. rl_name r \<noteq> [] \<and> rl_version r \<noteq> [])
    \<and> (if named_in F path dirs = {} then all = fallbackReleases else rl_name ` set all = named_in F path dirs)"
proof -
  obtain found where f: "load_dirs F path dirs ([], []) = Inr found" "all = (if found = [] then fallbackReleases else found)"
    using assms by (auto simp: loadComponentReleases_def split: sum.splits)
  have "releases_ok ([], [])" by (simp add: releases_ok_def)
  from load_dirs_ok[OF this f(1)] show ?thesis using f(2) by (auto simp: fallbackReleases_def)
qed

section \<open>Witnesses\<close>

definition plain_converter :: "HubContainer list \<Rightarrow> converter" where
  "plain_converter cs = \<lparr>cv_from = (\<lambda>u. Inr cs), cv_to = (\<lambda>u cs. Inr (u\<lparr>u_body := concat (map hc_image cs)\<rparr>))\<rparr>"

definition sample_object :: "string \<Rightarrow> string \<Rightarrow> unstructured" where
  "sample_object k n = \<lparr>u_kind = k, u_namespace = ''apps'', u_name = n, u_matchLabels = Inr (Some [(''app'', n)]),
     u_parameters = Inr None, u_body = []\<rparr>"

definition sample_container :: HubContainer where
  "sample_container = \<lparr>hc_name = ''manager'', hc_image = ''old'', hc_env = [env_var RegistriesNamespace ''stale'', env_var ''X'' ''1'']\<rparr>"

theorem child_operator_env_witness:
  "\<exists>u'. stampChildOperatorDeployment (plain_converter [sample_container]) (ResolveChildImages (\<lambda>_. ''img'')) ''ns'' ''apps'' []
      (sample_object ''Deployment'' childDeploymentName) = Inr u'
    \<and> (\<exists>pre c post. [sample_container] = pre @ c # post \<and> hc_name c = childManagerContainer)"
proof -
  let ?s = "stampChildOperatorDeployment (plain_converter [sample_container]) (ResolveChildImages (\<lambda>_. ''img'')) ''ns'' ''apps'' []
      (sample_object ''Deployment'' childDeploymentName)"
  have "case ?s of Inr _ \<Rightarrow> True | Inl _ \<Rightarrow> False" by code_simp
  then obtain u' where u: "?s = Inr u'" by (auto split: sum.splits)
  from child_operator_env[OF u] show ?thesis using u by (auto simp: plain_converter_def)
qed

definition two_files :: release_source where
  "two_files = \<lparr>rf_read = (\<lambda>p. FileContent (p ! 1)),
     rf_unmarshal = (\<lambda>d. Inr [\<lparr>rl_name = ''x'', rl_version = [], rl_repoURL = d\<rparr>, \<lparr>rl_name = d, rl_version = ''1'', rl_repoURL = d\<rparr>])\<rparr>"

theorem releases_complete_witness:
  "\<exists>all. loadComponentReleases two_files ''m'' [''a'', ''b''] = Inr all \<and> distinct (map rl_name all) \<and> all \<noteq> []"
proof -
  have "case loadComponentReleases two_files ''m'' [''a'', ''b''] of Inr all \<Rightarrow> length all = 3 | Inl _ \<Rightarrow> False" by code_simp
  then obtain all where a: "loadComponentReleases two_files ''m'' [''a'', ''b''] = Inr all" by (auto split: sum.splits)
  from releases_complete[OF a] show ?thesis using a by blast
qed

end
