(* ===== verification/AIHub_Reconcile.thy ===== *)
theory AIHub_Reconcile
  imports AIHub
begin

text \<open>
  The AIHub reconciler (\<^verbatim>\<open>internal/controller/aihub_controller.go\<close>): the recreation of child
  Deployments with another selector, the teardown, the Catalog's migration and readiness, the
  publication of the status, and \<^verbatim>\<open>Reconcile\<close>. The condition manager and the deployer of
  the platform utilities, kustomize, and the conflict retry of client-go are arguments.
\<close>

section \<open>The client\<close>

text \<open>What a live Deployment is asked for; \<open>None\<close> stands for a nil selector.\<close>

record ChildDeployment =
  cd_name :: string
  cd_namespace :: string
  cd_uid :: string
  cd_deletion :: "time option"
  cd_selector :: "(string \<times> string) list option"
  cd_conditions :: "DeploymentCondition list"
  cd_availableReplicas :: int

text \<open>A Catalog with the UID of the controller in its owner references.\<close>

record owned_catalog = Catalog +
  cat_controller :: "string option"

text \<open>
  The condition manager of the platform utilities, as functions on the conditions of the
  managed resource; the happy condition and its dependents are their first arguments.
\<close>

record mark =
  mk_reason :: string
  mk_message :: string
  mk_severity :: severity

record manager_api =
  cm_new :: "string \<Rightarrow> string list \<Rightarrow> module_condition list \<Rightarrow> module_condition list"
  cm_mark :: "string \<Rightarrow> string list \<Rightarrow> string \<Rightarrow> bool \<Rightarrow> mark \<Rightarrow> module_condition list \<Rightarrow> module_condition list"
  cm_sort :: "module_condition list \<Rightarrow> module_condition list"
  cm_isHappy :: "string \<Rightarrow> string list \<Rightarrow> module_condition list \<Rightarrow> bool"

record 'w hub_client =
  hb_cluster :: "'w cluster_api"
  hb_manager :: manager_api
  hb_conds :: cond_api
  hb_getenv :: env
  hb_manifests :: string
  hb_files :: release_source
  hb_converter :: converter
  hb_render :: "string list \<Rightarrow> string \<Rightarrow> go_error + unstructured list" \<comment> \<open>kustomize: path, namespace\<close>
  hb_renderMonitor :: "string \<Rightarrow> go_error + unstructured" \<comment> \<open>the ServiceMonitor template\<close>
  hb_capabilities :: ClusterCapabilities
  hb_hasServiceMonitor :: bool
  hb_hasReader :: bool
  hb_getHub :: "string \<Rightarrow> ('w, AIHub) call"
  hb_updateHub :: "AIHub \<Rightarrow> ('w, AIHub) call"
  hb_updateHubStatus :: "AIHub \<Rightarrow> 'w \<Rightarrow> go_error option \<times> 'w"
  hb_getDeployment :: "key \<Rightarrow> ('w, ChildDeployment) call"
  hb_readDeployment :: "key \<Rightarrow> ('w, ChildDeployment) call" \<comment> \<open>\<^verbatim>\<open>APIReader\<close>, past the cache\<close>
  hb_readConfigMap :: "key \<Rightarrow> ('w, object) call" \<comment> \<open>\<^verbatim>\<open>APIReader\<close>\<close>
  hb_deleteDeployment :: "key \<Rightarrow> string \<Rightarrow> 'w \<Rightarrow> go_error option \<times> 'w" \<comment> \<open>with the UID as a precondition\<close>
  hb_deploy :: "AIHub \<Rightarrow> unstructured list \<Rightarrow> 'w \<Rightarrow> go_error option \<times> 'w"
  hb_getCatalog :: "key \<Rightarrow> ('w, owned_catalog) call"
  hb_annotateCatalog :: "owned_catalog \<Rightarrow> go_error + owned_catalog"
  hb_setController :: "AIHub \<Rightarrow> owned_catalog \<Rightarrow> go_error + owned_catalog"
  hb_createCatalog :: "owned_catalog \<Rightarrow> ('w, owned_catalog) call"
  hb_patchCatalog :: "owned_catalog \<Rightarrow> owned_catalog \<Rightarrow> ('w, owned_catalog) call" \<comment> \<open>before, after; with optimistic lock\<close>
  hb_updateCatalog :: "owned_catalog \<Rightarrow> 'w \<Rightarrow> go_error option \<times> 'w"
  hb_deleteCatalog :: "key \<Rightarrow> 'w \<Rightarrow> go_error option \<times> 'w"
  hb_releasePlatform :: string \<comment> \<open>\<^verbatim>\<open>common.ReleasePlatform\<close>\<close>
  hb_retry :: "('w \<Rightarrow> go_error option \<times> 'w) \<Rightarrow> 'w \<Rightarrow> go_error option \<times> 'w" \<comment> \<open>\<^verbatim>\<open>retry.RetryOnConflict\<close>\<close>

definition Ready :: string where "Ready = ''Ready''"
definition ProvisioningSucceeded :: string where "ProvisioningSucceeded = ''ProvisioningSucceeded''"

definition hub_dependents :: "string list" where
  "hub_dependents = [ProvisioningSucceeded, ConditionModelRegistryReady, ConditionCatalogReady, ConditionCatalogDataReady]"

definition newAIHubConditionManager :: "'w hub_client \<Rightarrow> AIHub \<Rightarrow> module_condition list" where
  "newAIHubConditionManager C aihub = cm_new (hb_manager C) Ready hub_dependents (hs_conditions (hub_status aihub))"

definition mark_condition :: "'w hub_client \<Rightarrow> string \<Rightarrow> bool \<Rightarrow> severity \<Rightarrow> string \<Rightarrow> string \<Rightarrow> module_condition list \<Rightarrow> module_condition list" where
  "mark_condition C t b severity reason message =
     cm_mark (hb_manager C) Ready hub_dependents t b \<lparr>mk_reason = reason, mk_message = message, mk_severity = severity\<rparr>"

section \<open>Selectors\<close>

text \<open>\<^verbatim>\<open>maps.Equal\<close> on maps given by their entries.\<close>

definition maps_equal :: "(string \<times> string) list \<Rightarrow> (string \<times> string) list \<Rightarrow> bool" where
  "maps_equal a b = (length a = length b \<and> list_all (\<lambda>(k, v). map_of b k = Some v) a)"

definition key_text :: "key \<Rightarrow> string" where "key_text k = fst k @ ''/'' @ snd k"

text \<open>The live Deployment, from the cache, else past it; \<open>Inr None\<close> when there is none.\<close>

definition live_deployment :: "'w hub_client \<Rightarrow> key \<Rightarrow> ('w, ChildDeployment option) call" where
  "live_deployment C k w =
     (case hb_getDeployment C k w of
        (Inr d, w1) \<Rightarrow> (Inr (Some d), w1)
      | (Inl e, w1) \<Rightarrow>
          if \<not> isNotFound e then (Inl (Wrapped (''getting live deployment '' @ key_text k) e), w1)
          else (case (if hb_hasReader C then hb_readDeployment C else hb_getDeployment C) k w1 of
                  (Inr d, w2) \<Rightarrow> (Inr (Some d), w2)
                | (Inl e, w2) \<Rightarrow>
                    if isNotFound e then (Inr None, w2)
                    else (Inl (Wrapped (''getting live deployment '' @ key_text k) e), w2)))"

text \<open>The deletion of a Deployment with another selector.\<close>

definition recreate_deployment :: "'w hub_client \<Rightarrow> key \<Rightarrow> ChildDeployment \<Rightarrow> ('w, bool) call" where
  "recreate_deployment C k live w =
     (case hb_deleteDeployment C (cd_namespace live, cd_name live) (cd_uid live) w of
        (None, w1) \<Rightarrow> (Inr True, w1)
      | (Some e, w1) \<Rightarrow>
          if \<not> isNotFound e \<and> \<not> is_kind Conflict e
          then (Inl (Wrapped (''deleting deployment '' @ key_text k @ '' to migrate selector'') e), w1)
          else (Inr True, w1))"

text \<open>One rendered object: whether a deletion was issued or is still under way.\<close>

definition selector_step :: "'w hub_client \<Rightarrow> unstructured \<Rightarrow> ('w, bool) call" where
  "selector_step C u w =
     (if u_kind u \<noteq> ''Deployment'' then (Inr False, w)
      else case u_matchLabels u of
        Inl e \<Rightarrow> (Inl (Wrapped (''reading desired selector for '' @ u_name u) e), w)
      | Inr desired \<Rightarrow>
          (case desired of None \<Rightarrow> (Inr False, w)
           | Some desiredSelector \<Rightarrow>
               if desiredSelector = [] then (Inr False, w)
               else (case live_deployment C (u_namespace u, u_name u) w of
                       (Inl e, w1) \<Rightarrow> (Inl e, w1)
                     | (Inr None, w1) \<Rightarrow> (Inr False, w1)
                     | (Inr (Some live), w1) \<Rightarrow>
                         if cd_deletion live \<noteq> None then (Inr True, w1)
                         else (case cd_selector live of
                                 None \<Rightarrow> (Inr False, w1)
                               | Some matchLabels \<Rightarrow>
                                   if maps_equal matchLabels desiredSelector then (Inr False, w1)
                                   else recreate_deployment C (u_namespace u, u_name u) live w1))))"

fun selector_loop :: "'w hub_client \<Rightarrow> unstructured list \<Rightarrow> bool \<Rightarrow> ('w, bool) call" where
  "selector_loop C [] pending w = (Inr pending, w)"
| "selector_loop C (u # us) pending w =
     (case selector_step C u w of
        (Inl e, w1) \<Rightarrow> (Inl e, w1)
      | (Inr p, w1) \<Rightarrow> selector_loop C us (pending \<or> p) w1)"

definition reconcileIncompatibleSelectors :: "'w hub_client \<Rightarrow> unstructured list \<Rightarrow> ('w, bool) call" where
  "reconcileIncompatibleSelectors C resources = selector_loop C resources False"

section \<open>Child Deployments\<close>

definition deployment_available :: "DeploymentCondition list \<Rightarrow> bool" where
  "deployment_available cs =
     (case find (\<lambda>c. dc_type c = ''Available'') cs of None \<Rightarrow> False | Some c \<Rightarrow> dc_status c = ConditionTrue)"

definition isDeploymentAvailable :: "ChildDeployment \<Rightarrow> bool" where
  "isDeploymentAvailable d = deployment_available (cd_conditions d)"

definition not_ready :: "'w hub_client \<Rightarrow> string \<Rightarrow> string \<Rightarrow> module_condition list \<Rightarrow> module_condition list" where
  "not_ready C conditionType message cs =
     mark_condition C ConditionTypeDegraded False SeverityInfo ''NoDegradation'' []
       (mark_condition C conditionType False DefaultSeverity ''ChildDeploymentNotReady'' message cs)"

text \<open>\<open>Inr (ready, cs)\<close>: the caller requeues exactly when the Deployment is not ready.\<close>

definition checkChildDeploymentReady ::
  "'w hub_client \<Rightarrow> string \<Rightarrow> string \<Rightarrow> string \<Rightarrow> module_condition list \<Rightarrow> ('w, bool \<times> module_condition list) call" where
  "checkChildDeploymentReady C namespace' name conditionType cs w =
     (case hb_getDeployment C (namespace', name) w of
        (Inl e, w1) \<Rightarrow>
          if \<not> isNotFound e then (Inl (Wrapped (''getting child deployment '' @ key_text (namespace', name)) e), w1)
          else (Inr (False, not_ready C conditionType (''child deployment '' @ name @ '' not found'') cs), w1)
      | (Inr d, w1) \<Rightarrow>
          if \<not> isDeploymentAvailable d
          then (Inr (False, not_ready C conditionType (''child deployment '' @ name @ '' not yet Available'') cs), w1)
          else (Inr (True, cs), w1))"

section \<open>The Catalog\<close>

definition hub_domain :: "AIHub \<Rightarrow> string" where
  "hub_domain aihub = strval (hs_gateway (hub_spec aihub))"

definition select_stable :: "owned_catalog \<Rightarrow> owned_catalog" where
  "select_stable c = c\<lparr>cat_spec := (cat_spec c)\<lparr>sp_catalogDataImageStream := Some catalogDataImageStreamTag,
       sp_benchmarkDataImageStream := Some catalogDataImageStreamTag\<rparr>,
     cat_annotations := (cat_annotations c)(catalogImageStreamsMigratedAnnotation \<mapsto> ''true'')\<rparr>"

definition blank_catalog :: "string \<Rightarrow> owned_catalog" where
  "blank_catalog instancesNamespace = \<lparr>cat_name = catalogCRName, cat_namespace = instancesNamespace, cat_uid = [], cat_generation = 0,
     cat_resourceVersion = [], cat_annotations = Map.empty, cat_finalizers = [], cat_deletion = None,
     cat_spec = \<lparr>sp_catalogDataImageStream = None, sp_benchmarkDataImageStream = None, sp_proxy = None,
       sp_catalogResources = None, sp_postgresResources = None, sp_sizeLimit = None\<rparr>,
     cat_status = \<lparr>st_activation = None, st_conditions = [], st_resolvedImages = None, st_observedGeneration = 0\<rparr>,
     cat_controller = None\<rparr>"

definition newCatalog :: "'w hub_client \<Rightarrow> AIHub \<Rightarrow> owned_catalog" where
  "newCatalog C aihub =
     (let c = blank_catalog (hs_instancesNamespace (hub_spec aihub))
      in if cap_IsOpenShift (hb_capabilities C) then select_stable c else c)"

text \<open>\<^verbatim>\<open>CreateIfNotExists\<close>, with the Catalog that is there afterwards.\<close>

definition ensure_catalog :: "'w hub_client \<Rightarrow> owned_catalog \<Rightarrow> ('w, owned_catalog) call" where
  "ensure_catalog C c w =
     (case hb_getCatalog C (cat_namespace c, cat_name c) w of
        (Inr existing, w1) \<Rightarrow> (Inr existing, w1)
      | (Inl e, w1) \<Rightarrow>
          if \<not> isNotFound e then (Inl e, w1)
          else (case hb_annotateCatalog C c of Inl e \<Rightarrow> (Inl e, w1) | Inr c \<Rightarrow> hb_createCatalog C c w1))"

definition migrateCatalogImageStreams :: "'w hub_client \<Rightarrow> owned_catalog \<Rightarrow> ('w, owned_catalog) call" where
  "migrateCatalogImageStreams C c w =
     (if \<not> cap_IsOpenShift (hb_capabilities C) \<or> mapget (cat_annotations c) catalogImageStreamsMigratedAnnotation = ''true''
         \<or> cat_deletion c \<noteq> None then (Inr c, w)
      else hb_patchCatalog C c (select_stable c) w)"

text \<open>Whether the Catalog is ready, whether it failed, and the conditions.\<close>

definition catalog_degraded :: "cond_api \<Rightarrow> owned_catalog \<Rightarrow> bool" where
  "catalog_degraded A c =
     (case findc A (st_conditions (cat_status c)) ConditionTypeDegraded of None \<Rightarrow> False
      | Some d \<Rightarrow> cond_observedGeneration d = cat_generation c \<and> cond_status d = ConditionTrue)"

definition reconcileAIHubCatalogReadiness ::
  "'w hub_client \<Rightarrow> owned_catalog \<Rightarrow> module_condition list \<Rightarrow> bool \<times> bool \<times> module_condition list" where
  "reconcileAIHubCatalogReadiness C c cs =
     (let failed = catalog_degraded (hb_conds C) c;
          pending = (False, failed, mark_condition C ConditionCatalogDataReady False DefaultSeverity ''CatalogStatusPending''
            ''Waiting for current Catalog readiness status'' cs)
      in case findc (hb_conds C) (st_conditions (cat_status c)) conditionCatalogReady of
        None \<Rightarrow> pending
      | Some condition \<Rightarrow>
          if cond_observedGeneration condition \<noteq> cat_generation c then pending
          else if cond_status condition \<noteq> ConditionTrue \<or> failed
          then (False, failed, mark_condition C ConditionCatalogDataReady False DefaultSeverity (cond_reason condition)
                 (''Catalog: '' @ cond_message condition) cs)
          else (True, False, mark_condition C ConditionCatalogDataReady True DefaultSeverity (cond_reason condition) [] cs))"

section \<open>Teardown\<close>

definition catalogHTTPRouteName :: string where "catalogHTTPRouteName = catalogResourceName"
definition catalogAuthDelegatorCRBName :: string where "catalogAuthDelegatorCRBName = catalogResourceName @ ''-auth-delegator''"
definition catalogKubeRBACProxyConfigMap :: string where
  "catalogKubeRBACProxyConfigMap = catalogResourceName @ ''-kube-rbac-proxy-config''"

definition catalogOperatorCanFinalize :: "'w hub_client \<Rightarrow> string \<Rightarrow> ('w, bool) call" where
  "catalogOperatorCanFinalize C applicationNamespace w =
     (case hb_getDeployment C (applicationNamespace, catalogDeploymentName) w of
        (Inl e, w1) \<Rightarrow>
          if isNotFound e then (Inr False, w1)
          else (Inl (Wrapped (''getting catalog operator deployment '' @ key_text (applicationNamespace, catalogDeploymentName)) e), w1)
      | (Inr d, w1) \<Rightarrow> (Inr (isDeploymentAvailable d \<and> cd_availableReplicas d > 0), w1))"

definition deleteIgnoringMissing :: "'w hub_client \<Rightarrow> string \<Rightarrow> key \<Rightarrow> 'w \<Rightarrow> go_error option \<times> 'w" where
  "deleteIgnoringMissing C k n w =
     (case cl_delete (hb_cluster C) k n w of
        (None, w1) \<Rightarrow> (None, w1)
      | (Some e, w1) \<Rightarrow> (if isNotFound e \<or> isNoMatch e then None else Some e, w1))"

text \<open>One attempt to remove the Catalog's finalizer from its latest version.\<close>

definition release_catalog :: "'w hub_client \<Rightarrow> key \<Rightarrow> 'w \<Rightarrow> go_error option \<times> 'w" where
  "release_catalog C k w =
     (case hb_getCatalog C k w of
        (Inl e, w1) \<Rightarrow> (ignoreNotFound e, w1)
      | (Inr latest, w1) \<Rightarrow>
          if catalogFinalizer \<notin> set (cat_finalizers latest) then (None, w1)
          else hb_updateCatalog C (latest\<lparr>cat_finalizers := filter (\<lambda>f. f \<noteq> catalogFinalizer) (cat_finalizers latest)\<rparr>) w1)"

fun delete_all :: "'w hub_client \<Rightarrow> (string \<times> string \<times> key) list \<Rightarrow> 'w \<Rightarrow> go_error option \<times> 'w" where
  "delete_all C [] w = (None, w)"
| "delete_all C ((what, k, n) # xs) w =
     (case deleteIgnoringMissing C k n w of
        (Some e, w1) \<Rightarrow> (Some (Wrapped (''deleting catalog '' @ what) e), w1)
      | (None, w1) \<Rightarrow> delete_all C xs w1)"

definition takeOverCatalogFinalization :: "'w hub_client \<Rightarrow> AIHub \<Rightarrow> owned_catalog \<Rightarrow> 'w \<Rightarrow> go_error option \<times> 'w" where
  "takeOverCatalogFinalization C aihub cat w =
     (case delete_all C
             [(''HTTPRoute'', ''HTTPRoute'', hs_applicationNamespace (hub_spec aihub), catalogHTTPRouteName),
              (''auth-delegator ClusterRoleBinding'', ''ClusterRoleBinding'', [], catalogAuthDelegatorCRBName),
              (''kube-rbac-proxy ConfigMap'', ''ConfigMap'', cat_namespace cat, catalogKubeRBACProxyConfigMap)] w of
        (Some e, w1) \<Rightarrow> (Some e, w1)
      | (None, w1) \<Rightarrow> hb_retry C (release_catalog C (cat_namespace cat, cat_name cat)) w1)"

text \<open>The rest of the teardown, once the Catalog is being deleted: never done in this pass.\<close>

definition await_catalog :: "'w hub_client \<Rightarrow> AIHub \<Rightarrow> owned_catalog \<Rightarrow> ('w, bool) call" where
  "await_catalog C aihub cat w =
     (if catalogFinalizer \<notin> set (cat_finalizers cat) then (Inr False, w)
      else case catalogOperatorCanFinalize C (hs_applicationNamespace (hub_spec aihub)) w of
        (Inl e, w1) \<Rightarrow> (Inl e, w1)
      | (Inr True, w1) \<Rightarrow> (Inr False, w1)
      | (Inr False, w1) \<Rightarrow>
          (case takeOverCatalogFinalization C aihub cat w1 of
             (Some e, w2) \<Rightarrow> (Inl e, w2)
           | (None, w2) \<Rightarrow> (Inr False, w2)))"

definition catalog_at :: "AIHub \<Rightarrow> key" where
  "catalog_at aihub = (hs_instancesNamespace (hub_spec aihub), catalogCRName)"

definition cleanupOnDelete :: "'w hub_client \<Rightarrow> AIHub \<Rightarrow> ('w, bool) call" where
  "cleanupOnDelete C aihub w =
     (case hb_getCatalog C (catalog_at aihub) w of
        (Inl e, w1) \<Rightarrow> (if isNotFound e then Inr True else Inl (Wrapped ''getting Catalog for cleanup'' e), w1)
      | (Inr cat, w1) \<Rightarrow>
          if cat_controller cat \<noteq> Some (hub_uid aihub) then (Inr True, w1)
          else if cat_deletion cat \<noteq> None then await_catalog C aihub cat w1
          else (case hb_deleteCatalog C (cat_namespace cat, cat_name cat) w1 of
                  (deleted, w2) \<Rightarrow>
                    (case (case deleted of None \<Rightarrow> None | Some e \<Rightarrow> ignoreNotFound e) of
                       Some e \<Rightarrow> (Inl (Wrapped ''deleting Catalog'' e), w2)
                     | None \<Rightarrow>
                         (case hb_getCatalog C (catalog_at aihub) w2 of
                            (Inl e, w3) \<Rightarrow> (if isNotFound e then Inr False else Inl (Wrapped ''getting Catalog after delete'' e), w3)
                          | (Inr cat, w3) \<Rightarrow> await_catalog C aihub cat w3))))"

section \<open>Publishing the status\<close>

definition getPlatformVersion :: "'w hub_client \<Rightarrow> string \<Rightarrow> 'w \<Rightarrow> string \<times> 'w" where
  "getPlatformVersion C applicationNamespace w =
     (if \<not> hb_hasReader C then ([], w)
      else case hb_readConfigMap C (applicationNamespace, platformVersionConfigMap) w of
        (Inl e, w1) \<Rightarrow> ([], w1)
      | (Inr cm, w1) \<Rightarrow> (strval (case o_data cm of None \<Rightarrow> None | Some d \<Rightarrow> map_of d platformVersionConfigMapKey), w1))"

definition setReleaseStatus :: "'w hub_client \<Rightarrow> AIHub \<Rightarrow> 'w \<Rightarrow> ComponentRelease list \<times> 'w" where
  "setReleaseStatus C aihub w =
     (let releases = (case loadComponentReleases (hb_files C) (hb_manifests C) [''modelregistry'', ''catalog''] of
            Inl e \<Rightarrow> fallbackReleases | Inr rs \<Rightarrow> rs);
          (v, w1) = getPlatformVersion C (hs_applicationNamespace (hub_spec aihub)) w
      in (if v \<noteq> [] then releases @ [\<lparr>rl_name = hb_releasePlatform C, rl_version = v, rl_repoURL = []\<rparr>] else releases, w1))"

text \<open>One attempt to write the status to the latest version.\<close>

definition write_status :: "'w hub_client \<Rightarrow> AIHub \<Rightarrow> AIHubStatus \<Rightarrow> 'w \<Rightarrow> go_error option \<times> 'w" where
  "write_status C aihub status w =
     (case hb_getHub C (hub_name aihub) w of
        (Inl e, w1) \<Rightarrow> (ignoreNotFound e, w1)
      | (Inr latest, w1) \<Rightarrow>
          hb_updateHubStatus C (latest\<lparr>hub_status := status\<lparr>hs_observedGeneration := hub_generation aihub\<rparr>\<rparr>) w1)"

definition hub_updateStatus :: "'w hub_client \<Rightarrow> AIHub \<Rightarrow> module_condition list \<Rightarrow> 'w \<Rightarrow> go_error option \<times> 'w" where
  "hub_updateStatus C aihub cs w =
     (let (releases, w1) = setReleaseStatus C aihub w;
          cs = cm_sort (hb_manager C) cs;
          status = (hub_status aihub)\<lparr>hs_conditions := cs, hs_releases := releases,
            hs_phase := (if cm_isHappy (hb_manager C) Ready hub_dependents cs then PhaseReady else PhaseNotReady)\<rparr>
      in hb_retry C (write_status C aihub status) w1)"

section \<open>Reconcile\<close>

type_synonym 'w hub_result = "ctrl_result \<times> go_error option \<times> 'w"

text \<open>Publishing a status and asking to be called again after a while.\<close>

definition publish_and_wait :: "'w hub_client \<Rightarrow> AIHub \<Rightarrow> module_condition list \<Rightarrow> time \<Rightarrow> 'w \<Rightarrow> 'w hub_result" where
  "publish_and_wait C aihub cs delay w =
     (case hub_updateStatus C aihub cs w of
        (Some e, w1) \<Rightarrow> (no_requeue, Some e, w1)
      | (None, w1) \<Rightarrow> (no_requeue\<lparr>requeueAfter := delay\<rparr>, None, w1))"

text \<open>A provisioning step failed: its error is published, if possible, and returned.\<close>

definition provisioning_failed :: "'w hub_client \<Rightarrow> AIHub \<Rightarrow> string \<Rightarrow> string \<Rightarrow> go_error \<Rightarrow> module_condition list \<Rightarrow> 'w \<Rightarrow> 'w hub_result" where
  "provisioning_failed C aihub reason what e cs w =
     (let cs = mark_condition C ProvisioningSucceeded False DefaultSeverity reason (error_string e) cs;
          cs = mark_condition C ConditionTypeDegraded True SeverityError ''ProvisioningFailed'' (error_string e) cs
      in (no_requeue, Some (Wrapped what e), snd (hub_updateStatus C aihub cs w)))"

definition mark_degraded :: "'w hub_client \<Rightarrow> AIHub \<Rightarrow> owned_catalog \<Rightarrow> bool \<Rightarrow> module_condition list \<Rightarrow> module_condition list" where
  "mark_degraded C aihub catalog catalogFailed cs =
     (if catalogFailed
      then (case findc (hb_conds C) (st_conditions (cat_status catalog)) ConditionTypeDegraded of
              Some failure \<Rightarrow> mark_condition C ConditionTypeDegraded True DefaultSeverity (cond_reason failure)
                  (''Catalog: '' @ cond_message failure) cs
            | None \<Rightarrow> cs) \<comment> \<open>a failed Catalog has the condition\<close>
      else if hub_domain aihub = []
      then mark_condition C ConditionTypeDegraded True SeverityInfo ''GatewayDomainUnavailable''
             ''Data Science Gateway domain not yet available; external routing for model registry instances is disabled until spec.gateway.domain is set'' cs
      else mark_condition C ConditionTypeDegraded False SeverityInfo ''NoDegradation'' [] cs)"

text \<open>The last step: the Catalog's readiness decides on \<^verbatim>\<open>Degraded\<close> and on the next call.\<close>

definition conclude_hub :: "'w hub_client \<Rightarrow> AIHub \<Rightarrow> owned_catalog \<Rightarrow> module_condition list \<Rightarrow> 'w \<Rightarrow> 'w hub_result" where
  "conclude_hub C aihub catalog cs w =
     (let (catalogReady, catalogFailed, cs) = reconcileAIHubCatalogReadiness C catalog cs
      in case hub_updateStatus C aihub (mark_degraded C aihub catalog catalogFailed cs) w of
           (Some e, w1) \<Rightarrow> (no_requeue, Some e, w1)
         | (None, w1) \<Rightarrow> (if catalogReady then no_requeue else no_requeue\<lparr>requeueAfter := 15 * second\<rparr>, None, w1))"

definition provide_catalog :: "'w hub_client \<Rightarrow> AIHub \<Rightarrow> module_condition list \<Rightarrow> 'w \<Rightarrow> 'w hub_result" where
  "provide_catalog C aihub cs w =
     (case hb_setController C aihub (newCatalog C aihub) of
        Inl e \<Rightarrow> (no_requeue, Some (Wrapped ''setting Catalog owner reference'' e), w)
      | Inr wanted \<Rightarrow>
          (case ensure_catalog C wanted w of
             (Inl e, w1) \<Rightarrow> (no_requeue, Some (Wrapped ''ensuring Catalog CR'' e), w1)
           | (Inr catalog, w1) \<Rightarrow>
               (case migrateCatalogImageStreams C catalog w1 of
                  (Inl e, w2) \<Rightarrow> (no_requeue, Some (Wrapped ''migrating Catalog ImageStream selections'' e), w2)
                | (Inr catalog, w2) \<Rightarrow> conclude_hub C aihub catalog cs w2)))"

text \<open>Waiting for the Deployments of the child operators, one after the other.\<close>

fun await_children ::
  "'w hub_client \<Rightarrow> AIHub \<Rightarrow> (string \<times> string) list \<Rightarrow> module_condition list \<Rightarrow> 'w \<Rightarrow> 'w hub_result" where
  "await_children C aihub [] cs w = provide_catalog C aihub cs w"
| "await_children C aihub ((name, conditionType) # children) cs w =
     (case checkChildDeploymentReady C (hs_applicationNamespace (hub_spec aihub)) name conditionType cs w of
        (Inl e, w1) \<Rightarrow> (no_requeue, Some e, w1)
      | (Inr (ready, cs), w1) \<Rightarrow>
          if \<not> ready then publish_and_wait C aihub cs (15 * second) w1
          else await_children C aihub children
                 (mark_condition C conditionType True DefaultSeverity ''AllDeploymentsAvailable'' [] cs) w1)"

definition hub_children :: "(string \<times> string) list" where
  "hub_children = [(childDeploymentName, ConditionModelRegistryReady), (catalogDeploymentName, ConditionCatalogReady)]"

definition deploy_resources :: "'w hub_client \<Rightarrow> AIHub \<Rightarrow> unstructured list \<Rightarrow> module_condition list \<Rightarrow> 'w \<Rightarrow> 'w hub_result" where
  "deploy_resources C aihub resources cs w =
     (case hb_deploy C aihub resources w of
        (Some e, w1) \<Rightarrow> provisioning_failed C aihub ''DeployFailed'' ''deploying child operator resources'' e cs w1
      | (None, w1) \<Rightarrow>
          await_children C aihub hub_children
            (mark_condition C ProvisioningSucceeded True DefaultSeverity ''AllResourcesApplied'' [] cs) w1)"

definition with_monitor :: "'w hub_client \<Rightarrow> AIHub \<Rightarrow> unstructured list \<Rightarrow> go_error + unstructured list" where
  "with_monitor C aihub resources =
     (if \<not> hb_hasServiceMonitor C then Inr resources
      else case hb_renderMonitor C (hs_applicationNamespace (hub_spec aihub)) of
        Inl e \<Rightarrow> Inl e | Inr sm \<Rightarrow> Inr (resources @ [sm]))"

definition apply_resources :: "'w hub_client \<Rightarrow> AIHub \<Rightarrow> unstructured list \<Rightarrow> module_condition list \<Rightarrow> 'w \<Rightarrow> 'w hub_result" where
  "apply_resources C aihub resources cs w =
     (case reconcileIncompatibleSelectors C resources w of
        (Inl e, w1) \<Rightarrow> provisioning_failed C aihub ''SelectorMigrationFailed''
                         ''recreating child deployment with incompatible selector'' e cs w1
      | (Inr True, w1) \<Rightarrow>
          publish_and_wait C aihub (mark_condition C ProvisioningSucceeded False DefaultSeverity ''RecreatingDeployment''
            ''recreating child Deployment to migrate an immutable selector'' cs) (2 * second) w1
      | (Inr False, w1) \<Rightarrow>
          (case with_monitor C aihub resources of
             Inl e \<Rightarrow> provisioning_failed C aihub ''RenderFailed'' ''rendering metrics ServiceMonitor'' e cs w1
           | Inr resources \<Rightarrow> deploy_resources C aihub resources cs w1))"

definition provision :: "'w hub_client \<Rightarrow> AIHub \<Rightarrow> 'w \<Rightarrow> 'w hub_result" where
  "provision C aihub w =
     (let spec = hub_spec aihub
      in case hb_render C [hb_manifests C, ''modelregistry'', ''overlays'', ''odh''] (hs_applicationNamespace spec) of
           Inl e \<Rightarrow> (no_requeue, Some (Wrapped ''rendering model-registry manifests'' e), w)
         | Inr resources \<Rightarrow>
             (case stamp_resources (hb_converter C) (ResolveChildImages (hb_getenv C)) spec (hub_domain aihub) resources of
                Inl e \<Rightarrow> (no_requeue, Some e, w)
              | Inr resources \<Rightarrow> apply_resources C aihub resources (newAIHubConditionManager C aihub) w))"

text \<open>The instances namespace is created once, never changed and never owned.\<close>

definition ensure_namespace :: "'w hub_client \<Rightarrow> AIHubSpec \<Rightarrow> 'w \<Rightarrow> go_error option \<times> 'w" where
  "ensure_namespace C spec w =
     (let ns = hs_instancesNamespace spec
      in if ns = [] \<or> ns = hs_applicationNamespace spec then (None, w)
         else case CreateIfNotExists (kind_api (hb_cluster C) ''Namespace'') (empty_object ''Namespace'' ([], ns)) w of
           (_, None, w1) \<Rightarrow> (None, w1)
         | (_, Some e, w1) \<Rightarrow> (Some (Wrapped (''ensuring instances namespace \"'' @ ns @ ''\"'') e), w1))"

definition finalize_hub :: "'w hub_client \<Rightarrow> AIHub \<Rightarrow> 'w \<Rightarrow> 'w hub_result" where
  "finalize_hub C aihub w =
     (if aihubFinalizer \<notin> set (hub_finalizers aihub) then (no_requeue, None, w)
      else case cleanupOnDelete C aihub w of
        (Inl e, w1) \<Rightarrow> (no_requeue, Some e, w1)
      | (Inr False, w1) \<Rightarrow> (no_requeue\<lparr>requeueAfter := 5 * second\<rparr>, None, w1)
      | (Inr True, w1) \<Rightarrow>
          (case hb_updateHub C (aihub\<lparr>hub_finalizers := filter (\<lambda>f. f \<noteq> aihubFinalizer) (hub_finalizers aihub)\<rparr>) w1 of
             (Inl e, w2) \<Rightarrow> (no_requeue, Some (Wrapped ''removing finalizer'' e), w2)
           | (Inr _, w2) \<Rightarrow> (no_requeue, None, w2)))"

definition hold_hub :: "'w hub_client \<Rightarrow> AIHub \<Rightarrow> ('w, AIHub) call" where
  "hold_hub C aihub w =
     (if aihubFinalizer \<in> set (hub_finalizers aihub) then (Inr aihub, w)
      else case hb_updateHub C (aihub\<lparr>hub_finalizers := hub_finalizers aihub @ [aihubFinalizer]\<rparr>) w of
        (Inl e, w1) \<Rightarrow> (Inl (Wrapped ''adding finalizer'' e), w1)
      | (Inr aihub, w1) \<Rightarrow> (Inr aihub, w1))"

definition hub_Reconcile :: "'w hub_client \<Rightarrow> string \<Rightarrow> 'w \<Rightarrow> 'w hub_result" where
  "hub_Reconcile C req w =
     (case hb_getHub C req w of
        (Inl e, w1) \<Rightarrow> (no_requeue, ignoreNotFound e, w1)
      | (Inr aihub, w1) \<Rightarrow>
          if hub_name aihub \<noteq> aihubCRName then (no_requeue, None, w1)
          else if hub_deletion aihub \<noteq> None then finalize_hub C aihub w1
          else (case hold_hub C aihub w1 of
                  (Inl e, w2) \<Rightarrow> (no_requeue, Some e, w2)
                | (Inr aihub, w2) \<Rightarrow>
                    (case ensure_namespace C (hub_spec aihub) w2 of
                       (Some e, w3) \<Rightarrow> (no_requeue, Some e, w3)
                     | (None, w3) \<Rightarrow> provision C aihub w3)))"

section \<open>Watches\<close>

definition isPlatformConfigMap :: "object \<Rightarrow> bool" where
  "isPlatformConfigMap x = (o_name x = platformVersionConfigMap)"

definition platformConfigMapToAIHub :: "object \<Rightarrow> string list" where
  "platformConfigMapToAIHub x = (if o_name x \<noteq> platformVersionConfigMap then [] else [aihubCRName])"

section \<open>Observations\<close>

text \<open>
  An observation of the world that reads leave alone, and the writes of AIHub other than those
  to the Catalog and to its own status.
\<close>

locale hub_reads =
  fixes C :: "'w hub_client" and obs :: "'w \<Rightarrow> 'a"
  assumes hub_calls: "obs (snd (hb_getHub C n w)) = obs w" "obs (snd (hb_updateHub C h w)) = obs w"
      "obs (snd (hb_getDeployment C k w)) = obs w" "obs (snd (hb_readDeployment C k w)) = obs w"
      "obs (snd (hb_readConfigMap C k w)) = obs w" "obs (snd (hb_getCatalog C k w)) = obs w"
      "obs (snd (hb_deleteDeployment C k u w)) = obs w" "obs (snd (hb_deploy C h us w)) = obs w"
    and object_calls: "obs (snd (cl_get (hb_cluster C) kd k w)) = obs w" "obs (snd (cl_create (hb_cluster C) x w)) = obs w"
      "obs (snd (cl_delete (hb_cluster C) kd k w)) = obs w"
begin

lemma call_frame:
  "hb_getHub C n w = (a, w') \<Longrightarrow> obs w' = obs w" "hb_updateHub C h w = (a, w') \<Longrightarrow> obs w' = obs w"
  "hb_getDeployment C k w = (d, w') \<Longrightarrow> obs w' = obs w" "hb_readDeployment C k w = (d, w') \<Longrightarrow> obs w' = obs w"
  "hb_readConfigMap C k w = (x, w') \<Longrightarrow> obs w' = obs w" "hb_getCatalog C k w = (c, w') \<Longrightarrow> obs w' = obs w"
  "hb_deleteDeployment C k u w = (e, w') \<Longrightarrow> obs w' = obs w" "hb_deploy C h us w = (e, w') \<Longrightarrow> obs w' = obs w"
  using hub_calls(1)[of n w] hub_calls(2)[of h w] hub_calls(3)[of k w] hub_calls(4)[of k w] hub_calls(5)[of k w]
    hub_calls(6)[of k w] hub_calls(7)[of k u w] hub_calls(8)[of h us w] by auto

lemma live_frame: "live_deployment C k w = (a, w') \<Longrightarrow> obs w' = obs w"
  by (auto simp: live_deployment_def split: prod.splits sum.splits if_splits dest!: call_frame)

lemma selector_step_frame: "selector_step C u w = (a, w') \<Longrightarrow> obs w' = obs w"
  by (auto simp: selector_step_def recreate_deployment_def split: prod.splits sum.splits option.splits if_splits
      dest!: call_frame live_frame)

lemma selector_loop_frame: "selector_loop C us p w = (a, w') \<Longrightarrow> obs w' = obs w"
proof (induction us arbitrary: p w)
  case (Cons u us)
  then show ?case by (auto split: prod.splits sum.splits dest!: selector_step_frame)
qed simp

lemma check_frame: "checkChildDeploymentReady C ns n t cs w = (a, w') \<Longrightarrow> obs w' = obs w"
  by (auto simp: checkChildDeploymentReady_def split: prod.splits sum.splits if_splits dest!: call_frame)

lemma hold_frame: "hold_hub C h w = (a, w') \<Longrightarrow> obs w' = obs w"
  by (auto simp: hold_hub_def split: prod.splits sum.splits if_splits dest!: call_frame)

lemma namespace_frame: "ensure_namespace C spec w = (a, w') \<Longrightarrow> obs w' = obs w"
proof -
  assume e: "ensure_namespace C spec w = (a, w')"
  have "obs (snd (snd (CreateIfNotExists (kind_api (hb_cluster C) k) x v))) = obs v" for k x v
  proof -
    obtain a v1 where g: "cl_get (hb_cluster C) k (object_key x) v = (a, v1)" by fastforce
    then have "obs v1 = obs v" using object_calls(1)[of k "object_key x" v] by simp
    then show ?thesis using object_calls(2)
      by (simp add: CreateIfNotExists_def kind_api_def annotate_then_def g split: sum.split)
  qed
  from this[of "''Namespace''" "empty_object ''Namespace'' ([], hs_instancesNamespace spec)" w] show "obs w' = obs w"
    using e by (auto simp: ensure_namespace_def Let_def split: prod.splits option.splits if_splits)
qed

lemma delete_all_frame: "delete_all C xs w = (e, w') \<Longrightarrow> obs w' = obs w"
proof (induction xs arbitrary: w)
  case (Cons x xs)
  obtain what k n where x: "x = (what, k, n)" by (metis prod_cases3)
  obtain d w1 where d: "deleteIgnoringMissing C k n w = (d, w1)" by fastforce
  then have "obs w1 = obs w" using object_calls(3)[of k n w] by (auto simp: deleteIgnoringMissing_def split: prod.splits option.splits)
  then show ?case using Cons x d by (auto split: option.splits)
qed simp

lemma can_finalize_frame: "catalogOperatorCanFinalize C ns w = (a, w') \<Longrightarrow> obs w' = obs w"
  by (auto simp: catalogOperatorCanFinalize_def split: prod.splits sum.splits if_splits dest!: call_frame)

lemma version_frame: "getPlatformVersion C ns w = (a, w') \<Longrightarrow> obs w' = obs w"
  by (auto simp: getPlatformVersion_def split: prod.splits sum.splits if_splits dest!: call_frame)

lemma release_frame: "setReleaseStatus C h w = (a, w') \<Longrightarrow> obs w' = obs w"
  by (auto simp: setReleaseStatus_def Let_def split: prod.splits dest!: version_frame)

end

text \<open>The wait for the children ends early: with an error, or with a child that is not ready.\<close>

definition child_stop :: "'w hub_client \<Rightarrow> AIHub \<Rightarrow> string set \<Rightarrow> 'w hub_result \<Rightarrow> 'w \<Rightarrow> bool" where
  "child_stop C h ts r v = ((\<exists>e. r = (no_requeue, Some e, v))
     \<or> (\<exists>t \<in> ts. \<exists>m cs. r = publish_and_wait C h (not_ready C t m cs) (15 * second) v))"

lemma child_stop_more: "child_stop C h ts r v \<Longrightarrow> child_stop C h (insert t ts) r v"
  by (auto simp: child_stop_def)

context hub_reads
begin

text \<open>Everything before the Catalog: the objects are applied and every child Deployment is seen available.\<close>

lemma children_seen:
  assumes "await_children C h children cs w = r"
  obtains (stopped) "\<exists>v. obs v = obs w \<and> child_stop C h (snd ` set children) r v"
  | (passed) cs' v where "r = provide_catalog C h cs' v" "obs v = obs w"
      "\<forall>n \<in> fst ` set children. \<exists>u d u'. hb_getDeployment C (hs_applicationNamespace (hub_spec h), n) u = (Inr d, u') \<and> isDeploymentAvailable d"
  using assms
proof (induction children arbitrary: cs w thesis)
  case Nil
  show ?case by (rule Nil.prems(2)[of cs w]) (use Nil.prems(3) in simp_all)
next
  case (Cons x children)
  obtain n t where x: "x = (n, t)" by fastforce
  obtain a w1 where c: "checkChildDeploymentReady C (hs_applicationNamespace (hub_spec h)) n t cs w = (a, w1)" by fastforce
  note o1 = check_frame[OF c]
  show ?case
  proof (cases a)
    case (Inl e)
    then have "child_stop C h (snd ` set (x # children)) r w1" using Cons.prems(3) c x by (auto simp: child_stop_def)
    then show ?thesis using o1 by (intro Cons.prems(1)) blast
  next
    case (Inr y)
    obtain ready cs1 where y: "y = (ready, cs1)" by fastforce
    show ?thesis
    proof (cases ready)
      case False
      then obtain m where "cs1 = not_ready C t m cs"
        using c Inr y by (auto simp: checkChildDeploymentReady_def split: prod.splits sum.splits if_splits)
      then have "r = publish_and_wait C h (not_ready C t m cs) (15 * second) w1" using Cons.prems(3) c x Inr y False by simp
      moreover have "t \<in> snd ` set (x # children)" using x by simp
      ultimately have "child_stop C h (snd ` set (x # children)) r w1" unfolding child_stop_def by blast
      then show ?thesis using o1 by (intro Cons.prems(1)) blast
    next
      case True
      then obtain d where d: "hb_getDeployment C (hs_applicationNamespace (hub_spec h), n) w = (Inr d, w1)" "isDeploymentAvailable d"
        using c Inr y by (auto simp: checkChildDeploymentReady_def split: prod.splits sum.splits if_splits)
      have rest: "await_children C h children (mark_condition C t True DefaultSeverity ''AllDeploymentsAvailable'' [] cs1) w1 = r"
        using Cons.prems(3) c x Inr y True by simp
      show ?thesis
      proof (rule Cons.IH[OF _ _ rest])
        assume "\<exists>v. obs v = obs w1 \<and> child_stop C h (snd ` set children) r v"
        then obtain v where "obs v = obs w" "child_stop C h (snd ` set children) r v" using o1 by auto
        then show ?thesis using child_stop_more[of C h "snd ` set children" r v t] x by (intro Cons.prems(1)) auto
      next
        fix cs' v
        assume "r = provide_catalog C h cs' v" "obs v = obs w1" "\<forall>n \<in> fst ` set children. \<exists>u d u'.
          hb_getDeployment C (hs_applicationNamespace (hub_spec h), n) u = (Inr d, u') \<and> isDeploymentAvailable d"
        then show ?thesis by (intro Cons.prems(2)[of cs' v]) (use o1 d x in \<open>auto simp del: split_paired_Ex\<close>)
      qed
    qed
  qed
qed

end

text \<open>
  The condition manager: a mark sets its own condition and leaves the others, apart from the
  happy one; a mark of a dependent leaves a happy resource only with all dependents true, and
  no other mark makes a resource happy that was not.
\<close>

definition status_of :: "module_condition list \<Rightarrow> string \<Rightarrow> string option" where
  "status_of cs t = map_option mc_status (find (\<lambda>c. mc_type c = t) cs)"

locale condition_manager =
  fixes M :: manager_api
  assumes mark_status: "t \<noteq> h \<Longrightarrow> status_of (cm_mark M h ds t b m cs) t = Some (if b then ConditionTrue else ConditionFalse)"
    and mark_other: "t' \<noteq> t \<Longrightarrow> t' \<noteq> h \<Longrightarrow> status_of (cm_mark M h ds t b m cs) t' = status_of cs t'"
    and happy_dependent: "t \<in> set ds \<Longrightarrow> t \<noteq> h \<Longrightarrow> cm_isHappy M h ds (cm_mark M h ds t b m cs) \<Longrightarrow>
        d \<in> set ds \<Longrightarrow> status_of (cm_mark M h ds t b m cs) d = Some ConditionTrue"
    and happy_other: "t \<notin> set ds \<Longrightarrow> t \<noteq> h \<Longrightarrow> cm_isHappy M h ds (cm_mark M h ds t b m cs) \<Longrightarrow> cm_isHappy M h ds cs"
    and sort_status: "status_of (cm_sort M cs) t = status_of cs t"
    and sort_happy: "cm_isHappy M h ds (cm_sort M cs) = cm_isHappy M h ds cs"

text \<open>The world as far as the published status goes: only a status update changes it.\<close>

inductive conflicts :: "('w \<Rightarrow> go_error option \<times> 'w) \<Rightarrow> 'w \<Rightarrow> 'w \<Rightarrow> bool" for f where
  none: "conflicts f w w"
| again: "f w = (Some e, v) \<Longrightarrow> is_kind Conflict e \<Longrightarrow> conflicts f v u \<Longrightarrow> conflicts f w u"

lemma conflicts_frame:
  assumes "conflicts f w v" and "\<And>u e u'. f u = (Some e, u') \<Longrightarrow> P u u'" and "\<And>u. P u u" and "\<And>a b c. P a b \<Longrightarrow> P b c \<Longrightarrow> P a c"
  shows "P w v"
  using assms(1) by induction (use assms(2-4) in blast)+

locale status_observer = hub_reads C published for C :: "'w hub_client" and published :: "'w \<Rightarrow> AIHubStatus" +
  assumes catalog_calls: "published (snd (hb_createCatalog C c w)) = published w" "published (snd (hb_patchCatalog C b c w)) = published w"
      "published (snd (hb_updateCatalog C c w)) = published w" "published (snd (hb_deleteCatalog C k w)) = published w"
    and status_calls: "hb_updateHubStatus C h w = (None, w') \<Longrightarrow> published w' = hub_status h"
      "hb_updateHubStatus C h w = (Some e, w') \<Longrightarrow> published w' = published w"
    and retried: "\<exists>v. conflicts f w v \<and> hb_retry C f w = f v"
    and manager: "condition_manager (hb_manager C)"
begin

lemmas mark_laws = condition_manager.mark_status[OF manager] condition_manager.mark_other[OF manager]
  condition_manager.happy_dependent[OF manager] condition_manager.happy_other[OF manager]
  condition_manager.sort_status[OF manager] condition_manager.sort_happy[OF manager]

lemma write_status_published:
  assumes "write_status C h st w = (e, w')" and "published w' \<noteq> published w"
  shows "e = None \<and> published w' = st\<lparr>hs_observedGeneration := hub_generation h\<rparr>"
proof -
  obtain a w1 where g: "hb_getHub C (hub_name h) w = (a, w1)" by fastforce
  then have o1: "published w1 = published w" by (rule call_frame)
  obtain latest where l: "a = Inr latest" using assms g o1 by (cases a) (auto simp: write_status_def)
  let ?n = "latest\<lparr>hub_status := st\<lparr>hs_observedGeneration := hub_generation h\<rparr>\<rparr>"
  have u: "hb_updateHubStatus C ?n w1 = (e, w')" using assms(1) g l by (simp add: write_status_def)
  show ?thesis
  proof (cases e)
    case None
    then show ?thesis using status_calls(1)[of ?n w1 w'] u by simp
  next
    case (Some x)
    then have "published w' = published w1" using status_calls(2)[of ?n w1 x w'] u by simp
    then show ?thesis using assms(2) o1 by simp
  qed
qed

lemma update_status_published:
  assumes "hub_updateStatus C h cs w = (e, w')" and "published w' \<noteq> published w"
  shows "hs_phase (published w') = (if cm_isHappy (hb_manager C) Ready hub_dependents cs then PhaseReady else PhaseNotReady)
    \<and> hs_observedGeneration (published w') = hub_generation h"
proof -
  obtain rs w1 where r: "setReleaseStatus C h w = (rs, w1)" by fastforce
  note o1 = release_frame[OF r]
  define st where "st = (hub_status h)\<lparr>hs_conditions := cm_sort (hb_manager C) cs, hs_releases := rs,
    hs_phase := (if cm_isHappy (hb_manager C) Ready hub_dependents (cm_sort (hb_manager C) cs) then PhaseReady else PhaseNotReady)\<rparr>"
  have t: "hb_retry C (write_status C h st) w1 = (e, w')" using assms(1) by (simp add: hub_updateStatus_def r st_def Let_def)
  obtain v where v: "conflicts (write_status C h st) w1 v" "write_status C h st v = (e, w')"
    using retried[of "write_status C h st" w1] t by auto
  have "published v = published w1"
    using v(1) by (rule conflicts_frame) (use write_status_published in \<open>fastforce+\<close>)
  then have "published w' = st\<lparr>hs_observedGeneration := hub_generation h\<rparr>"
    using write_status_published[OF v(2)] assms(2) o1 by simp
  then show ?thesis by (simp add: st_def mark_laws(6))
qed

lemma publish_and_wait_published:
  "publish_and_wait C h cs delay w = (r, e, w') \<Longrightarrow> \<exists>e. hub_updateStatus C h cs w = (e, w')"
  by (auto simp: publish_and_wait_def split: prod.splits option.splits)

text \<open>A dependent that was just marked false keeps the resource from being happy.\<close>

lemma unhappy:
  "t \<in> set hub_dependents \<Longrightarrow> \<not> cm_isHappy (hb_manager C) Ready hub_dependents (mark_condition C t False sv r m cs)"
  "t \<in> set hub_dependents \<Longrightarrow> \<not> cm_isHappy (hb_manager C) Ready hub_dependents
     (mark_condition C ConditionTypeDegraded b sv2 r2 m2 (mark_condition C t False sv r m cs))"
proof -
  assume t: "t \<in> set hub_dependents"
  have h: "Ready \<notin> set hub_dependents" "ConditionTypeDegraded \<notin> set hub_dependents" "ConditionTypeDegraded \<noteq> Ready"
    by (simp_all add: hub_dependents_def Ready_def ConditionTypeDegraded_def ProvisioningSucceeded_def ConditionModelRegistryReady_def
        ConditionCatalogReady_def ConditionCatalogDataReady_def)
  have n: "t \<noteq> Ready" using t h by blast
  show *: "\<not> cm_isHappy (hb_manager C) Ready hub_dependents (mark_condition C t False sv r m cs)"
    using mark_laws(1)[OF n, where b=False] mark_laws(3)[OF t n _ t, where b=False]
    by (auto simp: mark_condition_def)
  show "\<not> cm_isHappy (hb_manager C) Ready hub_dependents
     (mark_condition C ConditionTypeDegraded b sv2 r2 m2 (mark_condition C t False sv r m cs))"
    using mark_laws(4)[OF h(2,3)] * unfolding mark_condition_def by blast
qed

text \<open>Only the last step can publish a happy status, and only with a ready Catalog.\<close>

lemma failed_not_ready:
  assumes "provisioning_failed C h reason what x cs w = (res, e, w')" and "published w' \<noteq> published w"
  shows "hs_phase (published w') = PhaseNotReady"
proof -
  let ?cs = "mark_condition C ConditionTypeDegraded True SeverityError ''ProvisioningFailed'' (error_string x)
      (mark_condition C ProvisioningSucceeded False DefaultSeverity reason (error_string x) cs)"
  obtain e' where "hub_updateStatus C h ?cs w = (e', w')"
    using assms(1) by (cases "hub_updateStatus C h ?cs w") (auto simp: provisioning_failed_def Let_def)
  from update_status_published[OF this assms(2)] show ?thesis
    using unhappy(2)[of ProvisioningSucceeded] by (simp add: hub_dependents_def)
qed

lemma wait_not_ready:
  assumes "publish_and_wait C h cs delay w = (res, e, w')" and "published w' \<noteq> published w"
    and "\<not> cm_isHappy (hb_manager C) Ready hub_dependents cs"
  shows "hs_phase (published w') = PhaseNotReady"
proof -
  obtain e' where "hub_updateStatus C h cs w = (e', w')" using publish_and_wait_published[OF assms(1)] by blast
  from update_status_published[OF this assms(2)] assms(3) show ?thesis by simp
qed

lemma stop_not_ready:
  assumes "child_stop C h (snd ` set hub_children) (res, e, w') v" and "published w' \<noteq> published v"
  shows "hs_phase (published w') = PhaseNotReady"
proof -
  obtain t m cs where t: "t \<in> snd ` set hub_children" "publish_and_wait C h (not_ready C t m cs) (15 * second) v = (res, e, w')"
    using assms unfolding child_stop_def by fastforce
  have "t \<in> set hub_dependents" using t(1) by (auto simp: hub_children_def hub_dependents_def)
  from unhappy(2)[OF this] show ?thesis by (intro wait_not_ready[OF t(2) assms(2)]) (simp add: not_ready_def)
qed

lemma release_catalog_frame: "release_catalog C k w = (e, w') \<Longrightarrow> published w' = published w"
proof -
  assume r: "release_catalog C k w = (e, w')"
  obtain a w1 where a: "hb_getCatalog C k w = (a, w1)" by fastforce
  have "published (snd (hb_updateCatalog C c w1)) = published w" for c using call_frame(6)[OF a] catalog_calls(3)[of c w1] by simp
  then show ?thesis using r call_frame(6)[OF a]
    by (auto simp: release_catalog_def a split: sum.splits if_splits) (metis snd_conv)
qed

lemma take_over_frame: "takeOverCatalogFinalization C h c w = (e, w') \<Longrightarrow> published w' = published w"
proof -
  assume t: "takeOverCatalogFinalization C h c w = (e, w')"
  let ?f = "release_catalog C (cat_namespace c, cat_name c)"
  have r: "published w2 = published w1" if "hb_retry C ?f w1 = (x, w2)" for x w1 w2
  proof -
    obtain v where v: "conflicts ?f w1 v" "?f v = (x, w2)" using retried[of ?f w1] \<open>hb_retry C ?f w1 = (x, w2)\<close> by auto
    have "published v = published w1"
      using v(1) by (rule conflicts_frame) (use release_catalog_frame in \<open>fastforce+\<close>)
    then show ?thesis using release_catalog_frame[OF v(2)] by simp
  qed
  show ?thesis using t unfolding takeOverCatalogFinalization_def
    by (auto simp del: delete_all.simps split: prod.splits option.splits dest!: delete_all_frame r)
qed

lemma await_catalog_frame: "await_catalog C h c w = (a, w') \<Longrightarrow> published w' = published w"
  by (auto simp: await_catalog_def split: prod.splits sum.splits bool.splits option.splits if_splits
      dest!: can_finalize_frame take_over_frame)

lemma finalize_frame: "finalize_hub C h w = (r, e, w') \<Longrightarrow> published w' = published w"
proof -
  have d: "hb_deleteCatalog C k v = (x, v') \<Longrightarrow> published v' = published v" for k v x v'
    using catalog_calls(4)[of k v] by simp
  have "cleanupOnDelete C h v = (a, v') \<Longrightarrow> published v' = published v" for a v v'
    by (auto simp: cleanupOnDelete_def split: prod.splits sum.splits option.splits if_splits
        dest!: call_frame await_catalog_frame d)
  then show "finalize_hub C h w = (r, e, w') \<Longrightarrow> published w' = published w"
    by (auto simp: finalize_hub_def split: prod.splits sum.splits bool.splits if_splits dest!: call_frame)
qed

lemma migrate_frame: "migrateCatalogImageStreams C c w = (a, w') \<Longrightarrow> published w' = published w"
  using catalog_calls(2)[of c "select_stable c" w] by (auto simp: migrateCatalogImageStreams_def split: if_splits)

lemma ensure_catalog_frame: "ensure_catalog C c w = (a, w') \<Longrightarrow> published w' = published w"
proof -
  assume e: "ensure_catalog C c w = (a, w')"
  obtain b w1 where g: "hb_getCatalog C (cat_namespace c, cat_name c) w = (b, w1)" by fastforce
  then have "published w1 = published w" by (rule call_frame)
  then show ?thesis using e g catalog_calls(1)[of _ w1]
    by (auto simp: ensure_catalog_def split: sum.splits if_splits) (metis snd_conv)
qed

lemma readiness_unhappy:
  assumes "reconcileAIHubCatalogReadiness C c cs = (False, failed, cs')"
  shows "\<exists>r m. cs' = mark_condition C ConditionCatalogDataReady False DefaultSeverity r m cs"
  using assms by (auto simp: reconcileAIHubCatalogReadiness_def Let_def split: option.splits if_splits)

lemma readiness_ready:
  assumes "reconcileAIHubCatalogReadiness C c cs = (True, failed, cs')"
  shows "\<not> catalog_degraded (hb_conds C) c \<and> (\<exists>r. findc (hb_conds C) (st_conditions (cat_status c)) conditionCatalogReady = Some r
    \<and> cond_observedGeneration r = cat_generation c \<and> cond_status r = ConditionTrue)"
  using assms by (auto simp: reconcileAIHubCatalogReadiness_def Let_def split: option.splits if_splits)

lemma conclude_published:
  assumes "conclude_hub C h catalog cs w = (res, e, w')" and "published w' \<noteq> published w"
    and "hs_phase (published w') = PhaseReady"
  shows "\<not> catalog_degraded (hb_conds C) catalog
    \<and> (\<exists>r. findc (hb_conds C) (st_conditions (cat_status catalog)) conditionCatalogReady = Some r
      \<and> cond_observedGeneration r = cat_generation catalog \<and> cond_status r = ConditionTrue)
    \<and> hs_observedGeneration (published w') = hub_generation h"
proof -
  obtain ready failed cs1 where r: "reconcileAIHubCatalogReadiness C catalog cs = (ready, failed, cs1)" by (metis prod_cases3)
  let ?cs = "mark_degraded C h catalog failed cs1"
  have c: "\<exists>e'. hub_updateStatus C h ?cs w = (e', w')"
    using assms(1) by (auto simp: conclude_hub_def r split: prod.splits option.splits)
  have p: "cm_isHappy (hb_manager C) Ready hub_dependents ?cs" "hs_observedGeneration (published w') = hub_generation h"
    using update_status_published[OF _ assms(2), of h ?cs] c assms(3) by (auto split: if_splits)
  have "ready"
  proof (rule ccontr)
    assume "\<not> ready"
    then obtain r m where "cs1 = mark_condition C ConditionCatalogDataReady False DefaultSeverity r m cs"
      using readiness_unhappy[of catalog cs failed cs1] r by auto
    then show False using p(1) unhappy[of ConditionCatalogDataReady]
      by (auto simp: hub_dependents_def mark_degraded_def split: option.splits if_splits)
  qed
  then show ?thesis using readiness_ready[of catalog cs failed cs1] r p(2) by simp
qed

lemma provide_published:
  assumes "provide_catalog C h cs w = (res, e, w')" and "published w' \<noteq> published w"
    and "hs_phase (published w') = PhaseReady"
  shows "\<exists>c0 c u u'. migrateCatalogImageStreams C c0 u = (Inr c, u') \<and> \<not> catalog_degraded (hb_conds C) c
    \<and> (\<exists>r. findc (hb_conds C) (st_conditions (cat_status c)) conditionCatalogReady = Some r
      \<and> cond_observedGeneration r = cat_generation c \<and> cond_status r = ConditionTrue)
    \<and> hs_observedGeneration (published w') = hub_generation h"
proof -
  obtain wanted where n: "hb_setController C h (newCatalog C h) = Inr wanted"
    using assms by (auto simp: provide_catalog_def split: sum.splits)
  obtain a w1 where a: "ensure_catalog C wanted w = (a, w1)" by fastforce
  note o1 = ensure_catalog_frame[OF a]
  obtain c0 where c0: "a = Inr c0" using assms(1,2) a n o1 by (cases a) (auto simp: provide_catalog_def)
  obtain b w2 where b: "migrateCatalogImageStreams C c0 w1 = (b, w2)" by fastforce
  note o2 = migrate_frame[OF b]
  obtain c where c: "b = Inr c" using assms(1,2) a n o1 o2 c0 b by (cases b) (auto simp: provide_catalog_def)
  have "conclude_hub C h c cs w2 = (res, e, w')" using assms(1) a n c0 b c by (simp add: provide_catalog_def)
  from conclude_published[OF this _ assms(3)] show ?thesis using b c o1 o2 assms(2)
    by (intro exI[of _ c0] exI[of _ c] exI[of _ w1] exI[of _ w2]) simp
qed

lemma apply_published:
  assumes "apply_resources C h resources cs w = (res, e, w')" and "published w' \<noteq> published w"
    and "hs_phase (published w') = PhaseReady"
  shows "\<exists>rs cs' v v' u. hb_deploy C h rs v = (None, v') \<and> provide_catalog C h cs' u = (res, e, w') \<and> published u = published w
    \<and> (\<forall>n \<in> fst ` set hub_children. \<exists>u d u'. hb_getDeployment C (hs_applicationNamespace (hub_spec h), n) u = (Inr d, u') \<and> isDeploymentAvailable d)"
proof -
  obtain a w1 where a: "reconcileIncompatibleSelectors C resources w = (a, w1)" by fastforce
  then have o1: "published w1 = published w" by (auto simp: reconcileIncompatibleSelectors_def dest!: selector_loop_frame)
  have s: "a = Inr False"
  proof (rule ccontr)
    assume "a \<noteq> Inr False"
    then have "hs_phase (published w') = PhaseNotReady"
      using assms(1,2) a o1 failed_not_ready[of h _ _ _ cs w1 res e w'] unhappy(1)[of ProvisioningSucceeded]
        wait_not_ready[of h "mark_condition C ProvisioningSucceeded False DefaultSeverity ''RecreatingDeployment''
            ''recreating child Deployment to migrate an immutable selector'' cs" _ w1 res e w']
      by (auto simp: apply_resources_def hub_dependents_def split: sum.splits bool.splits)
    then show False using assms(3) by simp
  qed
  obtain rs where rs: "with_monitor C h resources = Inr rs"
    using assms a s o1 failed_not_ready[of h _ _ _ cs w1 res e w']
    by (cases "with_monitor C h resources") (auto simp: apply_resources_def)
  have d: "deploy_resources C h rs cs w1 = (res, e, w')" using assms(1) a s rs by (simp add: apply_resources_def)
  obtain x w2 where x: "hb_deploy C h rs w1 = (x, w2)" by fastforce
  note o2 = call_frame(8)[OF x]
  have x': "x = None"
    using assms(2,3) d x o1 o2 failed_not_ready[of h _ _ _ cs w2 res e w'] by (cases x) (auto simp: deploy_resources_def)
  let ?cs = "mark_condition C ProvisioningSucceeded True DefaultSeverity ''AllResourcesApplied'' [] cs"
  have aw: "await_children C h hub_children ?cs w2 = (res, e, w')" using d x x' by (simp add: deploy_resources_def)
  show ?thesis
  proof (rule children_seen[OF aw])
    assume "\<exists>v. published v = published w2 \<and> child_stop C h (snd ` set hub_children) (res, e, w') v"
    then show ?thesis using stop_not_ready assms(2,3) o1 o2 by auto
  next
    fix cs' v
    assume "(res, e, w') = provide_catalog C h cs' v" "published v = published w2" "\<forall>n \<in> fst ` set hub_children.
      \<exists>u d u'. hb_getDeployment C (hs_applicationNamespace (hub_spec h), n) u = (Inr d, u') \<and> isDeploymentAvailable d"
    then show ?thesis using x x' o1 o2 by (intro exI[of _ rs] exI[of _ cs'] exI[of _ w1] exI[of _ w2] exI[of _ v]) auto
  qed
qed

lemma reconcile_published:
  assumes "hub_Reconcile C req w = (res, e, w')" and "published w' \<noteq> published w"
  obtains h rs v where "apply_resources C h rs (newAIHubConditionManager C h) v = (res, e, w')" "published v = published w"
proof -
  obtain a w1 where a: "hb_getHub C req w = (a, w1)" by fastforce
  note o1 = call_frame(1)[OF a]
  obtain h0 where h0: "a = Inr h0" using assms a o1 by (cases a) (auto simp: hub_Reconcile_def)
  have fin: "published w2 = published w1" if "finalize_hub C h0 w1 = (r, e', w2)" for r e' w2
    using finalize_frame[OF that] .
  obtain b w2 where b: "hold_hub C h0 w1 = (b, w2)" by fastforce
  note o2 = hold_frame[OF b]
  have live: "hub_name h0 = aihubCRName" "hub_deletion h0 = None" using assms a h0 o1 fin
    by (auto simp: hub_Reconcile_def split: if_splits)
  obtain h where h: "b = Inr h" using assms a h0 o1 o2 b live by (cases b) (auto simp: hub_Reconcile_def)
  obtain x w3 where x: "ensure_namespace C (hub_spec h) w2 = (x, w3)" by fastforce
  note o3 = namespace_frame[OF x]
  have p: "provision C h w3 = (res, e, w')"
    using assms a h0 o1 o2 o3 b live h x by (cases x) (auto simp: hub_Reconcile_def)
  then obtain rs where "apply_resources C h rs (newAIHubConditionManager C h) w3 = (res, e, w')"
    using assms(2) o1 o2 o3 by (auto simp: provision_def Let_def split: sum.splits)
  then show thesis using that o1 o2 o3 by simp
qed

end

section \<open>Theorems\<close>


text \<open>Two maps given by their entries are equal as maps.\<close>

lemma maps_equal_map_of:
  assumes "maps_equal a b" and "distinct (map fst a)" and "distinct (map fst b)"
  shows "map_of a = map_of b"
proof -
  have "set a \<subseteq> set b" using assms(1) by (auto simp: maps_equal_def list_all_iff dest: map_of_SomeD)
  moreover have "card (set a) = card (set b)"
    using assms by (simp add: maps_equal_def distinct_map distinct_card)
  ultimately have "set a = set b" by (simp add: card_subset_eq)
  then show ?thesis using assms(2,3) by (intro map_of_inject_set[THEN iffD2])
qed

lemma selector_step_settled:
  assumes "selector_step C u w = (Inr False, w')" and "u_kind u = ''Deployment''" and "u_matchLabels u = Inr (Some sel)" and "sel \<noteq> []"
  shows "live_deployment C (u_namespace u, u_name u) w = (Inr None, w')
    \<or> (\<exists>live. live_deployment C (u_namespace u, u_name u) w = (Inr (Some live), w') \<and> cd_deletion live = None
        \<and> (\<forall>m. cd_selector live = Some m \<longrightarrow> maps_equal m sel))"
  using assms by (auto simp: selector_step_def recreate_deployment_def split: prod.splits sum.splits option.splits if_splits)

lemma selector_loop_settled:
  "selector_loop C us p w = (Inr False, w') \<Longrightarrow> u \<in> set us \<Longrightarrow> \<exists>v v'. selector_step C u v = (Inr False, v')"
proof (induction us arbitrary: p w)
  case (Cons x us)
  obtain a w1 where a: "selector_step C x w = (a, w1)" by fastforce
  obtain q where q: "a = Inr q" using Cons.prems(1) a by (cases a) auto
  have l: "selector_loop C us (p \<or> q) w1 = (Inr False, w')" using Cons.prems(1) a q by simp
  have mono: "selector_loop C vs True v = (Inr False, v') \<Longrightarrow> False" for vs v v'
    by (induction vs arbitrary: v) (auto split: prod.splits sum.splits)
  have "\<not> q" using l mono by (cases q) auto
  then show ?case using Cons.IH[OF l] Cons.prems(2) a q by auto
qed simp


text \<open>
  C26: only a Deployment that must be recreated is deleted. Whenever the migration of selectors
  changes the cluster, it did so by deleting a live Deployment of a rendered one, read in this
  pass, not yet being deleted, with a selector different from the rendered one, under its name
  and bound to its UID, so that a Deployment that was recreated meanwhile survives.
\<close>

theorem selector_deletion_justified:
  assumes "\<And>k v. obs (snd (hb_getDeployment C k v)) = obs v" and "\<And>k v. obs (snd (hb_readDeployment C k v)) = obs v"
    and "reconcileIncompatibleSelectors C resources w = (a, w')" and "obs w' \<noteq> obs w"
  shows "\<exists>u sel live m v v'. u \<in> set resources \<and> u_kind u = ''Deployment'' \<and> u_matchLabels u = Inr (Some sel) \<and> sel \<noteq> []
    \<and> live_deployment C (u_namespace u, u_name u) v' = (Inr (Some live), v) \<and> cd_deletion live = None
    \<and> cd_selector live = Some m \<and> \<not> maps_equal m sel
    \<and> obs (snd (hb_deleteDeployment C (cd_namespace live, cd_name live) (cd_uid live) v)) \<noteq> obs v"
proof -
  have get: "hb_getDeployment C k v = (d, v') \<Longrightarrow> obs v' = obs v" "hb_readDeployment C k v = (d, v') \<Longrightarrow> obs v' = obs v" for k v d v'
    using assms(1)[of k v] assms(2)[of k v] by simp_all
  have live: "live_deployment C k v = (x, v') \<Longrightarrow> obs v' = obs v" for k v x v'
    by (auto simp: live_deployment_def split: prod.splits sum.splits if_splits dest!: get)
  have step: "\<exists>sel live m v v'. u_kind u = ''Deployment'' \<and> u_matchLabels u = Inr (Some sel) \<and> sel \<noteq> []
    \<and> live_deployment C (u_namespace u, u_name u) v' = (Inr (Some live), v) \<and> cd_deletion live = None
    \<and> cd_selector live = Some m \<and> \<not> maps_equal m sel
    \<and> obs (snd (hb_deleteDeployment C (cd_namespace live, cd_name live) (cd_uid live) v)) \<noteq> obs v"
    if ch: "selector_step C u v = (x, v1)" "obs v1 \<noteq> obs v" for u v x v1
  proof -
    have k: "u_kind u = ''Deployment''" using ch by (auto simp: selector_step_def split: if_splits)
    obtain sel where sel: "u_matchLabels u = Inr (Some sel)" "sel \<noteq> []"
      using ch k by (auto simp: selector_step_def split: sum.splits option.splits if_splits)
    obtain y v2 where y: "live_deployment C (u_namespace u, u_name u) v = (y, v2)" by fastforce
    obtain d m where d: "y = Inr (Some d)" "cd_deletion d = None" "cd_selector d = Some m" "\<not> maps_equal m sel"
        "recreate_deployment C (u_namespace u, u_name u) d v2 = (x, v1)"
      using ch k sel y live[OF y] by (auto simp: selector_step_def split: sum.splits option.splits if_splits)
    have "v1 = snd (hb_deleteDeployment C (cd_namespace d, cd_name d) (cd_uid d) v2)"
      using d(5) by (auto simp: recreate_deployment_def split: prod.splits option.splits if_splits)
    then have "obs (snd (hb_deleteDeployment C (cd_namespace d, cd_name d) (cd_uid d) v2)) \<noteq> obs v2" using ch(2) live[OF y] by simp
    then show ?thesis using k sel y d by blast
  qed
  have "\<exists>u \<in> set us. \<exists>x v v1. selector_step C u v = (x, v1) \<and> obs v1 \<noteq> obs v"
    if "selector_loop C us p v = (b, v2)" "obs v2 \<noteq> obs v" for us p v b v2
    using that
  proof (induction us arbitrary: p v)
    case (Cons y us)
    obtain x v1 where x: "selector_step C y v = (x, v1)" by fastforce
    show ?case
    proof (cases "obs v1 = obs v")
      case True
      then show ?thesis using Cons x by (cases x) force+
    next
      case False
      then show ?thesis using x by auto
    qed
  qed simp
  then obtain u x v v1 where "u \<in> set resources" "selector_step C u v = (x, v1)" "obs v1 \<noteq> obs v"
    using assms(3,4) unfolding reconcileIncompatibleSelectors_def by blast
  then show ?thesis using step by blast
qed

end
