(* ===== verification/AIHub_Teardown.thy ===== *)
theory AIHub_Teardown
  imports AIHub_Reconcile
begin

text \<open>
  The teardown of AIHub: the finalizer of AIHub outlives the Catalog, and the teardown ends even
  when the Catalog's own operator is gone; and the one-time move of a Catalog to ImageStreams.
\<close>

section \<open>The finalizer\<close>

text \<open>An observation that only an update of the AIHub changes, such as its finalizers.\<close>

locale hub_object_observer =
  fixes C :: "'w hub_client" and obs :: "'w \<Rightarrow> 'a"
  assumes other_calls: "obs (snd (hb_getDeployment C k w)) = obs w" "obs (snd (hb_getCatalog C k w)) = obs w"
      "obs (snd (hb_updateCatalog C c w)) = obs w" "obs (snd (hb_deleteCatalog C k w)) = obs w"
      "obs (snd (cl_delete (hb_cluster C) kd k w)) = obs w"
    and retried: "\<exists>v. conflicts f w v \<and> hb_retry C f w = f v"
begin

lemma other_frame:
  "hb_getDeployment C k w = (d, w') \<Longrightarrow> obs w' = obs w" "hb_getCatalog C k w = (c, w') \<Longrightarrow> obs w' = obs w"
  "hb_updateCatalog C x w = (e, w') \<Longrightarrow> obs w' = obs w" "hb_deleteCatalog C k w = (e, w') \<Longrightarrow> obs w' = obs w"
  "cl_delete (hb_cluster C) kd k w = (e, w') \<Longrightarrow> obs w' = obs w"
  using other_calls(1)[of k w] other_calls(2)[of k w] other_calls(3)[of x w] other_calls(4)[of k w] other_calls(5)[of kd k w] by auto

lemma delete_all_frame: "delete_all C xs w = (e, w') \<Longrightarrow> obs w' = obs w"
  by (induction xs arbitrary: w)
    (auto simp: deleteIgnoringMissing_def split: prod.splits option.splits if_splits dest!: other_frame)

lemma release_frame: "release_catalog C k w = (e, w') \<Longrightarrow> obs w' = obs w"
  by (auto simp: release_catalog_def split: prod.splits sum.splits if_splits dest!: other_frame)

lemma retry_frame: "hb_retry C (release_catalog C k) w = (e, w') \<Longrightarrow> obs w' = obs w"
proof -
  assume r: "hb_retry C (release_catalog C k) w = (e, w')"
  obtain v where v: "conflicts (release_catalog C k) w v" "release_catalog C k v = (e, w')"
    using retried[of "release_catalog C k" w] r by auto
  have "obs v = obs w" using v(1) by (rule conflicts_frame) (use release_frame in \<open>fastforce+\<close>)
  then show ?thesis using release_frame[OF v(2)] by simp
qed

lemma await_frame: "await_catalog C h c w = (a, w') \<Longrightarrow> obs w' = obs w"
  by (auto simp: await_catalog_def catalogOperatorCanFinalize_def takeOverCatalogFinalization_def simp del: delete_all.simps
      split: prod.splits sum.splits bool.splits option.splits if_splits dest!: other_frame delete_all_frame retry_frame)

lemma await_not_done: "await_catalog C h c w \<noteq> (Inr True, w')"
  by (auto simp: await_catalog_def split: prod.splits sum.splits bool.splits option.splits if_splits)

lemma cleanup_frame: "cleanupOnDelete C h w = (a, w') \<Longrightarrow> obs w' = obs w"
  by (auto simp: cleanupOnDelete_def split: prod.splits sum.splits option.splits if_splits dest!: other_frame await_frame)

lemma cleanup_done:
  assumes "cleanupOnDelete C h w = (Inr True, w')"
  shows "(\<exists>e. hb_getCatalog C (catalog_at h) w = (Inl e, w') \<and> isNotFound e)
    \<or> (\<exists>c. hb_getCatalog C (catalog_at h) w = (Inr c, w') \<and> cat_controller c \<noteq> Some (hub_uid h))"
  using assms await_not_done
  by (auto simp: cleanupOnDelete_def split: prod.splits sum.splits option.splits if_splits)

end

text \<open>
  C16: AIHub outlives its Catalog. The finalizer of an AIHub that is being deleted is removed
  only directly after a read that found no Catalog, or one that another controller owns; as long
  as the AIHub's own Catalog exists, a reconcile leaves the AIHub as it is and asks to be called
  again, unless a call failed. What is removed is AIHub's finalizer and no other.
\<close>

theorem hub_waits_for_catalog:
  assumes "hub_object_observer C obs" and "finalize_hub C hub w = (res, e, w')"
  shows "(obs w' \<noteq> obs w \<longrightarrow> (\<exists>v. ((\<exists>x. hb_getCatalog C (catalog_at hub) w = (Inl x, v) \<and> isNotFound x)
            \<or> (\<exists>c. hb_getCatalog C (catalog_at hub) w = (Inr c, v) \<and> cat_controller c \<noteq> Some (hub_uid hub)))
         \<and> w' = snd (hb_updateHub C (hub\<lparr>hub_finalizers := filter (\<lambda>f. f \<noteq> aihubFinalizer) (hub_finalizers hub)\<rparr>) v)))
    \<and> (aihubFinalizer \<in> set (hub_finalizers hub) \<longrightarrow>
         (\<forall>c v. hb_getCatalog C (catalog_at hub) w = (Inr c, v) \<and> cat_controller c = Some (hub_uid hub)
           \<longrightarrow> obs w' = obs w \<and> (e \<noteq> None \<or> requeueAfter res = 5 * second)))"
proof (cases "aihubFinalizer \<in> set (hub_finalizers hub)")
  case False
  then show ?thesis using assms(2) by (simp add: finalize_hub_def)
next
  case True
  obtain a w1 where a: "cleanupOnDelete C hub w = (a, w1)" by fastforce
  note o = hub_object_observer.cleanup_frame[OF assms(1) a]
  show ?thesis
  proof (cases "a = Inr True")
    case finished: True
    note d = hub_object_observer.cleanup_done[OF assms(1) a[unfolded finished]]
    have "w' = snd (hb_updateHub C (hub\<lparr>hub_finalizers := filter (\<lambda>f. f \<noteq> aihubFinalizer) (hub_finalizers hub)\<rparr>) w1)"
      using assms(2) True a finished by (auto simp: finalize_hub_def split: prod.splits sum.splits)
    then show ?thesis using d by fastforce
  next
    case False
    then have "w' = w1 \<and> (e \<noteq> None \<or> requeueAfter res = 5 * second)"
      using assms(2) True a by (auto simp: finalize_hub_def split: sum.splits bool.splits)
    then show ?thesis using o by simp
  qed
qed

section \<open>The end of the teardown\<close>

text \<open>
  An API server as far as Catalogs go: it answers from what is stored; a deletion or an update
  of an object whose deletion was requested removes it once no finalizer is left; and updates of
  what was just read do not conflict. Other calls leave the Catalogs alone.
\<close>

locale catalog_store =
  fixes C :: "'w hub_client" and stored :: "'w \<Rightarrow> key \<Rightarrow> owned_catalog option"
  assumes get_catalog: "hb_getCatalog C k w = (a, v) \<Longrightarrow> stored v = stored w
      \<and> (case stored w k of Some c \<Rightarrow> a = Inr c | None \<Rightarrow> (\<exists>e. a = Inl e \<and> isNotFound e))"
    and stored_key: "stored w k = Some c \<Longrightarrow> (cat_namespace c, cat_name c) = k"
    and delete_catalog: "stored w k = Some c \<Longrightarrow> cat_deletion c = None \<Longrightarrow> \<exists>v t. hb_deleteCatalog C k w = (None, v)
      \<and> stored v = (stored w)(k := (if cat_finalizers c = [] then None else Some (c\<lparr>cat_deletion := Some t\<rparr>)))"
    and update_catalog: "stored w (cat_namespace c, cat_name c) = Some b \<Longrightarrow> cat_deletion c \<noteq> None \<Longrightarrow>
      \<exists>v. hb_updateCatalog C c w = (None, v)
        \<and> stored v = (stored w)((cat_namespace c, cat_name c) := (if cat_finalizers c = [] then None else Some c))"
    and other_stored: "stored (snd (hb_getDeployment C k w)) = stored w" "stored (snd (cl_delete (hb_cluster C) kd k w)) = stored w"
    and retried: "\<exists>v. conflicts f w v \<and> hb_retry C f w = f v"
begin

lemma get_stored:
  assumes "stored w k = Some c" obtains v where "hb_getCatalog C k w = (Inr c, v)" "stored v = stored w"
proof -
  obtain a v where g: "hb_getCatalog C k w = (a, v)" by fastforce
  show thesis using get_catalog[OF g] assms g that by simp
qed

lemma get_missing:
  assumes "stored w k = None" obtains e v where "hb_getCatalog C k w = (Inl e, v)" "isNotFound e" "stored v = stored w"
proof -
  obtain a v where g: "hb_getCatalog C k w = (a, v)" by fastforce
  show thesis using get_catalog[OF g] assms g that by auto
qed

text \<open>Taking over removes a Catalog that only its operator's finalizer holds.\<close>

lemma release_removes:
  assumes "stored w k = Some c" and "cat_deletion c \<noteq> None" and "set (cat_finalizers c) = {catalogFinalizer}"
  shows "\<exists>w'. release_catalog C k w = (None, w') \<and> stored w' k = None"
proof -
  obtain v where g: "hb_getCatalog C k w = (Inr c, v)" "stored v = stored w" using get_stored[OF assms(1)] by blast
  let ?c = "c\<lparr>cat_finalizers := filter (\<lambda>f. f \<noteq> catalogFinalizer) (cat_finalizers c)\<rparr>"
  have k: "(cat_namespace ?c, cat_name ?c) = k" using stored_key[OF assms(1)] by simp
  have e: "cat_finalizers ?c = []" using assms(3) by (simp add: filter_empty_conv)
  obtain u where u: "hb_updateCatalog C ?c v = (None, u)" "stored u = (stored v)(k := None)"
    using update_catalog[of v ?c c] g(2) assms(1,2) k e by (auto split: if_splits)
  have "release_catalog C k w = (None, u)" using g(1) u(1) assms(3) by (simp add: release_catalog_def)
  then show ?thesis using u(2) by simp
qed

lemma retry_releases:
  assumes "stored w k = Some c" and "cat_deletion c \<noteq> None" and "set (cat_finalizers c) = {catalogFinalizer}"
  shows "\<exists>w'. hb_retry C (release_catalog C k) w = (None, w') \<and> stored w' k = None"
proof -
  obtain v where v: "conflicts (release_catalog C k) w v" "hb_retry C (release_catalog C k) w = release_catalog C k v"
    using retried by blast
  have "v = w" using v(1) release_removes[OF assms] by cases auto
  then show ?thesis using v(2) release_removes[OF assms] by simp
qed

lemma delete_all_stored:
  assumes "\<And>kd k v. fst (cl_delete (hb_cluster C) kd k v) \<in> {None, Some gone}" and "isNotFound gone"
  shows "\<exists>w'. delete_all C xs w = (None, w') \<and> stored w' = stored w"
proof (induction xs arbitrary: w)
  case (Cons x xs)
  obtain what k n where x: "x = (what, k, n)" by (metis prod_cases3)
  obtain d w1 where d: "cl_delete (hb_cluster C) k n w = (d, w1)" by fastforce
  have "deleteIgnoringMissing C k n w = (None, w1)" "stored w1 = stored w"
    using d assms(1)[of k n w] assms(2) other_stored(2)[of k n w] by (auto simp: deleteIgnoringMissing_def)
  then show ?case using Cons[of w1] x by simp
qed simp

lemma take_over_removes:
  assumes "\<And>kd k v. fst (cl_delete (hb_cluster C) kd k v) \<in> {None, Some gone}" and "isNotFound gone"
    and "stored w k = Some c" and "cat_deletion c \<noteq> None" and "set (cat_finalizers c) = {catalogFinalizer}"
  shows "\<exists>w'. takeOverCatalogFinalization C h c w = (None, w') \<and> stored w' k = None"
proof -
  let ?xs = "[(''HTTPRoute'', ''HTTPRoute'', hs_applicationNamespace (hub_spec h), catalogHTTPRouteName),
              (''auth-delegator ClusterRoleBinding'', ''ClusterRoleBinding'', [], catalogAuthDelegatorCRBName),
              (''kube-rbac-proxy ConfigMap'', ''ConfigMap'', cat_namespace c, catalogKubeRBACProxyConfigMap)]"
  obtain w1 where d: "delete_all C ?xs w = (None, w1)" "stored w1 = stored w" using delete_all_stored[OF assms(1,2)] by blast
  have "(cat_namespace c, cat_name c) = k" using stored_key[OF assms(3)] .
  then show ?thesis using d retry_releases[of w1 k c] assms(3-5)
    by (simp add: takeOverCatalogFinalization_def del: delete_all.simps)
qed

lemma await_removes:
  assumes "\<And>kd k v. fst (cl_delete (hb_cluster C) kd k v) \<in> {None, Some gone}" and "isNotFound gone"
    and "\<And>v. fst (catalogOperatorCanFinalize C (hs_applicationNamespace (hub_spec h)) v) = Inr False"
    and "stored w k = Some c" and "cat_deletion c \<noteq> None" and "set (cat_finalizers c) = {catalogFinalizer}"
  shows "\<exists>w'. await_catalog C h c w = (Inr False, w') \<and> stored w' k = None"
proof -
  obtain w1 where o: "catalogOperatorCanFinalize C (hs_applicationNamespace (hub_spec h)) w = (Inr False, w1)"
    using assms(3)[of w] by (cases "catalogOperatorCanFinalize C (hs_applicationNamespace (hub_spec h)) w") simp
  have "stored w1 = stored w" using o other_stored(1)[of "(hs_applicationNamespace (hub_spec h), catalogDeploymentName)" w]
    by (auto simp: catalogOperatorCanFinalize_def split: prod.splits sum.splits if_splits)
  then obtain w2 where "takeOverCatalogFinalization C h c w1 = (None, w2)" "stored w2 k = None"
    using take_over_removes[OF assms(1,2), of w1 k c h] assms(4-6) by auto
  then show ?thesis using o assms(6) by (simp add: await_catalog_def)
qed

lemma first_pass:
  assumes "\<And>kd k v. fst (cl_delete (hb_cluster C) kd k v) \<in> {None, Some gone}" and "isNotFound gone"
    and "\<And>v. fst (catalogOperatorCanFinalize C (hs_applicationNamespace (hub_spec h)) v) = Inr False"
    and "stored w (catalog_at h) = Some c" and "cat_controller c = Some (hub_uid h)" and "set (cat_finalizers c) = {catalogFinalizer}"
  shows "\<exists>w'. cleanupOnDelete C h w = (Inr False, w') \<and> stored w' (catalog_at h) = None"
proof -
  obtain w1 where g: "hb_getCatalog C (catalog_at h) w = (Inr c, w1)" "stored w1 = stored w" using get_stored[OF assms(4)] by blast
  have s: "stored w1 (catalog_at h) = Some c" using g(2) assms(4) by simp
  note k = stored_key[OF assms(4)]
  show ?thesis
  proof (cases "cat_deletion c = None")
    case False
    then show ?thesis using g(1) assms(5) await_removes[OF assms(1-3) s False assms(6)] by (simp add: cleanupOnDelete_def)
  next
    case True
    obtain w2 t where e: "hb_deleteCatalog C (catalog_at h) w1 = (None, w2)" "stored w2
        = (stored w1)(catalog_at h := (if cat_finalizers c = [] then None else Some (c\<lparr>cat_deletion := Some t\<rparr>)))"
      using delete_catalog[OF s True] by (elim exE conjE) (rule that; assumption)
    have "cat_finalizers c \<noteq> []" using assms(6) by (metis empty_set insert_not_empty)
    then have d: "hb_deleteCatalog C (catalog_at h) w1 = (None, w2)" "stored w2 (catalog_at h) = Some (c\<lparr>cat_deletion := Some t\<rparr>)"
      using e by simp_all
    let ?c = "c\<lparr>cat_deletion := Some t\<rparr>"
    obtain w3 where g2: "hb_getCatalog C (catalog_at h) w2 = (Inr ?c, w3)" "stored w3 = stored w2" using get_stored[OF d(2)] by blast
    obtain w4 where "await_catalog C h ?c w3 = (Inr False, w4)" "stored w4 (catalog_at h) = None"
      using await_removes[OF assms(1-3), of w3 "catalog_at h" ?c] g2(2) d(2) assms(6) by auto
    then show ?thesis using g(1) d(1) g2(1) True assms(5) k by (simp add: cleanupOnDelete_def)
  qed
qed

lemma second_pass: "stored w (catalog_at h) = None \<Longrightarrow> \<exists>w'. cleanupOnDelete C h w = (Inr True, w') \<and> stored w' = stored w"
  by (erule get_missing) (simp add: cleanupOnDelete_def)

end

text \<open>
  C15: the teardown ends, even without the Catalog's operator. When AIHub's own Catalog is held
  only by its operator's finalizer and that operator cannot run, one pass deletes the Catalog,
  removes what no garbage collection would, and releases it, so that it is gone; the next pass
  finds nothing left to wait for, which is when AIHub's finalizer goes.
\<close>

theorem teardown_ends:
  assumes "catalog_store C stored"
    and "\<And>kd k v. fst (cl_delete (hb_cluster C) kd k v) \<in> {None, Some gone}" and "isNotFound gone"
    and "\<And>v. fst (catalogOperatorCanFinalize C (hs_applicationNamespace (hub_spec hub)) v) = Inr False"
    and "stored w (catalog_at hub) = Some c" and "cat_controller c = Some (hub_uid hub)" and "set (cat_finalizers c) = {catalogFinalizer}"
  shows "\<exists>w1 w2. cleanupOnDelete C hub w = (Inr False, w1) \<and> stored w1 (catalog_at hub) = None
    \<and> cleanupOnDelete C hub w1 = (Inr True, w2)"
proof -
  obtain w1 where w1: "cleanupOnDelete C hub w = (Inr False, w1)" "stored w1 (catalog_at hub) = None"
    using catalog_store.first_pass[OF assms] by blast
  obtain w2 where "cleanupOnDelete C hub w1 = (Inr True, w2)" using catalog_store.second_pass[OF assms(1) w1(2)] by blast
  then show ?thesis using w1 by blast
qed

section \<open>The move to ImageStreams\<close>

text \<open>
  A Catalog is moved to the ImageStreams at most once. One patch sets both selections together
  with the marker, only on OpenShift and only for a Catalog that is neither marked nor being
  deleted; once it is marked, whatever an administrator selects later is left alone, without a
  call.
\<close>

theorem stream_migration_once:
  assumes echo: "\<And>b x v y v'. hb_patchCatalog C b x v = (Inr y, v') \<Longrightarrow> cat_annotations y = cat_annotations x"
    and m: "migrateCatalogImageStreams C c w = (Inr c', w')"
  shows "(\<forall>spec v. migrateCatalogImageStreams C (c'\<lparr>cat_spec := spec\<rparr>) v = (Inr (c'\<lparr>cat_spec := spec\<rparr>), v)
            \<or> \<not> cap_IsOpenShift (hb_capabilities C) \<or> cat_deletion c \<noteq> None)
    \<and> (if cap_IsOpenShift (hb_capabilities C) \<and> mapget (cat_annotations c) catalogImageStreamsMigratedAnnotation \<noteq> ''true''
          \<and> cat_deletion c = None
       then hb_patchCatalog C c (select_stable c) w = (Inr c', w') else c' = c \<and> w' = w)"
proof -
  have "mapget (cat_annotations c') catalogImageStreamsMigratedAnnotation = ''true''
      \<or> \<not> cap_IsOpenShift (hb_capabilities C) \<or> cat_deletion c \<noteq> None"
    using m echo[of c "select_stable c" w c' w'] by (auto simp: migrateCatalogImageStreams_def select_stable_def split: if_splits)
  then show ?thesis using m by (auto simp: migrateCatalogImageStreams_def split: if_splits)
qed

end
