(* ===== verification/AIHub_Memory.thy ===== *)
theory AIHub_Memory
  imports AIHub_Teardown
begin

text \<open>
  An AIHub client in memory: a condition manager on lists, a conflict retry with five attempts,
  and a cluster with one AIHub, at most one Catalog and some Deployments. It meets every
  contract of the AIHub theories, and the witnesses of their theorems run on it.
\<close>

section \<open>The condition manager\<close>

fun put_condition :: "module_condition \<Rightarrow> module_condition list \<Rightarrow> module_condition list" where
  "put_condition c [] = [c]"
| "put_condition c (d # cs) = (if mc_type d = mc_type c then c # cs else d # put_condition c cs)"

definition plain_condition :: "string \<Rightarrow> bool \<Rightarrow> mark \<Rightarrow> module_condition" where
  "plain_condition t b m = \<lparr>mc_type = t, mc_status = (if b then ConditionTrue else ConditionFalse), mc_severity = mk_severity m,
     mc_reason = mk_reason m, mc_message = mk_message m\<rparr>"

definition all_true :: "string list \<Rightarrow> module_condition list \<Rightarrow> bool" where
  "all_true ds cs = list_all (\<lambda>d. status_of cs d = Some ConditionTrue) ds"

definition list_manager :: manager_api where
  "list_manager = \<lparr>cm_new = (\<lambda>h ds cs. cs),
     cm_mark = (\<lambda>h ds t b m cs. let cs1 = put_condition (plain_condition t b m) cs
        in if t \<in> set ds then put_condition (plain_condition h (all_true ds cs1) m) cs1 else cs1),
     cm_sort = (\<lambda>cs. cs), cm_isHappy = (\<lambda>h ds cs. status_of cs h = Some ConditionTrue)\<rparr>"

lemma status_of_put: "status_of (put_condition c cs) t = (if t = mc_type c then Some (mc_status c) else status_of cs t)"
  by (induction cs) (auto simp: status_of_def)

lemma plain_condition_simps [simp]:
  "mc_type (plain_condition t b m) = t" "mc_status (plain_condition t b m) = (if b then ConditionTrue else ConditionFalse)"
  by (simp_all add: plain_condition_def)

interpretation lm: condition_manager list_manager
proof unfold_locales
  fix t h ds b m cs d
  show "t \<in> set ds \<Longrightarrow> t \<noteq> h \<Longrightarrow> cm_isHappy list_manager h ds (cm_mark list_manager h ds t b m cs) \<Longrightarrow>
        d \<in> set ds \<Longrightarrow> status_of (cm_mark list_manager h ds t b m cs) d = Some ConditionTrue"
    by (auto simp: list_manager_def Let_def status_of_put all_true_def list_all_iff split: if_splits)
qed (auto simp: list_manager_def Let_def status_of_put)

section \<open>The conflict retry\<close>

fun retry_conflicts :: "nat \<Rightarrow> ('w \<Rightarrow> go_error option \<times> 'w) \<Rightarrow> 'w \<Rightarrow> go_error option \<times> 'w" where
  "retry_conflicts 0 f w = f w"
| "retry_conflicts (Suc n) f w =
     (case f w of
        (None, w1) \<Rightarrow> (None, w1)
      | (Some e, w1) \<Rightarrow> if is_kind Conflict e then retry_conflicts n f w1 else (Some e, w1))"

lemma retry_conflicts_run: "\<exists>v. conflicts f w v \<and> retry_conflicts n f w = f v"
proof (induction n arbitrary: w)
  case 0
  show ?case by (auto intro: conflicts.none)
next
  case (Suc n)
  obtain a w1 where f: "f w = (a, w1)" by fastforce
  show ?case
  proof (cases "\<exists>e. a = Some e \<and> is_kind Conflict e")
    case True
    then obtain e where e: "a = Some e" "is_kind Conflict e" by blast
    obtain v where v: "conflicts f w1 v" "retry_conflicts n f w1 = f v" using Suc by blast
    have "conflicts f w v" using conflicts.again[OF _ e(2) v(1)] f e(1) by blast
    then show ?thesis using v(2) f e by auto
  next
    case False
    then show ?thesis using f conflicts.none[of f w] by (intro exI[of _ w]) (auto split: option.split)
  qed
qed

section \<open>The cluster\<close>

record hub_world =
  hw_hub :: AIHub
  hw_catalog :: "owned_catalog option"
  hw_deployments :: "ChildDeployment list"

definition stored_catalog :: "hub_world \<Rightarrow> key \<Rightarrow> owned_catalog option" where
  "stored_catalog w k = (case hw_catalog w of None \<Rightarrow> None
     | Some c \<Rightarrow> if (cat_namespace c, cat_name c) = k then Some c else None)"

text \<open>Once deletion was requested, an object without finalizers is gone.\<close>

definition keep_catalog :: "owned_catalog \<Rightarrow> hub_world \<Rightarrow> hub_world" where
  "keep_catalog c w = w\<lparr>hw_catalog := (if cat_deletion c \<noteq> None \<and> cat_finalizers c = [] then None else Some c)\<rparr>"

definition find_deployment :: "key \<Rightarrow> (hub_world, ChildDeployment) call" where
  "find_deployment k w = (case find (\<lambda>d. (cd_namespace d, cd_name d) = k) (hw_deployments w) of
     None \<Rightarrow> Inl missing | Some d \<Rightarrow> Inr d, w)"

definition hub_cluster :: "hub_world cluster_api" where
  "hub_cluster = \<lparr>cl_get = (\<lambda>k n w. (Inl missing, w)), cl_create = (\<lambda>x w. (None, w)), cl_update = (\<lambda>x w. (None, w)),
     cl_delete = (\<lambda>k n w. (Some missing, w)), cl_annotate = Inr, cl_changed = (\<lambda>x y. Inr False), cl_original = (\<lambda>x. Inr None),
     cl_random = (\<lambda>w. (Inr ''r'', w)), cl_getIngress = (\<lambda>n w. (Inl missing, w)), cl_getProxy = (\<lambda>n w. (Inl missing, w)),
     cl_globals = (\<lambda>w. \<lparr>defaultDomain = [], defaultRegistriesNamespace = [], defaultIsOpenShift = False\<rparr>),
     cl_setGlobals = (\<lambda>g w. w)\<rparr>"

definition rendered :: "unstructured list" where
  "rendered = [sample_object ''Deployment'' childDeploymentName, sample_object ''Deployment'' catalogDeploymentName]"

definition memory_hub :: "hub_world hub_client" where
  "memory_hub = \<lparr>hb_cluster = hub_cluster, hb_manager = list_manager, hb_conds = list_conditions, hb_getenv = (\<lambda>_. []),
     hb_manifests = ''m'', hb_files = two_files, hb_converter = plain_converter [sample_container],
     hb_render = (\<lambda>p ns. Inr rendered), hb_renderMonitor = (\<lambda>ns. Inr (sample_object ''ServiceMonitor'' ''monitor'')),
     hb_capabilities = no_capabilities\<lparr>cap_IsOpenShift := True\<rparr>, hb_hasServiceMonitor = True, hb_hasReader = False,
     hb_getHub = (\<lambda>n w. (if hub_name (hw_hub w) = n then Inr (hw_hub w) else Inl missing, w)),
     hb_updateHub = (\<lambda>h w. (Inr h, w\<lparr>hw_hub := h\<lparr>hub_status := hub_status (hw_hub w)\<rparr>\<rparr>)),
     hb_updateHubStatus = (\<lambda>h w. (None, w\<lparr>hw_hub := (hw_hub w)\<lparr>hub_status := hub_status h\<rparr>\<rparr>)),
     hb_getDeployment = find_deployment, hb_readDeployment = find_deployment,
     hb_readConfigMap = (\<lambda>k w. (Inl missing, w)),
     hb_deleteDeployment = (\<lambda>k u w. (None, w\<lparr>hw_deployments :=
        filter (\<lambda>d. \<not> ((cd_namespace d, cd_name d) = k \<and> cd_uid d = u)) (hw_deployments w)\<rparr>)),
     hb_deploy = (\<lambda>h us w. (None, w)),
     hb_getCatalog = (\<lambda>k w. (case stored_catalog w k of None \<Rightarrow> Inl missing | Some c \<Rightarrow> Inr c, w)),
     hb_annotateCatalog = Inr, hb_setController = (\<lambda>h c. Inr (c\<lparr>cat_controller := Some (hub_uid h)\<rparr>)),
     hb_createCatalog = (\<lambda>c w. (Inr c, w\<lparr>hw_catalog := Some c\<rparr>)),
     hb_patchCatalog = (\<lambda>b c w. (Inr c, w\<lparr>hw_catalog := Some c\<rparr>)),
     hb_updateCatalog = (\<lambda>c w. if stored_catalog w (cat_namespace c, cat_name c) = None then (Some missing, w)
        else (None, keep_catalog c w)),
     hb_deleteCatalog = (\<lambda>k w. case stored_catalog w k of None \<Rightarrow> (Some missing, w)
        | Some c \<Rightarrow> (None, keep_catalog (if cat_deletion c = None then c\<lparr>cat_deletion := Some 1\<rparr> else c) w)),
     hb_releasePlatform = ''platform'', hb_retry = retry_conflicts 5\<rparr>"

interpretation ms: status_observer memory_hub "\<lambda>w. hub_status (hw_hub w)"
proof unfold_locales
  show "\<exists>v. conflicts f w v \<and> hb_retry memory_hub f w = f v" for f :: "hub_world \<Rightarrow> _" and w
    using retry_conflicts_run by (simp add: memory_hub_def)
qed (auto simp: memory_hub_def hub_cluster_def find_deployment_def keep_catalog_def lm.condition_manager_axioms
    lm.mark_status lm.mark_other lm.happy_dependent lm.happy_other lm.sort_status lm.sort_happy
    split: option.splits if_splits)

interpretation mh: hub_object_observer memory_hub hw_hub
proof unfold_locales
  show "\<exists>v. conflicts f w v \<and> hb_retry memory_hub f w = f v" for f :: "hub_world \<Rightarrow> _" and w
    using retry_conflicts_run by (simp add: memory_hub_def)
qed (auto simp: memory_hub_def hub_cluster_def find_deployment_def keep_catalog_def split: option.splits)

interpretation mc: catalog_store memory_hub stored_catalog
proof unfold_locales
  fix w k a v and c b :: owned_catalog
  show "hb_getCatalog memory_hub k w = (a, v) \<Longrightarrow> stored_catalog v = stored_catalog w
      \<and> (case stored_catalog w k of Some c \<Rightarrow> a = Inr c | None \<Rightarrow> (\<exists>e. a = Inl e \<and> isNotFound e))"
    by (auto simp: memory_hub_def missing_def is_kind_def split: option.splits)
  show key: "stored_catalog w k = Some c \<Longrightarrow> (cat_namespace c, cat_name c) = k"
    by (auto simp: stored_catalog_def split: option.splits if_splits)
  show "stored_catalog w k = Some c \<Longrightarrow> cat_deletion c = None \<Longrightarrow> \<exists>v t. hb_deleteCatalog memory_hub k w = (None, v)
      \<and> stored_catalog v = (stored_catalog w)(k := (if cat_finalizers c = [] then None else Some (c\<lparr>cat_deletion := Some t\<rparr>)))"
    by (intro exI[of _ 1] exI[of _ "keep_catalog (c\<lparr>cat_deletion := Some 1\<rparr>) w"])
      (auto simp: memory_hub_def keep_catalog_def stored_catalog_def fun_eq_iff split: option.splits if_splits)
  show "stored_catalog w (cat_namespace c, cat_name c) = Some b \<Longrightarrow> cat_deletion c \<noteq> None \<Longrightarrow>
      \<exists>v. hb_updateCatalog memory_hub c w = (None, v)
        \<and> stored_catalog v = (stored_catalog w)((cat_namespace c, cat_name c) := (if cat_finalizers c = [] then None else Some c))"
    by (intro exI[of _ "keep_catalog c w"])
      (auto simp: memory_hub_def keep_catalog_def stored_catalog_def fun_eq_iff split: option.splits if_splits)
  show "\<exists>v. conflicts f w v \<and> hb_retry memory_hub f w = f v" for f :: "hub_world \<Rightarrow> _" and w
    using retry_conflicts_run by (simp add: memory_hub_def)
qed (auto simp: memory_hub_def hub_cluster_def find_deployment_def)

section \<open>Witnesses\<close>

definition sample_hub :: AIHub where
  "sample_hub = \<lparr>hub_name = aihubCRName, hub_uid = ''u'', hub_generation = 4, hub_finalizers = [aihubFinalizer], hub_deletion = None,
     hub_spec = \<lparr>hs_applicationNamespace = ''apps'', hs_instancesNamespace = ''ns'', hs_gateway = Some ''d''\<rparr>,
     hub_status = \<lparr>hs_phase = PhaseNotReady, hs_conditions = [], hs_observedGeneration = 0, hs_releases = []\<rparr>\<rparr>"

definition live :: "string \<Rightarrow> string \<Rightarrow> ChildDeployment" where
  "live n app = \<lparr>cd_name = n, cd_namespace = ''apps'', cd_uid = ''d'', cd_deletion = None, cd_selector = Some [(''app'', app)],
     cd_conditions = [\<lparr>dc_type = ''Available'', dc_status = ConditionTrue, dc_message = [], dc_lastTransition = 0\<rparr>], cd_availableReplicas = 1\<rparr>"

definition owned :: owned_catalog where
  "owned = (blank_catalog ''ns'')\<lparr>cat_controller := Some ''u'', cat_generation := 2, cat_finalizers := [catalogFinalizer],
     cat_status := \<lparr>st_activation = None, st_conditions = [\<lparr>cond_type = conditionCatalogReady, cond_status = ConditionTrue, cond_reason = ''ok'', cond_message = [],
         cond_observedGeneration = 2, cond_lastTransition = 0\<rparr>], st_resolvedImages = None, st_observedGeneration = 2\<rparr>\<rparr>"

definition installed :: hub_world where
  "installed = \<lparr>hw_hub = sample_hub, hw_catalog = Some owned,
     hw_deployments = [live childDeploymentName childDeploymentName, live catalogDeploymentName catalogDeploymentName]\<rparr>"



definition legacy :: hub_world where
  "legacy = installed\<lparr>hw_deployments := [live childDeploymentName ''legacy'']\<rparr>"

theorem selector_deletion_justified_witness:
  "\<exists>u \<in> set rendered. \<exists>(d :: ChildDeployment) m v. cd_selector d = Some m \<and> u_matchLabels u = Inr (Some v) \<and> \<not> maps_equal m v"
proof -
  have "case reconcileIncompatibleSelectors memory_hub rendered legacy of (_, w') \<Rightarrow> length (hw_deployments w') = 0" by code_simp
  then obtain a w' where r: "reconcileIncompatibleSelectors memory_hub rendered legacy = (a, w')" "hw_deployments w' = []"
    by (auto split: prod.splits)
  have n: "hw_deployments w' \<noteq> hw_deployments legacy" using r(2) by (simp add: legacy_def)
  have "hw_deployments (snd (hb_getDeployment memory_hub k v)) = hw_deployments v"
    "hw_deployments (snd (hb_readDeployment memory_hub k v)) = hw_deployments v" for k v
    by (simp_all add: memory_hub_def find_deployment_def)
  from selector_deletion_justified[OF this r(1) n] show ?thesis by blast
qed

definition deleted_hub :: AIHub where
  "deleted_hub = sample_hub\<lparr>hub_deletion := Some 1\<rparr>"

theorem hub_waits_for_catalog_witness:
  "\<exists>res e w'. finalize_hub memory_hub deleted_hub installed = (res, e, w') \<and> hw_hub w' = hw_hub installed
     \<and> (e \<noteq> None \<or> requeueAfter res = 5 * second)"
proof -
  obtain res e w' where f: "finalize_hub memory_hub deleted_hub installed = (res, e, w')" by (metis prod_cases3)
  have "hb_getCatalog memory_hub (catalog_at deleted_hub) installed = (Inr owned, installed)"
    by (simp add: memory_hub_def stored_catalog_def installed_def catalog_at_def deleted_hub_def sample_hub_def owned_def blank_catalog_def)
  then show ?thesis using hub_waits_for_catalog[OF mh.hub_object_observer_axioms f] f
    by (auto simp: deleted_hub_def sample_hub_def owned_def)
qed

definition abandoned :: hub_world where
  "abandoned = installed\<lparr>hw_deployments := []\<rparr>"

definition leaving_hub :: AIHub where
  "leaving_hub = deleted_hub\<lparr>hub_spec := (hub_spec deleted_hub)\<lparr>hs_applicationNamespace := ''gone''\<rparr>\<rparr>"

text \<open>An API server without any Deployment.\<close>

definition bare_hub :: "hub_world hub_client" where
  "bare_hub = memory_hub\<lparr>hb_getDeployment := (\<lambda>k w. (Inl missing, w))\<rparr>"

interpretation bc: catalog_store bare_hub stored_catalog
  by unfold_locales (use mc.get_catalog mc.stored_key mc.delete_catalog mc.update_catalog mc.other_stored mc.retried in
      \<open>simp_all add: bare_hub_def\<close>)

theorem teardown_ends_witness:
  "\<exists>w1 w2. cleanupOnDelete bare_hub leaving_hub abandoned = (Inr False, w1) \<and> cleanupOnDelete bare_hub leaving_hub w1 = (Inr True, w2)"
proof -
  have d: "fst (cl_delete (hb_cluster bare_hub) kd k v) \<in> {None, Some missing}" for kd k v
    by (simp add: bare_hub_def memory_hub_def hub_cluster_def)
  have m: "isNotFound missing" by (simp add: missing_def is_kind_def)
  have o: "fst (catalogOperatorCanFinalize bare_hub (hs_applicationNamespace (hub_spec leaving_hub)) v) = Inr False" for v
    using m by (simp add: bare_hub_def catalogOperatorCanFinalize_def)
  have s: "stored_catalog abandoned (catalog_at leaving_hub) = Some owned"
    by (simp add: stored_catalog_def abandoned_def installed_def catalog_at_def leaving_hub_def deleted_hub_def sample_hub_def
        owned_def blank_catalog_def)
  have "cat_controller owned = Some (hub_uid leaving_hub)" "set (cat_finalizers owned) = {catalogFinalizer}"
    by (simp_all add: owned_def leaving_hub_def deleted_hub_def sample_hub_def)
  from teardown_ends[OF bc.catalog_store_axioms d m o s this] show ?thesis by blast
qed

end
