(* ===== verification/Migration.thy ===== *)
theory Migration
  imports Kube Config
begin

text \<open>
  The storage version migration (\<^verbatim>\<open>internal/migration\<close>): the one-shot check of the registry's
  CRD, the two strategies, tried in order, and the monitor of a \<^verbatim>\<open>StorageVersionMigration\<close>.
  The monitor waits on a ticker or on the cancellation of its context, for as long as it takes;
  it is a \<^theory_text>\<open>partial_function\<close> whose value is \<open>None\<close> when it never returns.
\<close>

section \<open>The client\<close>

definition ModelRegistryCRDName :: string where "ModelRegistryCRDName = ''modelregistries.modelregistry.opendatahub.io''"
definition ModelRegistryGroup :: string where "ModelRegistryGroup = ''modelregistry.opendatahub.io''"
definition ModelRegistryResource :: string where "ModelRegistryResource = ''modelregistries''"

record CRD =
  crd_name :: string
  crd_storedVersions :: "string list"

text \<open>The raw conditions of an unstructured object: a map from names to values, or something else.\<close>

datatype raw_value = RawString string | RawOther
type_synonym raw_condition = "(string \<times> raw_value) list option"

record StorageVersionMigration =
  svm_name :: string
  svm_labels :: "(string \<times> string) list"
  svm_resource :: "string \<times> string \<times> string" \<comment> \<open>group, version, resource\<close>

text \<open>A registry in some version: metadata, and everything else as \<open>res_body\<close>.\<close>

record registry_resource =
  res_key :: key
  res_version :: string
  res_annotations :: labels
  res_body :: string

record 'w migration_api =
  mg_conds :: cond_api
  mg_getCRD :: "string \<Rightarrow> ('w, CRD) call"
  mg_listSVM :: "'w \<Rightarrow> go_error option \<times> 'w"
  mg_getSVM :: "string \<Rightarrow> ('w, raw_condition list option) call" \<comment> \<open>its \<^verbatim>\<open>status.conditions\<close>, if it is a list\<close>
  mg_createSVM :: "StorageVersionMigration \<Rightarrow> 'w \<Rightarrow> go_error option \<times> 'w"
  mg_wait :: "'w \<Rightarrow> bool \<times> 'w" \<comment> \<open>to the next tick; true when the context was cancelled instead\<close>
  mg_startup :: "'w \<Rightarrow> bool \<times> 'w" \<comment> \<open>the grace period; true when the context was cancelled instead\<close>
  mg_list :: "string \<Rightarrow> ('w, key list) call" \<comment> \<open>all registries, in a version\<close>
  mg_get :: "string \<Rightarrow> key \<Rightarrow> ('w, registry_resource) call" \<comment> \<open>a registry, in a version\<close>
  mg_update :: "string \<Rightarrow> registry_resource \<Rightarrow> 'w \<Rightarrow> go_error option \<times> 'w"
  mg_timestamp :: "'w \<Rightarrow> string" \<comment> \<open>the time, as RFC 3339\<close>
  mg_parseTime :: "string \<Rightarrow> time option" \<comment> \<open>RFC 3339\<close>

record versions =
  SourceVersion :: string
  TargetVersion :: string

definition NewStorageMigrationManager :: "env \<Rightarrow> versions" where
  "NewStorageMigrationManager getenv =
     \<lparr>SourceVersion = GetStringConfigWithDefault getenv ''STORAGE_MIGRATION_SOURCE_VERSION'' [],
      TargetVersion = GetStringConfigWithDefault getenv ''STORAGE_MIGRATION_TARGET_VERSION'' []\<rparr>"

section \<open>The StorageVersionMigration strategy (\<^verbatim>\<open>svm_strategy.go\<close>)\<close>

definition raw_string :: "(string \<times> raw_value) list \<Rightarrow> string \<Rightarrow> string option" where
  "raw_string m k = (case map_of m k of Some (RawString s) \<Rightarrow> Some s | _ \<Rightarrow> None)"

text \<open>A condition needs a type and a status; the other fields are optional.\<close>

definition extract_condition :: "(string \<Rightarrow> time option) \<Rightarrow> raw_condition \<Rightarrow> condition option" where
  "extract_condition parse raw =
     (case raw of None \<Rightarrow> None
      | Some m \<Rightarrow>
          (case (raw_string m ''type'', raw_string m ''status'') of
             (Some t, Some s) \<Rightarrow> Some \<lparr>cond_type = t, cond_status = s, cond_reason = strval (raw_string m ''reason''),
               cond_message = strval (raw_string m ''message''), cond_observedGeneration = 0,
               cond_lastTransition = (case raw_string m ''lastTransitionTime'' of None \<Rightarrow> 0
                 | Some v \<Rightarrow> (case parse v of None \<Rightarrow> 0 | Some t \<Rightarrow> t))\<rparr>
           | _ \<Rightarrow> None))"

definition extractConditions :: "(string \<Rightarrow> time option) \<Rightarrow> raw_condition list option \<Rightarrow> condition list" where
  "extractConditions parse svm = (case svm of None \<Rightarrow> [] | Some raws \<Rightarrow> List.map_filter (extract_condition parse) raws)"

definition isSVMCompleted :: "'w migration_api \<Rightarrow> raw_condition list option \<Rightarrow> bool" where
  "isSVMCompleted G svm = isConditionTrue (mg_conds G) (extractConditions (mg_parseTime G) svm) ''Succeeded''"

definition isSVMFailed :: "'w migration_api \<Rightarrow> raw_condition list option \<Rightarrow> bool" where
  "isSVMFailed G svm = isConditionFalse (mg_conds G) (extractConditions (mg_parseTime G) svm) ''Succeeded''"

text \<open>One round of the monitor: \<open>Some\<close> of what it returns, or \<open>None\<close> to go on.\<close>

definition monitor_round :: "'w migration_api \<Rightarrow> string \<Rightarrow> 'w \<Rightarrow> go_error option option \<times> 'w" where
  "monitor_round G svmName w =
     (case mg_wait G w of
        (True, w1) \<Rightarrow> (Some None, w1)
      | (False, w1) \<Rightarrow>
          (case mg_getSVM G svmName w1 of
             (Inl e, w2) \<Rightarrow> (if isNotFound e then Some None else None, w2)
           | (Inr svm, w2) \<Rightarrow>
               (if isSVMCompleted G svm then Some None
                else if isSVMFailed G svm then Some (Some (ErrorText ''storage version migration failed''))
                else None, w2)))"

partial_function (option) monitorStorageVersionMigration ::
  "'w migration_api \<Rightarrow> string \<Rightarrow> 'w \<Rightarrow> (go_error option \<times> 'w) option" where
  [code]: "monitorStorageVersionMigration G svmName w =
     (case monitor_round G svmName w of
        (Some r, w1) \<Rightarrow> Some (r, w1)
      | (None, w1) \<Rightarrow> monitorStorageVersionMigration G svmName w1)"

definition svm_supported :: "'w migration_api \<Rightarrow> 'w \<Rightarrow> bool \<times> 'w" where
  "svm_supported G w = (case mg_listSVM G w of (e, w1) \<Rightarrow> (e = None, w1))"

definition svm_for :: "versions \<Rightarrow> StorageVersionMigration" where
  "svm_for v = \<lparr>svm_name = ''modelregistry-'' @ SourceVersion v @ ''-to-'' @ TargetVersion v @ ''-migration'',
     svm_labels = [(''app.kubernetes.io/name'', ''model-registry-operator''), (''app.kubernetes.io/component'', ''storage-migration''),
       (''app.kubernetes.io/managed-by'', ''model-registry-operator'')],
     svm_resource = (ModelRegistryGroup, TargetVersion v, ModelRegistryResource)\<rparr>"

definition svm_perform :: "'w migration_api \<Rightarrow> versions \<Rightarrow> 'w \<Rightarrow> (go_error option \<times> 'w) option" where
  "svm_perform G v w =
     (let svm = svm_for v
      in case mg_getSVM G (svm_name svm) w of
           (Inr _, w1) \<Rightarrow> monitorStorageVersionMigration G (svm_name svm) w1
         | (Inl _, w1) \<Rightarrow>
             (case mg_createSVM G svm w1 of
                (Some e, w2) \<Rightarrow> Some (Some (Wrapped ''failed to create StorageVersionMigration'' e), w2)
              | (None, w2) \<Rightarrow> monitorStorageVersionMigration G (svm_name svm) w2))"

section \<open>The manual strategy (\<^verbatim>\<open>manual_strategy.go\<close>)\<close>

definition migrationKey :: "versions \<Rightarrow> string" where
  "migrationKey v = ''storage-migration.opendatahub.io/migrated-'' @ SourceVersion v @ ''-to-'' @ TargetVersion v"

definition lastMigratedKey :: string where "lastMigratedKey = ''storage-migration.opendatahub.io/last-migrated-rv''"

definition migrateResource :: "'w migration_api \<Rightarrow> versions \<Rightarrow> key \<Rightarrow> 'w \<Rightarrow> go_error option \<times> 'w" where
  "migrateResource G v k w =
     (case mg_get G (TargetVersion v) k w of
        (Inl e, w1) \<Rightarrow> (Some (Wrapped (''failed to get resource in target version '' @ TargetVersion v) e), w1)
      | (Inr r, w1) \<Rightarrow>
          if res_annotations r (migrationKey v) \<noteq> None then (None, w1)
          else (case mg_update G (TargetVersion v) (r\<lparr>res_annotations := (res_annotations r)(migrationKey v \<mapsto> mg_timestamp G w1,
                       lastMigratedKey \<mapsto> res_version r)\<rparr>) w1 of
                  (Some e, w2) \<Rightarrow> (Some (Wrapped ''failed to update resource for migration'' e), w2)
                | (None, w2) \<Rightarrow> (None, w2)))"

text \<open>The loop over the registries; the errors of single ones are logged and counted, no more.\<close>

fun migrate_each :: "'w migration_api \<Rightarrow> versions \<Rightarrow> key list \<Rightarrow> nat \<Rightarrow> 'w \<Rightarrow> nat \<times> 'w" where
  "migrate_each G v [] migratedCount w = (migratedCount, w)"
| "migrate_each G v (k # ks) migratedCount w =
     (case migrateResource G v k w of
        (Some e, w1) \<Rightarrow> migrate_each G v ks migratedCount w1
      | (None, w1) \<Rightarrow> migrate_each G v ks (Suc migratedCount) w1)"

text \<open>A source version that is still stored is logged, but no error.\<close>

definition verifyMigrationComplete :: "'w migration_api \<Rightarrow> CRD \<Rightarrow> 'w \<Rightarrow> go_error option \<times> 'w" where
  "verifyMigrationComplete G crd w =
     (case mg_getCRD G (crd_name crd) w of
        (Inl e, w1) \<Rightarrow> (Some (Wrapped ''failed to re-fetch CRD'' e), w1)
      | (Inr _, w1) \<Rightarrow> (None, w1))"

definition manual_perform :: "'w migration_api \<Rightarrow> versions \<Rightarrow> CRD \<Rightarrow> 'w \<Rightarrow> go_error option \<times> 'w" where
  "manual_perform G v crd w =
     (case mg_list G (SourceVersion v) w of
        (Inl e, w1) \<Rightarrow> (Some (Wrapped ''failed to list ModelRegistry resources'' e), w1)
      | (Inr ks, w1) \<Rightarrow>
          (case migrate_each G v ks 0 w1 of
             (migratedCount, w2) \<Rightarrow>
               (case verifyMigrationComplete G crd w2 of
                  (Some e, w3) \<Rightarrow> (Some (Wrapped ''migration verification failed'' e), w3)
                | (None, w3) \<Rightarrow> (None, w3))))"

section \<open>The manager (\<^verbatim>\<open>detector.go\<close>, \<^verbatim>\<open>strategy.go\<close>)\<close>

datatype MigrationStrategy = SVMStrategy | ManualStrategy

definition strategies :: "MigrationStrategy list" where "strategies = [SVMStrategy, ManualStrategy]"

fun IsSupported :: "'w migration_api \<Rightarrow> MigrationStrategy \<Rightarrow> 'w \<Rightarrow> bool \<times> 'w" where
  "IsSupported G SVMStrategy w = svm_supported G w"
| "IsSupported G ManualStrategy w = (True, w)"

fun PerformMigration :: "'w migration_api \<Rightarrow> versions \<Rightarrow> MigrationStrategy \<Rightarrow> CRD \<Rightarrow> 'w \<Rightarrow> (go_error option \<times> 'w) option" where
  "PerformMigration G v SVMStrategy crd w = svm_perform G v w"
| "PerformMigration G v ManualStrategy crd w = Some (manual_perform G v crd w)"

definition needsStorageVersionMigration :: "versions \<Rightarrow> CRD \<Rightarrow> bool" where
  "needsStorageVersionMigration v crd = (SourceVersion v \<in> set (crd_storedVersions crd))"

fun try_strategies :: "'w migration_api \<Rightarrow> versions \<Rightarrow> CRD \<Rightarrow> MigrationStrategy list \<Rightarrow> 'w \<Rightarrow> (go_error option \<times> 'w) option" where
  "try_strategies G v crd [] w = Some (Some (ErrorText ''no supported migration strategy found''), w)"
| "try_strategies G v crd (s # ss) w =
     (case IsSupported G s w of
        (False, w1) \<Rightarrow> try_strategies G v crd ss w1
      | (True, w1) \<Rightarrow>
          (case PerformMigration G v s crd w1 of
             None \<Rightarrow> None
           | Some (Some e, w2) \<Rightarrow> try_strategies G v crd ss w2
           | Some (None, w2) \<Rightarrow> Some (None, w2)))"

definition checkAndPerformMigration :: "'w migration_api \<Rightarrow> versions \<Rightarrow> 'w \<Rightarrow> (go_error option \<times> 'w) option" where
  "checkAndPerformMigration G v w =
     (case mg_getCRD G ModelRegistryCRDName w of
        (Inl e, w1) \<Rightarrow> Some (Some (Wrapped ''failed to get ModelRegistry CRD'' e), w1)
      | (Inr crd, w1) \<Rightarrow>
          if \<not> needsStorageVersionMigration v crd then Some (None, w1)
          else try_strategies G v crd strategies w1)"

text \<open>The background task: it is not started when nothing is to be migrated; an error is logged.\<close>

definition StartMigrationMonitor :: "'w migration_api \<Rightarrow> versions \<Rightarrow> 'w \<Rightarrow> 'w option" where
  "StartMigrationMonitor G v w =
     (if SourceVersion v = TargetVersion v then Some w
      else case mg_startup G w of
        (True, w1) \<Rightarrow> Some w1
      | (False, w1) \<Rightarrow> map_option snd (checkAndPerformMigration G v w1))"

section \<open>The monitor returns with the first verdict\<close>

definition monitor_world :: "'w migration_api \<Rightarrow> string \<Rightarrow> nat \<Rightarrow> 'w \<Rightarrow> 'w" where
  "monitor_world G svmName n w = ((\<lambda>u. snd (monitor_round G svmName u)) ^^ n) w"

lemma monitor_world_0 [simp]: "monitor_world G s 0 w = w"
  by (simp add: monitor_world_def)

lemma monitor_world_Suc: "monitor_world G s (Suc n) w = monitor_world G s n (snd (monitor_round G s w))"
  by (simp add: monitor_world_def funpow_Suc_right del: funpow.simps)

lemma monitor_reaches:
  assumes "\<forall>i<n. fst (monitor_round G s (monitor_world G s i w)) = None"
      and "monitor_round G s (monitor_world G s n w) = (Some r, w')"
  shows "monitorStorageVersionMigration G s w = Some (r, w')"
  using assms
proof (induction n arbitrary: w)
  case 0
  then show ?case by (subst monitorStorageVersionMigration.simps) simp
next
  case (Suc n)
  obtain u where u: "monitor_round G s w = (None, u)"
    using Suc.prems(1) by (metis fst_conv monitor_world_0 prod.collapse zero_less_Suc)
  have "monitorStorageVersionMigration G s u = Some (r, w')"
  proof (rule Suc.IH)
    show "\<forall>i<n. fst (monitor_round G s (monitor_world G s i u)) = None"
      using Suc.prems(1) u by (metis Suc_mono monitor_world_Suc snd_conv)
    show "monitor_round G s (monitor_world G s n u) = (Some r, w')"
      using Suc.prems(2) u by (simp add: monitor_world_Suc)
  qed
  then show ?case using u by (subst monitorStorageVersionMigration.simps) simp
qed

lemmas monitor_run_induct [consumes 1, case_names round] = monitorStorageVersionMigration.raw_induct[rotated]

lemma monitor_stops:
  "monitorStorageVersionMigration G s w = Some y \<Longrightarrow>
     \<exists>n. (\<forall>i<n. fst (monitor_round G s (monitor_world G s i w)) = None) \<and>
         monitor_round G s (monitor_world G s n w) = (Some (fst y), snd y)"
proof (induction rule: monitor_run_induct)
  case (round go G s w y)
  obtain x u where one: "monitor_round G s w = (x, u)" by fastforce
  show ?case
  proof (cases x)
    case None
    with round.hyps one have "go G s u = Some y" by simp
    from round.IH[OF this] obtain n where n: "\<forall>i<n. fst (monitor_round G s (monitor_world G s i u)) = None"
      "monitor_round G s (monitor_world G s n u) = (Some (fst y), snd y)" by blast
    have "\<forall>i<Suc n. fst (monitor_round G s (monitor_world G s i w)) = None"
      using n(1) one None by (auto simp: less_Suc_eq_0_disj monitor_world_Suc)
    with n(2) one show ?thesis by (intro exI[of _ "Suc n"]) (simp add: monitor_world_Suc)
  next
    case (Some z)
    with round.hyps one show ?thesis by (intro exI[of _ 0]) auto
  qed
qed


text \<open>What a round's verdict rests on.\<close>

lemma monitor_round_failed:
  assumes "monitor_round G s w = (Some (Some e), w')"
  obtains w1 svm where "mg_wait G w = (False, w1)" "mg_getSVM G s w1 = (Inr svm, w')" "isSVMFailed G svm"
    "e = ErrorText ''storage version migration failed''"
  using assms by (auto simp: monitor_round_def split: prod.splits bool.splits sum.splits if_splits)

lemma monitor_round_success:
  assumes "monitor_round G s w = (Some None, w')"
  shows "mg_wait G w = (True, w') \<or>
         (\<exists>w1 x. mg_wait G w = (False, w1) \<and> mg_getSVM G s w1 = (x, w') \<and>
                 (case x of Inl e \<Rightarrow> isNotFound e | Inr svm \<Rightarrow> isSVMCompleted G svm))"
  using assms by (auto simp: monitor_round_def split: prod.splits bool.splits sum.splits if_splits)

text \<open>
  C34: the manager reports an error only when the CRD could not be read, or when the source version
  is stored and the manual strategy ran and failed. Its text then says that no strategy is
  supported, although the manual one always is.
\<close>

theorem migration_error_origin:
  assumes "checkAndPerformMigration G v w = Some (Some e, w')"
  shows "(\<exists>e0. mg_getCRD G ModelRegistryCRDName w = (Inl e0, w') \<and> e = Wrapped ''failed to get ModelRegistry CRD'' e0) \<or>
         (\<exists>crd w1 w2 e0. mg_getCRD G ModelRegistryCRDName w = (Inr crd, w1) \<and> needsStorageVersionMigration v crd \<and>
            manual_perform G v crd w2 = (Some e0, w') \<and> e = ErrorText ''no supported migration strategy found'')"
  using assms
  by (auto simp: checkAndPerformMigration_def strategies_def
      split: prod.splits sum.splits if_splits bool.splits option.splits)

end
