(* ===== verification/Migration_Store.thy ===== *)
theory Migration_Store
  imports Migration
begin

text \<open>
  What the manual strategy does to the stored registries. The locale \<open>registry_store\<close> is the
  contract of the API server the strategy relies on: a read changes nothing and returns the
  stored object, an accepted update stores the object it was given under a new resource version,
  a rejected one stores nothing. A client in memory meets it, and one that refuses every write
  shows what the strategy does not report.
\<close>

section \<open>The contract of the store\<close>

locale registry_store =
  fixes G :: "'w migration_api"
    and ver :: string
    and view :: "'w \<Rightarrow> key \<Rightarrow> registry_resource option"
  assumes view_key: "view w k = Some r \<Longrightarrow> res_key r = k"
    and get_frame: "mg_get G ver k w = (x, w') \<Longrightarrow> view w' = view w"
    and get_found: "mg_get G ver k w = (Inr r, w') \<Longrightarrow> view w k = Some r"
    and update_done: "mg_update G ver r w = (None, w') \<Longrightarrow> \<exists>n. view w' = (view w)(res_key r \<mapsto> r\<lparr>res_version := n\<rparr>)"
    and update_failed: "mg_update G ver r w = (Some e, w') \<Longrightarrow> view w' = view w"

section \<open>Marked registries\<close>

definition migrated :: "versions \<Rightarrow> registry_resource \<Rightarrow> bool" where
  "migrated v r = (res_annotations r (migrationKey v) \<noteq> None)"

text \<open>
  A registry is left alone, or it had no mark and got one, with the version it had, and
  everything else that it says is what it said.
\<close>

definition remarked :: "versions \<Rightarrow> registry_resource \<Rightarrow> registry_resource \<Rightarrow> bool" where
  "remarked v r r' = (r' = r \<or>
     \<not> migrated v r \<and> migrated v r' \<and> res_annotations r' lastMigratedKey = Some (res_version r) \<and>
     res_key r' = res_key r \<and> res_body r' = res_body r \<and>
     (\<forall>a. a \<noteq> migrationKey v \<longrightarrow> a \<noteq> lastMigratedKey \<longrightarrow> res_annotations r' a = res_annotations r a))"

lemma remarked_refl [simp, intro]: "remarked v r r"
  by (simp add: remarked_def)

lemma remarked_trans [trans]: "remarked v r s \<Longrightarrow> remarked v s t \<Longrightarrow> remarked v r t"
  by (auto simp: remarked_def)

lemma remarked_migrated: "remarked v r s \<Longrightarrow> migrated v r \<Longrightarrow> s = r"
  by (simp add: remarked_def)

lemma migrationKey_fresh [simp]: "migrationKey v \<noteq> lastMigratedKey" "lastMigratedKey \<noteq> migrationKey v"
  by (simp_all add: migrationKey_def lastMigratedKey_def)

text \<open>The stores before and after, registry by registry.\<close>

definition advanced :: "versions \<Rightarrow> (key \<Rightarrow> registry_resource option) \<Rightarrow> (key \<Rightarrow> registry_resource option) \<Rightarrow> bool" where
  "advanced v m m' = (\<forall>k. rel_option (remarked v) (m k) (m' k))"

lemma advanced_refl [simp, intro]: "advanced v m m"
  by (simp add: advanced_def option.rel_refl)

lemma advanced_trans [trans]:
  assumes "advanced v m s" "advanced v s t" shows "advanced v m t"
proof -
  have "transp (remarked v)" using remarked_trans by (rule transpI)
  then have "transp (rel_option (remarked v))" by (rule option.rel_transp)
  with assms show ?thesis unfolding advanced_def by (intro allI) (metis transpD)
qed

lemma advanced_migrated:
  assumes "advanced v m m'" "m k = Some r" "migrated v r" shows "m' k = Some r"
proof -
  have "rel_option (remarked v) (m k) (m' k)" using assms(1) by (simp only: advanced_def)
  then obtain s where "m' k = Some s" "remarked v r s" using assms(2) by (auto simp: option_rel_Some1)
  with assms(3) show ?thesis by (simp add: remarked_migrated)
qed

lemma advanced_update:
  assumes "m k = Some r" "remarked v r s" shows "advanced v m (m(k \<mapsto> s))"
  using assms by (simp add: advanced_def option.rel_refl)

context registry_store
begin

lemma update_marks:
  assumes "view w k = Some r" "\<not> migrated v r"
      and "mg_update G ver (r\<lparr>res_annotations := (res_annotations r)(migrationKey v \<mapsto> t, lastMigratedKey \<mapsto> res_version r)\<rparr>) w = (None, w')"
  shows "advanced v (view w) (view w') \<and> (\<forall>j. j \<noteq> k \<longrightarrow> view w' j = view w j) \<and> (\<exists>s. view w' k = Some s \<and> migrated v s)"
proof -
  from update_done[OF assms(3)] view_key[OF assms(1)] obtain n where
    n: "view w' = (view w)(k \<mapsto> r\<lparr>res_annotations := (res_annotations r)(migrationKey v \<mapsto> t, lastMigratedKey \<mapsto> res_version r), res_version := n\<rparr>)"
    by auto
  show ?thesis unfolding n
    using assms(1,2) by (intro conjI advanced_update) (auto simp: remarked_def migrated_def)
qed

lemma resource_effect:
  assumes "ver = TargetVersion v" "migrateResource G v k w = (e, w')"
  shows "advanced v (view w) (view w') \<and> (\<forall>j. j \<noteq> k \<longrightarrow> view w' j = view w j) \<and>
         (e = None \<longrightarrow> (\<exists>s. view w' k = Some s \<and> migrated v s))"
proof (cases "mg_get G ver k w")
  case (Pair x w1)
  show ?thesis
  proof (cases x)
    case (Inl a)
    with assms Pair show ?thesis by (auto simp: migrateResource_def get_frame)
  next
    case (Inr r)
    with Pair have r: "view w1 = view w" "view w1 k = Some r" using get_frame get_found by metis+
    show ?thesis
    proof (cases "migrated v r")
      case True
      with assms Pair Inr r show ?thesis by (auto simp: migrateResource_def migrated_def)
    next
      case False
      with assms Pair Inr have
        "(case mg_update G ver (r\<lparr>res_annotations := (res_annotations r)(migrationKey v \<mapsto> mg_timestamp G w1, lastMigratedKey \<mapsto> res_version r)\<rparr>) w1 of
           (Some a, u) \<Rightarrow> (Some (Wrapped ''failed to update resource for migration'' a), u) | (None, u) \<Rightarrow> (None, u)) = (e, w')"
        by (simp add: migrateResource_def migrated_def)
      then show ?thesis using update_marks[OF r(2) False] update_failed r
        by (auto split: prod.splits option.splits)
    qed
  qed
qed

lemma run_effect:
  assumes "ver = TargetVersion v" "migrate_each G v ks n w = (m, w')"
  shows "advanced v (view w) (view w') \<and> (\<forall>j. j \<notin> set ks \<longrightarrow> view w' j = view w j) \<and> m \<le> n + List.length ks \<and>
         (m = n + List.length ks \<longrightarrow> (\<forall>k \<in> set ks. \<exists>s. view w' k = Some s \<and> migrated v s))"
  using assms(2)
proof (induction ks arbitrary: n w)
  case Nil
  then show ?case by simp
next
  case (Cons k ks)
  obtain e w1 where k: "migrateResource G v k w = (e, w1)" by fastforce
  note one = resource_effect[OF assms(1) k]
  show ?case
  proof (cases e)
    case None
    with Cons.prems k have rest: "migrate_each G v ks (Suc n) w1 = (m, w')" by simp
    from None one obtain s where s: "view w1 k = Some s" "migrated v s" by blast
    note ih = Cons.IH[OF rest]
    have "view w' k = Some s" using ih s advanced_migrated by blast
    with ih one s show ?thesis by (auto intro: advanced_trans)
  next
    case (Some a)
    with Cons.prems k have rest: "migrate_each G v ks n w1 = (m, w')" by simp
    from Cons.IH[OF rest] one show ?thesis by (auto intro: advanced_trans)
  qed
qed

end


context registry_store
begin

lemma rerun_quiet:
  assumes "ver = TargetVersion v" "\<forall>k \<in> set ks. \<forall>r. view w k = Some r \<longrightarrow> migrated v r"
  shows "migrate_each (G\<lparr>mg_update := u\<rparr>) v ks n w = migrate_each G v ks n w \<and> view (snd (migrate_each G v ks n w)) = view w"
  using assms(2)
proof (induction ks arbitrary: n w)
  case Nil
  then show ?case by simp
next
  case (Cons k ks)
  obtain x w1 where get: "mg_get G ver k w = (x, w1)" by fastforce
  have same: "view w1 = view w" using get get_frame by blast
  have one: "migrateResource (G\<lparr>mg_update := u\<rparr>) v k w = migrateResource G v k w \<and> snd (migrateResource G v k w) = w1"
  proof (cases x)
    case (Inl a)
    with get assms(1) show ?thesis by (simp add: migrateResource_def)
  next
    case (Inr r)
    with get get_found same have "view w k = Some r" by metis
    with Cons.prems have "migrated v r" by simp
    with get assms(1) Inr show ?thesis by (auto simp: migrateResource_def migrated_def)
  qed
  obtain e where e: "migrateResource G v k w = (e, w1)" using one by (metis prod.collapse)
  have "\<forall>k \<in> set ks. \<forall>r. view w1 k = Some r \<longrightarrow> migrated v r" using Cons.prems same by simp
  note ih = Cons.IH[OF this]
  show ?case using one e ih same by (cases e) simp_all
qed

end

text \<open>
  Running it again over registries that carry the mark writes nothing: the run is the same
  whatever the client's update does, and the store is as it was.
\<close>

theorem manual_migration_rerun:
  assumes "registry_store G (TargetVersion v) view" "\<forall>k \<in> set ks. \<forall>r. view w k = Some r \<longrightarrow> migrated v r"
  shows "migrate_each (G\<lparr>mg_update := u\<rparr>) v ks n w = migrate_each G v ks n w \<and> view (snd (migrate_each G v ks n w)) = view w"
  by (rule registry_store.rerun_quiet[OF assms(1) refl assms(2)])

text \<open>
  The manual strategy reports success exactly when the registries could be listed and the
  CRD read again: neither the registries that failed nor the versions the CRD still stores count.
\<close>

theorem manual_success_iff:
  "fst (manual_perform G v crd w) = None \<longleftrightarrow>
     (\<exists>ks w1 c w3. mg_list G (SourceVersion v) w = (Inr ks, w1) \<and>
        mg_getCRD G (crd_name crd) (snd (migrate_each G v ks 0 w1)) = (Inr c, w3))"
  by (auto simp: manual_perform_def verifyMigrationComplete_def split: prod.splits sum.splits option.splits)

section \<open>A store in memory\<close>

record shelf =
  sh_items :: "registry_resource list"
  sh_locked :: bool \<comment> \<open>every update is refused\<close>
  sh_ticks :: nat
  sh_stored :: "string list" \<comment> \<open>the versions the CRD stores\<close>

definition shelved :: "shelf \<Rightarrow> key \<Rightarrow> registry_resource option" where
  "shelved w k = find (\<lambda>r. res_key r = k) (sh_items w)"

definition shelf_put :: "registry_resource \<Rightarrow> shelf \<Rightarrow> go_error option \<times> shelf" where
  "shelf_put r w =
     (if sh_locked w then (Some (ApiError Forbidden ''denied''), w)
      else if shelved w (res_key r) = None then (Some (ApiError NotFound ''no such registry''), w)
      else (None, w\<lparr>sh_items := map (\<lambda>x. if res_key x = res_key r then r\<lparr>res_version := ''9''\<rparr> else x) (sh_items w)\<rparr>))"

text \<open>The StorageVersionMigration fails on the third tick, when it can be created at all.\<close>

definition shelf_api :: "bool \<Rightarrow> shelf migration_api" where
  "shelf_api svm = \<lparr>mg_conds = list_conditions,
     mg_getCRD = (\<lambda>n w. (Inr \<lparr>crd_name = n, crd_storedVersions = sh_stored w\<rparr>, w)),
     mg_listSVM = (\<lambda>w. (if svm then None else Some (ApiError NotFound ''no such resource''), w)),
     mg_getSVM = (\<lambda>n w. (if sh_ticks w = 0 then Inl (ApiError NotFound ''no such migration'')
        else Inr (if sh_ticks w < 3 then None
          else Some [Some [(''type'', RawString ''Succeeded''), (''status'', RawString ''False'')]]), w)),
     mg_createSVM = (\<lambda>s w. (None, w)),
     mg_wait = (\<lambda>w. (False, w\<lparr>sh_ticks := Suc (sh_ticks w)\<rparr>)), mg_startup = (\<lambda>w. (False, w)),
     mg_list = (\<lambda>n w. (Inr (map res_key (sh_items w)), w)),
     mg_get = (\<lambda>n k w. (case shelved w k of None \<Rightarrow> Inl (ApiError NotFound ''no such registry'') | Some r \<Rightarrow> Inr r, w)),
     mg_update = (\<lambda>n. shelf_put), mg_timestamp = (\<lambda>w. ''2026-01-01T00:00:00Z''), mg_parseTime = (\<lambda>s. None)\<rparr>"

lemma find_map_key:
  "(\<And>x. res_key (f x) = res_key x) \<Longrightarrow> find (\<lambda>r. res_key r = k) (map f xs) = map_option f (find (\<lambda>r. res_key r = k) xs)"
  by (induction xs) auto

lemma shelved_key: "shelved w k = Some r \<Longrightarrow> res_key r = k"
  by (auto simp: shelved_def find_Some_iff)

lemma shelf_put_shelved:
  assumes "shelf_put r w = (None, w')"
  shows "shelved w' = (shelved w)(res_key r \<mapsto> r\<lparr>res_version := ''9''\<rparr>)"
proof
  fix k
  from assms obtain q where q: "shelved w (res_key r) = Some q" by (auto simp: shelf_put_def split: if_splits)
  have "shelved w' k = map_option (\<lambda>x. if res_key x = res_key r then r\<lparr>res_version := ''9''\<rparr> else x) (shelved w k)"
    using assms by (auto simp: shelf_put_def shelved_def find_map_key split: if_splits)
  then show "shelved w' k = ((shelved w)(res_key r \<mapsto> r\<lparr>res_version := ''9''\<rparr>)) k"
    using q by (cases "shelved w k") (auto dest: shelved_key)
qed

interpretation shelf: registry_store "shelf_api svm" ver shelved
proof unfold_locales
  show "mg_update (shelf_api svm) ver r w = (None, w') \<Longrightarrow> \<exists>n. shelved w' = (shelved w)(res_key r \<mapsto> r\<lparr>res_version := n\<rparr>)" for r w w'
    using shelf_put_shelved by (auto simp: shelf_api_def)
qed (auto simp: shelf_api_def shelf_put_def dest: shelved_key split: if_splits option.splits)

definition two_registries :: "registry_resource list" where
  "two_registries = [\<lparr>res_key = (''ns'', ''a''), res_version = ''1'', res_annotations = Map.empty, res_body = ''A''\<rparr>,
     \<lparr>res_key = (''ns'', ''b''), res_version = ''2'', res_annotations = [''team'' \<mapsto> ''x''], res_body = ''B''\<rparr>]"

definition full_shelf :: "bool \<Rightarrow> shelf" where
  "full_shelf locked = \<lparr>sh_items = two_registries, sh_locked = locked, sh_ticks = 0, sh_stored = [''v1alpha1'', ''v1beta1'']\<rparr>"

definition to_beta :: versions where
  "to_beta = \<lparr>SourceVersion = ''v1alpha1'', TargetVersion = ''v1beta1''\<rparr>"

lemmas shelf_eval = shelf_api_def full_shelf_def two_registries_def to_beta_def shelved_def shelf_put_def
  migrateResource_def migrationKey_def lastMigratedKey_def


definition marked_shelf :: shelf where
  "marked_shelf = (full_shelf True)\<lparr>sh_items := map (\<lambda>r. r\<lparr>res_annotations := [migrationKey to_beta \<mapsto> ''t'']\<rparr>) two_registries\<rparr>"

lemma manual_migration_rerun_witness:
  "shelved (snd (migrate_each (shelf_api False) to_beta [(''ns'', ''a''), (''ns'', ''b'')] 0 marked_shelf)) = shelved marked_shelf"
  by (rule manual_migration_rerun[THEN conjunct2, OF shelf.registry_store_axioms])
     (auto simp: marked_shelf_def shelf_eval migrated_def)

text \<open>
  Success is reported although both registries were refused and the CRD still stores the source
  version.
\<close>

lemma manual_failure_unreported:
  "\<exists>w'. checkAndPerformMigration (shelf_api False) to_beta (full_shelf True) = Some (None, w') \<and>
        (\<forall>k r. shelved w' k = Some r \<longrightarrow> \<not> migrated to_beta r) \<and> SourceVersion to_beta \<in> set (sh_stored w')"
  by (auto simp: checkAndPerformMigration_def needsStorageVersionMigration_def strategies_def svm_supported_def
      manual_perform_def verifyMigrationComplete_def shelf_eval migrated_def split: if_splits)


text \<open>The manual strategy fails to list: a client without the source version.\<close>

definition no_list_api :: "shelf migration_api" where
  "no_list_api = (shelf_api False)\<lparr>mg_list := (\<lambda>n w. (Inl (ApiError NotFound ''not served''), w))\<rparr>"

lemma migration_error_origin_witness:
  "\<exists>crd w2 e0. needsStorageVersionMigration to_beta crd \<and> manual_perform no_list_api to_beta crd w2 = (Some e0, full_shelf False)"
proof -
  have run: "checkAndPerformMigration no_list_api to_beta (full_shelf False) =
      Some (Some (ErrorText ''no supported migration strategy found''), full_shelf False)"
    by (simp add: checkAndPerformMigration_def needsStorageVersionMigration_def strategies_def svm_supported_def
        manual_perform_def no_list_api_def shelf_eval)
  from migration_error_origin[OF run] show ?thesis by auto
qed

end
