(* ===== verification/Registry_Conversion.thy ===== *)
theory Registry_Conversion
  imports Registry_Types
begin

text \<open>
  The conversion functions registered in the scheme: the generated field-by-field copies
  (\<^verbatim>\<open>api/v1alpha1/zz_generated.conversion.go\<close>) and the two of \<^verbatim>\<open>modelregistry_conversion.go\<close> that
  replace them for specs. They are a second path beside the one of \<^verbatim>\<open>ConvertTo\<close> and
  \<^verbatim>\<open>ConvertFrom\<close>, through JSON, in \<open>Registry_Types\<close>; here is where the two agree and where they do not.
\<close>

section \<open>The generated copies\<close>

text \<open>
  A function writes the fields of its target that its source has; a target with more of
  them is an argument, and keeps what it has there. The targets start as zero values.
\<close>

definition auto_RestSpec_toBeta :: "RestSpec \<Rightarrow> RestSpec" where
  "auto_RestSpec_toBeta x = \<lparr>rest_port = rest_port x, rest_serviceRoute = rest_serviceRoute x, rest_resources = rest_resources x,
     rest_image = rest_image x\<rparr>"

definition auto_RestSpec_toAlpha :: "RestSpec \<Rightarrow> RestSpec" where
  "auto_RestSpec_toAlpha x = \<lparr>rest_port = rest_port x, rest_serviceRoute = rest_serviceRoute x, rest_resources = rest_resources x,
     rest_image = rest_image x\<rparr>"

definition auto_GrpcSpec_toBeta :: "GrpcSpec \<Rightarrow> GrpcSpec" where
  "auto_GrpcSpec_toBeta x = \<lparr>grpc_port = grpc_port x, grpc_resources = grpc_resources x, grpc_image = grpc_image x\<rparr>"

definition auto_GrpcSpec_toAlpha :: "GrpcSpec \<Rightarrow> GrpcSpec" where
  "auto_GrpcSpec_toAlpha x = \<lparr>grpc_port = grpc_port x, grpc_resources = grpc_resources x, grpc_image = grpc_image x\<rparr>"

definition auto_MySQLConfig_toBeta :: "MySQLConfig \<Rightarrow> MySQLConfig" where
  "auto_MySQLConfig_toBeta x = \<lparr>my_host = my_host x, my_port = my_port x, my_username = my_username x, my_passwordSecret = my_passwordSecret x,
     my_database = my_database x, my_skipDBCreation = my_skipDBCreation x,
     my_sslCertificateSecret = my_sslCertificateSecret x, my_sslKeySecret = my_sslKeySecret x,
     my_sslRootCertificateConfigMap = my_sslRootCertificateConfigMap x,
     my_sslRootCertificatesConfigMapName = my_sslRootCertificatesConfigMapName x,
     my_sslRootCertificateSecret = my_sslRootCertificateSecret x,
     my_sslRootCertificatesSecretName = my_sslRootCertificatesSecretName x, my_sslCipher = my_sslCipher x,
     my_verifyServerCert = my_verifyServerCert x\<rparr>"

definition auto_MySQLConfig_toAlpha :: "MySQLConfig \<Rightarrow> MySQLConfig" where
  "auto_MySQLConfig_toAlpha x = \<lparr>my_host = my_host x, my_port = my_port x, my_username = my_username x, my_passwordSecret = my_passwordSecret x,
     my_database = my_database x, my_skipDBCreation = my_skipDBCreation x,
     my_sslCertificateSecret = my_sslCertificateSecret x, my_sslKeySecret = my_sslKeySecret x,
     my_sslRootCertificateConfigMap = my_sslRootCertificateConfigMap x,
     my_sslRootCertificatesConfigMapName = my_sslRootCertificatesConfigMapName x,
     my_sslRootCertificateSecret = my_sslRootCertificateSecret x,
     my_sslRootCertificatesSecretName = my_sslRootCertificatesSecretName x, my_sslCipher = my_sslCipher x,
     my_verifyServerCert = my_verifyServerCert x\<rparr>"

definition auto_OAuthProxyConfig_toBeta :: "OAuthProxyConfig \<Rightarrow> OAuthProxyConfig" where
  "auto_OAuthProxyConfig_toBeta x = \<lparr>oa_port = oa_port x, oa_tlsCertificateSecret = oa_tlsCertificateSecret x, oa_tlsKeySecret = oa_tlsKeySecret x,
     oa_serviceRoute = oa_serviceRoute x, oa_domain = oa_domain x, oa_routePort = oa_routePort x,
     oa_image = oa_image x\<rparr>"

definition auto_OAuthProxyConfig_toAlpha :: "OAuthProxyConfig \<Rightarrow> OAuthProxyConfig" where
  "auto_OAuthProxyConfig_toAlpha x = \<lparr>oa_port = oa_port x, oa_tlsCertificateSecret = oa_tlsCertificateSecret x, oa_tlsKeySecret = oa_tlsKeySecret x,
     oa_serviceRoute = oa_serviceRoute x, oa_domain = oa_domain x, oa_routePort = oa_routePort x,
     oa_image = oa_image x\<rparr>"

definition auto_ModelRegistryStatus_toBeta :: "ModelRegistryStatus \<Rightarrow> ModelRegistryStatus" where
  "auto_ModelRegistryStatus_toBeta x = \<lparr>mr_hosts = mr_hosts x, mr_hostsStr = mr_hostsStr x, mr_specDefaults = mr_specDefaults x,
     mr_conditions = mr_conditions x\<rparr>"

definition auto_ModelRegistryStatus_toAlpha :: "ModelRegistryStatus \<Rightarrow> ModelRegistryStatus" where
  "auto_ModelRegistryStatus_toAlpha x = \<lparr>mr_hosts = mr_hosts x, mr_hostsStr = mr_hostsStr x, mr_specDefaults = mr_specDefaults x,
     mr_conditions = mr_conditions x\<rparr>"

definition auto_KeyValue_toBeta :: "KeyValue \<Rightarrow> KeyValue" where
  "auto_KeyValue_toBeta x = \<lparr>kv_name = kv_name x, kv_key = kv_key x\<rparr>"

definition auto_KeyValue_toAlpha :: "KeyValue \<Rightarrow> KeyValue" where
  "auto_KeyValue_toAlpha x = \<lparr>kv_name = kv_name x, kv_key = kv_key x\<rparr>"

definition auto_ConfigMapKeyValue_toBeta :: "KeyValue \<Rightarrow> KeyValue" where
  "auto_ConfigMapKeyValue_toBeta x = \<lparr>kv_name = kv_name x, kv_key = kv_key x\<rparr>"

definition auto_ConfigMapKeyValue_toAlpha :: "KeyValue \<Rightarrow> KeyValue" where
  "auto_ConfigMapKeyValue_toAlpha x = \<lparr>kv_name = kv_name x, kv_key = kv_key x\<rparr>"

definition auto_PostgresConfig_toBeta :: "PostgresConfigAlpha \<Rightarrow> PostgresConfig \<Rightarrow> PostgresConfig" where
  "auto_PostgresConfig_toBeta x out = \<lparr>pg_host = pg_host x, pg_hostAddress = pg_hostAddress x, pg_port = pg_port x, pg_username = pg_username x,
     pg_passwordSecret = pg_passwordSecret x, pg_database = pg_database x, pg_skipDBCreation = pg_skipDBCreation x,
     pg_sslMode = pg_sslMode x, pg_sslCertificateSecret = pg_sslCertificateSecret x,
     pg_sslKeySecret = pg_sslKeySecret x, pg_sslPasswordSecret = pg_sslPasswordSecret x,
     pg_sslRootCertificateConfigMap = pg_sslRootCertificateConfigMap x,
     pg_sslRootCertificateSecret = pg_sslRootCertificateSecret x, pg_generateDeployment = pg_generateDeployment out,
     pg_image = pg_image out\<rparr>"

definition auto_PostgresConfig_toAlpha :: "PostgresConfig \<Rightarrow> PostgresConfigAlpha" where
  "auto_PostgresConfig_toAlpha x = \<lparr>pg_host = pg_host x, pg_hostAddress = pg_hostAddress x, pg_port = pg_port x, pg_username = pg_username x,
     pg_passwordSecret = pg_passwordSecret x, pg_database = pg_database x, pg_skipDBCreation = pg_skipDBCreation x,
     pg_sslMode = pg_sslMode x, pg_sslCertificateSecret = pg_sslCertificateSecret x,
     pg_sslKeySecret = pg_sslKeySecret x, pg_sslPasswordSecret = pg_sslPasswordSecret x,
     pg_sslRootCertificateConfigMap = pg_sslRootCertificateConfigMap x,
     pg_sslRootCertificateSecret = pg_sslRootCertificateSecret x\<rparr>"

text \<open>
  A spec: the values behind pointers are reinterpreted, except a Postgres, which is converted into
  a fresh target.
\<close>

definition zero_postgres :: PostgresConfig where
  "zero_postgres = PostgresConfigAlpha.extend \<lparr>pg_host = [], pg_hostAddress = [], pg_port = None, pg_username = [], pg_passwordSecret = None,
     pg_database = [], pg_skipDBCreation = False, pg_sslMode = [], pg_sslCertificateSecret = None, pg_sslKeySecret = None,
     pg_sslPasswordSecret = None, pg_sslRootCertificateConfigMap = None, pg_sslRootCertificateSecret = None\<rparr> (PostgresConfig.fields None [])"

definition auto_Spec_toBeta :: "ModelRegistrySpecAlpha \<Rightarrow> ModelRegistrySpec \<Rightarrow> ModelRegistrySpec" where
  "auto_Spec_toBeta x out = out\<lparr>s_rest := auto_RestSpec_toBeta (a_rest x), s_grpc := auto_GrpcSpec_toBeta (a_grpc x),
     s_postgres := map_option (\<lambda>p. auto_PostgresConfig_toBeta p zero_postgres) (a_postgres x), s_mysql := a_mysql x,
     s_enableDatabaseUpgrade := a_enableDatabaseUpgrade x, s_downgradeDbSchemaVersion := a_downgradeDbSchemaVersion x,
     s_oauthProxy := a_oauthProxy x\<rparr>"

definition auto_Spec_toAlpha :: "ModelRegistrySpec \<Rightarrow> ModelRegistrySpecAlpha \<Rightarrow> ModelRegistrySpecAlpha" where
  "auto_Spec_toAlpha x out = out\<lparr>a_rest := auto_RestSpec_toAlpha (s_rest x), a_grpc := auto_GrpcSpec_toAlpha (s_grpc x),
     a_postgres := map_option auto_PostgresConfig_toAlpha (s_postgres x), a_mysql := s_mysql x,
     a_enableDatabaseUpgrade := s_enableDatabaseUpgrade x, a_downgradeDbSchemaVersion := s_downgradeDbSchemaVersion x,
     a_oauthProxy := s_oauthProxy x\<rparr>"

section \<open>The registered conversions of specs\<close>

text \<open>
  \<^verbatim>\<open>conversion.Scope.Convert\<close> on each of the pointer types the functions hand it; a function of the
  scheme's converter, it may fail.
\<close>

record scope =
  sc_postgresToBeta :: "PostgresConfigAlpha option \<Rightarrow> go_error + PostgresConfig option"
  sc_postgresToAlpha :: "PostgresConfig option \<Rightarrow> go_error + PostgresConfigAlpha option"
  sc_mysql :: "MySQLConfig option \<Rightarrow> go_error + MySQLConfig option"
  sc_bool :: "bool option \<Rightarrow> go_error + bool option"
  sc_int :: "int option \<Rightarrow> go_error + int option"
  sc_oauth :: "OAuthProxyConfig option \<Rightarrow> go_error + OAuthProxyConfig option"

definition andThen :: "go_error + 'a \<Rightarrow> ('a \<Rightarrow> go_error + 'b) \<Rightarrow> go_error + 'b" where
  "andThen r k = (case r of Inl e \<Rightarrow> Inl e | Inr x \<Rightarrow> k x)"

definition default_oauth :: OAuthProxyConfig where
  "default_oauth = \<lparr>oa_port = Some httpsPort, oa_tlsCertificateSecret = None, oa_tlsKeySecret = None, oa_serviceRoute = RouteEnabled,
     oa_domain = [], oa_routePort = None, oa_image = []\<rparr>"

definition Convert_Spec_toBeta :: "scope \<Rightarrow> ModelRegistrySpecAlpha \<Rightarrow> ModelRegistrySpec \<Rightarrow> go_error + ModelRegistrySpec" where
  "Convert_Spec_toBeta sc x out =
     andThen (sc_postgresToBeta sc (a_postgres x)) (\<lambda>pg. andThen (sc_mysql sc (a_mysql x)) (\<lambda>my.
     andThen (sc_bool sc (a_enableDatabaseUpgrade x)) (\<lambda>up. andThen (sc_int sc (a_downgradeDbSchemaVersion x)) (\<lambda>down.
     andThen (sc_oauth sc (a_oauthProxy x)) (\<lambda>oauth.
       Inr (out\<lparr>s_rest := auto_RestSpec_toBeta (a_rest x), s_grpc := auto_GrpcSpec_toBeta (a_grpc x), s_postgres := pg, s_mysql := my,
         s_enableDatabaseUpgrade := up, s_downgradeDbSchemaVersion := down,
         s_oauthProxy := (if a_istio x \<noteq> None \<and> oauth = None then Some default_oauth else oauth)\<rparr>))))))"

definition Convert_Spec_toAlpha :: "scope \<Rightarrow> ModelRegistrySpec \<Rightarrow> ModelRegistrySpecAlpha \<Rightarrow> go_error + ModelRegistrySpecAlpha" where
  "Convert_Spec_toAlpha sc x out =
     andThen (sc_postgresToAlpha sc (s_postgres x)) (\<lambda>pg. andThen (sc_mysql sc (s_mysql x)) (\<lambda>my.
     andThen (sc_bool sc (s_enableDatabaseUpgrade x)) (\<lambda>up. andThen (sc_int sc (s_downgradeDbSchemaVersion x)) (\<lambda>down.
     andThen (sc_oauth sc (s_oauthProxy x)) (\<lambda>oauth.
       Inr (out\<lparr>a_rest := auto_RestSpec_toAlpha (s_rest x), a_grpc := auto_GrpcSpec_toAlpha (s_grpc x), a_postgres := pg, a_mysql := my,
         a_enableDatabaseUpgrade := up, a_downgradeDbSchemaVersion := down, a_oauthProxy := oauth\<rparr>))))))"

section \<open>Where the paths agree\<close>

lemma auto_RestSpec_copies [simp]: "auto_RestSpec_toBeta x = x" "auto_RestSpec_toAlpha x = x"
  by (simp_all add: auto_RestSpec_toBeta_def auto_RestSpec_toAlpha_def)

lemma auto_GrpcSpec_copies [simp]: "auto_GrpcSpec_toBeta x = x" "auto_GrpcSpec_toAlpha x = x"
  by (simp_all add: auto_GrpcSpec_toBeta_def auto_GrpcSpec_toAlpha_def)

lemma auto_MySQLConfig_copies [simp]: "auto_MySQLConfig_toBeta x = x" "auto_MySQLConfig_toAlpha x = x"
  by (simp_all add: auto_MySQLConfig_toBeta_def auto_MySQLConfig_toAlpha_def)

lemma auto_OAuthProxyConfig_copies [simp]: "auto_OAuthProxyConfig_toBeta x = x" "auto_OAuthProxyConfig_toAlpha x = x"
  by (simp_all add: auto_OAuthProxyConfig_toBeta_def auto_OAuthProxyConfig_toAlpha_def)

lemma auto_ModelRegistryStatus_copies [simp]: "auto_ModelRegistryStatus_toBeta x = x" "auto_ModelRegistryStatus_toAlpha x = x"
  by (simp_all add: auto_ModelRegistryStatus_toBeta_def auto_ModelRegistryStatus_toAlpha_def)

lemma auto_KeyValue_copies [simp]: "auto_KeyValue_toBeta x = x" "auto_KeyValue_toAlpha x = x"
  by (simp_all add: auto_KeyValue_toBeta_def auto_KeyValue_toAlpha_def)

lemma auto_postgres_json:
  "auto_PostgresConfig_toBeta p zero_postgres = postgres_to_beta p" "auto_PostgresConfig_toAlpha = postgres_to_alpha"
  by (simp_all add: fun_eq_iff auto_PostgresConfig_toBeta_def auto_PostgresConfig_toAlpha_def zero_postgres_def postgres_to_beta_def
      postgres_to_alpha_def PostgresConfigAlpha.defs PostgresConfig.defs)

text \<open>
  The generated copies drop nothing. Converting a spec field by field is converting it through
  JSON, as \<^verbatim>\<open>ConvertTo\<close> and \<^verbatim>\<open>ConvertFrom\<close> do, in both directions: the target's fields that
  the source version lacks stay as they were, every other one is the source's.
\<close>

theorem generated_conversion_is_json:
  "auto_Spec_toBeta x out = (spec_to_beta x)\<lparr>s_kubeRBACProxy := s_kubeRBACProxy out\<rparr> \<and>
   auto_Spec_toAlpha y out' = (spec_to_alpha y)\<lparr>a_istio := a_istio out'\<rparr>"
  by (cases out; cases out') (simp add: auto_Spec_toBeta_def auto_Spec_toAlpha_def spec_to_beta_def spec_to_alpha_def auto_postgres_json)

text \<open>
  Of a spec with Istio the paths make different proxies: the registered conversion ignores the
  gateway, so a service that Istio did not expose gets a route, and the route port stays unset.
\<close>

definition copying_scope :: scope where
  "copying_scope = \<lparr>sc_postgresToBeta = (\<lambda>p. Inr (map_option postgres_to_beta p)), sc_postgresToAlpha = (\<lambda>p. Inr (map_option postgres_to_alpha p)),
     sc_mysql = Inr, sc_bool = Inr, sc_int = Inr, sc_oauth = Inr\<rparr>"

lemma registered_conversion_exposes:
  assumes "a_istio x = Some i" "is_gateway i = None" "a_oauthProxy x = None" "a_istio (ra_spec r) = Some i" "ra_spec r = x"
  shows "\<exists>s p q. Convert_Spec_toBeta copying_scope x out = Inr s \<and> s_oauthProxy s = Some p \<and> oa_serviceRoute p = RouteEnabled \<and>
     s_oauthProxy (r_spec (ConvertTo r)) = Some q \<and> oa_serviceRoute q = RouteDisabled"
  using assms
  by (auto simp: Convert_Spec_toBeta_def copying_scope_def andThen_def default_oauth_def ConvertTo_def ReplaceIstioWithOAuthProxy_def
      istio_proxy_def spec_to_beta_def Let_def)

section \<open>Whole objects and lists\<close>

text \<open>Only the metadata, the spec and the status are converted; the kind and version of the target
stay as they were. A spec that fails fails the object, and the first failing item fails the list.\<close>

definition auto_ModelRegistry_toBeta :: "scope \<Rightarrow> ModelRegistryAlpha \<Rightarrow> ModelRegistry \<Rightarrow> go_error + ModelRegistry" where
  "auto_ModelRegistry_toBeta sc x out =
     andThen (Convert_Spec_toBeta sc (ra_spec x) (r_spec out)) (\<lambda>spec.
       Inr \<lparr>r_name = ra_name x, r_namespace = ra_namespace x, r_uid = ra_uid x, r_annotations = ra_annotations x,
         r_finalizers = ra_finalizers x, r_deletion = ra_deletion x, r_spec = spec,
         r_status = auto_ModelRegistryStatus_toBeta (ra_status x)\<rparr>)"

definition auto_ModelRegistry_toAlpha :: "scope \<Rightarrow> ModelRegistry \<Rightarrow> ModelRegistryAlpha \<Rightarrow> go_error + ModelRegistryAlpha" where
  "auto_ModelRegistry_toAlpha sc x out =
     andThen (Convert_Spec_toAlpha sc (r_spec x) (ra_spec out)) (\<lambda>spec.
       Inr \<lparr>ra_name = r_name x, ra_namespace = r_namespace x, ra_uid = r_uid x, ra_annotations = r_annotations x,
         ra_finalizers = r_finalizers x, ra_deletion = r_deletion x, ra_spec = spec,
         ra_status = auto_ModelRegistryStatus_toAlpha (r_status x)\<rparr>)"

text \<open>A list object: its resource version and its items, which may be nil. The converted items go to new
zero values.\<close>

record 'a object_list =
  ol_version :: string
  ol_items :: "'a list option"

fun convert_items :: "('a \<Rightarrow> go_error + 'b) \<Rightarrow> 'a list \<Rightarrow> go_error + 'b list" where
  "convert_items f [] = Inr []"
| "convert_items f (x # xs) = andThen (f x) (\<lambda>y. andThen (convert_items f xs) (\<lambda>ys. Inr (y # ys)))"

definition convert_list :: "('a \<Rightarrow> go_error + 'b) \<Rightarrow> 'a object_list \<Rightarrow> go_error + 'b object_list" where
  "convert_list f l = (case ol_items l of
       None \<Rightarrow> Inr \<lparr>ol_version = ol_version l, ol_items = None\<rparr>
     | Some xs \<Rightarrow> andThen (convert_items f xs) (\<lambda>ys. Inr \<lparr>ol_version = ol_version l, ol_items = Some ys\<rparr>))"

definition auto_ModelRegistryList_toBeta ::
  "scope \<Rightarrow> ModelRegistry \<Rightarrow> ModelRegistryAlpha object_list \<Rightarrow> go_error + ModelRegistry object_list" where
  "auto_ModelRegistryList_toBeta sc zero = convert_list (\<lambda>x. auto_ModelRegistry_toBeta sc x zero)"

definition auto_ModelRegistryList_toAlpha ::
  "scope \<Rightarrow> ModelRegistryAlpha \<Rightarrow> ModelRegistry object_list \<Rightarrow> go_error + ModelRegistryAlpha object_list" where
  "auto_ModelRegistryList_toAlpha sc zero = convert_list (\<lambda>x. auto_ModelRegistry_toAlpha sc x zero)"

section \<open>The registrations\<close>

datatype go_type = Named string | PtrTo go_type

datatype registrar = AddGeneratedConversionFunc | AddConversionFunc

type_synonym conversion_registration = "registrar \<times> go_type \<times> go_type"

definition alpha :: "string \<Rightarrow> go_type" where "alpha n = PtrTo (Named (''v1alpha1.'' @ n))"

definition beta :: "string \<Rightarrow> go_type" where "beta n = PtrTo (Named (''v1beta1.'' @ n))"

definition both_ways :: "registrar \<Rightarrow> string \<Rightarrow> conversion_registration list" where
  "both_ways k n = [(k, alpha n, beta n), (k, beta n, alpha n)]"

definition registrations :: "conversion_registration list" where
  "registrations =
     concat (map (both_ways AddGeneratedConversionFunc) [''ConfigMapKeyValue'', ''GrpcSpec'', ''ModelRegistry'',
       ''ModelRegistryList'', ''ModelRegistryStatus'', ''MySQLConfig'', ''OAuthProxyConfig'']) @
     [(AddGeneratedConversionFunc, alpha ''PostgresConfig'', beta ''PostgresConfig'')] @
     concat (map (both_ways AddGeneratedConversionFunc) [''RestSpec'', ''SecretKeyValue'']) @
     both_ways AddConversionFunc ''ModelRegistrySpec'' @
     [(AddConversionFunc, beta ''PostgresConfig'', alpha ''PostgresConfig'')]"

fun register_all :: "(conversion_registration \<Rightarrow> 's \<Rightarrow> go_error option \<times> 's) \<Rightarrow> conversion_registration list \<Rightarrow> 's
    \<Rightarrow> go_error option \<times> 's" where
  "register_all add [] s = (None, s)"
| "register_all add (r # rs) s = (case add r s of (Some e, s') \<Rightarrow> (Some e, s') | (None, s') \<Rightarrow> register_all add rs s')"

definition RegisterConversions :: "(conversion_registration \<Rightarrow> 's \<Rightarrow> go_error option \<times> 's) \<Rightarrow> 's \<Rightarrow> go_error option \<times> 's" where
  "RegisterConversions add = register_all add registrations"

text \<open>\<^verbatim>\<open>Scope.Convert\<close> of the library looks the two dynamic types up and fails on a pair that nobody
registered.\<close>

definition scheme_convert ::
  "conversion_registration list \<Rightarrow> go_type \<Rightarrow> go_type \<Rightarrow> ('a \<Rightarrow> go_error + 'b) \<Rightarrow> 'a \<Rightarrow> go_error + 'b" where
  "scheme_convert regs src dst run x = (if list_ex (\<lambda>(_, a, b). a = src \<and> b = dst) regs then run x
     else Inl (ErrorText ''unknown conversion''))"

text \<open>The scope that the scheme passes to a registered function, for the six fields that the spec
conversions hand to it by address: the types are pointers to the pointer fields.\<close>

definition scheme_scope ::
  "conversion_registration list \<Rightarrow> (string \<Rightarrow> go_type) \<Rightarrow> (string \<Rightarrow> go_type) \<Rightarrow> scope \<Rightarrow> scope" where
  "scheme_scope regs src dst run = \<lparr>
     sc_postgresToBeta = scheme_convert regs (PtrTo (alpha ''PostgresConfig'')) (PtrTo (beta ''PostgresConfig''))
       (sc_postgresToBeta run),
     sc_postgresToAlpha = scheme_convert regs (PtrTo (beta ''PostgresConfig'')) (PtrTo (alpha ''PostgresConfig''))
       (sc_postgresToAlpha run),
     sc_mysql = scheme_convert regs (PtrTo (src ''MySQLConfig'')) (PtrTo (dst ''MySQLConfig'')) (sc_mysql run),
     sc_bool = scheme_convert regs (PtrTo (PtrTo (Named ''bool''))) (PtrTo (PtrTo (Named ''bool''))) (sc_bool run),
     sc_int = scheme_convert regs (PtrTo (PtrTo (Named ''int64''))) (PtrTo (PtrTo (Named ''int64''))) (sc_int run),
     sc_oauth = scheme_convert regs (PtrTo (src ''OAuthProxyConfig'')) (PtrTo (dst ''OAuthProxyConfig'')) (sc_oauth run)\<rparr>"

lemma every_pair_once: "distinct (map snd registrations)"
  by code_simp

lemma register_succeeds:
  "(\<And>r s. fst (add r s) = None) \<Longrightarrow> fst (RegisterConversions add s) = None"
proof -
  assume ok: "\<And>r s. fst (add r s) = None"
  have "fst (register_all add rs s) = None" for rs
    by (induction rs arbitrary: s) (auto split: prod.split option.split, metis ok fst_conv option.distinct(1))
  then show ?thesis by (simp add: RegisterConversions_def)
qed

text \<open>Nothing is registered for a pointer to a pointer, so neither registered spec conversion, and with it
no conversion of an object or of a nonempty list, can succeed unless another package registers
these pairs, whatever the field is, a nil one included.\<close>

lemma no_pointer_pairs: "(k, PtrTo (PtrTo (PtrTo t)), d) \<notin> set registrations" "(k, PtrTo (PtrTo t), d) \<notin> set registrations"
  by (simp_all add: registrations_def both_ways_def alpha_def beta_def)

lemma spec_conversion_unknown:
  assumes "\<And>k d. (k, PtrTo (alpha ''PostgresConfig''), d) \<notin> set others"
    "\<And>k d. (k, PtrTo (beta ''PostgresConfig''), d) \<notin> set others"
  shows "Convert_Spec_toBeta (scheme_scope (others @ registrations) src dst run) x out = Inl (ErrorText ''unknown conversion'')"
    "Convert_Spec_toAlpha (scheme_scope (others @ registrations) src dst run) y out' = Inl (ErrorText ''unknown conversion'')"
proof -
  have "\<not> list_ex (\<lambda>(_, a, b). a = PtrTo (alpha n) \<and> b = d) registrations"
    "\<not> list_ex (\<lambda>(_, a, b). a = PtrTo (beta n) \<and> b = d) registrations" for n d
    using no_pointer_pairs(2) by (auto simp: list_ex_iff alpha_def beta_def)
  moreover have "\<not> list_ex (\<lambda>(_, a, b). a = PtrTo (alpha ''PostgresConfig'') \<and> b = d) others"
    "\<not> list_ex (\<lambda>(_, a, b). a = PtrTo (beta ''PostgresConfig'') \<and> b = d) others" for d
    using assms by (auto simp: list_ex_iff)
  ultimately show
    "Convert_Spec_toBeta (scheme_scope (others @ registrations) src dst run) x out = Inl (ErrorText ''unknown conversion'')"
    "Convert_Spec_toAlpha (scheme_scope (others @ registrations) src dst run) y out' = Inl (ErrorText ''unknown conversion'')"
    by (simp_all add: Convert_Spec_toBeta_def Convert_Spec_toAlpha_def scheme_scope_def scheme_convert_def andThen_def)
qed

lemma object_conversion_unknown:
  "auto_ModelRegistry_toBeta (scheme_scope registrations src dst run) r out = Inl (ErrorText ''unknown conversion'')"
  "ol_items l = Some (r # rs) \<Longrightarrow>
     auto_ModelRegistryList_toBeta (scheme_scope registrations src dst run) out l = Inl (ErrorText ''unknown conversion'')"
  using spec_conversion_unknown(1)[of "[]"]
  by (simp_all add: auto_ModelRegistry_toBeta_def auto_ModelRegistryList_toBeta_def convert_list_def andThen_def)

text \<open>With a scope that knows the pairs, converting an object is \<^verbatim>\<open>ConvertTo\<close> for every registry without
Istio.\<close>

lemma object_conversion_agrees:
  assumes "a_istio (ra_spec r) = None"
  shows "map_sum id r_spec (auto_ModelRegistry_toBeta copying_scope r out)
    = Inr ((r_spec (ConvertTo r))\<lparr>s_kubeRBACProxy := s_kubeRBACProxy (r_spec out)\<rparr>)"
  using assms
  by (cases "r_spec out")
    (simp add: auto_ModelRegistry_toBeta_def Convert_Spec_toBeta_def copying_scope_def andThen_def ConvertTo_def
      ReplaceIstioWithOAuthProxy_def spec_to_beta_def Let_def)

end
