(* ===== verification/Process.thy ===== *)
theory Process
  imports AIHub_Reconcile Registry_Reconcile Catalog_Reconcile
begin

text \<open>
  The process around the controllers: the probe server (\<^verbatim>\<open>internal/setup/health.go\<close>) and the
  runnable that makes it ready (\<^verbatim>\<open>cmd/root.go\<close>), what the cached client of each subcommand can see
  (\<^verbatim>\<open>cmd\<close>), and which events reach each controller (\<^verbatim>\<open>SetupWithManager\<close>).
\<close>

section \<open>The probe server\<close>

text \<open>
  The server of a process, with the address it is bound to, or none when it is disabled. \<open>hp_open\<close>
  says that \<^verbatim>\<open>Serve\<close> is running, \<open>hp_shut\<close> that \<^verbatim>\<open>Shutdown\<close> was called, after which \<^verbatim>\<open>Serve\<close>
  returns at once.
\<close>

record health_server =
  hp_listener :: "string option"
  hp_ready :: bool
  hp_open :: bool
  hp_shut :: bool

definition disabled_server :: health_server where
  "disabled_server = \<lparr>hp_listener = None, hp_ready = False, hp_open = False, hp_shut = False\<rparr>"

text \<open>\<open>listen\<close> is \<^verbatim>\<open>net.Listen\<close> on TCP; its answer is the bound address.\<close>

definition NewHealthServer :: "(string \<Rightarrow> go_error + string) \<Rightarrow> string \<Rightarrow> go_error + health_server" where
  "NewHealthServer listen addr =
     (if addr = [] \<or> addr = ''0'' then Inr disabled_server
      else (case listen addr of Inl e \<Rightarrow> Inl e
            | Inr bound \<Rightarrow> Inr \<lparr>hp_listener = Some bound, hp_ready = False, hp_open = False, hp_shut = False\<rparr>))"

definition health_Start :: "health_server \<Rightarrow> health_server" where
  "health_Start h = (if hp_listener h = None then h else h\<lparr>hp_open := \<not> hp_shut h\<rparr>)"

definition SetReady :: "bool \<Rightarrow> health_server \<Rightarrow> health_server" where
  "SetReady ready h = h\<lparr>hp_ready := ready\<rparr>"

definition health_Addr :: "health_server \<Rightarrow> string" where
  "health_Addr h = strval (hp_listener h)"

definition health_Close :: "health_server \<Rightarrow> health_server" where
  "health_Close h = (if hp_listener h = None then h else h\<lparr>hp_ready := False, hp_open := False, hp_shut := True\<rparr>)"

text \<open>The status a request gets; none while nobody serves.\<close>

definition probe :: "health_server \<Rightarrow> string \<Rightarrow> nat option" where
  "probe h path =
     (if \<not> hp_open h then None
      else if path = ''/healthz'' then Some 200
      else if path = ''/readyz'' then Some (if hp_ready h then 200 else 503)
      else Some 404)"

section \<open>Readiness\<close>

definition NeedLeaderElection :: bool where "NeedLeaderElection = False"

text \<open>
  The process as far as its probes go. \<open>Launched\<close> is a runnable whose goroutine was started and
  has not run yet; the manager starts it once its caches have synced.
\<close>

datatype manager_state = Preparing | Starting | Synced | Returned
datatype runnable_state = Idle | Launched | Waiting | Left

record process =
  pr_health :: health_server
  pr_manager :: manager_state
  pr_runnable :: runnable_state
  pr_cancelled :: bool

inductive process_step :: "process \<Rightarrow> process \<Rightarrow> bool" where
  serve: "process_step p (p\<lparr>pr_health := health_Start (pr_health p)\<rparr>)"
| start: "pr_manager p = Preparing \<Longrightarrow> process_step p (p\<lparr>pr_manager := Starting\<rparr>)"
| sync: "pr_manager p = Starting \<Longrightarrow> pr_runnable p = Idle \<Longrightarrow>
    process_step p (p\<lparr>pr_manager := Synced, pr_runnable := Launched\<rparr>)"
| run: "pr_runnable p = Launched \<Longrightarrow>
    process_step p (p\<lparr>pr_health := SetReady True (pr_health p), pr_runnable := Waiting\<rparr>)"
| cancel: "process_step p (p\<lparr>pr_cancelled := True\<rparr>)"
| leave: "pr_runnable p = Waiting \<Longrightarrow> pr_cancelled p \<Longrightarrow>
    process_step p (p\<lparr>pr_health := SetReady False (pr_health p), pr_runnable := Left\<rparr>)"
| stop: "pr_manager p \<in> {Starting, Synced} \<Longrightarrow>
    process_step p (p\<lparr>pr_manager := Returned, pr_health := health_Close (pr_health p)\<rparr>)"

definition new_process :: "health_server \<Rightarrow> process" where
  "new_process h = \<lparr>pr_health = h, pr_manager = Preparing, pr_runnable = Idle, pr_cancelled = False\<rparr>"

definition process_ok :: "process \<Rightarrow> bool" where
  "process_ok p =
     ((hp_ready (pr_health p) \<longrightarrow> pr_runnable p = Waiting) \<and>
      (pr_runnable p \<noteq> Idle \<longrightarrow> pr_manager p \<in> {Synced, Returned}) \<and>
      (hp_open (pr_health p) \<longrightarrow> hp_listener (pr_health p) \<noteq> None \<and> \<not> hp_shut (pr_health p)) \<and>
      (pr_manager p = Returned \<longrightarrow> hp_listener (pr_health p) = None \<or> hp_shut (pr_health p)))"

lemma process_ok_step: "process_step p q \<Longrightarrow> process_ok p \<Longrightarrow> process_ok q"
  by (induction rule: process_step.induct)
     (auto simp: process_ok_def health_Start_def SetReady_def health_Close_def)

lemma process_ok_new: "NewHealthServer listen addr = Inr h \<Longrightarrow> process_ok (new_process h)"
  by (auto simp: NewHealthServer_def disabled_server_def new_process_def process_ok_def split: if_splits sum.splits)

lemma process_ok_reach:
  assumes "process_step\<^sup>*\<^sup>* p q" "process_ok p" shows "process_ok q"
  using assms by (induction rule: rtranclp_induct) (auto dest: process_ok_step)



section \<open>What the cached client sees\<close>

text \<open>
  An entry of \<^verbatim>\<open>cache.Options.ByObject\<close>: the namespaces (all of them when there is no entry, or
  the entry \<^verbatim>\<open>""\<close>), the labels and the name that a cached object of the kind has.
\<close>

record by_object =
  bo_namespaces :: "string list"
  bo_labels :: "(string \<times> string) list"
  bo_exists :: "string list" \<comment> \<open>labels that only have to be there\<close>
  bo_name :: "string option"

type_synonym cache_options = "(string \<times> by_object) list"

definition all_objects :: by_object where
  "all_objects = \<lparr>bo_namespaces = [], bo_labels = [], bo_exists = [], bo_name = None\<rparr>"

definition in_cache :: "by_object \<Rightarrow> object \<Rightarrow> bool" where
  "in_cache b x =
     ((bo_namespaces b = [] \<or> [] \<in> set (bo_namespaces b) \<or> o_namespace x \<in> set (bo_namespaces b)) \<and>
      list_all (\<lambda>(k, v). o_labels x k = Some v) (bo_labels b) \<and> list_all (\<lambda>k. o_labels x k \<noteq> None) (bo_exists b) \<and>
      (case bo_name b of None \<Rightarrow> True | Some n \<Rightarrow> o_name x = n))"

definition cached :: "cache_options \<Rightarrow> object \<Rightarrow> bool" where
  "cached opts x = (case map_of opts (o_kind x) of None \<Rightarrow> True | Some b \<Rightarrow> in_cache b x)"

definition created_by :: "string \<times> string" where
  "created_by = (''app.kubernetes.io/created-by'', ''model-registry-operator'')"

definition objOptions :: by_object where
  "objOptions = all_objects\<lparr>bo_labels := [created_by]\<rparr>"

definition catalogServiceName :: string where "catalogServiceName = ''model-catalog''"

text \<open>\<^verbatim>\<open>discoveryv1.LabelServiceName\<close>.\<close>

definition LabelServiceName :: string where "LabelServiceName = ''kubernetes.io/service-name''"

definition catalogCacheOptions :: "string \<Rightarrow> cache_options" where
  "catalogCacheOptions registriesNamespace =
     [(''Deployment'', objOptions), (''PersistentVolumeClaim'', objOptions), (''ServiceAccount'', objOptions),
      (''Service'', objOptions), (''Secret'', objOptions), (''NetworkPolicy'', objOptions),
      (''ClusterRoleBinding'', objOptions), (''RoleBinding'', objOptions), (''Role'', objOptions),
      (''EndpointSlice'', all_objects\<lparr>bo_namespaces := [registriesNamespace],
         bo_labels := [(LabelServiceName, catalogServiceName)]\<rparr>),
      (''ConfigMap'', all_objects\<lparr>bo_namespaces := [registriesNamespace]\<rparr>),
      (''Pod'', all_objects\<lparr>bo_namespaces := [registriesNamespace],
         bo_labels := [(''app'', catalogServiceName), (''component'', catalogServiceName)]\<rparr>)]"

text \<open>The options of each subcommand; \<open>isOpenShift\<close> adds the kinds of OpenShift.\<close>

definition catalog_cache :: "string \<Rightarrow> bool \<Rightarrow> cache_options" where
  "catalog_cache registriesNamespace isOpenShift =
     catalogCacheOptions registriesNamespace @
     (if isOpenShift then [(''ImageStream'', objOptions\<lparr>bo_namespaces := [registriesNamespace]\<rparr>), (''Route'', objOptions)] else [])"

definition registry_cache :: "string \<Rightarrow> bool \<Rightarrow> cache_options" where
  "registry_cache registriesNamespace isOpenShift =
     [(''Deployment'', objOptions), (''PersistentVolumeClaim'', objOptions), (''ServiceAccount'', objOptions),
      (''Service'', objOptions), (''NetworkPolicy'', objOptions), (''ClusterRoleBinding'', objOptions),
      (''RoleBinding'', objOptions), (''Role'', objOptions),
      (''ConfigMap'', all_objects\<lparr>bo_namespaces := [registriesNamespace]\<rparr>)] @
     (if isOpenShift then [(''Route'', objOptions)] else [])"

text \<open>\<open>partOf\<close> is the platform's part-of label, a constant of its library.\<close>

definition aihub_cache :: "string \<Rightarrow> cache_options" where
  "aihub_cache partOf =
     map (\<lambda>k. (k, all_objects\<lparr>bo_labels := [(partOf, ''aihub'')]\<rparr>))
       [''Deployment'', ''Service'', ''ServiceAccount'', ''ConfigMap'', ''NetworkPolicy'', ''Role'', ''RoleBinding'',
        ''ClusterRole'', ''ClusterRoleBinding'', ''ValidatingWebhookConfiguration'', ''MutatingWebhookConfiguration'',
        ''ServiceMonitor'']"

section \<open>Which events reach a controller\<close>

text \<open>
  What \<^verbatim>\<open>SetupWithManager\<close> registers: \<^verbatim>\<open>For\<close>, \<^verbatim>\<open>Owns\<close>, or a mapping of \<^verbatim>\<open>Watches\<close> and
  \<^verbatim>\<open>WatchesRawSource\<close>, the latter on a cache of its own; and the predicate on the object. The
  predicate on \<^verbatim>\<open>APIServer\<close> objects looks at the change and is \<open>proxyTLSChangedPredicate\<close>.
\<close>

datatype mapping = MapTLSChange | MapPod | MapImageStream | MapConfigMap | MapClusterRoleBinding | MapAuth
  | MapSecret | MapRoute | MapPlatformVersion

datatype registration = For | Owns | Maps mapping

record watch =
  wt_kind :: string
  wt_registration :: registration
  wt_source :: "by_object option" \<comment> \<open>its own cache, or none for the manager's\<close>
  wt_predicate :: "object \<Rightarrow> bool"

definition watch_of :: "registration \<Rightarrow> string \<Rightarrow> watch" where
  "watch_of r k = \<lparr>wt_kind = k, wt_registration = r, wt_source = None, wt_predicate = (\<lambda>x. True)\<rparr>"

definition has_labels :: "(string \<times> string) list \<Rightarrow> object \<Rightarrow> bool" where
  "has_labels ls x = list_all (\<lambda>(k, v). o_labels x k = Some v) ls"

definition catalog_watches :: "ClusterCapabilities \<Rightarrow> string \<Rightarrow> watch list" where
  "catalog_watches caps registriesNamespace =
     [watch_of For ''Catalog''] @
     map (watch_of Owns) [''Deployment'', ''Service'', ''ServiceAccount'', ''ConfigMap'', ''Secret'', ''NetworkPolicy'', ''Role'', ''RoleBinding''] @
     (if cap_HasConfigAPI caps then [watch_of (Maps MapTLSChange) ''APIServer''] else []) @
     [(watch_of (Maps MapPod) ''Pod'')\<lparr>wt_predicate := \<lambda>x. isCatalogPod (o_labels x)\<rparr>] @
     (if cap_IsOpenShift caps then [watch_of Owns ''Route'', watch_of (Maps MapImageStream) ''ImageStream''] else []) @
     [(watch_of (Maps MapConfigMap) ''ConfigMap'')\<lparr>wt_predicate := \<lambda>x. has_labels [(catalogSourceLabel, ''true'')] x \<or>
        has_labels [created_by] x \<or> o_name x = ''serving-runtime-catalog-sources''\<rparr>,
      (watch_of (Maps MapClusterRoleBinding) ''ClusterRoleBinding'')\<lparr>wt_predicate := has_labels [created_by]\<rparr>] @
     (if cap_HasAuthAPI caps then [watch_of (Maps MapAuth) ''Auth''] else []) @
     [(watch_of (Maps MapSecret) ''Secret'')\<lparr>wt_source := Some (all_objects\<lparr>bo_namespaces := [registriesNamespace], bo_exists := [hfSourceLabel]\<rparr>)\<rparr>]"

definition registry_watches :: "ClusterCapabilities \<Rightarrow> watch list" where
  "registry_watches caps =
     [watch_of For ''ModelRegistry''] @
     map (watch_of Owns) [''Service'', ''ServiceAccount'', ''Deployment'', ''Role'', ''NetworkPolicy''] @
     (if cap_HasConfigAPI caps then [watch_of (Maps MapTLSChange) ''APIServer''] else []) @
     (if cap_IsOpenShift caps
      then [watch_of Owns ''RoleBinding'',
            (watch_of (Maps MapRoute) ''Route'')\<lparr>wt_predicate := has_labels [(''component'', ''model-registry''), created_by]\<rparr>,
            (watch_of (Maps MapClusterRoleBinding) ''ClusterRoleBinding'')\<lparr>wt_predicate := has_labels [(''component'', ''model-registry''), created_by]\<rparr>]
      else [])"

definition aihub_watches :: "watch list" where
  "aihub_watches =
     [watch_of For ''AIHub''] @
     map (watch_of Owns) [''Deployment'', ''Service'', ''ServiceAccount'', ''ConfigMap'', ''NetworkPolicy'', ''Role'', ''RoleBinding'',
       ''ClusterRole'', ''ClusterRoleBinding'', ''ValidatingWebhookConfiguration'', ''MutatingWebhookConfiguration'', ''Catalog''] @
     [(watch_of (Maps MapPlatformVersion) ''ConfigMap'')\<lparr>wt_source := Some (all_objects\<lparr>bo_name := Some platformVersionConfigMap\<rparr>),
        wt_predicate := isPlatformConfigMap\<rparr>]"

text \<open>An event on \<open>x\<close> reaches the handler of a watch.\<close>

definition delivered :: "cache_options \<Rightarrow> watch \<Rightarrow> object \<Rightarrow> bool" where
  "delivered opts w x =
     (wt_kind w = o_kind x \<and> wt_predicate w x \<and> (case wt_source w of None \<Rightarrow> cached opts x | Some b \<Rightarrow> in_cache b x))"

lemmas cache_defs = cached_def in_cache_def objOptions_def all_objects_def created_by_def

definition operand_kinds :: "string list" where
  "operand_kinds = [''Deployment'', ''Service'', ''ServiceAccount'', ''Secret'', ''NetworkPolicy'', ''Role'', ''RoleBinding'']"

lemma applyLabels_created_by [simp]: "o_labels (applyLabels params x) ''app.kubernetes.io/created-by'' = Some ''model-registry-operator''"
  by (simp add: applyLabels_def operand_labels_def)

lemma applyLabels_key [simp]: "o_kind (applyLabels params x) = o_kind x" "o_namespace (applyLabels params x) = o_namespace x"
  "o_name (applyLabels params x) = o_name x"
  by (simp_all add: applyLabels_def)

lemma mapget_nonempty: "v \<noteq> [] \<Longrightarrow> mapget m k = v \<longleftrightarrow> m k = Some v"
  by (auto simp: mapget_def split: option.splits)

lemma operand_cached:
  "o_kind x \<in> set operand_kinds \<Longrightarrow> cached (catalog_cache ns openshift) (applyLabels params x)"
  by (auto simp: operand_kinds_def catalog_cache_def catalogCacheOptions_def cache_defs)

lemma operand_delivered:
  assumes "o_kind x \<in> set operand_kinds"
  shows "\<exists>w \<in> set (catalog_watches caps ns). wt_registration w = Owns \<and> delivered (catalog_cache ns openshift) w (applyLabels params x)"
proof (rule bexI)
  show "watch_of Owns (o_kind x) \<in> set (catalog_watches caps ns)"
    using assms by (auto simp: operand_kinds_def catalog_watches_def)
  show "wt_registration (watch_of Owns (o_kind x)) = Owns \<and> delivered (catalog_cache ns openshift) (watch_of Owns (o_kind x)) (applyLabels params x)"
    using operand_cached[OF assms] by (simp add: watch_of_def delivered_def)
qed


definition unlabelled_sources :: object where
  "unlabelled_sources = \<lparr>o_kind = ''ConfigMap'', o_namespace = ''ns'', o_name = ''serving-runtime-catalog-sources'', o_version = ''1'',
     o_labels = Map.empty, o_annotations = Map.empty, o_owners = [], o_controller = None, o_data = None, o_egress = [],
     o_ingress = [], o_body = []\<rparr>"


end
