(* ===== verification/Startup.thy ===== *)
theory Startup
  imports Process Migration
begin

text \<open>
  The start of each subcommand (\<^verbatim>\<open>cmd\<close>): what it asks of its environment and in which order, the
  options it gives the manager, and that nothing serves when a step fails. A failed step ends the
  process; flags and environment are arguments, the calls that reach outside are \<open>boot_api\<close>.
\<close>

section \<open>Options\<close>

text \<open>The flags of \<^verbatim>\<open>bindModelRegistryFlags\<close>.\<close>

record flags =
  fl_metricsAddr :: string
  fl_metricsCertDir :: string
  fl_metricsCertName :: string
  fl_metricsKeyName :: string
  fl_secureMetrics :: bool
  fl_enableLeaderElection :: bool
  fl_probeAddr :: string

definition default_flags :: flags where
  "default_flags = \<lparr>fl_metricsAddr = '':8443'', fl_metricsCertDir = [], fl_metricsCertName = [], fl_metricsKeyName = [],
     fl_secureMetrics = True, fl_enableLeaderElection = False, fl_probeAddr = '':8081''\<rparr>"

record metrics_options =
  mt_bindAddress :: string
  mt_secureServing :: bool
  mt_certDir :: string
  mt_certName :: string
  mt_keyName :: string
  mt_tlsOpts :: "(tls_config \<Rightarrow> tls_config) list"
  mt_authentication :: bool \<comment> \<open>the filter that authenticates and authorizes\<close>

definition metrics_options_of :: "flags \<Rightarrow> TLSConfig \<Rightarrow> metrics_options" where
  "metrics_options_of fl tls = \<lparr>mt_bindAddress = fl_metricsAddr fl, mt_secureServing = fl_secureMetrics fl,
     mt_certDir = fl_metricsCertDir fl, mt_certName = fl_metricsCertName fl, mt_keyName = fl_metricsKeyName fl,
     mt_tlsOpts = tl_opts tls, mt_authentication = fl_secureMetrics fl\<rparr>"

record manager_options =
  mo_cache :: cache_options
  mo_uncached :: "string list" \<comment> \<open>kinds the client reads past the cache\<close>
  mo_metrics :: metrics_options
  mo_webhookTLS :: "(tls_config \<Rightarrow> tls_config) list option" \<comment> \<open>none: the manager's default webhook server\<close>
  mo_healthProbeAddr :: string
  mo_leaderElection :: bool
  mo_leaderElectionID :: string
  mo_leaderElectionNamespace :: string
  mo_releaseOnCancel :: bool

definition catalog_options :: "flags \<Rightarrow> TLSConfig \<Rightarrow> string \<Rightarrow> bool \<Rightarrow> manager_options" where
  "catalog_options fl tls ns isOpenShift = \<lparr>mo_cache = catalog_cache ns isOpenShift, mo_uncached = [''Secret''],
     mo_metrics = metrics_options_of fl tls, mo_webhookTLS = Some (tl_opts tls), mo_healthProbeAddr = ''0'',
     mo_leaderElection = fl_enableLeaderElection fl, mo_leaderElectionID = ''catalog.opendatahub.io'',
     mo_leaderElectionNamespace = [], mo_releaseOnCancel = True\<rparr>"

definition registry_options :: "flags \<Rightarrow> TLSConfig \<Rightarrow> string \<Rightarrow> bool \<Rightarrow> manager_options" where
  "registry_options fl tls ns isOpenShift = \<lparr>mo_cache = registry_cache ns isOpenShift, mo_uncached = [''Secret''],
     mo_metrics = metrics_options_of fl tls, mo_webhookTLS = Some (tl_opts tls), mo_healthProbeAddr = ''0'',
     mo_leaderElection = fl_enableLeaderElection fl, mo_leaderElectionID = ''85f368d1.opendatahub.io'',
     mo_leaderElectionNamespace = [], mo_releaseOnCancel = True\<rparr>"

definition aihub_options :: "flags \<Rightarrow> TLSConfig \<Rightarrow> string \<Rightarrow> string \<Rightarrow> manager_options" where
  "aihub_options fl tls partOf leaderNS = \<lparr>mo_cache = aihub_cache partOf, mo_uncached = [],
     mo_metrics = metrics_options_of fl tls, mo_webhookTLS = None, mo_healthProbeAddr = ''0'',
     mo_leaderElection = fl_enableLeaderElection fl, mo_leaderElectionID = ''aihub-controller-manager'',
     mo_leaderElectionNamespace = leaderNS, mo_releaseOnCancel = True\<rparr>"

text \<open>The reconcilers, with the settings that they are given and the watches that they register.\<close>

record gateway_settings =
  gs_domain :: string
  gs_name :: string
  gs_namespace :: string
  gs_routeNamespace :: string

definition EnableWebhooks :: string where "EnableWebhooks = ''ENABLE_WEBHOOKS''"
definition DefaultDomainEnv :: string where "DefaultDomainEnv = ''DEFAULT_DOMAIN''"
definition SkipModelCatalogDBCreation :: string where "SkipModelCatalogDBCreation = ''SKIP_MODEL_CATALOG_DB_CREATION''"
definition GatewayNameEnv :: string where "GatewayNameEnv = ''GATEWAY_NAME''"
definition GatewayNamespaceEnv :: string where "GatewayNamespaceEnv = ''GATEWAY_NAMESPACE''"
definition DefaultGatewayName :: string where "DefaultGatewayName = ''data-science-gateway''"
definition DefaultGatewayNamespace :: string where "DefaultGatewayNamespace = ''openshift-ingress''"
definition DefaultHTTPRouteNamespace :: string where "DefaultHTTPRouteNamespace = ''redhat-ods-applications''"

definition gateway_settings_of :: "env \<Rightarrow> gateway_settings" where
  "gateway_settings_of getenv = \<lparr>gs_domain = getenv GatewayDomainEnv,
     gs_name = GetStringConfigWithDefault getenv GatewayNameEnv DefaultGatewayName,
     gs_namespace = GetStringConfigWithDefault getenv GatewayNamespaceEnv DefaultGatewayNamespace,
     gs_routeNamespace = GetStringConfigWithDefault getenv HTTPRouteNamespaceEnv DefaultHTTPRouteNamespace\<rparr>"

datatype reconciler =
    CatalogReconciler ClusterCapabilities bool gateway_settings string \<comment> \<open>capabilities, \<^verbatim>\<open>SkipCatalogDBCreation\<close>, gateway, applications namespace\<close>
  | ModelRegistryReconciler ClusterCapabilities bool gateway_settings \<comment> \<open>capabilities, \<^verbatim>\<open>EnableWebhooks\<close>, gateway\<close>
  | AIHubReconciler ClusterCapabilities bool string \<comment> \<open>capabilities, \<^verbatim>\<open>HasServiceMonitorCRD\<close>, manifests\<close>

section \<open>The environment of a start\<close>

record 'w boot_api =
  bt_listen :: "string \<Rightarrow> ('w, string) call"
  bt_getConfig :: "'w \<Rightarrow> go_error option \<times> 'w"
  bt_discoveryClient :: "'w \<Rightarrow> go_error option \<times> 'w"
  bt_serverGroups :: "'w \<Rightarrow> (string list option \<times> discovery_error option) \<times> 'w"
  bt_toLower :: "string \<Rightarrow> string"
  bt_tls :: tls_api
  bt_quote :: "string \<Rightarrow> string"
  bt_suites :: "16 word list"
  bt_tlsClient :: "'w \<Rightarrow> go_error option \<times> 'w"
  bt_getAPIServer :: "('w, APIServer) call"
  bt_validateNamespace :: "string \<Rightarrow> string list"
  bt_globals :: "'w \<Rightarrow> config_globals"
  bt_setGlobals :: "config_globals \<Rightarrow> 'w \<Rightarrow> 'w"
  bt_newManager :: "manager_options \<Rightarrow> 'w \<Rightarrow> go_error option \<times> 'w"
  bt_parseTemplates :: "'w \<Rightarrow> go_error option \<times> 'w"
  bt_clientset :: "'w \<Rightarrow> go_error option \<times> 'w"
  bt_stat :: "string \<Rightarrow> ('w, bool) call" \<comment> \<open>whether the path is a directory\<close>
  bt_setup :: "reconciler \<Rightarrow> watch list \<Rightarrow> 'w \<Rightarrow> go_error option \<times> 'w"
  bt_setupWebhook :: "string \<Rightarrow> 'w \<Rightarrow> go_error option \<times> 'w"
  bt_addReadiness :: "'w \<Rightarrow> go_error option \<times> 'w"
  bt_watchTLS :: "TLSProfileSpec \<Rightarrow> string option \<Rightarrow> 'w \<Rightarrow> go_error option \<times> 'w"
  bt_migrate :: "versions \<Rightarrow> 'w \<Rightarrow> 'w" \<comment> \<open>\<^verbatim>\<open>StartMigrationMonitor\<close> in the background\<close>
  bt_start :: "'w \<Rightarrow> go_error option \<times> 'w" \<comment> \<open>\<^verbatim>\<open>mgr.Start\<close>\<close>
  bt_closeHealth :: "'w \<Rightarrow> 'w"

text \<open>\<^verbatim>\<open>os.Exit(1)\<close> after logging, or a returned error, which \<^verbatim>\<open>Execute\<close> turns into the same code.\<close>

datatype outcome = Finished | Exited string go_error | ReturnedError go_error

definition Execute :: "outcome \<Rightarrow> nat" where
  "Execute r = (case r of Finished \<Rightarrow> 0 | _ \<Rightarrow> 1)"

text \<open>The two shapes of a step: end with \<open>fail\<close> when it fails, else go on.\<close>

definition check_step :: "(go_error \<Rightarrow> outcome) \<Rightarrow> go_error option \<times> 'w \<Rightarrow> ('w \<Rightarrow> outcome \<times> 'w) \<Rightarrow> outcome \<times> 'w" where
  "check_step fail r k = (case r of (Some e, w) \<Rightarrow> (fail e, w) | (None, w) \<Rightarrow> k w)"

definition value_step :: "(go_error \<Rightarrow> outcome) \<Rightarrow> (go_error + 'a) \<times> 'w \<Rightarrow> ('a \<Rightarrow> 'w \<Rightarrow> outcome \<times> 'w) \<Rightarrow> outcome \<times> 'w" where
  "value_step fail r k = (case r of (Inl e, w) \<Rightarrow> (fail e, w) | (Inr x, w) \<Rightarrow> k x w)"

definition startHealthServer :: "'w boot_api \<Rightarrow> flags \<Rightarrow> ('w, health_server) call" where
  "startHealthServer B fl w =
     (if fl_probeAddr fl = [] \<or> fl_probeAddr fl = ''0'' then (NewHealthServer Inr (fl_probeAddr fl), w)
      else (case bt_listen B (fl_probeAddr fl) w of (r, w1) \<Rightarrow> (NewHealthServer (\<lambda>_. r) (fl_probeAddr fl), w1)))"

definition GetCapabilities :: "'w boot_api \<Rightarrow> ('w, ClusterCapabilities) call" where
  "GetCapabilities B w =
     (case bt_discoveryClient B w of
        (Some e, w1) \<Rightarrow> (Inl e, w1)
      | (None, w1) \<Rightarrow> (case bt_serverGroups B w1 of ((groups, err), w2) \<Rightarrow> (DetectClusterCapabilities (bt_toLower B) groups err, w2)))"

text \<open>\<open>ConfigureTLS\<close> with its two calls, which it makes only when there is a config API.\<close>

definition boot_ConfigureTLS :: "'w boot_api \<Rightarrow> bool \<Rightarrow> ('w, TLSConfig) call" where
  "boot_ConfigureTLS B hasConfigAPI w =
     (if \<not> hasConfigAPI then (ConfigureTLS (bt_tls B) (bt_quote B) (bt_suites B) False None (Inl (ErrorText [])), w)
      else (case bt_tlsClient B w of
              (Some e, w1) \<Rightarrow> (ConfigureTLS (bt_tls B) (bt_quote B) (bt_suites B) True (Some e) (Inl e), w1)
            | (None, w1) \<Rightarrow> (case bt_getAPIServer B w1 of
                (got, w2) \<Rightarrow> (ConfigureTLS (bt_tls B) (bt_quote B) (bt_suites B) True None got, w2))))"

text \<open>The package settings; the error of \<open>SetRegistriesNamespace\<close> is dropped by the callers.\<close>

definition set_registries_namespace :: "'w boot_api \<Rightarrow> string \<Rightarrow> 'w \<Rightarrow> 'w" where
  "set_registries_namespace B ns w =
     bt_setGlobals B (snd (SetRegistriesNamespace (bt_validateNamespace B) ns (bt_globals B w))) w"

definition set_default_domain :: "'w boot_api \<Rightarrow> string \<Rightarrow> bool \<Rightarrow> 'w \<Rightarrow> 'w" where
  "set_default_domain B domain isOpenShift w = bt_setGlobals B (SetDefaultDomain domain isOpenShift (bt_globals B w)) w"

text \<open>The end of every subcommand: readiness, the watch of the TLS profile, and the manager itself.\<close>

definition watch_tls_step :: "'w boot_api \<Rightarrow> ClusterCapabilities \<Rightarrow> TLSConfig \<Rightarrow> 'w \<Rightarrow> go_error option \<times> 'w" where
  "watch_tls_step B caps tls w =
     (if cap_HasConfigAPI caps
      then bt_watchTLS B (tl_profile tls) (if tl_fetched tls then Some (tl_adherence tls) else None) w
      else (None, w))"

definition start_manager :: "(go_error \<Rightarrow> outcome) \<Rightarrow> 'w boot_api \<Rightarrow> 'w \<Rightarrow> outcome \<times> 'w" where
  "start_manager fail B w =
     (case bt_start B w of
        (Some e, w1) \<Rightarrow> (fail e, bt_closeHealth B w1)
      | (None, w1) \<Rightarrow> (Finished, bt_closeHealth B w1))"

section \<open>The subcommands\<close>

text \<open>From the reconciler on: it is registered, so are webhooks, readiness and the profile's watch, and the manager runs.\<close>

definition start_catalog :: "'w boot_api \<Rightarrow> env \<Rightarrow> ClusterCapabilities \<Rightarrow> TLSConfig \<Rightarrow> 'w \<Rightarrow> outcome \<times> 'w" where
  "start_catalog B getenv caps tls w =
     check_step (Exited ''unable to create controller'') (bt_setup B
       (CatalogReconciler caps (GetBoolConfigWithDefault getenv SkipModelCatalogDBCreation False) (gateway_settings_of getenv)
         (getenv ''POD_NAMESPACE'')) (catalog_watches caps (getenv RegistriesNamespace)) w) (\<lambda>w.
     check_step (Exited ''unable to create webhook'')
       (if getenv EnableWebhooks \<noteq> ''false'' then bt_setupWebhook B ''Catalog'' w else (None, w)) (\<lambda>w.
     check_step (Exited ''unable to register readiness runnable'') (bt_addReadiness B w) (\<lambda>w.
     check_step (Exited ''unable to register TLS security profile watcher'') (watch_tls_step B caps tls w) (\<lambda>w.
     start_manager (Exited ''problem running catalog manager'') B w))))"

definition runCatalog :: "'w boot_api \<Rightarrow> env \<Rightarrow> flags \<Rightarrow> 'w \<Rightarrow> outcome \<times> 'w" where
  "runCatalog B getenv fl w =
     value_step (Exited ''unable to bind health probe address'') (startHealthServer B fl w) (\<lambda>h w.
     check_step (Exited ''error getting cluster config'') (bt_getConfig B w) (\<lambda>w.
     value_step (Exited ''error detecting cluster capabilities'') (GetCapabilities B w) (\<lambda>caps w.
     value_step (Exited ''unable to configure TLS'') (boot_ConfigureTLS B (cap_HasConfigAPI caps) w) (\<lambda>tls w.
       (let ns = getenv RegistriesNamespace; w = set_registries_namespace B ns w
        in check_step (Exited ''unable to start manager'') (bt_newManager B (catalog_options fl tls ns (cap_IsOpenShift caps)) w) (\<lambda>w.
           check_step (Exited ''error parsing kubernetes resource templates'') (bt_parseTemplates B w) (\<lambda>w.
             start_catalog B getenv caps tls (set_default_domain B (getenv DefaultDomainEnv) (cap_IsOpenShift caps) w))))))))"

definition start_registry :: "'w boot_api \<Rightarrow> env \<Rightarrow> ClusterCapabilities \<Rightarrow> TLSConfig \<Rightarrow> 'w \<Rightarrow> outcome \<times> 'w" where
  "start_registry B getenv caps tls w =
     (let webhooks = (getenv EnableWebhooks \<noteq> ''false'')
      in check_step (Exited ''unable to create controller'')
           (bt_setup B (ModelRegistryReconciler caps webhooks (gateway_settings_of getenv)) (registry_watches caps) w) (\<lambda>w.
         check_step (Exited ''unable to create webhook'') (if webhooks then bt_setupWebhook B ''ModelRegistry'' w else (None, w)) (\<lambda>w.
         check_step (Exited ''unable to register readiness runnable'') (bt_addReadiness B w) (\<lambda>w.
         check_step (Exited ''unable to register TLS security profile watcher'') (watch_tls_step B caps tls w) (\<lambda>w.
         start_manager (Exited ''problem running manager'') B (bt_migrate B (NewStorageMigrationManager getenv) w))))))"

definition runModelRegistry :: "'w boot_api \<Rightarrow> env \<Rightarrow> flags \<Rightarrow> 'w \<Rightarrow> outcome \<times> 'w" where
  "runModelRegistry B getenv fl w =
     value_step (Exited ''unable to bind health probe address'') (startHealthServer B fl w) (\<lambda>h w.
     check_step (Exited ''error getting cluster config'') (bt_getConfig B w) (\<lambda>w.
     value_step (Exited ''error detecting cluster capabilities'') (GetCapabilities B w) (\<lambda>caps w.
     value_step (Exited ''unable to configure TLS'') (boot_ConfigureTLS B (cap_HasConfigAPI caps) w) (\<lambda>tls w.
       (let ns = getenv RegistriesNamespace; w = set_registries_namespace B ns w
        in check_step (Exited ''unable to start manager'') (bt_newManager B (registry_options fl tls ns (cap_IsOpenShift caps)) w) (\<lambda>w.
           check_step (Exited ''error parsing kubernetes resource templates'') (bt_parseTemplates B w) (\<lambda>w.
           check_step (Exited ''error getting kubernetes clientset'') (bt_clientset B w) (\<lambda>w.
             start_registry B getenv caps tls (set_default_domain B (getenv DefaultDomainEnv) (cap_IsOpenShift caps) w)))))))))"

definition manifestsTemplatePath :: string where "manifestsTemplatePath = ''/opt/manifests-template''"

definition returned :: "string \<Rightarrow> go_error \<Rightarrow> outcome" where
  "returned text e = ReturnedError (Wrapped text e)"

definition start_aihub :: "'w boot_api \<Rightarrow> ClusterCapabilities \<Rightarrow> TLSConfig \<Rightarrow> 'w \<Rightarrow> outcome \<times> 'w" where
  "start_aihub B caps tls w =
     check_step (returned ''unable to create aihub controller'')
       (bt_setup B (AIHubReconciler caps (cap_HasServiceMonitor caps) manifestsTemplatePath) aihub_watches w) (\<lambda>w.
     check_step (returned ''unable to register readiness runnable'') (bt_addReadiness B w) (\<lambda>w.
     check_step (returned ''unable to register TLS security profile watcher'') (watch_tls_step B caps tls w) (\<lambda>w.
     start_manager (returned ''unable to run the manager'') B w)))"

definition runAIHub :: "'w boot_api \<Rightarrow> string \<Rightarrow> env \<Rightarrow> flags \<Rightarrow> 'w \<Rightarrow> outcome \<times> 'w" where
  "runAIHub B partOf getenv fl w =
     value_step (returned ''unable to bind health probe address'') (startHealthServer B fl w) (\<lambda>h w.
     value_step (returned (''manifests template path is not accessible '' @ bt_quote B manifestsTemplatePath)) (bt_stat B manifestsTemplatePath w) (\<lambda>isDir w.
       if \<not> isDir then (ReturnedError (ErrorText (''manifests template path is not a directory: '' @ manifestsTemplatePath)), w)
       else
     check_step (returned ''error parsing resource templates'') (bt_parseTemplates B w) (\<lambda>w.
     check_step (returned ''error getting cluster config'') (bt_getConfig B w) (\<lambda>w.
     value_step (returned ''error detecting cluster capabilities'') (GetCapabilities B w) (\<lambda>caps w.
     value_step (returned ''unable to configure TLS'') (boot_ConfigureTLS B (cap_HasConfigAPI caps) w) (\<lambda>tls w.
       (let leaderNS = getenv ''POD_NAMESPACE''
        in if fl_enableLeaderElection fl \<and> leaderNS = [] then (ReturnedError (ErrorText ''leader election requires POD_NAMESPACE to be set''), w)
           else check_step (returned ''unable to start manager'') (bt_newManager B (aihub_options fl tls partOf leaderNS) w)
                  (start_aihub B caps tls))))))))"

section \<open>What a started manager stands for\<close>

text \<open>
  An observation that only \<^verbatim>\<open>mgr.Start\<close> changes: whether, or how often, a manager was started.
\<close>

locale boot_observer =
  fixes B :: "'w boot_api" and started :: "'w \<Rightarrow> 'o"
  assumes quiet_value: "started (snd (bt_listen B a w)) = started w" "started (snd (bt_serverGroups B w)) = started w"
      "started (snd (bt_getAPIServer B w)) = started w" "started (snd (bt_stat B p w)) = started w"
    and quiet_check: "started (snd (bt_getConfig B w)) = started w" "started (snd (bt_discoveryClient B w)) = started w"
      "started (snd (bt_tlsClient B w)) = started w" "started (snd (bt_newManager B o' w)) = started w"
      "started (snd (bt_parseTemplates B w)) = started w" "started (snd (bt_clientset B w)) = started w"
      "started (snd (bt_setup B r ws w)) = started w" "started (snd (bt_setupWebhook B n w)) = started w"
      "started (snd (bt_addReadiness B w)) = started w" "started (snd (bt_watchTLS B t a' w)) = started w"
    and quiet_effect: "started (bt_setGlobals B g w) = started w" "started (bt_migrate B v w) = started w"
      "started (bt_closeHealth B w) = started w"
begin

lemma quiet_health: "started (snd (startHealthServer B fl w)) = started w"
  using quiet_value(1)[of "fl_probeAddr fl" w] by (auto simp: startHealthServer_def split: prod.split)

lemma quiet_capabilities: "started (snd (GetCapabilities B w)) = started w"
  using quiet_check(2)[of w] quiet_value(2)[of "snd (bt_discoveryClient B w)"]
  by (auto simp: GetCapabilities_def split: prod.splits option.splits)

lemma quiet_tls: "started (snd (boot_ConfigureTLS B c w)) = started w"
  using quiet_check(3)[of w] quiet_value(3)[of "snd (bt_tlsClient B w)"]
  by (auto simp: boot_ConfigureTLS_def split: prod.splits option.splits)

lemma quiet_watch: "started (snd (watch_tls_step B caps tls w)) = started w"
  by (simp add: watch_tls_step_def quiet_check)

lemma quiet_settings: "started (set_registries_namespace B ns w) = started w" "started (set_default_domain B d os w) = started w"
  by (simp_all add: set_registries_namespace_def set_default_domain_def quiet_effect)

lemma quiet_webhook: "started (snd (if b then bt_setupWebhook B n w else (None, w))) = started w"
  by (simp add: quiet_check)

lemmas quiet = quiet_value quiet_check quiet_effect quiet_health quiet_capabilities quiet_tls quiet_watch quiet_settings quiet_webhook

lemma check_started:
  assumes "started (snd (check_step fail r k)) \<noteq> s" "started (snd r) = s"
  obtains w where "r = (None, w)" "started (snd (k w)) \<noteq> s" "started w = s"
  using assms by (cases r; cases "fst r") (auto simp: check_step_def)

lemma value_started:
  assumes "started (snd (value_step fail r k)) \<noteq> s" "started (snd r) = s"
  obtains x w where "r = (Inr x, w)" "started (snd (k x w)) \<noteq> s" "started w = s"
  using assms by (cases r; cases "fst r") (auto simp: value_step_def)

lemma guard_started:
  assumes "started (snd (if b then (r, w) else k)) \<noteq> s" "started w = s"
  obtains "\<not> b" "started (snd k) \<noteq> s"
  using assms by (auto split: if_splits)

end

text \<open>Everything that is up when a subcommand's manager is started; \<open>plan\<close> is what it is started with.\<close>

definition brought_up ::
  "'w boot_api \<Rightarrow> flags \<Rightarrow> (ClusterCapabilities \<Rightarrow> TLSConfig \<Rightarrow> manager_options \<times> reconciler \<times> watch list) \<Rightarrow> string option \<Rightarrow> bool" where
  "brought_up B fl plan webhook =
     (\<exists>h caps tls. (\<exists>u. fst (startHealthServer B fl u) = Inr h) \<and> (\<exists>u. fst (GetCapabilities B u) = Inr caps) \<and>
        (\<exists>u. fst (boot_ConfigureTLS B (cap_HasConfigAPI caps) u) = Inr tls) \<and>
        (case plan caps tls of (opts, rec, ws) \<Rightarrow> (\<exists>u. fst (bt_newManager B opts u) = None) \<and> (\<exists>u. fst (bt_setup B rec ws u) = None)) \<and>
        (case webhook of None \<Rightarrow> True | Some n \<Rightarrow> \<exists>u. fst (bt_setupWebhook B n u) = None) \<and>
        (\<exists>u. fst (bt_addReadiness B u) = None) \<and> (\<exists>u. fst (watch_tls_step B caps tls u) = None))"

lemma brought_upI:
  assumes "startHealthServer B fl u1 = (Inr h, v1)" "GetCapabilities B u2 = (Inr caps, v2)"
    and "boot_ConfigureTLS B (cap_HasConfigAPI caps) u3 = (Inr tls, v3)" "plan caps tls = (opts, rec, ws)"
    and "bt_newManager B opts u4 = (None, v4)" "bt_setup B rec ws u5 = (None, v5)"
    and "\<And>n. webhook = Some n \<Longrightarrow> \<exists>u. fst (bt_setupWebhook B n u) = None"
    and "bt_addReadiness B u6 = (None, v6)" "watch_tls_step B caps tls u7 = (None, v7)"
  shows "brought_up B fl plan webhook"
proof -
  have "(case webhook of None \<Rightarrow> True | Some n \<Rightarrow> \<exists>u. fst (bt_setupWebhook B n u) = None)"
    using assms(7) by (cases webhook) simp_all
  moreover have "fst (startHealthServer B fl u1) = Inr h" "fst (GetCapabilities B u2) = Inr caps"
    "fst (boot_ConfigureTLS B (cap_HasConfigAPI caps) u3) = Inr tls" "fst (bt_newManager B opts u4) = None"
    "fst (bt_setup B rec ws u5) = None" "fst (bt_addReadiness B u6) = None" "fst (watch_tls_step B caps tls u7) = None"
    using assms by simp_all
  ultimately show ?thesis unfolding brought_up_def
    by (intro exI[of _ h] exI[of _ caps] exI[of _ tls]) (auto simp: assms(4))
qed

definition catalog_plan :: "env \<Rightarrow> flags \<Rightarrow> ClusterCapabilities \<Rightarrow> TLSConfig \<Rightarrow> manager_options \<times> reconciler \<times> watch list" where
  "catalog_plan getenv fl caps tls =
     (catalog_options fl tls (getenv RegistriesNamespace) (cap_IsOpenShift caps),
      CatalogReconciler caps (GetBoolConfigWithDefault getenv SkipModelCatalogDBCreation False) (gateway_settings_of getenv) (getenv ''POD_NAMESPACE''),
      catalog_watches caps (getenv RegistriesNamespace))"

definition registry_plan :: "env \<Rightarrow> flags \<Rightarrow> ClusterCapabilities \<Rightarrow> TLSConfig \<Rightarrow> manager_options \<times> reconciler \<times> watch list" where
  "registry_plan getenv fl caps tls =
     (registry_options fl tls (getenv RegistriesNamespace) (cap_IsOpenShift caps),
      ModelRegistryReconciler caps (getenv EnableWebhooks \<noteq> ''false'') (gateway_settings_of getenv), registry_watches caps)"

definition aihub_plan :: "string \<Rightarrow> env \<Rightarrow> flags \<Rightarrow> ClusterCapabilities \<Rightarrow> TLSConfig \<Rightarrow> manager_options \<times> reconciler \<times> watch list" where
  "aihub_plan partOf getenv fl caps tls =
     (aihub_options fl tls partOf (getenv ''POD_NAMESPACE''), AIHubReconciler caps (cap_HasServiceMonitor caps) manifestsTemplatePath, aihub_watches)"

lemma webhook_called: "bt_setupWebhook B n w = (None, v) \<Longrightarrow> \<exists>u. fst (bt_setupWebhook B n u) = None"
  by (intro exI[of _ w]) simp

context boot_observer
begin

lemma catalog_up:
  assumes "started (snd (runCatalog B getenv fl w)) \<noteq> started w"
  shows "brought_up B fl (catalog_plan getenv fl) (if getenv EnableWebhooks \<noteq> ''false'' then Some ''Catalog'' else None)"
  using assms unfolding runCatalog_def start_catalog_def Let_def
  by (elim value_started check_started; (simp only: quiet)?)
     (rule brought_upI[OF _ _ _ catalog_plan_def]; (assumption | auto dest: webhook_called split: if_splits))

lemma registry_up:
  assumes "started (snd (runModelRegistry B getenv fl w)) \<noteq> started w"
  shows "brought_up B fl (registry_plan getenv fl) (if getenv EnableWebhooks \<noteq> ''false'' then Some ''ModelRegistry'' else None)"
  using assms unfolding runModelRegistry_def start_registry_def Let_def
  by (elim value_started check_started; (simp only: quiet)?)
     (rule brought_upI[OF _ _ _ registry_plan_def]; (assumption | auto dest: webhook_called split: if_splits))

lemma aihub_up:
  assumes "started (snd (runAIHub B partOf getenv fl w)) \<noteq> started w"
  shows "brought_up B fl (aihub_plan partOf getenv fl) None \<and> (fl_enableLeaderElection fl \<longrightarrow> getenv ''POD_NAMESPACE'' \<noteq> [])"
  using assms unfolding runAIHub_def start_aihub_def Let_def
  by (elim value_started check_started guard_started; (simp only: quiet)?)
     (intro conjI; (rule brought_upI[OF _ _ _ aihub_plan_def])?; (assumption | simp))

end

text \<open>
  C21: no subcommand starts its manager half configured. Whenever one starts it, the probe server
  was set up, the capabilities were detected and the TLS profile configured without error, the
  manager was created with the options made of them, with those TLS options on the metrics
  and, for the catalog and the registries, the webhook server, the controller and its watches
  were registered, so were the webhook unless it is switched off, the readiness runnable and,
  where there is a cluster profile, its watch; AIHub also has a namespace to elect a leader in.
\<close>

theorem manager_starts_configured:
  assumes "boot_observer B started"
  shows "(started (snd (runCatalog B getenv fl w)) \<noteq> started w \<longrightarrow>
       brought_up B fl (catalog_plan getenv fl) (if getenv EnableWebhooks \<noteq> ''false'' then Some ''Catalog'' else None)) \<and>
     (started (snd (runModelRegistry B getenv fl w)) \<noteq> started w \<longrightarrow>
       brought_up B fl (registry_plan getenv fl) (if getenv EnableWebhooks \<noteq> ''false'' then Some ''ModelRegistry'' else None)) \<and>
     (started (snd (runAIHub B partOf getenv fl w)) \<noteq> started w \<longrightarrow>
       brought_up B fl (aihub_plan partOf getenv fl) None \<and> (fl_enableLeaderElection fl \<longrightarrow> getenv ''POD_NAMESPACE'' \<noteq> []))"
  using boot_observer.catalog_up[OF assms] boot_observer.registry_up[OF assms] boot_observer.aihub_up[OF assms] by blast

section \<open>A start in memory\<close>

record boot_world =
  bw_started :: nat
  bw_globals :: config_globals

text \<open>An environment in which every call succeeds, off OpenShift; one namespace name is no label.\<close>

definition memory_boot :: "boot_world boot_api" where
  "memory_boot = \<lparr>bt_listen = (\<lambda>a w. (Inr a, w)), bt_getConfig = (\<lambda>w. (None, w)), bt_discoveryClient = (\<lambda>w. (None, w)),
     bt_serverGroups = (\<lambda>w. ((Some [''apps''], None), w)), bt_toLower = id, bt_tls = sample_tls, bt_quote = id, bt_suites = [],
     bt_tlsClient = (\<lambda>w. (None, w)), bt_getAPIServer = (\<lambda>w. (Inl (ApiError NotFound ''none''), w)),
     bt_validateNamespace = (\<lambda>ns. if ns = ''Not_A_Label'' then [''must be a DNS label''] else []),
     bt_globals = bw_globals, bt_setGlobals = (\<lambda>g w. w\<lparr>bw_globals := g\<rparr>), bt_newManager = (\<lambda>o' w. (None, w)),
     bt_parseTemplates = (\<lambda>w. (None, w)), bt_clientset = (\<lambda>w. (None, w)), bt_stat = (\<lambda>p w. (Inr True, w)),
     bt_setup = (\<lambda>r ws w. (None, w)), bt_setupWebhook = (\<lambda>n w. (None, w)), bt_addReadiness = (\<lambda>w. (None, w)),
     bt_watchTLS = (\<lambda>p a w. (None, w)), bt_migrate = (\<lambda>v w. w), bt_start = (\<lambda>w. (None, w\<lparr>bw_started := Suc (bw_started w)\<rparr>)),
     bt_closeHealth = (\<lambda>w. w)\<rparr>"

interpretation mb: boot_observer memory_boot bw_started
  by unfold_locales (simp_all add: memory_boot_def)

definition fresh_world :: boot_world where
  "fresh_world = \<lparr>bw_started = 0, bw_globals = \<lparr>defaultDomain = [], defaultRegistriesNamespace = [], defaultIsOpenShift = False\<rparr>\<rparr>"

definition env_with_namespace :: "string \<Rightarrow> env" where
  "env_with_namespace ns = (\<lambda>k. if k = RegistriesNamespace then ns else [])"

lemmas boot_eval = memory_boot_def fresh_world_def env_with_namespace_def value_step_def check_step_def start_manager_def
  startHealthServer_def NewHealthServer_def GetCapabilities_def DetectClusterCapabilities_def no_capabilities_def note_group_def
  boot_ConfigureTLS_def ConfigureTLS_def set_registries_namespace_def set_default_domain_def SetRegistriesNamespace_def
  SetDefaultDomain_def watch_tls_step_def default_flags_def

lemma registry_starts:
  "runModelRegistry memory_boot (env_with_namespace ns) default_flags fresh_world =
     (Finished, \<lparr>bw_started = 1, bw_globals = \<lparr>defaultDomain = [],
        defaultRegistriesNamespace = (if trimSpace ns = ''Not_A_Label'' then [] else trimSpace ns), defaultIsOpenShift = False\<rparr>\<rparr>)"
  by (simp add: runModelRegistry_def start_registry_def boot_eval Let_def RegistriesNamespace_def DefaultDomainEnv_def)

lemma manager_starts_configured_witness:
  "brought_up memory_boot default_flags (registry_plan (env_with_namespace ''ns'') default_flags) (Some ''ModelRegistry'')"
proof -
  have "bw_started (snd (runModelRegistry memory_boot (env_with_namespace ''ns'') default_flags fresh_world)) \<noteq> bw_started fresh_world"
    by (simp add: registry_starts, simp add: fresh_world_def)
  moreover have "env_with_namespace ''ns'' EnableWebhooks \<noteq> ''false''"
    by (simp add: env_with_namespace_def EnableWebhooks_def RegistriesNamespace_def)
  ultimately show ?thesis
    using manager_starts_configured[OF mb.boot_observer_axioms, of "env_with_namespace ''ns''" default_flags fresh_world "[]"] by simp
qed

text \<open>
  An invalid namespace of registries does not stop the process: the error is dropped, the manager
  runs with that namespace in its cache, and the setting that the webhooks compare with is empty.
\<close>

lemma invalid_namespace_unreported:
  "\<exists>w. runModelRegistry memory_boot (env_with_namespace ''Not_A_Label'') default_flags fresh_world = (Finished, w) \<and>
     bw_started w = 1 \<and> GetRegistriesNamespace (bw_globals w) = []"
proof -
  have "trimSpace ''Not_A_Label'' = ''Not_A_Label''" by code_simp
  then show ?thesis by (simp add: registry_starts GetRegistriesNamespace_def)
qed

end
