(* ===== verification/Validation_Report.thy ===== *)
theory Validation_Report
  imports Catalog_Content Catalog_Lifecycle Startup
begin

text \<open>
  From the content validator to the Catalog's status: the subcommand that validates the shipped
  data in an init container (\<^verbatim>\<open>cmd/catalog_content.go\<close>), the report it leaves in the termination
  message, and what the controller makes of it.
\<close>

section \<open>The subcommand\<close>

definition terminationLog :: string where "terminationLog = ''/dev/termination-log''"

text \<open>\<open>marshal\<close> is \<^verbatim>\<open>json.Marshal\<close> of a failure, \<open>write\<close> is \<^verbatim>\<open>os.WriteFile\<close>.\<close>

definition failure_Write ::
  "(Failure \<Rightarrow> go_error + string) \<Rightarrow> (string \<Rightarrow> string \<Rightarrow> 'w \<Rightarrow> go_error option \<times> 'w) \<Rightarrow> string \<Rightarrow> Failure \<Rightarrow> 'w \<Rightarrow> go_error option \<times> 'w" where
  "failure_Write marshal write path f w =
     (case marshal (bounded f) of Inl e \<Rightarrow> (Some e, w) | Inr data \<Rightarrow> write path data w)"

definition catalogContentValidate ::
  "content_env \<Rightarrow> (Failure \<Rightarrow> go_error + string) \<Rightarrow> (string \<Rightarrow> string \<Rightarrow> 'w \<Rightarrow> go_error option \<times> 'w) \<Rightarrow> string \<Rightarrow> string \<Rightarrow> 'w
   \<Rightarrow> outcome \<times> 'w" where
  "catalogContentValidate E marshal write sources benchmarks w =
     (case Validate E sources benchmarks of
        None \<Rightarrow> (Finished, w)
      | Some f \<Rightarrow> (case failure_Write marshal write terminationLog f w of
          (e, w') \<Rightarrow> (ReturnedError (the (errors_join [Some (ErrorText (failure_Error f)), e])), w')))"

section \<open>The report\<close>

lemma validate_reason:
  assumes "Validate E c b = Some f"
  shows "f_stage f = ''Loading'' \<and> f_reason f \<in> {''CatalogContentInvalid'', ''BenchmarkContentInvalid''}"
  using assms by (auto simp: Validate_def split: option.splits)

lemma first_failure_found:
  "\<forall>x \<in> set pre. g x = None \<Longrightarrow> g s = Some f \<Longrightarrow> first_failure g (pre @ s # post) = Some f"
  by (induction pre) auto

lemma reported_container:
  assumes "cs_name s = ''catalog-content-validation''" "cs_waiting s = None" "cs_terminated s = Some t" "t_exitCode t \<noteq> 0"
    and "decode (t_message t) = Some (''Loading'', r)" "r \<in> {''CatalogContentInvalid'', ''BenchmarkContentInvalid''}"
  shows "check_container decode s True = Some (failure ''Loading'' r)"
  using assms by (auto simp: check_container_def waiting_failure_def terminated_of_def report_failure_def)

lemma reported_pod:
  assumes "p_phase pod \<noteq> ''Failed''" "p_initStatuses pod = pre @ s # post" "\<forall>x \<in> set pre. check_container decode x True = None"
    and "cs_name s = ''catalog-content-validation''" "check_container decode s True = Some f"
  shows "catalogPodFailure decode pod = Some f"
proof -
  let ?names = "\<lambda>s. cs_name s \<in> {''catalog-data-init'', ''benchmark-data-init'', ''catalog-content-validation''}"
  have "filter ?names (p_initStatuses pod) = filter ?names pre @ s # filter ?names post"
    using assms(2,4) by simp
  moreover have "first_failure (\<lambda>s. check_container decode s True) (filter ?names pre @ s # filter ?names post) = Some f"
    using assms(3,5) by (intro first_failure_found) auto
  ultimately show ?thesis using assms(1) by (simp add: catalogPodFailure_def)
qed

lemma safe_content_failure:
  "r \<in> {''CatalogContentInvalid'', ''BenchmarkContentInvalid''} \<Longrightarrow>
     af_stage (safeCatalogActivationFailure (failure ''Loading'' r)) = ''Loading'' \<and>
     af_reason (safeCatalogActivationFailure (failure ''Loading'' r)) = r"
  by (auto simp: safeCatalogActivationFailure_def safe_summary_def failure_def)

text \<open>
  C22: the validator's verdict reaches the status. When the validator rejects the shipped data, the
  subcommand fails; and if its report was written, a pod that shows it as the termination message
  of the validation container, with no failure of a container before it, makes the observed
  attempt fail with the stage and the reason the validator gave, however the message went through
  JSON, as long as decoding inverts encoding.
\<close>

theorem validation_verdict_reaches_status:
  assumes "Validate E sources benchmarks = Some f"
    and json: "\<And>g data. marshal g = Inr data \<Longrightarrow> decode data = Some (f_stage g, f_reason g)" and "marshal (bounded f) = Inr data"
    and pod: "p_phase pod \<noteq> ''Failed''" "p_initStatuses pod = pre @ s # post" "\<forall>x \<in> set pre. check_container decode x True = None"
      "cs_name s = ''catalog-content-validation''" "cs_waiting s = None" "cs_terminated s = Some t" "t_exitCode t \<noteq> 0" "t_message t = data"
    and c: "activation c = Some a" "act_state a \<noteq> ''Failed''"
  shows "Execute (fst (catalogContentValidate E marshal write sources benchmarks w)) = 1 \<and>
    (\<exists>a'. activation (fst (snd (observeActivation K A now c (pods_failure decode None [pod]) v))) = Some a' \<and>
       act_state a' = ''Failed'' \<and> act_stage a' = f_stage f \<and> act_reason a' = f_reason f)"
proof (intro conjI)
  show "Execute (fst (catalogContentValidate E marshal write sources benchmarks w)) = 1"
    using assms(1) by (auto simp: catalogContentValidate_def Execute_def split: prod.splits)
next
  have f: "f_stage f = ''Loading''" "f_reason f \<in> {''CatalogContentInvalid'', ''BenchmarkContentInvalid''}"
    using validate_reason[OF assms(1)] by blast+
  let ?x = "failure ''Loading'' (f_reason f)"
  have "decode data = Some (''Loading'', f_reason f)" using json[OF assms(3)] f(1) by (simp add: bounded_def)
  then have "catalogPodFailure decode pod = Some ?x"
    using reported_pod[OF pod(1-4) reported_container[OF pod(4-7)]] pod(8) f(2) by simp
  moreover have fatal: "\<not> retryableCatalogActivation (Some ?x)"
    using f(2) by (auto simp: retryableCatalogActivation_def failure_def reasonDataImagePullRetrying_def reasonCatalogRestarting_def)
  ultimately have seen: "pods_failure decode None [pod] = Some (safeCatalogActivationFailure ?x)" by simp
  let ?s = "safeCatalogActivationFailure ?x"
  have s: "af_stage ?s = ''Loading''" "af_reason ?s = f_reason f" using safe_content_failure[OF f(2)] by blast+
  have fatal': "\<not> retryableCatalogActivation (Some ?s)"
    using f(2) s(2) by (auto simp: retryableCatalogActivation_def reasonDataImagePullRetrying_def reasonCatalogRestarting_def)
  have s': "af_stage (safeCatalogActivationFailure ?s) = ''Loading''" "af_reason (safeCatalogActivationFailure ?s) = f_reason f"
    using f(2) s(2) by (auto simp: safeCatalogActivationFailure_def[of ?s] safe_summary_def)
  have "snd (observeActivation K A now c (Some ?s) v) = (publish_activation A now False (a\<lparr>act_state := ''Failed'',
      act_stage := af_stage (safeCatalogActivationFailure ?s), act_reason := af_reason (safeCatalogActivationFailure ?s),
      act_message := af_message (safeCatalogActivationFailure ?s)\<rparr>) c, v)"
    using c fatal' by (simp add: observeActivation_def advance_def Let_def)
  then show "\<exists>a'. activation (fst (snd (observeActivation K A now c (pods_failure decode None [pod]) v))) = Some a' \<and>
      act_state a' = ''Failed'' \<and> act_stage a' = f_stage f \<and> act_reason a' = f_reason f"
    unfolding seen by (simp add: s' f(1))
qed

section \<open>A report on a sample\<close>

text \<open>An encoding of the two fields, for stages without a semicolon.\<close>

definition plain_marshal :: "Failure \<Rightarrow> go_error + string" where
  "plain_marshal f = (if CHR '';'' \<in> set (f_stage f) then Inl (ErrorText ''unsupported'') else Inr (f_stage f @ CHR '';'' # f_reason f))"

definition plain_decode :: "string \<Rightarrow> (string \<times> string) option" where
  "plain_decode data = (case cut (CHR '';'') data of (stage, reason, found) \<Rightarrow> if found then Some (stage, reason) else None)"

lemma plain_round_trip: "plain_marshal f = Inr data \<Longrightarrow> plain_decode data = Some (f_stage f, f_reason f)"
  by (auto simp: plain_marshal_def plain_decode_def cut_append split: if_splits)

definition reporting_status :: ContainerStatus where
  "reporting_status = \<lparr>cs_name = ''catalog-content-validation'', cs_ready = False, cs_waiting = None,
     cs_terminated = Some \<lparr>t_exitCode = 1, t_reason = ''Error'', t_message = ''Loading;CatalogContentInvalid''\<rparr>, cs_lastTerminated = None\<rparr>"

lemma validation_verdict_reaches_status_witness:
  "\<exists>a'. activation (fst (snd (observeActivation healthy_api list_conditions 5 sample_resolved
       (pods_failure plain_decode None [sample_pod\<lparr>p_initStatuses := [reporting_status]\<rparr>]) ()))) = Some a' \<and>
     act_state a' = ''Failed'' \<and> act_reason a' = ''CatalogContentInvalid''"
proof -
  let ?f = "\<lparr>f_stage = ''Loading'', f_reason = ''CatalogContentInvalid'', f_message = ''a: no such file''\<rparr>"
  have f: "Validate missing_content ''a'' ''b'' = Some ?f" by code_simp
  have m: "plain_marshal (bounded ?f) = Inr ''Loading;CatalogContentInvalid''" by (simp add: plain_marshal_def bounded_def)
  have c: "activation sample_resolved = Some started_attempt" "act_state started_attempt \<noteq> ''Failed''"
    by (simp_all add: sample_resolved_def sample_attempt started_attempt_def sample_activation_def)
  have pod: "p_phase (sample_pod\<lparr>p_initStatuses := [reporting_status]\<rparr>) \<noteq> ''Failed''"
    "p_initStatuses (sample_pod\<lparr>p_initStatuses := [reporting_status]\<rparr>) = [] @ reporting_status # []"
    "cs_name reporting_status = ''catalog-content-validation''" "cs_waiting reporting_status = None"
    "cs_terminated reporting_status = Some \<lparr>t_exitCode = 1, t_reason = ''Error'', t_message = ''Loading;CatalogContentInvalid''\<rparr>"
    by (simp_all add: sample_pod_def reporting_status_def)
  note reached = validation_verdict_reaches_status[of missing_content "''a''" "''b''" ?f plain_marshal plain_decode, OF f plain_round_trip m
      pod(1,2) _ pod(3-5) _ _ c, of "\<lambda>p d w. (None, w)" "()" healthy_api list_conditions 5 "()"]
  then show ?thesis by simp blast
qed

end
