(* ===== verification/Rendering.thy ===== *)
theory Rendering
  imports Catalog_Operands AIHub_Reconcile "HOL-Library.Word"
begin

text \<open>
  The texts the operator makes: random credentials and the download of a file
  (\<^verbatim>\<open>internal/utils/io.go\<close>), the functions of the templates (\<^verbatim>\<open>internal/controller/config/defaults.go\<close>), and
  the way from a template to an object (\<^verbatim>\<open>internal/controller/util.go\<close>). Base64 is that of Go's
  \<^verbatim>\<open>encoding/base64\<close>, with padding; the random source, the HTTP client, the template engine and
  the YAML decoder are parameters.
\<close>

section \<open>Base64\<close>

definition letters_digits :: string where
  "letters_digits = ''ABCDEFGHIJKLMNOPQRSTUVWXYZabcdefghijklmnopqrstuvwxyz0123456789''"

text \<open>\<^verbatim>\<open>base64.StdEncoding\<close> and \<^verbatim>\<open>base64.URLEncoding\<close>.\<close>

definition std_alphabet :: string where "std_alphabet = letters_digits @ ''+/''"

definition url_alphabet :: string where "url_alphabet = letters_digits @ ''-_''"

text \<open>Three bytes make four characters; the last one or two are padded.\<close>

fun encode64 :: "string \<Rightarrow> nat list \<Rightarrow> string" where
  "encode64 al (a # b # c # bs) =
     al ! (a div 4) # al ! (a mod 4 * 16 + b div 16) # al ! (b mod 16 * 4 + c div 64) # al ! (c mod 64) # encode64 al bs"
| "encode64 al [a, b] = [al ! (a div 4), al ! (a mod 4 * 16 + b div 16), al ! (b mod 16 * 4), CHR ''='']"
| "encode64 al [a] = [al ! (a div 4), al ! (a mod 4 * 16), CHR ''='', CHR ''='']"
| "encode64 al [] = []"

definition EncodeToString :: "string \<Rightarrow> 8 word list \<Rightarrow> string" where
  "EncodeToString al bs = encode64 al (map unat bs)"

text \<open>\<^verbatim>\<open>b64enc\<close> of the templates.\<close>

definition b64enc :: "string \<Rightarrow> string" where
  "b64enc s = encode64 std_alphabet (map of_char s)"

text \<open>\<open>rand\<close> is \<^verbatim>\<open>crypto/rand.Read\<close> on a buffer of the given length, which it fills.\<close>

definition RandBytes :: "(nat \<Rightarrow> 'w \<Rightarrow> (go_error + 8 word list) \<times> 'w) \<Rightarrow> nat \<Rightarrow> ('w, string) call" where
  "RandBytes rand n w = (case rand n w of
       (Inl e, w1) \<Rightarrow> (Inl (Wrapped ''failed to generate random bytes'' e), w1)
     | (Inr buf, w1) \<Rightarrow> (Inr (EncodeToString url_alphabet buf), w1))"

section \<open>Decoding\<close>

text \<open>The inverse, which the code does not need, shows that an encoding loses nothing.\<close>

definition position :: "string \<Rightarrow> char \<Rightarrow> nat" where
  "position al c = length (takeWhile (\<lambda>x. x \<noteq> c) al)"

fun decode64 :: "string \<Rightarrow> string \<Rightarrow> nat list" where
  "decode64 al (w # x # y # z # s) =
     (if y = CHR ''='' then [position al w * 4 + position al x div 16]
      else if z = CHR ''='' then
        [position al w * 4 + position al x div 16, position al x mod 16 * 16 + position al y div 4]
      else (position al w * 4 + position al x div 16) # (position al x mod 16 * 16 + position al y div 4)
        # (position al y mod 4 * 64 + position al z) # decode64 al s)"
| "decode64 al s = []"

definition alphabet :: "string \<Rightarrow> bool" where
  "alphabet al \<longleftrightarrow> length al = 64 \<and> distinct al \<and> CHR ''='' \<notin> set al"

lemma alphabets [simp]: "alphabet std_alphabet" "alphabet url_alphabet"
  by code_simp+

lemma position_nth:
  assumes "alphabet al" "i < 64"
  shows "position al (al ! i) = i"
proof -
  have l: "i < length al" "distinct al"
    using assms by (auto simp: alphabet_def)
  have "takeWhile (\<lambda>x. x \<noteq> al ! i) al = take i al"
    by (rule takeWhile_eq_take_P_nth) (use l in \<open>auto simp: nth_eq_iff_index_eq\<close>)
  then show ?thesis
    using l by (simp add: position_def)
qed

lemma no_padding: "alphabet al \<Longrightarrow> i < 64 \<Longrightarrow> al ! i \<noteq> CHR ''=''"
  by (metis alphabet_def nth_mem)

lemma digit: "(y::nat) < k \<Longrightarrow> (x * k + y) div k = x \<and> (x * k + y) mod k = y"
  by simp

lemma sextets:
  assumes "(a::nat) < 256" "b < 256" "c < 256"
  shows "a div 4 < 64" "a mod 4 * 16 + b div 16 < 64" "b mod 16 * 4 + c div 64 < 64" "c mod 64 < 64"
    "a mod 4 * 16 < 64" "b mod 16 * 4 < 64"
    "a div 4 * 4 + (a mod 4 * 16 + b div 16) div 16 = a"
    "(a mod 4 * 16 + b div 16) mod 16 * 16 + (b mod 16 * 4 + c div 64) div 4 = b"
    "(b mod 16 * 4 + c div 64) mod 4 * 64 + c mod 64 = c"
    "a div 4 * 4 + a mod 4 * 16 div 16 = a"
    "(a mod 4 * 16 + b div 16) mod 16 * 16 + b mod 16 * 4 div 4 = b"
proof -
  have d: "b div 16 < 16" "c div 64 < 4"
    using assms by simp_all
  have m: "a mod 4 < 4" "b mod 16 < 16"
    by simp_all
  show "a div 4 < 64" "a mod 4 * 16 + b div 16 < 64" "b mod 16 * 4 + c div 64 < 64" "c mod 64 < 64"
    "a mod 4 * 16 < 64" "b mod 16 * 4 < 64"
    using assms(1) d m by simp_all
  show "a div 4 * 4 + (a mod 4 * 16 + b div 16) div 16 = a"
    "(a mod 4 * 16 + b div 16) mod 16 * 16 + (b mod 16 * 4 + c div 64) div 4 = b"
    "(b mod 16 * 4 + c div 64) mod 4 * 64 + c mod 64 = c"
    "a div 4 * 4 + a mod 4 * 16 div 16 = a"
    "(a mod 4 * 16 + b div 16) mod 16 * 16 + b mod 16 * 4 div 4 = b"
    using digit[OF d(1), of "a mod 4"] digit[OF d(2), of "b mod 16"] by (simp_all del: mod_mult_self1 div_mult_self1)
qed

lemma decode_encode: "alphabet al \<Longrightarrow> (\<forall>b\<in>set bs. b < 256) \<Longrightarrow> decode64 al (encode64 al bs) = bs"
proof (induction al bs rule: encode64.induct)
  case (1 al a b c bs)
  then have "a < 256" "b < 256" "c < 256" and bs: "\<forall>b\<in>set bs. b < 256" by auto
  note s = sextets[OF this(1-3)] and al = 1(2)
  show ?case
    by (simp only: encode64.simps decode64.simps s 1(1)[OF al bs] position_nth[OF al s(1)] position_nth[OF al s(2)]
      position_nth[OF al s(3)] position_nth[OF al s(4)] no_padding[OF al s(3)] no_padding[OF al s(4)] if_False)
next
  case (2 al a b)
  then have "a < 256" "b < 256" by auto
  note s = sextets[OF this, of 0] and al = 2(1)
  show ?case
    by (simp only: encode64.simps decode64.simps s position_nth[OF al s(1)] position_nth[OF al s(2)]
      position_nth[OF al s(6)] no_padding[OF al s(6)] if_False if_True refl)
next
  case (3 al a)
  then have "a < 256" by simp
  note s = sextets[OF this, of 0 0] and al = 3(1)
  show ?case
    by (simp only: encode64.simps decode64.simps s position_nth[OF al s(1)] position_nth[OF al s(5)] if_True refl)
qed simp

lemma length_encode64 [simp]: "length (encode64 al bs) = (length bs + 2) div 3 * 4"
proof (induction al bs rule: encode64.induct)
  case (1 al a b c bs)
  have "(length (a # b # c # bs) + 2) div 3 = Suc ((length bs + 2) div 3)"
    by simp
  then show ?case
    using 1 by simp
qed simp_all

lemma set_encode64:
  "alphabet al \<Longrightarrow> (\<forall>b\<in>set bs. b < 256) \<Longrightarrow> set (encode64 al bs) \<subseteq> set al \<union> {CHR ''=''}"
proof (induction al bs rule: encode64.induct)
  case (1 al a b c bs)
  then have "a < 256" "b < 256" "c < 256" by auto
  note s = sextets(1-6)[OF this]
  then show ?case
    using 1 by (auto simp: alphabet_def)
next
  case (2 al a b)
  then have "a < 256" "b < 256" by auto
  note s = sextets(1-6)[OF this, of 0]
  then show ?case
    using 2 by (auto simp: alphabet_def)
next
  case (3 al a)
  then have "a < 256" by simp
  note s = sextets(1-6)[OF this, of 0 0]
  then show ?case
    using 3 by (auto simp: alphabet_def)
qed simp

section \<open>Generated credentials\<close>

text \<open>The contract of \<^verbatim>\<open>crypto/rand.Read\<close>: without an error the whole buffer is filled.\<close>

definition fills :: "(nat \<Rightarrow> 'w \<Rightarrow> (go_error + 8 word list) \<times> 'w) \<Rightarrow> bool" where
  "fills rand \<longleftrightarrow> (\<forall>n w buf w'. rand n w = (Inr buf, w') \<longrightarrow> length buf = n)"

lemma bytes_small: "\<forall>b\<in>set (map unat (bs :: 8 word list)). b < 256"
proof -
  have "unat (b :: 8 word) < 2 ^ LENGTH(8)" for b
    by (rule unsigned_less)
  then show ?thesis by simp
qed

lemma decode_EncodeToString: "alphabet al \<Longrightarrow> decode64 al (EncodeToString al bs) = map unat bs"
  unfolding EncodeToString_def by (rule decode_encode[OF _ bytes_small])

text \<open>Two secrets never have the same encoding, and the templates' \<^verbatim>\<open>b64enc\<close> loses nothing.\<close>

lemma EncodeToString_inject: "alphabet al \<Longrightarrow> EncodeToString al bs = EncodeToString al cs \<longleftrightarrow> bs = cs"
  by (metis decode_EncodeToString inj_unsigned map_injective)

lemma b64enc_inject: "b64enc s = b64enc t \<longleftrightarrow> s = t"
proof -
  have "\<forall>b\<in>set (map of_char u). b < (256::nat)" for u
    by (simp add: of_char_def)
  then have "decode64 std_alphabet (b64enc u) = map of_char u" for u
    unfolding b64enc_def by (rule decode_encode[OF alphabets(1)])
  moreover have "inj (of_char :: char \<Rightarrow> nat)"
    by (simp add: inj_def)
  ultimately show ?thesis
    by (metis inj_map_eq_map)
qed

text \<open>A generated text: the bytes it stands for, its length and its characters.\<close>

definition credential_of :: "8 word list \<Rightarrow> string \<Rightarrow> bool" where
  "credential_of buf v \<longleftrightarrow> decode64 url_alphabet v = map unat buf \<and> length v = 24
     \<and> set v \<subseteq> set url_alphabet \<union> {CHR ''=''}"

lemma RandBytes_credential:
  assumes "fills rand" "RandBytes rand 16 w = (Inr v, w')"
  shows "\<exists>buf. rand 16 w = (Inr buf, w') \<and> credential_of buf v"
proof -
  obtain buf where b: "rand 16 w = (Inr buf, w')" "v = EncodeToString url_alphabet buf"
    using assms(2) by (auto simp: RandBytes_def split: prod.splits sum.splits)
  then have "length buf = 16"
    using assms(1) unfolding fills_def by blast
  then show ?thesis
    using b set_encode64[OF alphabets(2) bytes_small, of buf] decode_EncodeToString[OF alphabets(2), of buf]
    by (auto simp: credential_of_def EncodeToString_def)
qed

lemma RandBytes_nonempty:
  assumes "fills rand" "cl_random C = RandBytes rand 16"
  shows "random_nonempty C"
  using RandBytes_credential[OF assms(1)] assms(2) by (fastforce simp: random_nonempty_def credential_of_def)

lemma random_key_credential:
  assumes "random_key C what k data w = (Inr data', w')" "cl_random C = RandBytes rand 16" "fills rand"
  shows "entry data k = [] \<Longrightarrow> \<exists>buf. rand 16 w = (Inr buf, w') \<and> credential_of buf (entry data' k)"
    and "entry data k \<noteq> [] \<Longrightarrow> data' = data \<and> w' = w" and "k' \<noteq> k \<Longrightarrow> entry data' k' = entry data k'"
proof -
  show "\<exists>buf. rand 16 w = (Inr buf, w') \<and> credential_of buf (entry data' k)" if "entry data k = []"
    using assms(1) that RandBytes_credential[OF assms(3), of w]
    by (auto simp: random_key_def assms(2) entry_update split: prod.splits sum.splits)
  show "data' = data \<and> w' = w" if "entry data k \<noteq> []"
    using assms(1) that by (simp add: random_key_def)
  show "entry data' k' = entry data k'" if "k' \<noteq> k"
    using assms(1) that by (auto simp: random_key_def entry_update split: prod.splits sum.splits if_splits)
qed

lemma postgres_names_other: "k \<notin> {''database-name'', ''database-user''} \<Longrightarrow> entry (postgres_names getenv data) k = entry data k"
  by (simp add: postgres_names_def required_key_entry)

lemma complete_secret_credential:
  assumes "complete_secret E data w = (Inr data', w')" "cl_random (en_cluster E) = RandBytes rand 16" "fills rand"
    and "k \<in> {''database-password'', ''database-salt''}"
  shows "if entry data k \<noteq> [] then entry data' k = entry data k
    else \<exists>buf w1 w2. rand 16 w1 = (Inr buf, w2) \<and> credential_of buf (entry data' k)"
proof -
  obtain d w1 where p: "random_key (en_cluster E) ''password'' ''database-password'' (postgres_names (en_getenv E) data) w = (Inr d, w1)"
    and q: "random_key (en_cluster E) ''salt'' ''database-salt'' d w1 = (Inr data', w')"
    using assms(1) by (auto simp: complete_secret_def split: prod.splits sum.splits)
  note p' = random_key_credential[OF p assms(2,3)] and q' = random_key_credential[OF q assms(2,3)]
  have n: "entry (postgres_names (en_getenv E) data) k = entry data k"
    by (rule postgres_names_other) (use assms(4) in auto)
  from assms(4) consider "k = ''database-password''" | "k = ''database-salt''" by blast
  then show ?thesis
  proof cases
    case 1
    then show ?thesis
      using p'(1,2) q'(3)[of k] n by auto
  next
    case 2
    then show ?thesis
      using q'(1,2) p'(3)[of k] n by auto
  qed
qed

text \<open>
  C40: the credentials the operator generates for the catalog's database. With the random source
  of the process, whenever the Postgres Secret is reconciled successfully, its password and
  its salt are those the stored Secret already had; or, where it had none, texts of 24 URL-safe characters
  that stand for exactly the 16 random bytes of one draw, so that nothing of the draw is lost.
\<close>

theorem generated_credentials_sound:
  assumes "cl_random (en_cluster E) = RandBytes rand 16" "fills rand"
    and "createOrUpdatePostgresSecret E params owner w = (Inr (res, secret), w')"
    and "cl_get (en_cluster E) ''Secret'' (cp_namespace params, cp_name params @ ''-postgres'') w = (stored, w1)"
    and "k \<in> {''database-password'', ''database-salt''}"
  shows "let old = (case stored of Inr x \<Rightarrow> entry (secret_data x) k | Inl e \<Rightarrow> []) in
    if old \<noteq> [] then entry (secret_data secret) k = old
    else \<exists>buf v v'. rand 16 v = (Inr buf, v') \<and> credential_of buf (entry (secret_data secret) k)"
proof (cases stored)
  case (Inl e)
  then obtain w2 where "complete_secret E [] w1 = (Inr (secret_data secret), w2)"
    using assms(3,4) by (auto simp: createOrUpdatePostgresSecret_def Let_def new_secret_def secret_data_def
      split: if_splits prod.splits sum.splits option.splits)
  from complete_secret_credential[OF this assms(1,2,5)] show ?thesis
    by (simp add: Inl entry_def)
next
  case (Inr existing)
  then have "reconcile_secret E params owner existing w1 = (Inr (res, secret), w')"
    using assms(3,4) by (simp add: createOrUpdatePostgresSecret_def)
  from reconcile_secret_data[OF this] obtain w2 where
    "complete_secret E (secret_data existing) w1 = (Inr (secret_data secret), w2)" by blast
  from complete_secret_credential[OF this assms(1,2,5)] show ?thesis
    by (simp add: Inr Let_def)
qed

definition counting_source :: "nat \<Rightarrow> 'w \<Rightarrow> (go_error + 8 word list) \<times> 'w" where
  "counting_source n w = (Inr (map of_nat [0..<n]), w)"

definition random_env :: "cluster catalog_env" where
  "random_env = (small_env [] [])\<lparr>en_cluster := memory_cluster\<lparr>cl_random := RandBytes counting_source 16\<rparr>\<rparr>"

theorem generated_credentials_sound_witness:
  "\<exists>secret. length (entry (secret_data secret) ''database-salt'') = 24
    \<and> decode64 url_alphabet (entry (secret_data secret) ''database-salt'') = [0..<16]
    \<and> entry (secret_data secret) ''database-password'' = ''hunter2''"
proof -
  let ?w = "put_object old_secret empty_cluster" and ?k = "(cp_namespace small_params, cp_name small_params @ ''-postgres'')"
  have r: "cl_random (en_cluster random_env) = RandBytes counting_source 16" "fills (counting_source :: nat \<Rightarrow> cluster \<Rightarrow> _)"
    by (simp add: random_env_def) (simp add: fills_def counting_source_def)
  obtain res secret w' where c: "createOrUpdatePostgresSecret random_env small_params ''u'' ?w = (Inr (res, secret), w')"
    by (simp add: createOrUpdatePostgresSecret_def reconcile_secret_def complete_secret_def random_key_def postgres_names_def
        required_key_def entry_def Let_def random_env_def RandBytes_def counting_source_def small_env_def small_params_def
        no_params_def memory_cluster_def put_object_def empty_cluster_def empty_object_def old_secret_def object_key_def
        catalogResourceName_def applyLabels_def applyOwnerReference_def)
  obtain x w1 where g: "cl_get (en_cluster random_env) ''Secret'' ?k ?w = (Inr x, w1)"
    and old: "entry (secret_data x) ''database-salt'' = []" "entry (secret_data x) ''database-password'' = ''hunter2''"
    by (simp add: random_env_def small_env_def small_params_def no_params_def memory_cluster_def put_object_def
        empty_cluster_def empty_object_def old_secret_def object_key_def catalogResourceName_def secret_data_def entry_def)
  have "map unat (map of_nat [0..<16] :: 8 word list) = [0..<16]"
    by code_simp
  then have bytes: "map (unat \<circ> (of_nat :: nat \<Rightarrow> 8 word)) [0..<16] = [0..<16]"
    by simp
  show ?thesis
    using generated_credentials_sound[OF r c g, of "''database-salt''"] generated_credentials_sound[OF r c g, of "''database-password''"]
    by (intro exI[of _ secret]) (auto simp: old Let_def counting_source_def credential_of_def bytes)
qed

section \<open>Templates\<close>

text \<open>The functions the templates may call. \<open>tf_randBytes\<close> may panic: its \<^term>\<open>Inl\<close> is the panic's value.\<close>

record ('q, 'w) template_funcs =
  tf_b64enc :: "string \<Rightarrow> string"
  tf_quantityToString :: "'q \<Rightarrow> string"
  tf_randBytes :: "nat \<Rightarrow> ('w, string) call"

definition QuantityToString :: "('q \<Rightarrow> string) \<Rightarrow> 'q \<Rightarrow> string" where
  "QuantityToString print q = print q"

definition template_patterns :: "string list" where
  "template_patterns = [''templates/*.yaml.tmpl'', ''templates/kube-rbac-proxy/*.yaml.tmpl'', ''templates/catalog/*.yaml.tmpl'',
     ''templates/gateway/*.yaml.tmpl'']"

text \<open>\<open>parseFS\<close> is \<^verbatim>\<open>Template.ParseFS\<close> on the embedded files.\<close>

definition ParseTemplates ::
  "(('q, 'w) template_funcs \<Rightarrow> string list \<Rightarrow> go_error + 't) \<Rightarrow> ('q \<Rightarrow> string) \<Rightarrow> (nat \<Rightarrow> 'w \<Rightarrow> (go_error + 8 word list) \<times> 'w)
   \<Rightarrow> go_error + 't" where
  "ParseTemplates parseFS print rand =
     (case parseFS \<lparr>tf_b64enc = b64enc, tf_quantityToString = QuantityToString print, tf_randBytes = RandBytes rand\<rparr>
             template_patterns of
        Inl e \<Rightarrow> Inl e | Inr t \<Rightarrow> Inr t)"

text \<open>Executing a template by name, and reading an object of a type from strict YAML.\<close>

record ('t, 'p, 'o) engine =
  eg_execute :: "'t \<Rightarrow> string \<Rightarrow> 'p \<Rightarrow> go_error + string"
  eg_unmarshal :: "string \<Rightarrow> go_error + 'o"
  eg_type :: string

definition applier_Apply :: "('t, 'p, 'o) engine \<Rightarrow> 't \<Rightarrow> 'p \<Rightarrow> string \<Rightarrow> go_error + 'o" where
  "applier_Apply G tmpl params templateName =
     (case eg_execute G tmpl templateName params of
        Inl e \<Rightarrow> Inl (Wrapped (''error executing template '' @ templateName) e)
      | Inr s \<Rightarrow> (case eg_unmarshal G s of
          Inl e \<Rightarrow> Inl (Wrapped (''error creating '' @ eg_type G @ '' from template '' @ templateName) e)
        | Inr x \<Rightarrow> Inr x))"

section \<open>The monitor of the AIHub operator\<close>

record monitor_params =
  mo_Name :: string
  mo_Namespace :: string
  mo_ServiceName :: string
  mo_ControlPlane :: string
  mo_CAConfigMap :: string
  mo_CAConfigMapKey :: string

definition aihubMetricsServiceName :: string where "aihubMetricsServiceName = ''aihub-controller-manager-metrics-service''"
definition aihubMetricsMonitorName :: string where "aihubMetricsMonitorName = ''aihub-controller-manager-metrics-monitor''"
definition aihubControlPlaneLabel :: string where "aihubControlPlaneLabel = ''aihub-controller-manager''"
definition aihubMetricsCAConfigMap :: string where "aihubMetricsCAConfigMap = ''openshift-service-ca.crt''"
definition aihubMetricsCAConfigMapKey :: string where "aihubMetricsCAConfigMapKey = ''service-ca.crt''"

definition monitorTemplate :: string where "monitorTemplate = ''aihub-metrics-servicemonitor.yaml.tmpl''"

text \<open>The reconciler's template, or one parsed on the spot when it has none.\<close>

definition buildAIHubMetricsServiceMonitor ::
  "('t, monitor_params, unstructured) engine \<Rightarrow> go_error + 't \<Rightarrow> 't option \<Rightarrow> string \<Rightarrow> go_error + unstructured" where
  "buildAIHubMetricsServiceMonitor G parsed template namespace =
     (let params = \<lparr>mo_Name = aihubMetricsMonitorName, mo_Namespace = namespace, mo_ServiceName = aihubMetricsServiceName,
        mo_ControlPlane = aihubControlPlaneLabel, mo_CAConfigMap = aihubMetricsCAConfigMap,
        mo_CAConfigMapKey = aihubMetricsCAConfigMapKey\<rparr>
      in case template of
           Some t \<Rightarrow> applier_Apply G t params monitorTemplate
         | None \<Rightarrow> (case parsed of
             Inl e \<Rightarrow> Inl (Wrapped ''parsing templates'' e)
           | Inr t \<Rightarrow> applier_Apply G t params monitorTemplate))"

text \<open>A failure of the monitor is a failed provisioning with reason \<^verbatim>\<open>RenderFailed\<close>, its cause kept: the
reconciler gives \<open>with_monitor\<close> this renderer.\<close>

lemma monitor_error_origin:
  assumes "hb_renderMonitor C = buildAIHubMetricsServiceMonitor G parsed template"
    and "with_monitor C aihub resources = Inl e"
  shows "\<exists>cause. e \<in> {Wrapped ''parsing templates'' cause, Wrapped (''error executing template '' @ monitorTemplate) cause,
      Wrapped (''error creating '' @ eg_type G @ '' from template '' @ monitorTemplate) cause}"
  using assms(2)
  by (auto simp: with_monitor_def assms(1) buildAIHubMetricsServiceMonitor_def applier_Apply_def Let_def
      split: if_splits sum.splits option.splits)

section \<open>Downloading a file\<close>

text \<open>A response: its status, the bytes of its body, and the error that reading past them gives, if any.\<close>

record response =
  rs_code :: nat
  rs_status :: string
  rs_body :: string
  rs_error :: "go_error option"

text \<open>The disk: its files, why a file cannot be created, how many bytes fit, and whether removing works.\<close>

record disk =
  dk_files :: "string \<rightharpoonup> string"
  dk_createError :: "go_error option"
  dk_space :: "nat option"
  dk_removes :: bool

definition maxDownloadSize :: nat where "maxDownloadSize = 10 * 1024 * 1024"

definition noSpace :: go_error where "noSpace = ErrorText ''no space left on device''"

text \<open>\<^verbatim>\<open>io.Copy(file, io.LimitReader(body, limit))\<close>: what is written, and the first error of a write or, when
the body ends before the limit, of a read.\<close>

definition copy_limited :: "nat \<Rightarrow> response \<Rightarrow> nat option \<Rightarrow> string \<times> go_error option" where
  "copy_limited limit r space =
     (let wanted = take limit (rs_body r)
      in case space of
           Some k \<Rightarrow> if k < length wanted then (take k wanted, Some noSpace)
                     else (wanted, if length (rs_body r) < limit then rs_error r else None)
         | None \<Rightarrow> (wanted, if length (rs_body r) < limit then rs_error r else None))"

definition DownloadFile :: "(string \<Rightarrow> string) \<Rightarrow> (string \<Rightarrow> go_error + response) \<Rightarrow> string \<Rightarrow> string \<Rightarrow> disk
    \<Rightarrow> go_error option \<times> disk" where
  "DownloadFile quote get url path d =
     (case get url of
        Inl e \<Rightarrow> (Some e, d)
      | Inr r \<Rightarrow>
          if rs_code r \<ge> 400 then (Some (Wrapped (''unable to fetch '' @ quote url) (ErrorText (rs_status r))), d)
          else case dk_createError d of
            Some e \<Rightarrow> (Some e, d)
          | None \<Rightarrow>
              (let (written, err) = copy_limited (maxDownloadSize + 1) r (dk_space d);
                   d1 = d\<lparr>dk_files := (dk_files d)(path \<mapsto> written)\<rparr>
               in case err of
                    Some e \<Rightarrow> (Some e, d1)
                  | None \<Rightarrow>
                      if length written > maxDownloadSize
                      then (Some (ErrorText (''response body for '' @ quote url @ '' exceeds '' @ show_nat maxDownloadSize @ '' bytes'')),
                            if dk_removes d1 then d1\<lparr>dk_files := (dk_files d1)(path := None)\<rparr> else d1)
                      else (None, d1)))"

text \<open>A download that succeeds leaves the whole body, of at most ten MiB; no download writes more than one byte
past that, or any other file; and one that is too large is removed.\<close>

lemma download_bounded:
  assumes "DownloadFile quote get url path d = (e, d')"
  shows "e = None \<Longrightarrow> \<exists>r. get url = Inr r \<and> dk_files d' = (dk_files d)(path \<mapsto> rs_body r) \<and> length (rs_body r) \<le> maxDownloadSize"
    and "p \<noteq> path \<Longrightarrow> dk_files d' p = dk_files d p"
    and "dk_files d' path = dk_files d path \<or> dk_files d' path = None
      \<or> (\<exists>s. dk_files d' path = Some s \<and> length s \<le> Suc maxDownloadSize)"
  using assms
  by (auto simp: DownloadFile_def copy_limited_def Let_def split: if_splits option.splits sum.splits prod.splits)

lemma download_oversized_removed:
  assumes "get url = Inr r" "rs_code r < 400" "dk_createError d = None" "dk_space d = None" "dk_removes d"
    and "maxDownloadSize < length (rs_body r)"
  shows "\<exists>e. DownloadFile quote get url path d = (Some e, d\<lparr>dk_files := (dk_files d)(path := None)\<rparr>)"
  using assms by (auto simp: DownloadFile_def copy_limited_def Let_def)

text \<open>A download that breaks off is not: the part that arrived stays on the disk, in place of a file that
was there before.\<close>

lemma download_partial_kept:
  assumes "get url = Inr r" "rs_code r < 400" "dk_createError d = None" "dk_space d = None"
    and "rs_error r = Some e" "length (rs_body r) \<le> maxDownloadSize"
  shows "DownloadFile quote get url path d = (Some e, d\<lparr>dk_files := (dk_files d)(path \<mapsto> rs_body r)\<rparr>)"
  using assms by (auto simp: DownloadFile_def copy_limited_def Let_def)

end
