(* ===== verification/Readiness.thy ===== *)
theory Readiness
  imports Process
begin

text \<open>
  The stages of the process are linearly ordered, and no step of it goes back. So readiness is one
  interval of its life: once the process has answered that it is ready and answers so again later, it
  did so at every moment in between.
\<close>

section \<open>The order of the stages\<close>

fun manager_rank :: "manager_state \<Rightarrow> nat" where
  "manager_rank Preparing = 0"
| "manager_rank Starting = 1"
| "manager_rank Synced = 2"
| "manager_rank Returned = 3"

fun runnable_rank :: "runnable_state \<Rightarrow> nat" where
  "runnable_rank Idle = 0"
| "runnable_rank Launched = 1"
| "runnable_rank Waiting = 2"
| "runnable_rank Left = 3"

lemma manager_rank_inject: "manager_rank a = manager_rank b \<longleftrightarrow> a = b"
  by (cases a; cases b) simp_all

lemma runnable_rank_inject: "runnable_rank a = runnable_rank b \<longleftrightarrow> a = b"
  by (cases a; cases b) simp_all

instantiation manager_state :: linorder
begin

definition less_eq_manager_state :: "manager_state \<Rightarrow> manager_state \<Rightarrow> bool" where
  "a \<le> b \<longleftrightarrow> manager_rank a \<le> manager_rank b"

definition less_manager_state :: "manager_state \<Rightarrow> manager_state \<Rightarrow> bool" where
  "a < b \<longleftrightarrow> manager_rank a < manager_rank b"

instance
  by standard (auto simp: less_eq_manager_state_def less_manager_state_def manager_rank_inject[symmetric])

end

instantiation runnable_state :: linorder
begin

definition less_eq_runnable_state :: "runnable_state \<Rightarrow> runnable_state \<Rightarrow> bool" where
  "a \<le> b \<longleftrightarrow> runnable_rank a \<le> runnable_rank b"

definition less_runnable_state :: "runnable_state \<Rightarrow> runnable_state \<Rightarrow> bool" where
  "a < b \<longleftrightarrow> runnable_rank a < runnable_rank b"

instance
  by standard (auto simp: less_eq_runnable_state_def less_runnable_state_def runnable_rank_inject[symmetric])

end

section \<open>No step goes back\<close>

lemma process_step_advances:
  "process_step p q \<Longrightarrow> pr_manager p \<le> pr_manager q \<and> pr_runnable p \<le> pr_runnable q
    \<and> (pr_cancelled p \<longrightarrow> pr_cancelled q) \<and> (hp_shut (pr_health p) \<longrightarrow> hp_shut (pr_health q))
    \<and> hp_listener (pr_health q) = hp_listener (pr_health p)"
  by (induction rule: process_step.induct)
    (auto simp: less_eq_manager_state_def less_eq_runnable_state_def health_Start_def SetReady_def health_Close_def)

lemma process_run_advances:
  "process_step\<^sup>*\<^sup>* p q \<Longrightarrow> pr_manager p \<le> pr_manager q \<and> pr_runnable p \<le> pr_runnable q
    \<and> (pr_cancelled p \<longrightarrow> pr_cancelled q) \<and> (hp_shut (pr_health p) \<longrightarrow> hp_shut (pr_health q))"
  by (induction rule: rtranclp_induct) (auto dest: process_step_advances intro: order_trans)

text \<open>Until the server is shut, an open one stays open, and it is ready while the runnable waits.\<close>

lemma open_step:
  "process_step p q \<Longrightarrow> hp_open (pr_health p) \<Longrightarrow> process_ok p \<Longrightarrow> \<not> hp_shut (pr_health q) \<Longrightarrow> hp_open (pr_health q)"
  by (induction rule: process_step.induct)
    (auto simp: process_ok_def health_Start_def SetReady_def health_Close_def split: if_splits)

lemma open_run:
  "process_step\<^sup>*\<^sup>* p q \<Longrightarrow> process_ok p \<Longrightarrow> hp_open (pr_health p) \<Longrightarrow> \<not> hp_shut (pr_health q) \<Longrightarrow> hp_open (pr_health q)"
proof (induction rule: rtranclp_induct)
  case (step q r)
  then show ?case
    using process_step_advances[OF step.hyps(2)] open_step[OF step.hyps(2)] process_ok_reach[OF step.hyps(1)] by blast
qed

definition waits_ready :: "process \<Rightarrow> bool" where
  "waits_ready p \<longleftrightarrow> (pr_runnable p = Waiting \<and> \<not> hp_shut (pr_health p) \<longrightarrow> hp_ready (pr_health p))"

lemma waits_ready_step: "process_step p q \<Longrightarrow> waits_ready p \<Longrightarrow> waits_ready q"
  by (induction rule: process_step.induct)
    (auto simp: waits_ready_def health_Start_def SetReady_def health_Close_def)

lemma waits_ready_run: "process_step\<^sup>*\<^sup>* p q \<Longrightarrow> waits_ready p \<Longrightarrow> waits_ready q"
  by (induction rule: rtranclp_induct) (auto intro: waits_ready_step)

lemma ready_open: "probe h ''/readyz'' = Some 200 \<longleftrightarrow> hp_open h \<and> hp_ready h"
  by (auto simp: probe_def)

text \<open>
  Readiness is one interval. In every run from a new server, if the process answers 200 on
  \<^verbatim>\<open>/readyz\<close> at two moments, it answers 200 at every moment between them: no load balancer sees
  it come and go.
\<close>

theorem readiness_is_one_interval:
  assumes new: "NewHealthServer listen addr = Inr h" and p: "process_step\<^sup>*\<^sup>* (new_process h) p"
    and q: "process_step\<^sup>*\<^sup>* p q" and r: "process_step\<^sup>*\<^sup>* q r"
    and ready: "probe (pr_health p) ''/readyz'' = Some 200" "probe (pr_health r) ''/readyz'' = Some 200"
  shows "probe (pr_health q) ''/readyz'' = Some 200"
proof -
  have ok: "process_ok p" "process_ok r"
    using process_ok_reach[OF _ process_ok_new[OF new]] p q r by (meson rtranclp_trans)+
  have shut: "\<not> hp_shut (pr_health r)"
    using ok(2) ready(2) by (simp add: ready_open process_ok_def)
  then have "\<not> hp_shut (pr_health q)"
    using process_run_advances[OF r] by blast
  moreover have "pr_runnable p = Waiting" "pr_runnable r = Waiting"
    using ok ready by (simp_all add: ready_open process_ok_def)
  then have "pr_runnable q = Waiting"
    using process_run_advances[OF q] process_run_advances[OF r] by (simp add: order_antisym)
  moreover have "waits_ready q"
    by (rule waits_ready_run[OF rtranclp_trans[OF p q]]) (simp add: waits_ready_def new_process_def)
  ultimately show ?thesis
    using open_run[OF q ok(1)] ready(1) by (simp add: ready_open waits_ready_def)
qed

end
