(* ===== verification/Spec2Isabelle.thy ===== *)
theory Spec2Isabelle
  imports Catalog_Streams Activation_Runs Deep_Copies Catalog_Content Catalog_Reconcile Registry_Reconcile AIHub_Memory Migration_Store Registry_Conversion Validation_Report Rendering Readiness
begin

text \<open>
  Verification of the Model Registry operator: three Kubernetes controllers written in Go, which run
  as subcommands of one binary, the admission webhooks of their resources, and the checks and
  migrations around them.

  \<^bold>\<open>The program and its parts.\<close> The \<^emph>\<open>catalog\<close> subcommand serves the model catalog: from a Catalog
  object it chooses two data images, by default those of the release, else a pinned digest or the
  import of a tracked ImageStream; it writes the operand's objects for an \<^emph>\<open>activation attempt\<close> of these
  images, watches the attempt's Deployment and Pods, and reports readiness only for an attempt whose
  content was validated in its own Pods. The \<^emph>\<open>modelregistry\<close> subcommand serves registries: it
  defaults and validates them in webhooks, writes their objects behind an authenticating proxy, may
  provision their database, and publishes availability. The \<^emph>\<open>aihub\<close> subcommand installs the other
  two from manifests, creates the Catalog, and tears them down in order. Around them: the TLS settings
  taken from the cluster, a one-shot storage migration of registries, and a content validator that
  runs in an init container of the catalog.

  \<^bold>\<open>How the model is made.\<close> A struct is a \<^theory_text>\<open>record\<close> of the fields that the code reads, an enumeration or
  tagged error is a \<^theory_text>\<open>datatype\<close>, a string is a HOL string of bytes, an int64 is an \<open>int\<close> where the code does
  not rely on its width, and cipher numbers are 16-bit words. A function is a definition of the same
  name (a prefix or suffix where HOL has the name). An operation that calls the API server, the file
  system, or another library takes a record of functions, and passes an abstract world of type
  \<open>'w\<close> from call to call; so each answer may reflect what other actors did meanwhile, and each call may
  fail. Errors are values of \<open>go_error\<close>, whose constructors keep what \<^verbatim>\<open>errors.Is\<close> and \<^verbatim>\<open>errors.As\<close> see;
  an operation that may dereference nil returns an option, \<open>None\<close> for the panic.
  What the theorems need of a library is the assumptions of a locale, interpreted on a reference
  implementation in memory; the same implementations run the witnesses.

  \<^bold>\<open>Theories and sources.\<close>
  \<open>Prelude\<close> holds strings, errors and maps; \<open>Kube\<close> objects, Pods, Deployments and conditions (locale
  \<open>conditions_api\<close>); \<open>Config\<close> is \<^verbatim>\<open>internal/controller/config/defaults.go\<close>.
  \<open>Catalog_Types\<close> is \<^verbatim>\<open>api/catalog/v1alpha1\<close>; \<open>Catalog_Status\<close> is \<^verbatim>\<open>catalog_image_status.go\<close>, the reducer of
  readiness; \<open>Catalog_Images\<close> is \<^verbatim>\<open>catalog_data_images.go\<close>, with the proofs in \<open>Catalog_Resolution\<close> (the
  resolver) and \<open>Catalog_Streams\<close> (the ImageStream, the evidence); \<open>Catalog_Activation\<close> is
  \<^verbatim>\<open>catalog_activation.go\<close> and \<^verbatim>\<open>catalog_activation_protocol.go\<close>, with the proofs in \<open>Catalog_Protocol\<close> (the
  attempt as a state machine), \<open>Catalog_Outcomes\<close> (texts, deadline, last success) and
  \<open>Catalog_Lifecycle\<close> (an abstract lifecycle, and the published type) and \<open>Activation_Runs\<close> (runs of both
  operations refine the lifecycle);
  \<open>Catalog_Operands\<close> and \<open>Catalog_Reconcile\<close> are \<^verbatim>\<open>catalog_controller.go\<close>: the operand's objects,
  discovery, and the reconciler with its status, containment and finalizer.
  \<open>Registry_Types\<close> is both API versions of a registry and the conversion of \<^verbatim>\<open>ConvertTo\<close> and
  \<^verbatim>\<open>ConvertFrom\<close>, \<open>Registry_Conversion\<close> the functions registered in the scheme, generated ones included;
  \<open>Registry_Webhook\<close> is the webhooks of all resources; \<open>Deployment_Status\<close> and \<open>Registry_Status\<close> are
  \<^verbatim>\<open>modelregistry_controller_status.go\<close>; \<open>Registry_Reconcile\<close> is \<^verbatim>\<open>modelregistry_controller.go\<close>,
  \<^verbatim>\<open>modelregistry_oauth.go\<close>, \<^verbatim>\<open>modelregistry_gateway.go\<close> and \<^verbatim>\<open>proxy_tls.go\<close>.
  \<open>Resource_Manager\<close> is \<^verbatim>\<open>util.go\<close>; \<open>Operands\<close> is what both reconcilers do with it; \<open>Rendering\<close> is the way
  from a template to an object, and \<^verbatim>\<open>internal/utils/io.go\<close>; \<open>Proxy_TLS\<close> is \<^verbatim>\<open>internal/tls\<close>.
  \<open>Go_Memory\<close> is a memory with pointers, slices and maps, and the steps of a deep copy; \<open>Copies_Registry\<close> and
  \<open>Copies_Modules\<close> are the layouts of all API types and their \<^verbatim>\<open>zz_generated.deepcopy.go\<close>; \<open>Deep_Copies\<close> is
  what a controller relies on of them. Elsewhere values are immutable, and a copy is the value.
  \<open>AIHub\<close> and \<open>AIHub_Reconcile\<close> are \<^verbatim>\<open>aihub_controller.go\<close>, \<^verbatim>\<open>aihub_images.go\<close> and
  \<^verbatim>\<open>aihub_releases.go\<close>; \<open>AIHub_Teardown\<close> proves the teardown, \<open>AIHub_Memory\<close> is a cluster to run it on.
  \<open>Migration\<close> is \<^verbatim>\<open>internal/migration\<close>, \<open>Migration_Store\<close> its effect on the stored registries.
  \<open>Catalog_Content\<close> is \<^verbatim>\<open>internal/catalogcontent/validate.go\<close>; \<open>Validation_Report\<close> is its subcommand, and
  the way of its verdict into the status.
  \<open>Process\<close> is \<^verbatim>\<open>internal/setup/health.go\<close>, the client caches of \<^verbatim>\<open>cmd\<close> and the watches of every
  \<^verbatim>\<open>SetupWithManager\<close>; \<open>Readiness\<close> orders the stages of the process; \<open>Startup\<close> is the start of the three
  subcommands.

  \<^bold>\<open>What is shown.\<close> For the catalog: no operand object is written before its attempt was published;
  readiness stands for Pods of this attempt, validated in this call; a failed attempt is final, every run
  of preparing and observing refines the lifecycle, and what is served was validated; the resolver fails closed and serves digests
  only; the scale-down of a failed rollout is checked against the stored attempt; a reconcile
  returns, and one that asks for no further call is settled. For registries: admission, the
  trusted image repository, the authenticating proxy before any object on OpenShift, availability exactly
  as specified, conversion. For AIHub: Ready only on what was observed, no apply against another
  selector, deletion only of what must be recreated, a finalizer that waits and a teardown that
  ends. For the shared parts: proxy flags within the profile and FIPS, network policies that
  deny what they should, secrets that are not rotated and whose generated values keep all random bits, deep
  copies that share no memory. For the process: truthful probes, a manager that
  starts only when configured, caches that show what the controllers decide on, a migration that marks
  registries once, a monitor that returns with the first verdict, and a validator that accepts exactly
  the declared contract. Some theorems state behaviour that is a defect: what cleaning erases,
  when the status crashes, which errors the migration and the start drop.

  \<^bold>\<open>Loops and bounds.\<close> The only loop of the code without a bound is the monitor of a
  \<^verbatim>\<open>StorageVersionMigration\<close>; it is a \<^theory_text>\<open>partial_function\<close> into options, and it returns exactly when some
  round reaches a verdict. Everything else is structural recursion or a \<^theory_text>\<open>function\<close> with a measure, so
  it returns; the conflict retry of client-go is a parameter, and its contract a relation \<open>conflicts\<close>.
  Times are nanoseconds; the attempt's deadline is ten minutes, as in the code. Go's int64 times
  and counters do not wrap in the ranges that Kubernetes allows.

  \<^bold>\<open>Not modelled.\<close> Template rendering (\<^verbatim>\<open>text/template\<close>) and the YAML templates: the renderer is a parameter,
  so what a template writes is out of reach, and only what the code sets on the rendered object is
  seen. JSON and YAML encoding, library types such as quantities, the copies of library types, and the tables of
  \<^verbatim>\<open>crypto/tls\<close> are parameters. Log lines and metrics. The registration of types with a scheme; cobra's
  parsing of arguments. The work queue of controller-runtime: a reconcile is one call.
\<close>

end
